(* ===== verification/Prelude.thy ===== *)
theory Prelude
  imports Complex_Main "HOL-Library.Char_ord" "HOL-Library.List_Lexorder" "HOL-Library.Sublist"
begin

text \<open>
  The part of the Python language that every component of ParqDB relies on: the exception
  classes with their subclass order, results that are either a raised exception or a value,
  state-passing commands that may raise, list comprehensions that may raise, and the \<open>str\<close>
  methods the sources call. A Python \<open>str\<close> is a HOL \<^typ>\<open>string\<close>: the bytes of its UTF-8
  encoding. The predicates on white space, digits and case are those of the ASCII range.
\<close>

named_theorems py_defs \<open>unfolding rules of the small Python helpers\<close>

section \<open>Exception classes\<close>

text \<open>
  The classes that the sources raise, catch or test for: the builtin ones, the ones of
  \<open>json\<close>, \<open>tomllib\<close>, \<open>httpx\<close> and \<open>pyarrow\<close>, the ones of the native module (\<open>python/src/errors.rs\<close>,
  mirrored in \<open>_native.pyi\<close>) and the three of \<open>errors.py\<close>.
\<close>

datatype exc_class =
    BaseException | CancelledError | KeyboardInterrupt | SystemExit | Exception
  | ArithmeticError | OverflowError | AssertionError
  | LookupError | KeyError | IndexError
  | OSError | FileExistsError | FileNotFoundError | IsADirectoryError | NotADirectoryError | PermissionError | TimeoutError
  | RuntimeError | NotImplementedError | StopIteration | StopAsyncIteration | AttributeError
  | TypeError | ValueError | UnicodeDecodeError | JSONDecodeError | TOMLDecodeError
  | HTTPError | ArrowException
  | ParqDBError | InvalidArgumentError | InvalidSchemaError | IndexNotFoundError
  | AlreadyExistsError | BuildAlreadyRunningError | AmbiguousIndexError
  | InvalidMetadataError | CatalogError | StorageError | BackendError
  | QueryQueueFullError | QueryQueueTimeoutError
  | UnsupportedOperationError | ServiceUnavailableError | StreamExecutionError

text \<open>The base class of each class, \<open>None\<close> for the root of the hierarchy.\<close>

fun class_base :: "exc_class \<Rightarrow> exc_class option" where
  "class_base BaseException = None"
| "class_base CancelledError = Some BaseException"
| "class_base KeyboardInterrupt = Some BaseException"
| "class_base SystemExit = Some BaseException"
| "class_base Exception = Some BaseException"
| "class_base OverflowError = Some ArithmeticError"
| "class_base KeyError = Some LookupError"
| "class_base IndexError = Some LookupError"
| "class_base FileExistsError = Some OSError"
| "class_base FileNotFoundError = Some OSError"
| "class_base IsADirectoryError = Some OSError"
| "class_base NotADirectoryError = Some OSError"
| "class_base PermissionError = Some OSError"
| "class_base TimeoutError = Some OSError"
| "class_base NotImplementedError = Some RuntimeError"
| "class_base UnicodeDecodeError = Some ValueError"
| "class_base JSONDecodeError = Some ValueError"
| "class_base TOMLDecodeError = Some ValueError"
| "class_base ParqDBError = Some RuntimeError"
| "class_base InvalidArgumentError = Some ParqDBError"
| "class_base InvalidSchemaError = Some ParqDBError"
| "class_base IndexNotFoundError = Some ParqDBError"
| "class_base AlreadyExistsError = Some ParqDBError"
| "class_base BuildAlreadyRunningError = Some ParqDBError"
| "class_base AmbiguousIndexError = Some ParqDBError"
| "class_base InvalidMetadataError = Some ParqDBError"
| "class_base CatalogError = Some ParqDBError"
| "class_base StorageError = Some ParqDBError"
| "class_base BackendError = Some ParqDBError"
| "class_base QueryQueueFullError = Some ParqDBError"
| "class_base QueryQueueTimeoutError = Some ParqDBError"
| "class_base UnsupportedOperationError = Some ParqDBError"
| "class_base ServiceUnavailableError = Some ParqDBError"
| "class_base StreamExecutionError = Some ParqDBError"
| "class_base _ = Some Exception"

fun class_depth :: "exc_class \<Rightarrow> nat" where
  "class_depth c =
     (if c = BaseException then 0
      else if class_base c = Some BaseException then 1
      else if class_base c = Some Exception then 2
      else if class_base c = Some ParqDBError then 4
      else 3)"

lemma class_depth_base: "class_base c = Some b \<Longrightarrow> class_depth b < class_depth c"
  by (cases c) auto

text \<open>The method resolution order: the class itself and its ancestors.\<close>

function mro :: "exc_class \<Rightarrow> exc_class list" where
  "mro c = c # (case class_base c of None \<Rightarrow> [] | Some b \<Rightarrow> mro b)"
  by pat_completeness auto
termination
  by (relation "measure class_depth") (simp_all add: class_depth_base del: class_depth.simps)

declare mro.simps [simp del] class_depth.simps [simp del]

lemma mro_self: "c \<in> set (mro c)"
  by (subst mro.simps) simp

lemma mro_depth: "d \<in> set (mro c) \<Longrightarrow> d = c \<or> class_depth d < class_depth c"
proof (induction c rule: mro.induct)
  case (1 c)
  show ?case
  proof (cases "class_base c")
    case None
    with "1.prems" show ?thesis by (simp add: mro.simps [of c])
  next
    case (Some b)
    with 1 show ?thesis
      by (auto simp: mro.simps [of c] dest: class_depth_base)
  qed
qed

lemma mro_mono: "d \<in> set (mro c) \<Longrightarrow> set (mro d) \<subseteq> set (mro c)"
proof (induction c rule: mro.induct)
  case (1 c)
  show ?case
  proof (cases "class_base c")
    case None
    with "1.prems" show ?thesis by (simp add: mro.simps [of c])
  next
    case (Some b)
    show ?thesis
    proof (cases "d = c")
      case False
      with "1.prems" Some have "d \<in> set (mro b)" by (simp add: mro.simps [of c])
      with Some "1.IH" have "set (mro d) \<subseteq> set (mro b)" by simp
      with Some show ?thesis by (auto simp: mro.simps [of c])
    qed simp
  qed
qed

text \<open>\<open>issubclass(c, d)\<close> is a partial order on the classes, with \<open>BaseException\<close> on top.\<close>

instantiation exc_class :: order
begin

definition less_eq_exc_class :: "exc_class \<Rightarrow> exc_class \<Rightarrow> bool" where
  "less_eq_exc_class c d \<longleftrightarrow> d \<in> set (mro c)"

definition less_exc_class :: "exc_class \<Rightarrow> exc_class \<Rightarrow> bool" where
  "less_exc_class c d \<longleftrightarrow> c \<le> d \<and> \<not> d \<le> (c :: exc_class)"

instance
proof
  fix c d e :: exc_class
  show "(c < d) = (c \<le> d \<and> \<not> d \<le> c)" by (rule less_exc_class_def)
  show "c \<le> c" by (simp add: less_eq_exc_class_def mro_self)
  show "c \<le> d \<Longrightarrow> d \<le> e \<Longrightarrow> c \<le> e" by (auto simp: less_eq_exc_class_def dest: mro_mono)
  show "c \<le> d \<Longrightarrow> d \<le> c \<Longrightarrow> c = d"
    unfolding less_eq_exc_class_def by (metis mro_depth order.asym)
qed

end

lemmas issubclass_eval = less_eq_exc_class_def mro.simps

text \<open>
  A raised exception: its class, its message and, for \<open>StreamExecutionError\<close>, the
  \<open>request_id\<close> attribute.
\<close>

datatype exc = Exc (exc_cls: exc_class) (exc_msg: string) (exc_request_id: "string option")

definition err :: "exc_class \<Rightarrow> string \<Rightarrow> exc" where
  "err c m = Exc c m None"

lemma err_sel [simp]:
  "exc_cls (err c m) = c" "exc_msg (err c m) = m" "exc_request_id (err c m) = None"
  by (simp_all add: err_def)

lemma err_inject [simp]: "err c m = err c' m' \<longleftrightarrow> c = c' \<and> m = m'"
  by (simp add: err_def)

definition isinstance_exc :: "exc \<Rightarrow> exc_class \<Rightarrow> bool" where
  "isinstance_exc e c \<longleftrightarrow> exc_cls e \<le> c"

section \<open>Results\<close>

type_synonym 'a result = "exc + 'a"

definition rbind :: "'a result \<Rightarrow> ('a \<Rightarrow> 'b result) \<Rightarrow> 'b result" where
  "rbind m f = (case m of Inl e \<Rightarrow> Inl e | Inr x \<Rightarrow> f x)"

definition raise_if :: "bool \<Rightarrow> exc \<Rightarrow> unit result" where
  "raise_if b e = (if b then Inl e else Inr ())"

lemma rbind_simps [simp]: "rbind (Inl e) f = Inl e" "rbind (Inr x) f = f x"
  by (simp_all add: rbind_def)

lemma rbind_assoc: "rbind (rbind m f) g = rbind m (\<lambda>x. rbind (f x) g)"
  by (cases m) simp_all

lemma rbind_eq_Inr [simp]: "rbind m f = Inr y \<longleftrightarrow> (\<exists>x. m = Inr x \<and> f x = Inr y)"
  by (cases m) simp_all

lemma rbind_eq_Inl: "rbind m f = Inl e \<longleftrightarrow> m = Inl e \<or> (\<exists>x. m = Inr x \<and> f x = Inl e)"
  by (cases m) auto

lemma rbind_Inr_id [simp]: "rbind m Inr = m"
  by (cases m) simp_all

lemma raise_if_simps [simp]: "raise_if True e = Inl e" "raise_if False e = Inr ()"
  by (simp_all add: raise_if_def)

lemma raise_if_eq_Inr [simp]: "raise_if b e = Inr u \<longleftrightarrow> \<not> b"
  by (simp add: raise_if_def)

lemma raise_if_eq_Inl [simp]: "raise_if b e = Inl x \<longleftrightarrow> b \<and> x = e"
  by (auto simp: raise_if_def)

text \<open>A comprehension \<open>[f(x) for x in xs]\<close> stops at the first exception.\<close>

fun traverse :: "('a \<Rightarrow> 'b result) \<Rightarrow> 'a list \<Rightarrow> 'b list result" where
  "traverse f [] = Inr []"
| "traverse f (x # xs) = rbind (f x) (\<lambda>y. rbind (traverse f xs) (\<lambda>ys. Inr (y # ys)))"

lemma traverse_Inr_iff: "traverse f xs = Inr ys \<longleftrightarrow> list_all2 (\<lambda>x y. f x = Inr y) xs ys"
  by (induction xs arbitrary: ys) (auto simp: list_all2_Cons1)

lemma traverse_map_Inr [simp]:
  assumes "\<And>x. x \<in> set xs \<Longrightarrow> f (g x) = Inr (h x)"
  shows "traverse f (map g xs) = Inr (map h xs)"
  using assms by (induction xs) simp_all

lemma traverse_append:
  "traverse f (xs @ ys) = rbind (traverse f xs) (\<lambda>us. rbind (traverse f ys) (\<lambda>vs. Inr (us @ vs)))"
  by (induction xs) (simp_all add: rbind_assoc)

lemma traverse_in: "traverse f xs = Inr ys \<Longrightarrow> x \<in> set xs \<Longrightarrow> \<exists>y\<in>set ys. f x = Inr y"
  by (induction xs arbitrary: ys) auto

lemma traverse_Inl: "traverse f xs = Inl e \<Longrightarrow> \<exists>x\<in>set xs. f x = Inl e"
  by (induction xs) (auto simp: rbind_eq_Inl)

lemma traverse_set_iff:
  "traverse f xs = Inr ys \<Longrightarrow> y \<in> set ys \<longleftrightarrow> (\<exists>x\<in>set xs. f x = Inr y)"
  by (induction xs arbitrary: ys) auto

lemma traverse_length: "traverse f xs = Inr ys \<Longrightarrow> length ys = length xs"
  by (auto simp: traverse_Inr_iff dest: list_all2_lengthD)

lemma traverse_set: "traverse f xs = Inr ys \<Longrightarrow> y \<in> set ys \<Longrightarrow> \<exists>x\<in>set xs. f x = Inr y"
  by (auto simp: traverse_Inr_iff list_all2_conv_all_nth in_set_conv_nth) (metis nth_mem)

lemma find_SomeD: "find P xs = Some x \<Longrightarrow> x \<in> set xs \<and> P x"
  by (induction xs) (auto split: if_splits)

section \<open>Commands\<close>

text \<open>
  A call of stateful code takes the state and gives a result with the state it leaves behind,
  also when it raises: an exception does not undo the effects before it.
\<close>

type_synonym ('s, 'a) cmd = "'s \<Rightarrow> 'a result \<times> 's"

definition sret :: "'a \<Rightarrow> ('s, 'a) cmd" where
  "sret x = (\<lambda>s. (Inr x, s))"

definition sraise :: "exc \<Rightarrow> ('s, 'a) cmd" where
  "sraise e = (\<lambda>s. (Inl e, s))"

definition slift :: "'a result \<Rightarrow> ('s, 'a) cmd" where
  "slift r = (\<lambda>s. (r, s))"

definition sbind :: "('s, 'a) cmd \<Rightarrow> ('a \<Rightarrow> ('s, 'b) cmd) \<Rightarrow> ('s, 'b) cmd" where
  "sbind m f = (\<lambda>s. case m s of (Inl e, s') \<Rightarrow> (Inl e, s') | (Inr x, s') \<Rightarrow> f x s')"

text \<open>\<open>except\<close> clauses: the handler sees the exception and the state at the raise.\<close>

definition scatch :: "('s, 'a) cmd \<Rightarrow> (exc \<Rightarrow> ('s, 'a) cmd) \<Rightarrow> ('s, 'a) cmd" where
  "scatch m h = (\<lambda>s. case m s of (Inl e, s') \<Rightarrow> h e s' | (Inr x, s') \<Rightarrow> (Inr x, s'))"

text \<open>\<open>try: m finally: g\<close>: an exception of \<open>g\<close> replaces the outcome of \<open>m\<close>.\<close>

definition sfinally :: "('s, 'a) cmd \<Rightarrow> ('s, unit) cmd \<Rightarrow> ('s, 'a) cmd" where
  "sfinally m g = (\<lambda>s. case m s of (r, s') \<Rightarrow> (case g s' of (Inl e, s'') \<Rightarrow> (Inl e, s'')
     | (Inr _, s'') \<Rightarrow> (r, s'')))"

lemma sret_apply [simp]: "sret x s = (Inr x, s)"
  by (simp add: sret_def)

lemma sraise_apply [simp]: "sraise e s = (Inl e, s)"
  by (simp add: sraise_def)

lemma slift_apply [simp]: "slift r s = (r, s)"
  by (simp add: slift_def)

lemma sbind_apply:
  "sbind m f s = (case m s of (Inl e, s') \<Rightarrow> (Inl e, s') | (Inr x, s') \<Rightarrow> f x s')"
  by (simp add: sbind_def)

lemma sbind_Inr [simp]: "m s = (Inr x, s') \<Longrightarrow> sbind m f s = f x s'"
  by (simp add: sbind_def)

lemma sbind_Inl [simp]: "m s = (Inl e, s') \<Longrightarrow> sbind m f s = (Inl e, s')"
  by (simp add: sbind_def)

lemma sbind_sret [simp]: "sbind (sret x) f = f x"
  by (simp add: sbind_def sret_def)

lemma sbind_sraise [simp]: "sbind (sraise e) f = sraise e"
  by (simp add: sbind_def sraise_def)

lemma sbind_slift [simp]:
  "sbind (slift (Inr x)) f = f x" "sbind (slift (Inl e)) f = sraise e"
  by (simp_all add: sbind_def slift_def sraise_def)

lemma sbind_assoc: "sbind (sbind m f) g = sbind m (\<lambda>x. sbind (f x) g)"
  by (rule ext) (auto simp: sbind_def split: prod.splits sum.splits)

lemma sbind_eq_Inr: "sbind m f s = (Inr y, s'') \<longleftrightarrow>
    (\<exists>x s'. m s = (Inr x, s') \<and> f x s' = (Inr y, s''))"
  by (auto simp: sbind_def split: prod.splits sum.splits)

lemma sbind_eq_Inl: "sbind m f s = (Inl e, s'') \<longleftrightarrow>
    m s = (Inl e, s'') \<or> (\<exists>x s'. m s = (Inr x, s') \<and> f x s' = (Inl e, s''))"
  by (auto simp: sbind_def split: prod.splits sum.splits)

section \<open>Commands that may not end\<close>

type_synonym ('s, 'a) fcmd = "'s \<Rightarrow> 'a result option \<times> 's"

definition fdo :: "('s, 'a) cmd \<Rightarrow> ('s, 'a) fcmd" where
  "fdo m = (\<lambda>s. case m s of (r, s') \<Rightarrow> (Some r, s'))"

definition fbind :: "('s, 'a) fcmd \<Rightarrow> ('a \<Rightarrow> ('s, 'b) fcmd) \<Rightarrow> ('s, 'b) fcmd" where
  "fbind m f = (\<lambda>s. case m s of
     (None, s') \<Rightarrow> (None, s') | (Some (Inl e), s') \<Rightarrow> (Some (Inl e), s') | (Some (Inr x), s') \<Rightarrow> f x s')"

lemma fdo_apply: "fdo m s = (Some (fst (m s)), snd (m s))"
  by (simp add: fdo_def split: prod.splits)

lemma fbind_simps [simp]:
  "m s = (None, s') \<Longrightarrow> fbind m f s = (None, s')"
  "m s = (Some (Inl e), s') \<Longrightarrow> fbind m f s = (Some (Inl e), s')"
  "m s = (Some (Inr x), s') \<Longrightarrow> fbind m f s = f x s'"
  by (simp_all add: fbind_def)

text \<open>\<open>keeps f m\<close>: the command leaves the component \<open>f\<close> of the state alone, whatever its outcome.\<close>

named_theorems keeps_rules

definition keeps :: "('s \<Rightarrow> 'v) \<Rightarrow> ('s \<Rightarrow> 'a \<times> 's) \<Rightarrow> bool" where
  "keeps f m \<longleftrightarrow> (\<forall>s. f (snd (m s)) = f s)"

lemma keepsD: "keeps f m \<Longrightarrow> m s = (r, s') \<Longrightarrow> f s' = f s"
  by (metis keeps_def snd_conv)

lemma keepsI: "(\<And>s r s'. m s = (r, s') \<Longrightarrow> f s' = f s) \<Longrightarrow> keeps f m"
  by (metis keeps_def prod.collapse)

lemma keeps_pure [keeps_rules]: "keeps f (sret x)" "keeps f (sraise e)" "keeps f (slift r)" "keeps f (Pair y)"
  by (simp_all add: keeps_def)

lemma keeps_sbind [keeps_rules]: "keeps f m \<Longrightarrow> (\<And>x. keeps f (g x)) \<Longrightarrow> keeps f (sbind m g)"
  by (auto simp: keeps_def sbind_apply split: prod.splits sum.splits) (metis snd_conv)+

lemma keeps_scatch [keeps_rules]: "keeps f m \<Longrightarrow> (\<And>e. keeps f (g e)) \<Longrightarrow> keeps f (scatch m g)"
  by (auto simp: keeps_def scatch_def split: prod.splits sum.splits) (metis snd_conv)+

lemma keeps_sfinally [keeps_rules]: "keeps f m \<Longrightarrow> keeps f g \<Longrightarrow> keeps f (sfinally m g)"
  by (auto simp: keeps_def sfinally_def split: prod.splits sum.splits) (metis snd_conv)+

lemma keeps_fdo [keeps_rules]: "keeps f m \<Longrightarrow> keeps f (fdo m)"
  by (simp add: keeps_def fdo_apply)

lemma keeps_fbind [keeps_rules]: "keeps f m \<Longrightarrow> (\<And>x. keeps f (g x)) \<Longrightarrow> keeps f (fbind m g)"
  by (auto simp: keeps_def fbind_def split: prod.splits option.splits sum.splits) (metis snd_conv)+

lemma keeps_read: "(\<And>x. keeps f (g x)) \<Longrightarrow> keeps f (\<lambda>s. g (h s) s)"
  by (simp add: keeps_def)

lemma keeps_if [keeps_rules]: "(b \<Longrightarrow> keeps f m) \<Longrightarrow> (\<not> b \<Longrightarrow> keeps f g) \<Longrightarrow> keeps f (if b then m else g)"
  by simp

section \<open>Strings\<close>

abbreviation code_of :: "char \<Rightarrow> nat" where
  "code_of c \<equiv> of_char c"

lemma code_of_lt: "code_of c < 256"
  by simp

definition is_space :: "char \<Rightarrow> bool" where
  "is_space c = (let n = code_of c in n = 32 \<or> 9 \<le> n \<and> n \<le> 13 \<or> 28 \<le> n \<and> n \<le> 31)"

definition is_digit :: "char \<Rightarrow> bool" where
  "is_digit c = (let n = code_of c in 48 \<le> n \<and> n \<le> 57)"

definition is_alpha :: "char \<Rightarrow> bool" where
  "is_alpha c = (let n = code_of c in 65 \<le> n \<and> n \<le> 90 \<or> 97 \<le> n \<and> n \<le> 122)"

definition lower_char :: "char \<Rightarrow> char" where
  "lower_char c = (let n = code_of c in if 65 \<le> n \<and> n \<le> 90 then char_of (n + 32) else c)"

definition py_lower :: "string \<Rightarrow> string" where
  "py_lower s = map lower_char s"

definition py_lstrip :: "string \<Rightarrow> string" where
  "py_lstrip s = dropWhile is_space s"

definition py_strip :: "string \<Rightarrow> string" where
  "py_strip s = rev (dropWhile is_space (rev (dropWhile is_space s)))"

definition lstrip_char :: "char \<Rightarrow> string \<Rightarrow> string" where
  "lstrip_char c s = dropWhile (\<lambda>x. x = c) s"

definition rstrip_char :: "char \<Rightarrow> string \<Rightarrow> string" where
  "rstrip_char c s = rev (dropWhile (\<lambda>x. x = c) (rev s))"

definition startswith :: "string \<Rightarrow> string \<Rightarrow> bool" where
  "startswith s p = prefix p s"

definition endswith :: "string \<Rightarrow> string \<Rightarrow> bool" where
  "endswith s p = suffix p s"

definition isdigit_str :: "string \<Rightarrow> bool" where
  "isdigit_str s = (s \<noteq> [] \<and> list_all is_digit s)"

text \<open>A quoted word in an error message.\<close>

definition in_quotes :: "string \<Rightarrow> string" where
  "in_quotes s = [CHR 0x27] @ s @ [CHR 0x27]"

text \<open>\<open>s.split(c)\<close> for a one-character separator, and \<open>sep.join(xs)\<close>.\<close>

fun split_on :: "char \<Rightarrow> string \<Rightarrow> string list" where
  "split_on c [] = [[]]"
| "split_on c (x # xs) =
     (if x = c then [] # split_on c xs
      else (case split_on c xs of [] \<Rightarrow> [[x]] | w # ws \<Rightarrow> (x # w) # ws))"

fun join :: "string \<Rightarrow> string list \<Rightarrow> string" where
  "join sep [] = []"
| "join sep [x] = x"
| "join sep (x # y # zs) = x @ sep @ join sep (y # zs)"

text \<open>\<open>s.split(sep)\<close> for a non-empty separator: leftmost, non-overlapping.\<close>

function split_str_from :: "string \<Rightarrow> string \<Rightarrow> string \<Rightarrow> string list" where
  "split_str_from sep acc [] = [rev acc]"
| "split_str_from sep acc (c # cs) =
     (if sep \<noteq> [] \<and> prefix sep (c # cs)
      then rev acc # split_str_from sep [] (drop (length sep) (c # cs))
      else split_str_from sep (c # acc) cs)"
  by pat_completeness auto
termination
  by (relation "measure (\<lambda>(sep, acc, s). length s)") auto

definition split_str :: "string \<Rightarrow> string \<Rightarrow> string list" where
  "split_str sep s = split_str_from sep [] s"

text \<open>\<open>s.split(c, 1)[0]\<close>: everything before the first separator.\<close>

definition before_char :: "char \<Rightarrow> string \<Rightarrow> string" where
  "before_char c s = takeWhile (\<lambda>x. x \<noteq> c) s"

text \<open>The number of code points of a UTF-8 byte string: its bytes that do not continue one.\<close>

definition py_len :: "string \<Rightarrow> nat" where
  "py_len s = length (filter (\<lambda>c. \<not> (128 \<le> code_of c \<and> code_of c < 192)) s)"

lemma py_strip_eq_Nil: "py_strip s = [] \<longleftrightarrow> list_all is_space s"
  by (auto simp: py_strip_def dropWhile_eq_Nil_conv list_all_iff dest: set_dropWhileD)
     (metis dropWhile_eq_Nil_conv hd_dropWhile hd_in_set)

lemma split_on_not_Nil [simp]: "split_on c s \<noteq> []"
  by (induction s) (auto split: list.splits)

lemma split_on_no_sep: "c \<notin> set s \<Longrightarrow> split_on c s = [s]"
  by (induction s) auto

lemma split_on_append_sep:
  "c \<notin> set a \<Longrightarrow> split_on c (a @ c # b) = a # split_on c b"
  by (induction a) auto

lemma split_on_append:
  "split_on c (a @ c # b) = split_on c a @ split_on c b"
proof (induction a)
  case (Cons x xs)
  obtain w ws where "split_on c xs = w # ws" by (cases "split_on c xs") auto
  with Cons show ?case by auto
qed simp

lemma split_on_join:
  assumes "xs \<noteq> []" and "\<And>x. x \<in> set xs \<Longrightarrow> c \<notin> set x"
  shows "split_on c (join [c] xs) = xs"
  using assms
proof (induction "[c]" xs rule: join.induct)
  case (3 x y zs)
  then show ?case by (simp add: split_on_append_sep)
qed (simp_all add: split_on_no_sep)

lemma split_on_no_sep_in: "w \<in> set (split_on c s) \<Longrightarrow> c \<notin> set w"
  by (induction s arbitrary: w) (auto split: list.splits if_splits)

lemma split_str_from_single:
  "split_str_from [c] acc s =
     (case split_on c s of w # ws \<Rightarrow> (rev acc @ w) # ws | [] \<Rightarrow> [])"
proof (induction s arbitrary: acc)
  case (Cons x xs)
  obtain w ws where "split_on c xs = w # ws" by (cases "split_on c xs") auto
  with Cons show ?case by (cases "c = x") auto
qed simp

lemma split_str_single: "split_str [c] s = split_on c s"
  by (cases "split_on c s") (simp_all add: split_str_def split_str_from_single)

lemma join_split_on: "join [c] (split_on c s) = s"
proof (induction s)
  case (Cons x xs)
  then show ?case
    by (cases "split_on c xs"; cases "tl (split_on c xs)") (auto split: if_splits)
qed simp

lemma join_eq_Nil: "join sep xs = [] \<Longrightarrow> x \<in> set xs \<Longrightarrow> x = []"
  by (induction sep xs rule: join.induct) auto

end
