(* ===== verification/Json.thy ===== *)
theory Json
  imports Prelude
begin

text \<open>
  JSON documents as \<open>json.loads\<close> yields them, Python floats, and decimal integers in text.
  A finite float is the rational it denotes (the sign of zero is not kept); \<open>float(n)\<close> of an
  \<open>int\<close> rounds half to even at 53 bits and raises beyond the largest double. The wire carries
  a document as its value: \<open>json_dumps\<close> is the identity on what \<open>allow_nan=False\<close> admits.
\<close>

section \<open>Floats\<close>

datatype pyfloat = Fin rat | PosInf | NegInf | NaN

definition isfinite :: "pyfloat \<Rightarrow> bool" where
  "isfinite x = (case x of Fin _ \<Rightarrow> True | _ \<Rightarrow> False)"

fun bit_length :: "nat \<Rightarrow> nat" where
  "bit_length n = (if n = 0 then 0 else Suc (bit_length (n div 2)))"

declare bit_length.simps [simp del]

definition double_of_nat :: "nat \<Rightarrow> nat" where
  "double_of_nat n =
     (let k = bit_length n - 53; q = n div 2 ^ k; r = n mod 2 ^ k
      in if k = 0 then n
         else (if 2 ^ k < 2 * r \<or> 2 * r = 2 ^ k \<and> odd q then q + 1 else q) * 2 ^ k)"

definition float_of_int :: "int \<Rightarrow> pyfloat result" where
  "float_of_int i =
     (let m = double_of_nat (nat \<bar>i\<bar>)
      in if 2 ^ 1024 \<le> m then Inl (err OverflowError ''int too large to convert to float'')
         else Inr (Fin (of_int (sgn i * int m))))"

lemma isfinite_simps [simp]:
  "isfinite (Fin r)" "\<not> isfinite PosInf" "\<not> isfinite NegInf" "\<not> isfinite NaN"
  by (simp_all add: isfinite_def)

lemma bit_length_le: "n < 2 ^ k \<Longrightarrow> bit_length n \<le> k"
proof (induction k arbitrary: n)
  case 0
  then show ?case by (simp add: bit_length.simps)
next
  case (Suc k)
  then have "n div 2 < 2 ^ k" by (simp add: less_mult_imp_div_less mult.commute)
  with Suc.IH have "bit_length (n div 2) \<le> k" by simp
  then show ?case by (subst bit_length.simps) simp
qed

lemma bit_length_lower: "0 < n \<Longrightarrow> 2 ^ (bit_length n - 1) \<le> n"
proof (induction n rule: bit_length.induct)
  case (1 n)
  show ?case
  proof (cases "n div 2 = 0")
    case True
    with "1.prems" have "n = 1" by auto
    then show ?thesis by (simp add: bit_length.simps)
  next
    case False
    with "1.IH" "1.prems" have "2 ^ (bit_length (n div 2) - 1) \<le> n div 2" by simp
    moreover from False have "0 < bit_length (n div 2)" by (subst bit_length.simps) simp
    then have "(2::nat) ^ bit_length (n div 2) = 2 * 2 ^ (bit_length (n div 2) - 1)"
      by (metis Suc_diff_1 power_Suc)
    ultimately have "(2::nat) ^ bit_length (n div 2) \<le> n" by linarith
    with "1.prems" show ?thesis by (subst bit_length.simps) simp
  qed
qed

lemma double_of_nat_exact: "n < 2 ^ 53 \<Longrightarrow> double_of_nat n = n"
  using bit_length_le [of n 53] by (simp add: double_of_nat_def Let_def)

lemma float_of_int_exact: "\<bar>i\<bar> < 2 ^ 53 \<Longrightarrow> float_of_int i = Inr (Fin (of_int i))"
proof -
  assume small: "\<bar>i\<bar> < 2 ^ 53"
  then have "nat \<bar>i\<bar> < 2 ^ 53" by (simp add: nat_less_iff)
  then have d: "double_of_nat (nat \<bar>i\<bar>) = nat \<bar>i\<bar>" by (rule double_of_nat_exact)
  from \<open>nat \<bar>i\<bar> < 2 ^ 53\<close> have "nat \<bar>i\<bar> < 2 ^ 1024"
    by (rule less_le_trans) (rule power_increasing, simp_all)
  with d show ?thesis by (simp add: float_of_int_def Let_def sgn_mult_abs)
qed

lemma double_of_nat_ge:
  assumes "2 ^ m \<le> n"
  shows "2 ^ m \<le> double_of_nat n"
proof (cases "bit_length n \<le> 53")
  case True
  with assms show ?thesis by (simp add: double_of_nat_def Let_def)
next
  case False
  define k where "k = bit_length n - 53"
  define q where "q = n div 2 ^ k"
  have "0 < n" using assms by (cases n) auto
  then have "2 ^ (bit_length n - 1) \<le> n" by (rule bit_length_lower)
  have dq: "q * 2 ^ k \<le> double_of_nat n"
    by (simp add: double_of_nat_def Let_def k_def q_def)
  show ?thesis
  proof (cases "m \<le> k")
    case True
    have "2 ^ k \<le> n"
      using \<open>2 ^ (bit_length n - 1) \<le> n\<close> False
      by (metis One_nat_def diff_le_mono2 k_def le_trans numeral_One numeral_le_iff
          one_le_numeral power_increasing)
    then have "1 \<le> q" by (simp add: q_def div_greater_zero_iff Suc_le_eq)
    then have "2 ^ k \<le> q * 2 ^ k" by simp
    moreover have "(2::nat) ^ m \<le> 2 ^ k" using True by (simp add: power_increasing)
    ultimately show ?thesis using dq by linarith
  next
    case False
    then have split: "(2::nat) ^ m = 2 ^ (m - k) * 2 ^ k" by (simp flip: power_add)
    with assms have "2 ^ (m - k) \<le> q"
      by (metis div_le_mono nonzero_mult_div_cancel_right power_not_zero q_def zero_neq_numeral)
    then have "2 ^ m \<le> q * 2 ^ k" by (simp add: split)
    with dq show ?thesis by linarith
  qed
qed

lemma float_of_int_overflow:
  assumes "2 ^ 1024 \<le> \<bar>i\<bar>"
  shows "float_of_int i = Inl (err OverflowError ''int too large to convert to float'')"
proof -
  have "2 ^ 1024 \<le> nat \<bar>i\<bar>" using assms by (simp add: le_nat_iff)
  then have "2 ^ 1024 \<le> double_of_nat (nat \<bar>i\<bar>)" by (rule double_of_nat_ge)
  then show ?thesis by (simp add: float_of_int_def Let_def del: power_numeral)
qed

lemma float_of_int_class: "float_of_int i = Inl e \<Longrightarrow> exc_cls e = OverflowError"
  by (auto simp: float_of_int_def Let_def split: if_splits)

lemma float_of_int_finite: "float_of_int i = Inr x \<Longrightarrow> isfinite x"
  by (auto simp: float_of_int_def Let_def split: if_splits)

section \<open>Documents\<close>

datatype json =
    JNull
  | JBool bool
  | JInt int
  | JFloat pyfloat
  | JStr string
  | JArr "json list"
  | JObj "(string \<times> json) list"

type_synonym jobject = "(string \<times> json) list"

text \<open>\<open>body.get(key)\<close> and \<open>body.get(key, default)\<close>: a missing key reads as \<open>None\<close>.\<close>

definition jget :: "jobject \<Rightarrow> string \<Rightarrow> json" where
  "jget body k = (case map_of body k of None \<Rightarrow> JNull | Some v \<Rightarrow> v)"

definition jget_or :: "jobject \<Rightarrow> string \<Rightarrow> json \<Rightarrow> json" where
  "jget_or body k d = (case map_of body k of None \<Rightarrow> d | Some v \<Rightarrow> v)"

definition jkeys :: "jobject \<Rightarrow> string list" where
  "jkeys body = map fst body"

fun jfinite :: "json \<Rightarrow> bool" where
  "jfinite (JFloat x) = isfinite x"
| "jfinite (JArr xs) = list_all jfinite xs"
| "jfinite (JObj kvs) = list_all (\<lambda>kv. jfinite (snd kv)) kvs"
| "jfinite _ = True"

text \<open>
  \<open>json.dumps(..., allow_nan=False)\<close>, as \<open>JSONResponse\<close> and \<open>httpx\<close> call it: a document with
  an infinite or NaN float raises.
\<close>

definition json_dumps :: "json \<Rightarrow> json result" where
  "json_dumps v =
     (if jfinite v then Inr v
      else Inl (err ValueError ''Out of range float values are not JSON compliant''))"

definition opt_json :: "('a \<Rightarrow> json) \<Rightarrow> 'a option \<Rightarrow> json" where
  "opt_json f x = (case x of None \<Rightarrow> JNull | Some v \<Rightarrow> f v)"

lemma opt_json_simps [simp]: "opt_json f None = JNull" "opt_json f (Some v) = f v"
  by (simp_all add: opt_json_def)

lemma jget_Nil [simp]: "jget [] k = JNull"
  by (simp add: jget_def)

lemma jget_Cons [simp]: "jget ((k', v) # body) k = (if k = k' then v else jget body k)"
  by (simp add: jget_def)

lemma jget_or_Nil [simp]: "jget_or [] k d = d"
  by (simp add: jget_or_def)

lemma jget_or_Cons [simp]: "jget_or ((k', v) # body) k d = (if k = k' then v else jget_or body k d)"
  by (simp add: jget_or_def)

lemma jkeys_simps [simp]: "jkeys [] = []" "jkeys ((k, v) # body) = k # jkeys body"
  by (simp_all add: jkeys_def)

lemma json_case_Inr:
  "(case v of JArr xs \<Rightarrow> f xs | _ \<Rightarrow> Inl e) = Inr y \<longleftrightarrow> (\<exists>xs. v = JArr xs \<and> f xs = Inr y)"
  "(case v of JStr s \<Rightarrow> g s | _ \<Rightarrow> Inl e) = Inr y \<longleftrightarrow> (\<exists>s. v = JStr s \<and> g s = Inr y)"
  "(case v of JObj kvs \<Rightarrow> h kvs | _ \<Rightarrow> Inl e) = Inr y \<longleftrightarrow> (\<exists>kvs. v = JObj kvs \<and> h kvs = Inr y)"
  by (auto split: json.split)

lemma jget_missing: "k \<notin> set (jkeys body) \<Longrightarrow> jget body k = JNull"
  by (auto simp: jget_def jkeys_def map_of_eq_None_iff [symmetric] split: option.splits)

text \<open>Python's \<open>==\<close> on JSON values: numbers of different types compare by value, dictionaries ignore order.\<close>

definition json_number :: "json \<Rightarrow> rat option" where
  "json_number v =
     (case v of JInt i \<Rightarrow> Some (of_int i) | JBool b \<Rightarrow> Some (if b then 1 else 0) | JFloat (Fin q) \<Rightarrow> Some q | _ \<Rightarrow> None)"

fun py_eq :: "json \<Rightarrow> json \<Rightarrow> bool" where
  "py_eq (JArr xs) v = (case v of JArr ys \<Rightarrow> list_all2 py_eq xs ys | _ \<Rightarrow> False)"
| "py_eq (JObj kvs) v =
     (case v of
        JObj lvs \<Rightarrow> set (jkeys kvs) = set (jkeys lvs) \<and>
          list_all (\<lambda>(k, x). (case map_of lvs k of Some y \<Rightarrow> py_eq x y | None \<Rightarrow> False)) kvs
      | _ \<Rightarrow> False)"
| "py_eq (JFloat NaN) v = False"
| "py_eq u v = (u = v \<or> json_number u \<noteq> None \<and> json_number u = json_number v)"

section \<open>Decimal integers\<close>

definition digit_char :: "nat \<Rightarrow> char" where
  "digit_char d = char_of (48 + d)"

fun show_nat :: "nat \<Rightarrow> string" where
  "show_nat n = (if n < 10 then [digit_char n] else show_nat (n div 10) @ [digit_char (n mod 10)])"

declare show_nat.simps [simp del]

definition show_int :: "int \<Rightarrow> string" where
  "show_int i = (if i < 0 then CHR ''-'' # show_nat (nat (- i)) else show_nat (nat i))"

definition nat_of_digits :: "string \<Rightarrow> nat" where
  "nat_of_digits s = foldl (\<lambda>a c. 10 * a + (code_of c - 48)) 0 s"

text \<open>
  \<open>int(text)\<close>: surrounding white space, one sign, digits with single underscores between them,
  and no more than \<open>sys.get_int_max_str_digits()\<close> of them; \<open>None\<close> where Python raises
  \<open>ValueError\<close>.
\<close>

fun int_body :: "string \<Rightarrow> bool" where
  "int_body [] = False"
| "int_body [c] = is_digit c"
| "int_body (c # d # s) = (is_digit c \<and> (if d = CHR ''_'' then int_body s else int_body (d # s)))"

definition int_max_str_digits :: nat where
  "int_max_str_digits = 4300"

definition parse_int :: "string \<Rightarrow> int option" where
  "parse_int s =
     (let t = py_strip s;
          neg = (t \<noteq> [] \<and> hd t = CHR ''-'');
          u = (if t \<noteq> [] \<and> (hd t = CHR ''-'' \<or> hd t = CHR ''+'') then tl t else t);
          ds = filter is_digit u
      in if int_body u \<and> length ds \<le> int_max_str_digits
         then Some (if neg then - int (nat_of_digits ds) else int (nat_of_digits ds)) else None)"

lemma code_digit_char: "d < 10 \<Longrightarrow> code_of (digit_char d) = 48 + d"
  by (simp add: digit_char_def of_char_of)

lemma is_digit_digit_char: "d < 10 \<Longrightarrow> is_digit (digit_char d)"
  by (simp add: is_digit_def code_digit_char)

lemma is_digit_not_space: "is_digit c \<Longrightarrow> \<not> is_space c"
  by (auto simp: is_digit_def is_space_def Let_def)

lemma is_digit_not_special:
  "is_digit c \<Longrightarrow> c \<noteq> CHR ''_'' \<and> c \<noteq> CHR ''-'' \<and> c \<noteq> CHR ''+''"
  by (auto simp: is_digit_def)

lemma show_nat_not_Nil [simp]: "show_nat n \<noteq> []"
  by (subst show_nat.simps) simp

lemma show_nat_digits: "list_all is_digit (show_nat n)"
proof (induction n rule: show_nat.induct)
  case (1 n)
  show ?case
  proof (cases "n < 10")
    case True
    then show ?thesis by (simp add: show_nat.simps [of n] is_digit_digit_char)
  next
    case False
    with 1 show ?thesis by (simp add: show_nat.simps [of n] is_digit_digit_char)
  qed
qed

lemma nat_of_digits_append:
  "nat_of_digits (s @ [c]) = 10 * nat_of_digits s + (code_of c - 48)"
  by (simp add: nat_of_digits_def)

lemma nat_of_digits_show_nat: "nat_of_digits (show_nat n) = n"
proof (induction n rule: show_nat.induct)
  case (1 n)
  show ?case
  proof (cases "n < 10")
    case True
    then show ?thesis by (simp add: show_nat.simps [of n] nat_of_digits_def code_digit_char)
  next
    case False
    with 1 show ?thesis
      by (simp add: show_nat.simps [of n] nat_of_digits_append code_digit_char)
  qed
qed

lemma int_body_digits: "s \<noteq> [] \<Longrightarrow> list_all is_digit s \<Longrightarrow> int_body s"
  by (induction s rule: int_body.induct) (auto dest: is_digit_not_special)

lemma py_strip_no_space: "list_all (\<lambda>c. \<not> is_space c) s \<Longrightarrow> py_strip s = s"
proof -
  assume "list_all (\<lambda>c. \<not> is_space c) s"
  then have *: "\<forall>c\<in>set s. \<not> is_space c" by (simp add: list_all_iff)
  then have "dropWhile is_space s = s" by (cases s) auto
  moreover from * have "\<forall>c\<in>set (rev s). \<not> is_space c" by simp
  then have "dropWhile is_space (rev s) = rev s" by (cases "rev s") simp_all
  ultimately show ?thesis by (simp add: py_strip_def)
qed

lemma show_nat_length: "n < 10 ^ k \<Longrightarrow> 0 < k \<Longrightarrow> length (show_nat n) \<le> k"
proof (induction k arbitrary: n)
  case (Suc k)
  show ?case
  proof (cases "n < 10")
    case True
    then show ?thesis by (simp add: show_nat.simps [of n])
  next
    case False
    from Suc.prems False have "0 < k" by (cases k) auto
    moreover from Suc.prems have "n div 10 < 10 ^ k"
      by (simp add: less_mult_imp_div_less mult.commute)
    ultimately have "length (show_nat (n div 10)) \<le> k" by (intro Suc.IH)
    with False show ?thesis by (simp add: show_nat.simps [of n])
  qed
qed simp

lemma parse_int_show_nat:
  assumes "n < 10 ^ int_max_str_digits"
  shows "parse_int (show_nat n) = Some (int n)"
proof -
  let ?s = "show_nat n"
  have digits: "list_all is_digit ?s" by (rule show_nat_digits)
  then have strip: "py_strip ?s = ?s"
    by (intro py_strip_no_space) (auto simp: list_all_iff dest: is_digit_not_space)
  have "is_digit (hd ?s)" using digits by (cases ?s) auto
  moreover have "filter is_digit ?s = ?s" using digits by (simp add: list_all_iff)
  moreover have "length ?s \<le> int_max_str_digits"
    by (rule show_nat_length [OF assms]) (simp add: int_max_str_digits_def)
  ultimately show ?thesis
    using strip int_body_digits [OF show_nat_not_Nil digits]
    by (auto simp: parse_int_def Let_def nat_of_digits_show_nat dest: is_digit_not_special)
qed

lemma show_nat_inject: "show_nat m = show_nat n \<longleftrightarrow> m = n"
  by (metis nat_of_digits_show_nat)

end
