(* ===== verification/Portable.thy ===== *)
theory Portable
  imports Json
begin

text \<open>
  The portable values of the public API: \<open>TableIdentifier\<close> (identifier.py), \<open>VectorQuery\<close> and
  its builder methods (query.py), \<open>IndexStatus\<close> (build.py), \<open>IndexInfo\<close> and
  \<open>_normalize_query\<close> (table.py), \<open>IVF\<close> and \<open>WriteOptions\<close> (config.py). Arguments whose type the
  source tests at run time are dynamic values, that is \<^typ>\<open>json\<close>; the frozen dataclasses are
  records, and their \<open>__post_init__\<close> is the constructor function that returns a result.
\<close>

section \<open>Table identifiers\<close>

record table_identifier =
  ti_catalog :: string
  ti_namespace :: "string list"
  ti_name :: string

definition new_table_identifier ::
  "string \<Rightarrow> string list \<Rightarrow> string \<Rightarrow> table_identifier result" where
  "new_table_identifier c ns n =
     rbind (raise_if (c = [] \<or> n = [])
             (err ValueError ''catalog and table name must be non-empty strings'')) (\<lambda>_.
     rbind (raise_if (list_ex (\<lambda>s. s = []) ns)
             (err ValueError ''namespace must contain non-empty string segments'')) (\<lambda>_.
     Inr \<lparr>ti_catalog = c, ti_namespace = ns, ti_name = n\<rparr>))"

definition index_namespace :: "table_identifier \<Rightarrow> string list" where
  "index_namespace t = ti_catalog t # ti_namespace t @ [ti_name t]"

definition wf_identifier :: "table_identifier \<Rightarrow> bool" where
  "wf_identifier t \<longleftrightarrow> ti_catalog t \<noteq> [] \<and> ti_name t \<noteq> [] \<and> list_all (\<lambda>s. s \<noteq> []) (ti_namespace t)"

lemma list_ex_Nil: "list_ex (\<lambda>s. s = []) ns \<longleftrightarrow> \<not> list_all (\<lambda>s. s \<noteq> []) ns"
  by (simp add: list_ex_iff list_all_iff)

lemma new_table_identifier_Inr:
  "new_table_identifier c ns n = Inr t \<longleftrightarrow>
     t = \<lparr>ti_catalog = c, ti_namespace = ns, ti_name = n\<rparr> \<and> wf_identifier t"
  by (auto simp: new_table_identifier_def wf_identifier_def list_ex_Nil)

lemma new_table_identifier_wf:
  "wf_identifier t \<Longrightarrow> new_table_identifier (ti_catalog t) (ti_namespace t) (ti_name t) = Inr t"
  by (simp add: new_table_identifier_Inr)

text \<open>The catalog namespace of a table's indexes determines the table.\<close>

lemma index_namespace_inject: "index_namespace s = index_namespace t \<longleftrightarrow> s = t"
  by (cases s; cases t) (auto simp: index_namespace_def)

section \<open>Vector queries\<close>

record vector_query =
  vq_source :: table_identifier
  vq_query :: "pyfloat list"
  vq_column :: "string option"
  vq_index :: "string option"
  vq_projection :: "string list option"
  vq_result_limit :: int
  vq_probe_count :: "int option"
  vq_predicate :: "string option"
  vq_bypass_index :: bool

definition new_vector_query ::
  "table_identifier \<Rightarrow> pyfloat list \<Rightarrow> string option \<Rightarrow> string option \<Rightarrow> vector_query" where
  "new_vector_query source query column index =
     \<lparr>vq_source = source, vq_query = query, vq_column = column, vq_index = index,
      vq_projection = None, vq_result_limit = 10, vq_probe_count = None, vq_predicate = None,
      vq_bypass_index = False\<rparr>"

definition vq_select :: "vector_query \<Rightarrow> string list \<Rightarrow> vector_query" where
  "vq_select q columns = q\<lparr>vq_projection := Some columns\<rparr>"

definition vq_limit :: "vector_query \<Rightarrow> json \<Rightarrow> vector_query result" where
  "vq_limit q limit =
     (case limit of
        JInt n \<Rightarrow> if n \<le> 0 then Inl (err ValueError ''limit must be a positive integer'')
                  else Inr (q\<lparr>vq_result_limit := n\<rparr>)
      | _ \<Rightarrow> Inl (err ValueError ''limit must be a positive integer''))"

definition vq_nprobes :: "vector_query \<Rightarrow> json \<Rightarrow> vector_query result" where
  "vq_nprobes q nprobes =
     (case nprobes of
        JInt n \<Rightarrow> if n \<le> 0 then Inl (err ValueError ''nprobes must be a positive integer'')
                  else Inr (q\<lparr>vq_probe_count := Some n\<rparr>)
      | _ \<Rightarrow> Inl (err ValueError ''nprobes must be a positive integer''))"

definition vq_where :: "vector_query \<Rightarrow> json \<Rightarrow> vector_query result" where
  "vq_where q predicate =
     (case predicate of
        JStr p \<Rightarrow> if py_strip p = [] then Inl (err ValueError ''predicate must not be empty'')
                  else Inr (q\<lparr>vq_predicate := Some p\<rparr>)
      | _ \<Rightarrow> Inl (err TypeError ''predicate must be a string''))"

definition vq_bypass_vector_index :: "vector_query \<Rightarrow> vector_query" where
  "vq_bypass_vector_index q = q\<lparr>vq_bypass_index := True\<rparr>"

text \<open>What a query must satisfy for the HTTP wire format to accept it.\<close>

definition nonempty_opt :: "string option \<Rightarrow> bool" where
  "nonempty_opt x \<longleftrightarrow> x \<noteq> Some []"

definition wf_vector_query :: "vector_query \<Rightarrow> bool" where
  "wf_vector_query q \<longleftrightarrow>
     wf_identifier (vq_source q) \<and> vq_query q \<noteq> [] \<and> list_all isfinite (vq_query q) \<and>
     nonempty_opt (vq_column q) \<and> nonempty_opt (vq_index q) \<and>
     (case vq_projection q of None \<Rightarrow> True | Some p \<Rightarrow> list_all (\<lambda>s. s \<noteq> []) p) \<and>
     0 < vq_result_limit q \<and> (case vq_probe_count q of None \<Rightarrow> True | Some n \<Rightarrow> 0 < n) \<and>
     nonempty_opt (vq_predicate q)"

inductive built_from :: "vector_query \<Rightarrow> vector_query \<Rightarrow> bool" where
  built_start: "built_from q q"
| built_select: "built_from q r \<Longrightarrow> list_all (\<lambda>s. s \<noteq> []) cols \<Longrightarrow> built_from q (vq_select r cols)"
| built_limit: "built_from q r \<Longrightarrow> vq_limit r v = Inr r' \<Longrightarrow> built_from q r'"
| built_nprobes: "built_from q r \<Longrightarrow> vq_nprobes r v = Inr r' \<Longrightarrow> built_from q r'"
| built_where: "built_from q r \<Longrightarrow> vq_where r v = Inr r' \<Longrightarrow> built_from q r'"
| built_bypass: "built_from q r \<Longrightarrow> built_from q (vq_bypass_vector_index r)"

lemma vq_limit_Inr:
  "vq_limit q v = Inr r \<longleftrightarrow> (\<exists>n. v = JInt n \<and> 0 < n \<and> r = q\<lparr>vq_result_limit := n\<rparr>)"
  by (auto simp: vq_limit_def split: json.splits)

lemma vq_nprobes_Inr:
  "vq_nprobes q v = Inr r \<longleftrightarrow> (\<exists>n. v = JInt n \<and> 0 < n \<and> r = q\<lparr>vq_probe_count := Some n\<rparr>)"
  by (auto simp: vq_nprobes_def split: json.splits)

lemma vq_where_Inr:
  "vq_where q v = Inr r \<longleftrightarrow>
     (\<exists>p. v = JStr p \<and> py_strip p \<noteq> [] \<and> r = q\<lparr>vq_predicate := Some p\<rparr>)"
  by (auto simp: vq_where_def split: json.splits)

lemma py_strip_Nil [simp]: "py_strip [] = []"
  by (simp add: py_strip_def)

lemma built_from_wf: "built_from q r \<Longrightarrow> wf_vector_query q \<Longrightarrow> wf_vector_query r"
  by (induction rule: built_from.induct)
     (auto simp: wf_vector_query_def nonempty_opt_def vq_select_def vq_limit_Inr vq_nprobes_Inr
        vq_where_Inr vq_bypass_vector_index_def)

lemma built_from_source: "built_from q r \<Longrightarrow> vq_source r = vq_source q \<and> vq_query r = vq_query q"
  by (induction rule: built_from.induct)
     (auto simp: vq_select_def vq_limit_Inr vq_nprobes_Inr vq_where_Inr vq_bypass_vector_index_def)

section \<open>Index status and index metadata\<close>

datatype index_state = Pending | Building | Ready | Failed

definition state_name :: "index_state \<Rightarrow> string" where
  "state_name s = (case s of Pending \<Rightarrow> ''pending'' | Building \<Rightarrow> ''building''
     | Ready \<Rightarrow> ''ready'' | Failed \<Rightarrow> ''failed'')"

definition state_of_name :: "string \<Rightarrow> index_state option" where
  "state_of_name s =
     (if s = ''pending'' then Some Pending else if s = ''building'' then Some Building
      else if s = ''ready'' then Some Ready else if s = ''failed'' then Some Failed else None)"

record index_status =
  is_state :: index_state
  is_progress :: "pyfloat option"
  is_phase :: "string option"
  is_completed :: "int option"
  is_total :: "int option"
  is_current_snapshot_id :: "int option"
  is_error :: "string option"
  is_error_code :: "string option"

record index_info =
  ii_name :: string
  ii_column :: string
  ii_family :: string
  ii_metric :: string
  ii_parameters :: "(string \<times> string) list"
  ii_current_snapshot_id :: int

lemma state_of_name_name [simp]: "state_of_name (state_name s) = Some s"
  by (cases s) (simp_all add: state_of_name_def state_name_def)

lemma state_name_not_Nil [simp]: "state_name s \<noteq> []"
  by (cases s) (simp_all add: state_name_def)

section \<open>Query vectors\<close>

text \<open>
  The argument of \<open>search\<close>: an object with an optional \<open>ndim\<close>, an optional \<open>tolist()\<close> result
  and the value it stands for when iterated. \<open>float(text)\<close> of a string item is the parameter
  \<open>parse_float\<close>, \<open>None\<close> where Python raises \<open>ValueError\<close>.
\<close>

record query_input =
  qi_ndim :: "int option"
  qi_tolist :: "json option"
  qi_value :: json

definition query_type_error :: exc where
  "query_type_error = err ValueError ''query must be a one-dimensional iterable of numeric values''"

definition py_iter :: "json \<Rightarrow> json list option" where
  "py_iter v =
     (case v of JStr s \<Rightarrow> Some (map (\<lambda>c. JStr [c]) s) | JArr xs \<Rightarrow> Some xs
      | JObj kvs \<Rightarrow> Some (map (JStr \<circ> fst) kvs) | _ \<Rightarrow> None)"

definition py_float :: "(string \<Rightarrow> pyfloat option) \<Rightarrow> json \<Rightarrow> pyfloat result" where
  "py_float parse_float v =
     (case v of
        JBool b \<Rightarrow> Inr (Fin (if b then 1 else 0))
      | JInt i \<Rightarrow> float_of_int i
      | JFloat x \<Rightarrow> Inr x
      | JStr s \<Rightarrow> (case parse_float s of
                     None \<Rightarrow> Inl (err ValueError ''could not convert string to float'')
                   | Some x \<Rightarrow> Inr x)
      | _ \<Rightarrow> Inl (err TypeError ''float() argument must be a string or a real number''))"

definition normalize_query ::
  "(string \<Rightarrow> pyfloat option) \<Rightarrow> query_input \<Rightarrow> pyfloat list result" where
  "normalize_query parse_float q =
     rbind (raise_if (qi_ndim q \<noteq> None \<and> qi_ndim q \<noteq> Some 1)
             (err ValueError ''query must be a one-dimensional vector'')) (\<lambda>_.
     (case py_iter (case qi_tolist q of Some v \<Rightarrow> v | None \<Rightarrow> qi_value q) of
        None \<Rightarrow> Inl query_type_error
      | Some xs \<Rightarrow>
          (case traverse (py_float parse_float) xs of
             Inl e \<Rightarrow> if isinstance_exc e TypeError \<or> isinstance_exc e ValueError
                      then Inl query_type_error else Inl e
           | Inr fs \<Rightarrow> Inr fs)))"

lemma normalize_query_Inr:
  "normalize_query pf q = Inr fs \<Longrightarrow>
     (qi_ndim q = None \<or> qi_ndim q = Some 1) \<and>
     (\<exists>xs. py_iter (case qi_tolist q of Some v \<Rightarrow> v | None \<Rightarrow> qi_value q) = Some xs \<and>
           list_all2 (\<lambda>x f. py_float pf x = Inr f) xs fs)"
  by (auto simp: normalize_query_def traverse_Inr_iff
      split: option.splits sum.splits if_splits)

section \<open>Index configuration\<close>

record ivf =
  ivf_nlist :: int
  ivf_encoding :: string
  ivf_metric :: string

definition new_ivf :: "json \<Rightarrow> json \<Rightarrow> json \<Rightarrow> ivf result" where
  "new_ivf nlist encoding metric =
     (case nlist of
        JInt n \<Rightarrow>
          if n \<le> 0 then Inl (err ValueError ''nlist must be positive'')
          else (case encoding of
             JStr en \<Rightarrow>
               if en \<notin> {''source'', ''lvq4'', ''lvq8''}
               then Inl (err ValueError (''unsupported encoding: '' @ en))
               else (case metric of
                  JStr m \<Rightarrow>
                    if m \<notin> {''l2_squared'', ''cosine''}
                    then Inl (err ValueError (''unsupported metric: '' @ m))
                    else Inr \<lparr>ivf_nlist = n, ivf_encoding = en, ivf_metric = m\<rparr>
                | _ \<Rightarrow> Inl (err TypeError ''metric must be a string''))
           | _ \<Rightarrow> Inl (err TypeError ''encoding must be a string''))
      | _ \<Rightarrow> Inl (err TypeError ''nlist must be an integer''))"

definition wf_ivf :: "ivf \<Rightarrow> bool" where
  "wf_ivf c \<longleftrightarrow> 0 < ivf_nlist c \<and> ivf_encoding c \<in> {''source'', ''lvq4'', ''lvq8''} \<and>
     ivf_metric c \<in> {''l2_squared'', ''cosine''}"

lemma new_ivf_Inr:
  "new_ivf v w u = Inr c \<longleftrightarrow>
     v = JInt (ivf_nlist c) \<and> w = JStr (ivf_encoding c) \<and> u = JStr (ivf_metric c) \<and> wf_ivf c"
  by (cases c) (auto simp: new_ivf_def wf_ivf_def split: json.splits)

lemma new_ivf_wf:
  "wf_ivf c \<Longrightarrow> new_ivf (JInt (ivf_nlist c)) (JStr (ivf_encoding c)) (JStr (ivf_metric c)) = Inr c"
  by (simp add: new_ivf_Inr)

record write_options =
  wo_partitions :: "int option"
  wo_compression :: string
  wo_target_file_size :: int
  wo_max_row_group_rows :: "int option"
  wo_write_batch_rows :: int

definition default_write_options :: write_options where
  "default_write_options =
     \<lparr>wo_partitions = None, wo_compression = ''uncompressed'',
      wo_target_file_size = 512 * 1024 * 1024, wo_max_row_group_rows = None,
      wo_write_batch_rows = 8192\<rparr>"

definition positive_int :: "json \<Rightarrow> int option" where
  "positive_int v = (case v of JInt n \<Rightarrow> if n \<le> 0 then None else Some n | _ \<Rightarrow> None)"

definition codec_levels :: "(string \<times> int \<times> int) list" where
  "codec_levels = [(''gzip'', 0, 9), (''brotli'', 0, 11), (''zstd'', 1, 22)]"

text \<open>
  The loop over \<open>codec_levels\<close>: the first codec whose \<open>name(...)\<close> form fits decides, and a
  level that is not a decimal in range is refused. A level of more than 4300 digits makes
  \<open>int(level)\<close> itself raise.
\<close>

fun levelled_codec :: "(string \<times> int \<times> int) list \<Rightarrow> string \<Rightarrow> bool result" where
  "levelled_codec [] c = Inr False"
| "levelled_codec ((codec, lo, hi) # rest) c =
     (if startswith c (codec @ ''('') \<and> endswith c '')''
      then (let level = butlast (drop (length codec + 1) c)
            in if isdigit_str level
               then (case parse_int level of
                       None \<Rightarrow> Inl (err ValueError ''Exceeds the limit for integer string conversion'')
                     | Some n \<Rightarrow> Inr (lo \<le> n \<and> n \<le> hi))
               else Inr False)
      else levelled_codec rest c)"

definition check_compression :: "string \<Rightarrow> unit result" where
  "check_compression c =
     rbind (levelled_codec codec_levels c) (\<lambda>levelled.
     raise_if (c \<notin> {''uncompressed'', ''snappy'', ''lz4'', ''lz4_raw''} \<and> \<not> levelled)
       (err ValueError (''unsupported Parquet compression: '' @ c)))"

definition new_write_options ::
  "json \<Rightarrow> json \<Rightarrow> json \<Rightarrow> json \<Rightarrow> json \<Rightarrow> write_options result" where
  "new_write_options partitions compression target rowgroup batch =
     rbind (raise_if (partitions \<noteq> JNull \<and> positive_int partitions = None)
             (err ValueError ''partitions must be a positive integer'')) (\<lambda>_.
     (case compression of
        JStr c \<Rightarrow>
          rbind (check_compression c) (\<lambda>_.
          (case positive_int target of
             None \<Rightarrow> Inl (err ValueError ''target_file_size must be a positive integer'')
           | Some t \<Rightarrow>
               rbind (raise_if (rowgroup \<noteq> JNull \<and> positive_int rowgroup = None)
                 (err ValueError ''max_row_group_rows must be a positive integer'')) (\<lambda>_.
               (case positive_int batch of
                  None \<Rightarrow> Inl (err ValueError ''write_batch_rows must be a positive integer'')
                | Some b \<Rightarrow>
                    Inr \<lparr>wo_partitions = positive_int partitions, wo_compression = c,
                         wo_target_file_size = t, wo_max_row_group_rows = positive_int rowgroup,
                         wo_write_batch_rows = b\<rparr>))))
      | _ \<Rightarrow> Inl (err TypeError ''compression must be a string'')))"

definition positive_opt :: "int option \<Rightarrow> bool" where
  "positive_opt x \<longleftrightarrow> (case x of None \<Rightarrow> True | Some n \<Rightarrow> 0 < n)"

definition wf_write_options :: "write_options \<Rightarrow> bool" where
  "wf_write_options w \<longleftrightarrow>
     positive_opt (wo_partitions w) \<and> check_compression (wo_compression w) = Inr () \<and>
     0 < wo_target_file_size w \<and> positive_opt (wo_max_row_group_rows w) \<and> 0 < wo_write_batch_rows w"

text \<open>The options handed to the native writer: all but \<open>partitions\<close>.\<close>

record parquet_writer_options =
  nwo_compression :: string
  nwo_max_row_group_rows :: "int option"
  nwo_target_file_size :: int
  nwo_write_batch_rows :: int

definition native_writer_options :: "write_options \<Rightarrow> parquet_writer_options" where
  "native_writer_options w =
     \<lparr>nwo_compression = wo_compression w, nwo_max_row_group_rows = wo_max_row_group_rows w,
      nwo_target_file_size = wo_target_file_size w, nwo_write_batch_rows = wo_write_batch_rows w\<rparr>"

lemma positive_int_simps [simp]:
  "positive_int (JInt n) = (if n \<le> 0 then None else Some n)" "positive_int JNull = None"
  by (simp_all add: positive_int_def)

lemma positive_int_Some: "positive_int v = Some n \<longleftrightarrow> v = JInt n \<and> 0 < n"
  by (auto simp: positive_int_def split: json.splits if_splits)

lemma positive_opt_simps [simp]: "positive_opt None" "positive_opt (Some n) = (0 < n)"
  by (simp_all add: positive_opt_def)

lemma positive_int_opt: "v = JNull \<or> positive_int v \<noteq> None \<longleftrightarrow>
    v = opt_json JInt (positive_int v) \<and> positive_opt (positive_int v)"
  by (auto simp: positive_int_def opt_json_def split: json.splits if_splits)

lemma positive_int_opt_json: "positive_opt x \<Longrightarrow> positive_int (opt_json JInt x) = x"
  by (cases x) simp_all

lemma new_write_options_wf:
  assumes "wf_write_options w"
  shows "new_write_options (opt_json JInt (wo_partitions w)) (JStr (wo_compression w))
    (JInt (wo_target_file_size w)) (opt_json JInt (wo_max_row_group_rows w))
    (JInt (wo_write_batch_rows w)) = Inr w"
proof -
  have *: "\<not> (opt_json JInt x \<noteq> JNull \<and> positive_int (opt_json JInt x) = None)"
    if "positive_opt x" for x using that by (cases x) simp_all
  from assms show ?thesis
    using * [of "wo_partitions w"] * [of "wo_max_row_group_rows w"]
    by (simp add: new_write_options_def wf_write_options_def positive_int_opt_json raise_if_def)
qed

lemma new_write_options_Inr_wf:
  assumes "new_write_options p c t g b = Inr w"
  shows "wf_write_options w"
proof -
  from assms have "p = JNull \<or> positive_int p \<noteq> None" "g = JNull \<or> positive_int g \<noteq> None"
    by (auto simp: new_write_options_def split: json.splits option.splits)
  then show ?thesis
    using assms positive_int_opt [of p] positive_int_opt [of g]
    by (auto simp: new_write_options_def wf_write_options_def positive_int_Some
        split: json.splits option.splits)
qed

lemma default_write_options_wf: "wf_write_options default_write_options"
  by (simp add: wf_write_options_def default_write_options_def check_compression_def
      codec_levels_def startswith_def)

end
