(* ===== verification/Url.thy ===== *)
theory Url
  imports Prelude
begin

text \<open>
  The parts of \<open>urllib.parse\<close> and \<open>posixpath\<close> the sources use: percent encoding (\<open>quote\<close>,
  \<open>unquote\<close> with UTF-8 decoding and replacement characters), \<open>urlsplit\<close>, \<open>urlunsplit\<close> and
  \<open>normpath\<close>. The library's check of bracketed or non-ASCII host names is a parameter
  \<open>netloc_ok\<close> of \<open>urlsplit\<close>.
\<close>

section \<open>UTF-8\<close>

definition is_ascii :: "char \<Rightarrow> bool" where
  "is_ascii c \<longleftrightarrow> code_of c < 128"

definition is_cont :: "char \<Rightarrow> bool" where
  "is_cont c \<longleftrightarrow> 128 \<le> code_of c \<and> code_of c < 192"

definition utf8_tail_len :: "char \<Rightarrow> nat option" where
  "utf8_tail_len c =
     (let n = code_of c
      in if n < 128 then Some 0 else if 194 \<le> n \<and> n \<le> 223 then Some 1
         else if 224 \<le> n \<and> n \<le> 239 then Some 2 else if 240 \<le> n \<and> n \<le> 244 then Some 3 else None)"

definition utf8_second_ok :: "char \<Rightarrow> char \<Rightarrow> bool" where
  "utf8_second_ok c d =
     (let n = code_of c; m = code_of d
      in is_cont d \<and> (n = 224 \<longrightarrow> 160 \<le> m) \<and> (n = 237 \<longrightarrow> m \<le> 159)
         \<and> (n = 240 \<longrightarrow> 144 \<le> m) \<and> (n = 244 \<longrightarrow> m \<le> 143))"

fun cont_run :: "nat \<Rightarrow> string \<Rightarrow> nat" where
  "cont_run 0 cs = 0"
| "cont_run (Suc k) [] = 0"
| "cont_run (Suc k) (c # cs) = (if is_cont c then Suc (cont_run k cs) else 0)"

fun utf8_tail :: "char \<Rightarrow> nat \<Rightarrow> string \<Rightarrow> nat" where
  "utf8_tail c 0 cs = 0"
| "utf8_tail c (Suc k) [] = 0"
| "utf8_tail c (Suc k) (d # cs) = (if utf8_second_ok c d then Suc (cont_run k cs) else 0)"

definition utf8_tail_of :: "char \<Rightarrow> string \<Rightarrow> nat" where
  "utf8_tail_of c cs = (case utf8_tail_len c of None \<Rightarrow> 0 | Some k \<Rightarrow> utf8_tail c k cs)"

definition replacement_char :: string where
  "replacement_char = [char_of (239::nat), char_of (191::nat), char_of (189::nat)]"

text \<open>\<open>bytes.decode("utf-8", errors="replace")\<close>, re-encoded.\<close>

function utf8_replace :: "string \<Rightarrow> string" where
  "utf8_replace [] = []"
| "utf8_replace (c # cs) =
     (if utf8_tail_len c = Some (utf8_tail_of c cs)
      then c # take (utf8_tail_of c cs) cs @ utf8_replace (drop (utf8_tail_of c cs) cs)
      else replacement_char @ utf8_replace (drop (utf8_tail_of c cs) cs))"
  by pat_completeness auto
termination
  by (relation "measure length") simp_all

function utf8_valid :: "string \<Rightarrow> bool" where
  "utf8_valid [] = True"
| "utf8_valid (c # cs) =
     (utf8_tail_len c = Some (utf8_tail_of c cs) \<and> utf8_valid (drop (utf8_tail_of c cs) cs))"
  by pat_completeness auto
termination
  by (relation "measure length") simp_all

lemma cont_run_append: "cont_run k cs = k \<Longrightarrow> cont_run k (cs @ b) = k \<and> k \<le> length cs"
  by (induction k cs rule: cont_run.induct) (auto split: if_splits)

lemma utf8_tail_append: "utf8_tail c k cs = k \<Longrightarrow> utf8_tail c k (cs @ b) = k \<and> k \<le> length cs"
  by (cases k; cases cs) (auto dest: cont_run_append split: if_splits)

lemma utf8_tail_of_append:
  assumes "utf8_tail_len c = Some (utf8_tail_of c cs)"
  shows "utf8_tail_of c (cs @ b) = utf8_tail_of c cs" and "utf8_tail_of c cs \<le> length cs"
proof -
  obtain k where k: "utf8_tail_len c = Some k" using assms by blast
  then have tail: "utf8_tail_of c xs = utf8_tail c k xs" for xs by (simp add: utf8_tail_of_def)
  with assms k have "utf8_tail c k cs = k" by simp
  then show "utf8_tail_of c (cs @ b) = utf8_tail_of c cs" "utf8_tail_of c cs \<le> length cs"
    using utf8_tail_append [of c k cs b] by (simp_all add: tail)
qed

lemma utf8_replace_append: "utf8_valid a \<Longrightarrow> utf8_replace (a @ b) = a @ utf8_replace b"
proof (induction a rule: utf8_valid.induct)
  case (2 c cs)
  then have k: "utf8_tail_len c = Some (utf8_tail_of c cs)" by simp
  have "utf8_replace (drop (utf8_tail_of c cs) cs @ b) = drop (utf8_tail_of c cs) cs @ utf8_replace b"
    using 2 by simp
  with k utf8_tail_of_append(1) [OF k, of b] utf8_tail_of_append(2) [OF k] show ?case by (simp flip: append_assoc)
qed simp

lemma utf8_replace_valid: "utf8_valid a \<Longrightarrow> utf8_replace a = a"
  using utf8_replace_append [of a "[]"] by simp

lemma utf8_valid_append: "utf8_valid a \<Longrightarrow> utf8_valid b \<Longrightarrow> utf8_valid (a @ b)"
proof (induction a rule: utf8_valid.induct)
  case (2 c cs)
  then have k: "utf8_tail_len c = Some (utf8_tail_of c cs)" by simp
  with 2 utf8_tail_of_append(1) [OF k, of b] utf8_tail_of_append(2) [OF k] show ?case by simp
qed simp

lemma ascii_tail: "is_ascii c \<Longrightarrow> utf8_tail_len c = Some 0 \<and> utf8_tail_of c cs = 0"
  by (simp add: is_ascii_def utf8_tail_len_def utf8_tail_of_def Let_def)

lemma ascii_utf8_valid: "list_all is_ascii s \<Longrightarrow> utf8_valid s"
  by (induction s) (simp_all add: ascii_tail)

lemma utf8_valid_append_ascii: "list_all is_ascii a \<Longrightarrow> utf8_valid (a @ b) \<longleftrightarrow> utf8_valid b"
  by (induction a) (simp_all add: ascii_tail)

lemma cont_run_take: "cont_run k (take k cs) = cont_run k cs"
  by (induction k cs rule: cont_run.induct) auto

lemma utf8_tail_take: "utf8_tail c k (take k cs) = utf8_tail c k cs"
  by (cases k; cases cs) (auto simp: cont_run_take)

lemma utf8_replace_is_valid: "utf8_valid (utf8_replace s)"
proof (induction s rule: utf8_replace.induct)
  case (2 c cs)
  show ?case
  proof (cases "utf8_tail_len c = Some (utf8_tail_of c cs)")
    case True
    define k where "k = utf8_tail_of c cs"
    have len: "utf8_tail_len c = Some k" using True by (simp add: k_def)
    then have of_k: "utf8_tail_of c xs = utf8_tail c k xs" for xs by (simp add: utf8_tail_of_def)
    have tail: "utf8_tail_of c (take k cs) = k"
      using k_def by (simp add: of_k utf8_tail_take)
    with len have "utf8_valid (c # take k cs)" by simp
    from utf8_valid_append [OF this 2(1) [OF True]] show ?thesis
      using True by (simp only: utf8_replace.simps k_def if_True append_Cons simp_thms)
  next
    case False
    have "utf8_valid replacement_char"
      by (simp add: replacement_char_def utf8_tail_len_def utf8_tail_of_def utf8_second_ok_def
          is_cont_def of_char_of numeral_2_eq_2)
    from utf8_valid_append [OF this 2(2)] False show ?thesis by simp
  qed
qed simp

lemma cont_run_cut: "cont_run k (cs @ x # b) = k \<Longrightarrow> \<not> is_cont x \<Longrightarrow> cont_run k cs = k"
  by (induction k cs rule: cont_run.induct) (auto split: if_splits)

lemma utf8_tail_cut: "utf8_tail c k (cs @ x # b) = k \<Longrightarrow> \<not> is_cont x \<Longrightarrow> utf8_tail c k cs = k"
  by (cases k; cases cs) (auto simp: utf8_second_ok_def Let_def dest: cont_run_cut split: if_splits)

text \<open>Valid text is valid on both sides of an ASCII character.\<close>

lemma utf8_valid_cut:
  assumes "utf8_valid (a @ x # b)" and x: "is_ascii x"
  shows "utf8_valid a \<and> utf8_valid b"
  using assms(1)
proof (induction a rule: length_induct)
  case (1 a)
  show ?case
  proof (cases a)
    case Nil
    then show ?thesis using 1(2) x by (simp add: ascii_tail)
  next
    case (Cons c cs)
    then have len: "utf8_tail_len c = Some (utf8_tail_of c (cs @ x # b))" using 1(2) by simp
    moreover have "\<not> is_cont x" using x by (simp add: is_ascii_def is_cont_def)
    ultimately have cut: "utf8_tail_of c cs = utf8_tail_of c (cs @ x # b)"
      by (cases "utf8_tail_len c") (auto simp: utf8_tail_of_def dest: utf8_tail_cut [OF sym])
    with len have len': "utf8_tail_len c = Some (utf8_tail_of c cs)" by simp
    have "utf8_valid (drop (utf8_tail_of c cs) cs @ x # b)"
      using 1(2) utf8_tail_of_append(2) [OF len'] by (simp add: Cons cut)
    then have "utf8_valid (drop (utf8_tail_of c cs) cs) \<and> utf8_valid b"
      using 1(1) [rule_format, of "drop (utf8_tail_of c cs) cs"] by (simp add: Cons)
    with len' show ?thesis by (simp add: Cons)
  qed
qed

section \<open>Percent encoding\<close>

definition hex_char :: "nat \<Rightarrow> char" where
  "hex_char d = (if d < 10 then char_of (48 + d) else char_of (55 + d))"

definition hex_value :: "char \<Rightarrow> nat option" where
  "hex_value c =
     (let n = code_of c
      in if 48 \<le> n \<and> n \<le> 57 then Some (n - 48) else if 65 \<le> n \<and> n \<le> 70 then Some (n - 55)
         else if 97 \<le> n \<and> n \<le> 102 then Some (n - 87) else None)"

definition always_safe :: "char \<Rightarrow> bool" where
  "always_safe c \<longleftrightarrow> is_alpha c \<or> is_digit c \<or> c \<in> set ''_.-~''"

definition quote_char :: "string \<Rightarrow> char \<Rightarrow> string" where
  "quote_char safe c =
     (if always_safe c \<or> is_ascii c \<and> c \<in> set safe then [c]
      else [CHR ''%'', hex_char (code_of c div 16), hex_char (code_of c mod 16)])"

text \<open>\<open>quote(s, safe=...)\<close>.\<close>

definition quote :: "string \<Rightarrow> string \<Rightarrow> string" where
  "quote safe s = concat (map (quote_char safe) s)"

text \<open>\<open>unquote_to_bytes\<close>: a \<open>%\<close> that two hex digits do not follow stays.\<close>

fun unquote_bytes :: "string \<Rightarrow> string" where
  "unquote_bytes (p # a # b # cs) =
     (if p = CHR ''%''
      then (case (hex_value a, hex_value b) of
              (Some x, Some y) \<Rightarrow> char_of (16 * x + y) # unquote_bytes cs
            | _ \<Rightarrow> p # unquote_bytes (a # b # cs))
      else p # unquote_bytes (a # b # cs))"
| "unquote_bytes cs = cs"

function unquote_runs :: "string \<Rightarrow> string" where
  "unquote_runs [] = []"
| "unquote_runs (c # cs) =
     (if is_ascii c
      then utf8_replace (unquote_bytes (c # takeWhile is_ascii cs)) @ unquote_runs (dropWhile is_ascii cs)
      else c # unquote_runs cs)"
  by pat_completeness auto
termination
  by (relation "measure length") (simp_all add: le_imp_less_Suc length_dropWhile_le)

definition unquote :: "string \<Rightarrow> string" where
  "unquote s = (if CHR ''%'' \<notin> set s then s else unquote_runs s)"

lemma hex_value_hex_char: "d < 16 \<Longrightarrow> hex_value (hex_char d) = Some d"
  by (simp add: hex_char_def hex_value_def Let_def of_char_of split: if_splits)

lemma is_ascii_hex_char: "d < 16 \<Longrightarrow> is_ascii (hex_char d)"
  by (simp add: hex_char_def is_ascii_def of_char_of)

lemma always_safe_ascii: "always_safe c \<Longrightarrow> is_ascii c"
  by (auto simp: always_safe_def is_ascii_def is_alpha_def is_digit_def Let_def)

lemma quote_ascii: "list_all is_ascii (quote safe s)"
proof -
  have "code_of c div 16 < 16" for c using code_of_lt [of c] by linarith
  then show ?thesis
    by (auto simp: quote_def quote_char_def list_all_iff is_ascii_hex_char always_safe_ascii
        is_ascii_def [of "CHR ''%''"])
qed

lemma unquote_bytes_plain: "p \<noteq> CHR ''%'' \<Longrightarrow> unquote_bytes (p # cs) = p # unquote_bytes cs"
  by (cases cs rule: unquote_bytes.cases) auto

lemma unquote_bytes_hex:
  "x < 16 \<Longrightarrow> y < 16 \<Longrightarrow>
   unquote_bytes (CHR ''%'' # hex_char x # hex_char y # cs) = char_of (16 * x + y) # unquote_bytes cs"
  by (simp add: hex_value_hex_char)

lemma unquote_bytes_quote_char:
  assumes "CHR ''%'' \<notin> set safe"
  shows "unquote_bytes (quote_char safe c @ cs) = c # unquote_bytes cs"
proof (cases "always_safe c \<or> is_ascii c \<and> c \<in> set safe")
  case True
  have "\<not> always_safe (CHR ''%'')"
    by (simp add: always_safe_def is_alpha_def is_digit_def)
  with True assms have "c \<noteq> CHR ''%''" by auto
  with True show ?thesis by (simp add: quote_char_def unquote_bytes_plain)
next
  case False
  have "code_of c div 16 < 16" using code_of_lt [of c] by linarith
  then have "unquote_bytes (CHR ''%'' # hex_char (code_of c div 16) # hex_char (code_of c mod 16) # cs)
    = char_of (16 * (code_of c div 16) + code_of c mod 16) # unquote_bytes cs"
    by (intro unquote_bytes_hex) simp_all
  with False show ?thesis by (auto simp: quote_char_def simp del: unquote_bytes.simps)
qed

lemma unquote_bytes_quote:
  "CHR ''%'' \<notin> set safe \<Longrightarrow> unquote_bytes (quote safe s) = s"
proof (induction s)
  case (Cons c cs)
  have "quote safe (c # cs) = quote_char safe c @ quote safe cs" by (simp add: quote_def)
  with Cons show ?case by (simp add: unquote_bytes_quote_char)
qed (simp add: quote_def)

lemma unquote_bytes_no_percent: "CHR ''%'' \<notin> set s \<Longrightarrow> unquote_bytes s = s"
  by (induction s rule: unquote_bytes.induct) auto

lemma unquote_runs_ascii:
  "list_all is_ascii s \<Longrightarrow> unquote_runs s = utf8_replace (unquote_bytes s)"
proof (cases s)
  case (Cons c cs)
  assume a: "list_all is_ascii s"
  then have "takeWhile is_ascii cs = cs" "dropWhile is_ascii cs = []"
    by (simp_all add: Cons list_all_iff)
  moreover have "is_ascii c" using a by (simp add: Cons)
  ultimately show ?thesis unfolding Cons by (metis append_Nil2 unquote_runs.simps)
qed simp

lemma unquote_ascii:
  "list_all is_ascii s \<Longrightarrow> unquote s = utf8_replace (unquote_bytes s)"
  by (simp add: unquote_def unquote_runs_ascii unquote_bytes_no_percent utf8_replace_valid
      ascii_utf8_valid)

text \<open>Quoting and unquoting is the identity on text.\<close>

lemma unquote_quote:
  "utf8_valid s \<Longrightarrow> CHR ''%'' \<notin> set safe \<Longrightarrow> unquote (quote safe s) = s"
  by (simp add: unquote_ascii [OF quote_ascii] unquote_bytes_quote utf8_replace_valid)

lemma unquote_no_percent: "CHR ''%'' \<notin> set s \<Longrightarrow> unquote s = s"
  by (simp add: unquote_def)

lemma quote_chars: "x \<in> set (quote safe s) \<Longrightarrow> always_safe x \<or> x \<in> set safe \<or> x = CHR ''%''"
proof -
  assume "x \<in> set (quote safe s)"
  then obtain c where c: "x \<in> set (quote_char safe c)" by (auto simp: quote_def)
  have "d < 16 \<Longrightarrow> always_safe (hex_char d)" for d
    by (auto simp: always_safe_def is_alpha_def is_digit_def hex_char_def Let_def of_char_of)
  moreover have "code_of c div 16 < 16" using code_of_lt [of c] by linarith
  ultimately show ?thesis using c by (auto simp: quote_char_def split: if_splits)
qed

lemma quote_Nil_iff [simp]: "quote safe s = [] \<longleftrightarrow> s = []"
  by (cases s) (auto simp: quote_def quote_char_def)

section \<open>Splitting URLs\<close>

record split_url =
  su_scheme :: string
  su_netloc :: string
  su_path :: string
  su_query :: string
  su_fragment :: string

definition is_c0_or_space :: "char \<Rightarrow> bool" where
  "is_c0_or_space c \<longleftrightarrow> code_of c \<le> 32"

definition is_unsafe_url_char :: "char \<Rightarrow> bool" where
  "is_unsafe_url_char c \<longleftrightarrow> code_of c = 9 \<or> code_of c = 10 \<or> code_of c = 13"

definition is_scheme_char :: "char \<Rightarrow> bool" where
  "is_scheme_char c \<longleftrightarrow> is_alpha c \<or> is_digit c \<or> c \<in> set ''+-.''"

definition split_scheme :: "string \<Rightarrow> string \<times> string" where
  "split_scheme url =
     (let head = takeWhile (\<lambda>c. c \<noteq> CHR '':'') url; rest = dropWhile (\<lambda>c. c \<noteq> CHR '':'') url
      in if rest \<noteq> [] \<and> head \<noteq> [] \<and> is_alpha (hd head) \<and> list_all is_scheme_char head
         then (py_lower head, tl rest) else ([], url))"

definition split_netloc :: "string \<Rightarrow> string \<times> string" where
  "split_netloc url =
     (if prefix ''//'' url
      then (takeWhile (\<lambda>c. c \<notin> set ''/?#'') (drop 2 url), dropWhile (\<lambda>c. c \<notin> set ''/?#'') (drop 2 url))
      else ([], url))"

definition partition_char :: "char \<Rightarrow> string \<Rightarrow> string \<times> string" where
  "partition_char c s = (takeWhile (\<lambda>x. x \<noteq> c) s, tl (dropWhile (\<lambda>x. x \<noteq> c) s))"

text \<open>
  \<open>urlsplit(url)\<close>. A lone bracket raises; \<open>netloc_ok\<close> is the library's check of bracketed
  addresses and of host names under Unicode normalisation.
\<close>

definition urlsplit :: "(string \<Rightarrow> bool) \<Rightarrow> string \<Rightarrow> split_url result" where
  "urlsplit netloc_ok url =
     (let url = filter (\<lambda>c. \<not> is_unsafe_url_char c) (dropWhile is_c0_or_space url);
          (scheme, r1) = split_scheme url;
          (netloc, r2) = split_netloc r1;
          (r3, fragment) = partition_char (CHR ''#'') r2;
          (path, query) = partition_char (CHR ''?'') r3
      in if (CHR ''['' \<in> set netloc) \<noteq> (CHR '']'' \<in> set netloc)
         then Inl (err ValueError ''Invalid IPv6 URL'')
         else if \<not> netloc_ok netloc then Inl (err ValueError ''invalid netloc'')
         else Inr \<lparr>su_scheme = scheme, su_netloc = netloc, su_path = path, su_query = query,
                   su_fragment = fragment\<rparr>)"

text \<open>\<open>urlunsplit\<close> of a scheme, a non-empty authority and a path, without query and fragment.\<close>

definition urlunsplit :: "string \<Rightarrow> string \<Rightarrow> string \<Rightarrow> string" where
  "urlunsplit scheme netloc path =
     (let p = (if path \<noteq> [] \<and> hd path \<noteq> CHR ''/'' then CHR ''/'' # path else path)
      in (if scheme = [] then [] else scheme @ '':'') @ ''//'' @ netloc @ p)"

section \<open>Path normalisation\<close>

text \<open>The loop of \<open>posixpath.normpath\<close> over the components, the result in reverse.\<close>

fun norm_components :: "bool \<Rightarrow> string list \<Rightarrow> string list \<Rightarrow> string list" where
  "norm_components absolute acc [] = rev acc"
| "norm_components absolute acc (seg # comps) =
     (if seg = [] \<or> seg = ''.'' then norm_components absolute acc comps
      else if seg \<noteq> ''..'' \<or> (\<not> absolute \<and> acc = []) \<or> (acc \<noteq> [] \<and> hd acc = ''..'')
      then norm_components absolute (seg # acc) comps
      else norm_components absolute (tl acc) comps)"

definition normpath :: "string \<Rightarrow> string" where
  "normpath path =
     (if path = [] then ''.''
      else let absolute = prefix ''/'' path;
               slashes = (if \<not> absolute then []
                 else if prefix ''//'' path \<and> \<not> prefix ''///'' path then ''//'' else ''/'');
               joined = slashes @ join ''/'' (norm_components absolute [] (split_on (CHR ''/'') path))
           in if joined = [] then ''.'' else joined)"

definition clean_component :: "string \<Rightarrow> bool" where
  "clean_component s \<longleftrightarrow> s \<noteq> [] \<and> s \<noteq> ''.'' \<and> s \<noteq> ''..'' \<and> CHR ''/'' \<notin> set s"

lemma norm_components_clean:
  assumes "list_all clean_component acc" and "\<And>s. s \<in> set comps \<Longrightarrow> CHR ''/'' \<notin> set s"
  shows "list_all clean_component (norm_components True acc comps)"
  using assms
proof (induction comps arbitrary: acc)
  case Nil
  then show ?case by (simp add: list_all_iff)
next
  case (Cons seg comps)
  have "\<not> (acc \<noteq> [] \<and> hd acc = ''..'')"
    using Cons.prems(1) by (cases acc) (auto simp: clean_component_def)
  then show ?case
    using Cons by (cases acc) (auto simp: clean_component_def)
qed

text \<open>The normal form of an absolute path: a slash and clean components.\<close>

lemma normpath_absolute:
  assumes "s = [] \<or> hd s \<noteq> CHR ''/''"
  shows "\<exists>comps. normpath (CHR ''/'' # s) = CHR ''/'' # join ''/'' comps \<and> list_all clean_component comps"
proof -
  let ?comps = "norm_components True [] (split_on (CHR ''/'') (CHR ''/'' # s))"
  have "\<not> prefix ''//'' (CHR ''/'' # s)" using assms by (cases s) auto
  then have "normpath (CHR ''/'' # s) = CHR ''/'' # join ''/'' ?comps"
    by (simp add: normpath_def Let_def)
  moreover have "list_all clean_component ?comps"
    by (rule norm_components_clean) (auto dest: split_on_no_sep_in)
  ultimately show ?thesis by blast
qed

lemma norm_components_idem:
  "list_all clean_component comps \<Longrightarrow> norm_components True acc comps = rev acc @ comps"
  by (induction comps arbitrary: acc) (auto simp: clean_component_def)

lemma join_slash_hd:
  "list_all clean_component comps \<Longrightarrow> join ''/'' comps = [] \<or> hd (join ''/'' comps) \<noteq> CHR ''/''"
proof (induction "''/''" comps rule: join.induct)
  case (2 x)
  then show ?case by (cases x) (auto simp: clean_component_def)
next
  case (3 x y zs)
  then show ?case by (cases x) (auto simp: clean_component_def)
qed simp

lemma split_join_slash:
  assumes "list_all clean_component comps"
  shows "norm_components True [] (split_on (CHR ''/'') (join ''/'' comps)) = comps"
proof (cases "comps = []")
  case False
  then have "split_on (CHR ''/'') (join ''/'' comps) = comps"
    using assms by (intro split_on_join) (auto simp: list_all_iff clean_component_def)
  then show ?thesis using assms by (simp add: norm_components_idem)
qed simp

lemma normpath_clean:
  assumes "list_all clean_component comps"
  shows "normpath (CHR ''/'' # join ''/'' comps) = CHR ''/'' # join ''/'' comps"
proof -
  have "\<not> prefix ''//'' (CHR ''/'' # join ''/'' comps)"
    using join_slash_hd [OF assms] by (cases "join ''/'' comps") auto
  then show ?thesis using split_join_slash [OF assms] by (simp add: normpath_def Let_def)
qed


lemma utf8_valid_split_on:
  "utf8_valid s \<Longrightarrow> is_ascii c \<Longrightarrow> x \<in> set (split_on c s) \<Longrightarrow> utf8_valid x"
proof (induction s arbitrary: x rule: length_induct)
  case (1 s)
  show ?case
  proof (cases "c \<in> set s")
    case True
    then obtain a b where s: "s = a @ c # b" "c \<notin> set a" by (auto dest: split_list_first)
    have "utf8_valid a" "utf8_valid b" using utf8_valid_cut [of a c b] 1(2,3) s(1) by simp_all
    moreover have "x \<in> set (split_on c a) \<union> set (split_on c b)"
      using 1(4) by (simp add: s(1) split_on_append)
    ultimately show ?thesis
      using 1(1) [rule_format, of a x] 1(1) [rule_format, of b x] 1(3) s(1) by auto
  next
    case False
    then show ?thesis using 1(2,4) by (simp add: split_on_no_sep)
  qed
qed

lemma utf8_valid_join: "list_all utf8_valid xs \<Longrightarrow> utf8_valid sep \<Longrightarrow> utf8_valid (join sep xs)"
  by (induction sep xs rule: join.induct) (simp_all add: utf8_valid_append)

lemma norm_components_subset:
  "set (norm_components ab acc comps) \<subseteq> set acc \<union> set comps"
proof (induction ab acc comps rule: norm_components.induct)
  case (2 ab acc seg comps)
  have "set (tl acc) \<subseteq> set acc" by (cases acc) auto
  with 2 show ?case by (auto split: if_splits)
qed simp

lemma utf8_valid_normpath:
  assumes "utf8_valid s" shows "utf8_valid (normpath s)"
proof -
  have slash: "is_ascii (CHR ''/'')" by (simp add: is_ascii_def)
  then have "list_all utf8_valid (norm_components (prefix ''/'' s) [] (split_on (CHR ''/'') s))"
    using norm_components_subset [of "prefix ''/'' s" "[]" "split_on (CHR ''/'') s"]
      utf8_valid_split_on [OF assms] by (auto simp: list_all_iff)
  then have "utf8_valid (join ''/'' (norm_components (prefix ''/'' s) [] (split_on (CHR ''/'') s)))"
    by (rule utf8_valid_join) (simp add: ascii_tail slash)
  moreover have "utf8_valid ''.''" by (simp add: ascii_tail is_ascii_def)
  ultimately show ?thesis
    by (cases "prefix ''/'' s") (simp_all add: normpath_def Let_def ascii_tail slash)
qed


lemma split_on_subset: "x \<in> set (split_on c s) \<Longrightarrow> set x \<subseteq> set s"
proof (induction s arbitrary: x rule: length_induct)
  case (1 s)
  show ?case
  proof (cases "c \<in> set s")
    case True
    then obtain a b where s: "s = a @ c # b" by (auto dest: split_list_first)
    then have "x \<in> set (split_on c a) \<union> set (split_on c b)"
      using 1(2) by (simp add: split_on_append)
    then show ?thesis
      using 1(1) [rule_format, of a x] 1(1) [rule_format, of b x] s by auto
  next
    case False
    then show ?thesis using 1(2) by (simp add: split_on_no_sep)
  qed
qed

lemma set_join: "set (join sep xs) \<subseteq> set sep \<union> \<Union> (set ` set xs)"
  by (induction sep xs rule: join.induct) auto

lemma normpath_subset: "set (normpath s) \<subseteq> set s \<union> set ''./''"
proof -
  have "set (join ''/'' (norm_components ab [] (split_on (CHR ''/'') s))) \<subseteq> set s \<union> set ''/''" for ab
    using set_join [of "''/''" "norm_components ab [] (split_on (CHR ''/'') s)"]
      norm_components_subset [of ab "[]" "split_on (CHR ''/'') s"] split_on_subset [of _ "CHR ''/''" s]
    by fastforce
  then show ?thesis by (auto simp: normpath_def Let_def)
qed

section \<open>Splitting a canonical URL\<close>

lemma partition_char_absent: "c \<notin> set s \<Longrightarrow> partition_char c s = (s, [])"
  by (induction s) (auto simp: partition_char_def)

definition scheme_ok :: "string \<Rightarrow> bool" where
  "scheme_ok s \<longleftrightarrow> s \<noteq> [] \<and> is_alpha (hd s) \<and> list_all is_scheme_char s \<and> py_lower s = s"

definition plain_url_char :: "char \<Rightarrow> bool" where
  "plain_url_char c \<longleftrightarrow> \<not> is_unsafe_url_char c \<and> c \<noteq> CHR ''?'' \<and> c \<noteq> CHR ''#''"

text \<open>\<open>urlsplit\<close> undoes \<open>urlunsplit\<close> on a canonical scheme, authority and absolute path.\<close>

lemma urlsplit_urlunsplit:
  assumes sch: "scheme_ok sch"
    and loc: "list_all plain_url_char loc" "CHR ''/'' \<notin> set loc" "netloc_ok loc"
      "(CHR ''['' \<in> set loc) = (CHR '']'' \<in> set loc)"
    and path: "list_all plain_url_char path" "prefix ''/'' path"
  shows "urlsplit netloc_ok (urlunsplit sch loc path) =
     Inr \<lparr>su_scheme = sch, su_netloc = loc, su_path = path, su_query = [], su_fragment = []\<rparr>"
proof -
  obtain c cs where c: "sch = c # cs" "is_alpha c" using sch by (cases sch) (auto simp: scheme_ok_def)
  obtain r where r: "path = CHR ''/'' # r" using path(2) by (cases path) auto
  have colon: "\<not> is_scheme_char (CHR '':'')" by (simp add: is_scheme_char_def is_alpha_def is_digit_def)
  then have nc: "\<forall>x\<in>set sch. x \<noteq> CHR '':''" using sch by (auto simp: scheme_ok_def list_all_iff)
  have ok: "\<not> is_unsafe_url_char x" if "is_scheme_char x" for x
    using that by (auto simp: is_scheme_char_def is_alpha_def is_digit_def is_unsafe_url_char_def Let_def)
  have c0: "\<not> is_c0_or_space c" using c(2) by (auto simp: is_alpha_def is_c0_or_space_def Let_def)
  let ?url = "sch @ '':'' @ ''//'' @ loc @ path"
  have url: "urlunsplit sch loc path = ?url" using sch r by (simp add: urlunsplit_def scheme_ok_def)
  have "\<forall>x\<in>set sch. \<not> is_unsafe_url_char x" using sch ok by (auto simp: scheme_ok_def list_all_iff)
  then have filt: "filter (\<lambda>c. \<not> is_unsafe_url_char c) (dropWhile is_c0_or_space ?url) = ?url"
    using c0 c(1) loc(1) path(1)
    by (subst dropWhile_eq_self_iff [THEN iffD2])
       (auto simp: list_all_iff plain_url_char_def filter_id_conv is_unsafe_url_char_def)
  have s1: "split_scheme ?url = (sch, ''//'' @ loc @ path)"
    using sch nc by (simp add: split_scheme_def scheme_ok_def takeWhile_append dropWhile_append)
  have nl: "\<forall>x\<in>set loc. x \<notin> set ''/?#''"
    using loc(1,2) by (auto simp: list_all_iff plain_url_char_def)
  have s2: "split_netloc (''//'' @ loc @ path) = (loc, path)"
    using nl by (simp add: split_netloc_def takeWhile_append dropWhile_append r)
  have "\<forall>x\<in>set path. x \<noteq> CHR ''#'' \<and> x \<noteq> CHR ''?''"
    using path(1) by (auto simp: list_all_iff plain_url_char_def)
  then have s3: "partition_char (CHR ''#'') path = (path, [])" "partition_char (CHR ''?'') path = (path, [])"
    by (auto intro!: partition_char_absent)
  show ?thesis
    unfolding url urlsplit_def filt using loc(3,4) by (simp add: s1 s2 s3 del: append_Cons)
qed

lemma lower_char_idem: "lower_char (lower_char c) = lower_char c"
  by (auto simp: lower_char_def Let_def of_char_of)

lemma split_scheme_parts:
  assumes "split_scheme u = (sch, rest)"
  shows "sch = [] \<or> scheme_ok sch" and "set rest \<subseteq> set u"
proof -
  have alpha: "is_alpha c \<Longrightarrow> is_alpha (lower_char c)" for c
    by (auto simp: is_alpha_def lower_char_def Let_def of_char_of)
  then have "is_scheme_char c \<Longrightarrow> is_scheme_char (lower_char c)" for c
    by (cases "is_alpha c") (auto simp: is_scheme_char_def is_digit_def lower_char_def Let_def)
  with alpha show "sch = [] \<or> scheme_ok sch"
    using assms by (auto simp: split_scheme_def Let_def scheme_ok_def py_lower_def list_all_iff
        hd_map lower_char_idem split: if_splits)
  have "set (tl xs) \<subseteq> set xs" for xs :: string by (cases xs) auto
  then show "set rest \<subseteq> set u"
    using assms by (auto simp: split_scheme_def Let_def split: if_splits dest!: set_dropWhileD)
qed

lemma split_netloc_parts:
  assumes "split_netloc u = (loc, rest)" and "list_all (\<lambda>c. \<not> is_unsafe_url_char c) u"
  shows "list_all plain_url_char loc \<and> CHR ''/'' \<notin> set loc" and "set rest \<subseteq> set u"
proof -
  have "set loc \<subseteq> set u" "set rest \<subseteq> set u" and "\<forall>x\<in>set loc. x \<notin> set ''/?#''"
    using assms(1) by (auto simp: split_netloc_def split: if_splits
      dest: set_takeWhileD set_dropWhileD in_set_dropD)
  then show "list_all plain_url_char loc \<and> CHR ''/'' \<notin> set loc" and "set rest \<subseteq> set u"
    using assms(2) by (auto simp: list_all_iff plain_url_char_def)
qed

lemma urlsplit_parts:
  assumes "urlsplit netloc_ok url = Inr parsed"
  shows "su_scheme parsed = [] \<or> scheme_ok (su_scheme parsed)"
    and "list_all plain_url_char (su_netloc parsed) \<and> CHR ''/'' \<notin> set (su_netloc parsed) \<and>
      netloc_ok (su_netloc parsed) \<and> (CHR ''['' \<in> set (su_netloc parsed)) = (CHR '']'' \<in> set (su_netloc parsed))"
    and "set (su_path parsed) \<subseteq> set url"
proof -
  let ?u = "filter (\<lambda>c. \<not> is_unsafe_url_char c) (dropWhile is_c0_or_space url)"
  obtain sch r1 loc r2 where s: "split_scheme ?u = (sch, r1)" "split_netloc r1 = (loc, r2)"
    by fastforce
  note p1 = split_scheme_parts [OF s(1)]
  have "list_all (\<lambda>c. \<not> is_unsafe_url_char c) r1" using p1(2) by (auto simp: list_all_iff)
  note p2 = split_netloc_parts [OF s(2) this]
  have "set r2 \<subseteq> set url" using p1(2) p2(2) by (auto dest: set_dropWhileD)
  then have "set (fst (partition_char (CHR ''?'') (fst (partition_char (CHR ''#'') r2)))) \<subseteq> set url"
    by (auto simp: partition_char_def dest!: set_takeWhileD)
  with assms s p1(1) p2(1) show "su_scheme parsed = [] \<or> scheme_ok (su_scheme parsed)"
    and "list_all plain_url_char (su_netloc parsed) \<and> CHR ''/'' \<notin> set (su_netloc parsed) \<and>
      netloc_ok (su_netloc parsed) \<and> (CHR ''['' \<in> set (su_netloc parsed)) = (CHR '']'' \<in> set (su_netloc parsed))"
    and "set (su_path parsed) \<subseteq> set url"
    by (auto simp: urlsplit_def Let_def split: prod.splits if_splits)
qed

end
