(* ===== verification/Base64.thy ===== *)
theory Base64
  imports Prelude
begin

text \<open>
  \<open>base64.b64encode\<close> and \<open>base64.b64decode(..., validate=True)\<close> on byte strings, which carry
  Arrow schemas in JSON (\<open>transport/models.py\<close>). Decoding gives \<open>None\<close> where Python raises
  \<open>binascii.Error\<close>, a \<open>ValueError\<close>.
\<close>

definition b64_char :: "nat \<Rightarrow> char" where
  "b64_char v =
     (if v < 26 then char_of (65 + v) else if v < 52 then char_of (71 + v)
      else if v < 62 then char_of (v - 4) else if v = 62 then CHR ''+'' else CHR ''/'')"

definition b64_value :: "char \<Rightarrow> nat option" where
  "b64_value c =
     (let n = code_of c
      in if 65 \<le> n \<and> n \<le> 90 then Some (n - 65) else if 97 \<le> n \<and> n \<le> 122 then Some (n - 71)
         else if 48 \<le> n \<and> n \<le> 57 then Some (n + 4) else if n = 43 then Some 62
         else if n = 47 then Some 63 else None)"

fun b64encode :: "string \<Rightarrow> string" where
  "b64encode [] = []"
| "b64encode [a] =
     [b64_char (code_of a div 4), b64_char (code_of a mod 4 * 16), CHR ''='', CHR ''='']"
| "b64encode [a, b] =
     [b64_char (code_of a div 4), b64_char (code_of a mod 4 * 16 + code_of b div 16),
      b64_char (code_of b mod 16 * 4), CHR ''='']"
| "b64encode (a # b # c # rest) =
     b64_char (code_of a div 4) # b64_char (code_of a mod 4 * 16 + code_of b div 16)
     # b64_char (code_of b mod 16 * 4 + code_of c div 64) # b64_char (code_of c mod 64)
     # b64encode rest"

definition b64_quad :: "char \<Rightarrow> char \<Rightarrow> char \<Rightarrow> char \<Rightarrow> string option" where
  "b64_quad p q r s =
     (case (b64_value p, b64_value q, b64_value r, b64_value s) of
        (Some w, Some x, Some y, Some z) \<Rightarrow>
          Some [char_of (w * 4 + x div 16), char_of (x mod 16 * 16 + y div 4),
                char_of (y mod 4 * 64 + z)]
      | _ \<Rightarrow> None)"

definition b64_last :: "char \<Rightarrow> char \<Rightarrow> char \<Rightarrow> char \<Rightarrow> string option" where
  "b64_last p q r s =
     (if s \<noteq> CHR ''='' then b64_quad p q r s
      else if r = CHR ''=''
      then (case (b64_value p, b64_value q) of
              (Some w, Some x) \<Rightarrow> Some [char_of (w * 4 + x div 16)] | _ \<Rightarrow> None)
      else (case (b64_value p, b64_value q, b64_value r) of
              (Some w, Some x, Some y) \<Rightarrow>
                Some [char_of (w * 4 + x div 16), char_of (x mod 16 * 16 + y div 4)]
            | _ \<Rightarrow> None))"

fun b64decode :: "string \<Rightarrow> string option" where
  "b64decode [] = Some []"
| "b64decode [p, q, r, s] = b64_last p q r s"
| "b64decode (p # q # r # s # t # rest) =
     (case (b64_quad p q r s, b64decode (t # rest)) of
        (Some xs, Some ys) \<Rightarrow> Some (xs @ ys) | _ \<Rightarrow> None)"
| "b64decode _ = None"

lemma b64_value_char: "v < 64 \<Longrightarrow> b64_value (b64_char v) = Some v"
  by (auto simp: b64_char_def b64_value_def Let_def of_char_of)

lemma b64_char_not_pad: "v < 64 \<Longrightarrow> b64_char v \<noteq> CHR ''=''"
  using b64_value_char [of v] by (auto simp: b64_value_def)

lemma byte_parts:
  "code_of a div 4 < 64" "code_of a mod 4 * 16 < 64" "code_of a mod 4 * 16 + code_of b div 16 < 64"
  "code_of b mod 16 * 4 < 64" "code_of b mod 16 * 4 + code_of c div 64 < 64" "code_of c mod 64 < 64"
  using code_of_lt [of a] code_of_lt [of b]
    code_of_lt [of c]
  by linarith+

lemma b64_first: "char_of (code_of a div 4 * 4 + (code_of a mod 4 * 16 + y) div 16) = a"
  if "y < 16" for y
proof -
  have "(code_of a mod 4 * 16 + y) div 16 = code_of a mod 4" using that by simp
  then show ?thesis by simp
qed

lemma b64_second:
  assumes "z < 4"
  shows "char_of ((x * 16 + code_of b div 16) mod 16 * 16 + (code_of b mod 16 * 4 + z) div 4) = b"
proof -
  have "code_of b div 16 < 16" using code_of_lt [of b] by linarith
  then have "(x * 16 + code_of b div 16) mod 16 = code_of b div 16" by simp
  moreover have "(code_of b mod 16 * 4 + z) div 4 = code_of b mod 16" using assms by simp
  ultimately show ?thesis by simp
qed

lemma b64_third: "char_of ((x * 4 + code_of c div 64) mod 4 * 64 + code_of c mod 64) = c"
proof -
  have "code_of c div 64 < 4" using code_of_lt [of c] by linarith
  then show ?thesis by simp
qed

lemma b64_quad_encode:
  "b64_quad (b64_char (code_of a div 4)) (b64_char (code_of a mod 4 * 16 + code_of b div 16))
     (b64_char (code_of b mod 16 * 4 + code_of c div 64)) (b64_char (code_of c mod 64)) = Some [a, b, c]"
proof -
  have "code_of b div 16 < 16" "code_of c div 64 < 4"
    using code_of_lt [of b] code_of_lt [of c]
    by linarith+
  then show ?thesis
    by (simp add: b64_quad_def b64_value_char byte_parts b64_first b64_second b64_third)
qed

lemma b64encode_shape:
  "xs \<noteq> [] \<Longrightarrow> \<exists>p q r s rest. b64encode xs = p # q # r # s # rest"
  by (cases xs rule: b64encode.cases) auto

lemma b64decode_encode: "b64decode (b64encode xs) = Some xs"
proof (induction xs rule: b64encode.induct)
  case (2 a)
  show ?case
    using b64_first [of 0 a] by (simp add: b64_last_def b64_value_char byte_parts)
next
  case (3 a b)
  have "code_of b div 16 < 16" using code_of_lt [of b] by linarith
  then show ?case
    using b64_second [of 0 "code_of a mod 4" b]
    by (simp add: b64_last_def b64_value_char byte_parts b64_first b64_char_not_pad)
next
  case (4 a b c rest)
  show ?case
  proof (cases "rest = []")
    case True
    then show ?thesis by (simp add: b64_last_def b64_char_not_pad byte_parts b64_quad_encode)
  next
    case False
    then obtain p ps where "b64encode rest = p # ps" using b64encode_shape by blast
    with 4 show ?thesis by (simp add: b64_quad_encode)
  qed
qed simp

lemma b64encode_Nil_iff [simp]: "b64encode xs = [] \<longleftrightarrow> xs = []"
  by (cases xs rule: b64encode.cases) auto

end
