(* ===== verification/Wire.thy ===== *)
theory Wire
  imports Portable Url Base64
begin

text \<open>
  The JSON wire format of \<open>transport/models.py\<close>: every \<open>*_to_json\<close> and \<open>*_from_json\<close> function,
  the field validators they share, and the table identifier as a URL path. The Arrow library is
  a parameter (\<open>arrow_api\<close>). The locale \<open>wire_codec\<close> states what the HTTP client and server rely
  on: decoding inverts encoding on well-formed values, and decoding yields well-formed values.
\<close>

section \<open>Field validators\<close>

definition models_object :: "string \<Rightarrow> json \<Rightarrow> jobject result" where
  "models_object nm v =
     (case v of JObj kvs \<Rightarrow> Inr kvs | _ \<Rightarrow> Inl (err ValueError (nm @ '' must be a JSON object'')))"

definition reject_unknown :: "string \<Rightarrow> string list \<Rightarrow> jobject \<Rightarrow> unit result" where
  "reject_unknown nm flds body =
     (case sort (remdups (filter (\<lambda>k. k \<notin> set flds) (jkeys body))) of
        [] \<Rightarrow> Inr ()
      | k # _ \<Rightarrow> Inl (err ValueError (nm @ '' contains unknown field: '' @ k)))"

definition require_fields :: "string \<Rightarrow> string list \<Rightarrow> jobject \<Rightarrow> unit result" where
  "require_fields nm flds body =
     (case sort (remdups (filter (\<lambda>k. k \<notin> set (jkeys body)) flds)) of
        [] \<Rightarrow> Inr ()
      | k # _ \<Rightarrow> Inl (err ValueError (nm @ '' is missing required field: '' @ k)))"

definition models_string :: "string \<Rightarrow> json \<Rightarrow> string result" where
  "models_string nm v =
     (case v of
        JStr s \<Rightarrow> if s = [] then Inl (err ValueError (nm @ '' must be a non-empty string'')) else Inr s
      | _ \<Rightarrow> Inl (err ValueError (nm @ '' must be a non-empty string'')))"

definition optional_string :: "string \<Rightarrow> json \<Rightarrow> string option result" where
  "optional_string nm v =
     (if v = JNull then Inr None else rbind (models_string nm v) (\<lambda>s. Inr (Some s)))"

definition positive_integer :: "string \<Rightarrow> json \<Rightarrow> int result" where
  "positive_integer nm v =
     (case v of
        JInt n \<Rightarrow> if n \<le> 0 then Inl (err ValueError (nm @ '' must be a positive integer'')) else Inr n
      | _ \<Rightarrow> Inl (err ValueError (nm @ '' must be a positive integer'')))"

definition non_negative_integer :: "string \<Rightarrow> json \<Rightarrow> int result" where
  "non_negative_integer nm v =
     (case v of
        JInt n \<Rightarrow>
          if n < 0 then Inl (err ValueError (nm @ '' must be a non-negative integer'')) else Inr n
      | _ \<Rightarrow> Inl (err ValueError (nm @ '' must be a non-negative integer'')))"

definition optional_positive_integer :: "string \<Rightarrow> json \<Rightarrow> int option result" where
  "optional_positive_integer nm v =
     (if v = JNull then Inr None else rbind (positive_integer nm v) (\<lambda>n. Inr (Some n)))"

definition optional_non_negative_integer :: "string \<Rightarrow> json \<Rightarrow> int option result" where
  "optional_non_negative_integer nm v =
     (if v = JNull then Inr None else rbind (non_negative_integer nm v) (\<lambda>n. Inr (Some n)))"

definition optional_number :: "string \<Rightarrow> json \<Rightarrow> pyfloat option result" where
  "optional_number nm v =
     (let bad = err ValueError (nm @ '' must be a finite number or null'')
      in case v of
           JNull \<Rightarrow> Inr None
         | JInt i \<Rightarrow> rbind (float_of_int i) (\<lambda>x. if isfinite x then Inr (Some x) else Inl bad)
         | JFloat x \<Rightarrow> if isfinite x then Inr (Some x) else Inl bad
         | _ \<Rightarrow> Inl bad)"

definition models_boolean :: "string \<Rightarrow> json \<Rightarrow> bool result" where
  "models_boolean nm v =
     (case v of JBool b \<Rightarrow> Inr b | _ \<Rightarrow> Inl (err ValueError (nm @ '' must be a boolean'')))"

definition sort_order_error :: exc where
  "sort_order_error = err ValueError ''file_sort_order must be an array of field-name arrays''"

definition portable_sort_order :: "json \<Rightarrow> string list list result" where
  "portable_sort_order v =
     (case v of
        JNull \<Rightarrow> Inr []
      | JArr orders \<Rightarrow>
          traverse (\<lambda>order. case order of
              JArr keys \<Rightarrow> traverse (models_string ''sort field'') keys
            | _ \<Rightarrow> Inl sort_order_error) orders
      | _ \<Rightarrow> Inl sort_order_error)"

lemma models_object_simps [simp]: "models_object nm (JObj kvs) = Inr kvs"
  by (simp add: models_object_def)

lemma models_object_Inr: "models_object nm v = Inr kvs \<longleftrightarrow> v = JObj kvs"
  by (auto simp: models_object_def split: json.splits)

lemma sort_remdups_Nil: "sort (remdups xs) = [] \<longleftrightarrow> xs = []"
  by (metis remdups_eq_nil_iff set_empty set_sort)

lemma reject_unknown_Inr: "reject_unknown nm flds body = Inr () \<longleftrightarrow> set (jkeys body) \<subseteq> set flds"
proof -
  have "reject_unknown nm flds body = Inr () \<longleftrightarrow> filter (\<lambda>k. k \<notin> set flds) (jkeys body) = []"
    by (subst sort_remdups_Nil [symmetric]) (simp add: reject_unknown_def split: list.splits)
  then show ?thesis by (auto simp: filter_empty_conv)
qed

lemma require_fields_Inr: "require_fields nm flds body = Inr () \<longleftrightarrow> set flds \<subseteq> set (jkeys body)"
proof -
  have "require_fields nm flds body = Inr () \<longleftrightarrow> filter (\<lambda>k. k \<notin> set (jkeys body)) flds = []"
    by (subst sort_remdups_Nil [symmetric]) (simp add: require_fields_def split: list.splits)
  then show ?thesis by (auto simp: filter_empty_conv)
qed

lemma reject_unknown_ok [simp]:
  "set (jkeys body) \<subseteq> set flds \<Longrightarrow> reject_unknown nm flds body = Inr ()"
  by (simp add: reject_unknown_Inr)

lemma require_fields_ok [simp]:
  "set flds \<subseteq> set (jkeys body) \<Longrightarrow> require_fields nm flds body = Inr ()"
  by (simp add: require_fields_Inr)

lemma models_string_Inr [simp]: "models_string nm v = Inr s \<longleftrightarrow> v = JStr s \<and> s \<noteq> []"
  by (auto simp: models_string_def split: json.splits)

lemma optional_string_Inr [simp]:
  "optional_string nm v = Inr x \<longleftrightarrow> v = opt_json JStr x \<and> nonempty_opt x"
  by (cases x) (auto simp: optional_string_def nonempty_opt_def)

lemma positive_integer_Inr [simp]: "positive_integer nm v = Inr n \<longleftrightarrow> v = JInt n \<and> 0 < n"
  by (auto simp: positive_integer_def split: json.splits)

lemma non_negative_integer_Inr [simp]: "non_negative_integer nm v = Inr n \<longleftrightarrow> v = JInt n \<and> 0 \<le> n"
  by (auto simp: non_negative_integer_def split: json.splits)

lemma optional_positive_integer_Inr [simp]:
  "optional_positive_integer nm v = Inr x \<longleftrightarrow> v = opt_json JInt x \<and> positive_opt x"
  by (cases x) (auto simp: optional_positive_integer_def)

definition non_negative_opt :: "int option \<Rightarrow> bool" where
  "non_negative_opt x \<longleftrightarrow> (case x of None \<Rightarrow> True | Some n \<Rightarrow> 0 \<le> n)"

lemma optional_non_negative_integer_Inr [simp]:
  "optional_non_negative_integer nm v = Inr x \<longleftrightarrow> v = opt_json JInt x \<and> non_negative_opt x"
  by (cases x) (auto simp: optional_non_negative_integer_def non_negative_opt_def)

definition finite_opt :: "pyfloat option \<Rightarrow> bool" where
  "finite_opt x \<longleftrightarrow> (case x of None \<Rightarrow> True | Some f \<Rightarrow> isfinite f)"

lemma optional_number_float: "finite_opt x \<Longrightarrow> optional_number nm (opt_json JFloat x) = Inr x"
  by (cases x) (simp_all add: optional_number_def finite_opt_def)

lemma optional_number_finite: "optional_number nm v = Inr x \<Longrightarrow> finite_opt x"
  by (auto simp: optional_number_def finite_opt_def Let_def split: json.splits if_splits)

lemma models_boolean_Inr [simp]: "models_boolean nm v = Inr b \<longleftrightarrow> v = JBool b"
  by (auto simp: models_boolean_def split: json.splits)

lemma traverse_strings:
  "traverse (models_string nm) (map JStr xs) = Inr xs \<longleftrightarrow> list_all (\<lambda>s. s \<noteq> []) xs"
  by (induction xs) auto

lemma traverse_strings_Inr:
  "traverse (models_string nm) vs = Inr xs \<longleftrightarrow> vs = map JStr xs \<and> list_all (\<lambda>s. s \<noteq> []) xs"
proof (induction vs arbitrary: xs)
  case (Cons v vs)
  then show ?case by (cases xs) auto
qed auto

section \<open>Codecs\<close>

definition identifier_to_json :: "table_identifier \<Rightarrow> json" where
  "identifier_to_json t =
     JObj [(''catalog'', JStr (ti_catalog t)), (''namespace'', JArr (map JStr (ti_namespace t))),
           (''name'', JStr (ti_name t))]"

definition identifier_from_json :: "json \<Rightarrow> table_identifier result" where
  "identifier_from_json v =
     rbind (models_object ''table identifier'' v) (\<lambda>body.
     rbind (reject_unknown ''table identifier'' [''catalog'', ''namespace'', ''name''] body) (\<lambda>_.
     rbind (models_string ''catalog'' (jget body ''catalog'')) (\<lambda>c.
     rbind (models_string ''name'' (jget body ''name'')) (\<lambda>n.
     (case jget body ''namespace'' of
        JArr segments \<Rightarrow>
          rbind (traverse (models_string ''namespace segment'') segments) (\<lambda>ns.
          new_table_identifier c ns n)
      | _ \<Rightarrow> Inl (err ValueError ''namespace must be an array of strings''))))))"

definition vector_query_fields :: "string list" where
  "vector_query_fields = [''source'', ''query'', ''column'', ''index'', ''projection'',
     ''result_limit'', ''probe_count'', ''predicate'', ''bypass_index'']"

definition vector_query_to_json :: "vector_query \<Rightarrow> json" where
  "vector_query_to_json q =
     JObj [(''source'', identifier_to_json (vq_source q)),
           (''query'', JArr (map JFloat (vq_query q))),
           (''column'', opt_json JStr (vq_column q)),
           (''index'', opt_json JStr (vq_index q)),
           (''projection'', opt_json (\<lambda>p. JArr (map JStr p)) (vq_projection q)),
           (''result_limit'', JInt (vq_result_limit q)),
           (''probe_count'', opt_json JInt (vq_probe_count q)),
           (''predicate'', opt_json JStr (vq_predicate q)),
           (''bypass_index'', JBool (vq_bypass_index q))]"

definition query_vector_error :: exc where
  "query_vector_error = err ValueError ''query must be a non-empty array of finite numbers''"

definition query_number :: "json \<Rightarrow> pyfloat result" where
  "query_number item =
     (case item of
        JInt i \<Rightarrow> rbind (float_of_int i) (\<lambda>x. if isfinite x then Inr x else Inl query_vector_error)
      | JFloat x \<Rightarrow> if isfinite x then Inr x else Inl query_vector_error
      | _ \<Rightarrow> Inl query_vector_error)"

definition query_vector :: "json \<Rightarrow> pyfloat list result" where
  "query_vector v =
     (case v of
        JArr items \<Rightarrow> if items = [] then Inl query_vector_error else traverse query_number items
      | _ \<Rightarrow> Inl query_vector_error)"

definition query_projection :: "json \<Rightarrow> string list option result" where
  "query_projection v =
     (case v of
        JNull \<Rightarrow> Inr None
      | JArr items \<Rightarrow> rbind (traverse (models_string ''projection field'') items) (\<lambda>p. Inr (Some p))
      | _ \<Rightarrow> Inl (err ValueError ''projection must be an array of strings or null''))"

definition vector_query_from_json :: "json \<Rightarrow> vector_query result" where
  "vector_query_from_json v =
     rbind (models_object ''vector query'' v) (\<lambda>body.
     rbind (reject_unknown ''vector query'' vector_query_fields body) (\<lambda>_.
     rbind (query_vector (jget body ''query'')) (\<lambda>vector.
     rbind (query_projection (jget body ''projection'')) (\<lambda>projection.
     rbind (positive_integer ''result_limit'' (jget_or body ''result_limit'' (JInt 10))) (\<lambda>limit.
     rbind (optional_positive_integer ''probe_count'' (jget body ''probe_count'')) (\<lambda>probes.
     rbind (models_boolean ''bypass_index'' (jget_or body ''bypass_index'' (JBool False))) (\<lambda>bypass.
     rbind (identifier_from_json (jget body ''source'')) (\<lambda>source.
     rbind (optional_string ''column'' (jget body ''column'')) (\<lambda>column.
     rbind (optional_string ''index'' (jget body ''index'')) (\<lambda>index.
     rbind (optional_string ''predicate'' (jget body ''predicate'')) (\<lambda>predicate.
     Inr \<lparr>vq_source = source, vq_query = vector, vq_column = column, vq_index = index,
          vq_projection = projection, vq_result_limit = limit, vq_probe_count = probes,
          vq_predicate = predicate, vq_bypass_index = bypass\<rparr>)))))))))))"

definition ivf_to_json :: "ivf \<Rightarrow> json" where
  "ivf_to_json c =
     JObj [(''type'', JStr ''ivf''), (''nlist'', JInt (ivf_nlist c)),
           (''encoding'', JStr (ivf_encoding c)), (''metric'', JStr (ivf_metric c))]"

definition ivf_fields :: "string list" where
  "ivf_fields = [''type'', ''nlist'', ''encoding'', ''metric'']"

definition ivf_from_json :: "json \<Rightarrow> ivf result" where
  "ivf_from_json v =
     rbind (models_object ''index configuration'' v) (\<lambda>body.
     rbind (reject_unknown ''index configuration'' ivf_fields body) (\<lambda>_.
     rbind (require_fields ''index configuration'' ivf_fields body) (\<lambda>_.
     rbind (raise_if (jget body ''type'' \<noteq> JStr ''ivf'')
             (err ValueError (''index configuration type must be '' @ in_quotes ''ivf''))) (\<lambda>_.
     rbind (positive_integer ''nlist'' (jget body ''nlist'')) (\<lambda>nlist.
     rbind (models_string ''encoding'' (jget body ''encoding'')) (\<lambda>encoding.
     rbind (models_string ''metric'' (jget body ''metric'')) (\<lambda>metric.
     new_ivf (JInt nlist) (JStr encoding) (JStr metric))))))))"

definition writer_options_fields :: "string list" where
  "writer_options_fields = [''partitions'', ''compression'', ''target_file_size'',
     ''max_row_group_rows'', ''write_batch_rows'']"

definition writer_options_to_json :: "write_options option \<Rightarrow> json" where
  "writer_options_to_json options =
     (case options of
        None \<Rightarrow> JNull
      | Some w \<Rightarrow>
          JObj [(''partitions'', opt_json JInt (wo_partitions w)),
                (''compression'', JStr (wo_compression w)),
                (''target_file_size'', JInt (wo_target_file_size w)),
                (''max_row_group_rows'', opt_json JInt (wo_max_row_group_rows w)),
                (''write_batch_rows'', JInt (wo_write_batch_rows w))])"

definition writer_options_from_json :: "json \<Rightarrow> write_options option result" where
  "writer_options_from_json v =
     (if v = JNull then Inr None
      else rbind (models_object ''writer options'' v) (\<lambda>body.
     rbind (reject_unknown ''writer options'' writer_options_fields body) (\<lambda>_.
     rbind (require_fields ''writer options'' writer_options_fields body) (\<lambda>_.
     rbind (optional_positive_integer ''partitions'' (jget body ''partitions'')) (\<lambda>partitions.
     rbind (optional_positive_integer ''max_row_group_rows'' (jget body ''max_row_group_rows''))
       (\<lambda>rowgroup.
     rbind (models_string ''compression'' (jget body ''compression'')) (\<lambda>compression.
     rbind (positive_integer ''target_file_size'' (jget body ''target_file_size'')) (\<lambda>target.
     rbind (positive_integer ''write_batch_rows'' (jget body ''write_batch_rows'')) (\<lambda>batch.
     rbind (new_write_options (opt_json JInt partitions) (JStr compression) (JInt target)
              (opt_json JInt rowgroup) (JInt batch)) (\<lambda>w.
     Inr (Some w)))))))))))"

definition index_status_fields :: "string list" where
  "index_status_fields = [''state'', ''progress'', ''phase'', ''completed'', ''total'',
     ''current_snapshot_id'', ''error'', ''error_code'']"

definition index_status_to_json :: "index_status \<Rightarrow> json" where
  "index_status_to_json st =
     JObj [(''state'', JStr (state_name (is_state st))),
           (''progress'', opt_json JFloat (is_progress st)),
           (''phase'', opt_json JStr (is_phase st)),
           (''completed'', opt_json JInt (is_completed st)),
           (''total'', opt_json JInt (is_total st)),
           (''current_snapshot_id'', opt_json JInt (is_current_snapshot_id st)),
           (''error'', opt_json JStr (is_error st)),
           (''error_code'', opt_json JStr (is_error_code st))]"

text \<open>\<open>state not in {...}\<close> hashes its left operand, so a list or an object raises \<open>TypeError\<close>.\<close>

definition status_state :: "json \<Rightarrow> index_state result" where
  "status_state v =
     (case v of
        JStr s \<Rightarrow> (case state_of_name s of
                     None \<Rightarrow> Inl (err ValueError ''index status contains an invalid state'')
                   | Some st \<Rightarrow> Inr st)
      | JArr _ \<Rightarrow> Inl (err TypeError (''unhashable type: '' @ in_quotes ''list''))
      | JObj _ \<Rightarrow> Inl (err TypeError (''unhashable type: '' @ in_quotes ''dict''))
      | _ \<Rightarrow> Inl (err ValueError ''index status contains an invalid state''))"

definition index_status_from_json :: "json \<Rightarrow> index_status result" where
  "index_status_from_json v =
     rbind (models_object ''index status'' v) (\<lambda>body.
     rbind (reject_unknown ''index status'' index_status_fields body) (\<lambda>_.
     rbind (require_fields ''index status'' index_status_fields body) (\<lambda>_.
     rbind (status_state (jget body ''state'')) (\<lambda>state.
     rbind (optional_string ''error'' (jget body ''error'')) (\<lambda>error.
     rbind (optional_string ''error_code'' (jget body ''error_code'')) (\<lambda>error_code.
     rbind (raise_if ((error = None) \<noteq> (error_code = None))
             (err ValueError ''index status error and error_code must both be null or set'')) (\<lambda>_.
     rbind (optional_number ''progress'' (jget body ''progress'')) (\<lambda>progress.
     rbind (optional_string ''phase'' (jget body ''phase'')) (\<lambda>phase.
     rbind (optional_non_negative_integer ''completed'' (jget body ''completed'')) (\<lambda>completed.
     rbind (optional_non_negative_integer ''total'' (jget body ''total'')) (\<lambda>total.
     rbind (optional_non_negative_integer ''current_snapshot_id'' (jget body ''current_snapshot_id''))
       (\<lambda>snapshot.
     Inr \<lparr>is_state = state, is_progress = progress, is_phase = phase, is_completed = completed,
          is_total = total, is_current_snapshot_id = snapshot, is_error = error,
          is_error_code = error_code\<rparr>))))))))))))"

definition index_info_fields :: "string list" where
  "index_info_fields = [''name'', ''column'', ''family'', ''metric'', ''parameters'',
     ''current_snapshot_id'']"

definition index_info_to_json :: "index_info \<Rightarrow> json" where
  "index_info_to_json i =
     JObj [(''name'', JStr (ii_name i)), (''column'', JStr (ii_column i)),
           (''family'', JStr (ii_family i)), (''metric'', JStr (ii_metric i)),
           (''parameters'', JObj (map (\<lambda>(k, x). (k, JStr x)) (ii_parameters i))),
           (''current_snapshot_id'', JInt (ii_current_snapshot_id i))]"

definition index_parameter :: "string \<times> json \<Rightarrow> (string \<times> string) result" where
  "index_parameter kv =
     rbind (models_string ''index parameter name'' (JStr (fst kv))) (\<lambda>k.
     rbind (models_string ''index parameter value'' (snd kv)) (\<lambda>x. Inr (k, x)))"

definition index_info_from_json :: "json \<Rightarrow> index_info result" where
  "index_info_from_json v =
     rbind (models_object ''index metadata'' v) (\<lambda>body.
     rbind (reject_unknown ''index metadata'' index_info_fields body) (\<lambda>_.
     rbind (require_fields ''index metadata'' index_info_fields body) (\<lambda>_.
     rbind (models_object ''index parameters'' (jget body ''parameters'')) (\<lambda>raw.
     rbind (traverse index_parameter raw) (\<lambda>parameters.
     rbind (models_string ''index name'' (jget body ''name'')) (\<lambda>nm.
     rbind (models_string ''index column'' (jget body ''column'')) (\<lambda>column.
     rbind (models_string ''index family'' (jget body ''family'')) (\<lambda>family.
     rbind (models_string ''index metric'' (jget body ''metric'')) (\<lambda>metric.
     rbind (non_negative_integer ''current_snapshot_id'' (jget body ''current_snapshot_id''))
       (\<lambda>snapshot.
     Inr \<lparr>ii_name = nm, ii_column = column, ii_family = family, ii_metric = metric,
          ii_parameters = parameters, ii_current_snapshot_id = snapshot\<rparr>))))))))))"

section \<open>The codec contract\<close>

locale wire_codec =
  fixes encode :: "'a \<Rightarrow> json"
    and decode :: "json \<Rightarrow> 'a result"
    and wf :: "'a \<Rightarrow> bool"
  assumes decode_encode: "wf x \<Longrightarrow> decode (encode x) = Inr x"
    and decode_wf: "decode v = Inr x \<Longrightarrow> wf x"
begin

lemma decode_encode_iff: "decode (encode x) = Inr x \<longleftrightarrow> wf x"
  using decode_encode decode_wf by blast

lemma encode_inject: "wf x \<Longrightarrow> wf y \<Longrightarrow> encode x = encode y \<Longrightarrow> x = y"
  by (metis decode_encode sum.inject(2))

text \<open>Whatever spelling a request used, re-encoding what was decoded is stable.\<close>

lemma reencode: "decode v = Inr x \<Longrightarrow> decode (encode x) = Inr x"
  using decode_encode decode_wf by blast

lemma decode_list: "list_all wf xs \<Longrightarrow> traverse decode (map encode xs) = Inr xs"
  by (induction xs) (simp_all add: decode_encode)

end

definition wf_index_status :: "index_status \<Rightarrow> bool" where
  "wf_index_status st \<longleftrightarrow>
     finite_opt (is_progress st) \<and> nonempty_opt (is_phase st) \<and> non_negative_opt (is_completed st) \<and>
     non_negative_opt (is_total st) \<and> non_negative_opt (is_current_snapshot_id st) \<and>
     nonempty_opt (is_error st) \<and> nonempty_opt (is_error_code st) \<and>
     (is_error st = None \<longleftrightarrow> is_error_code st = None)"

definition wf_index_info :: "index_info \<Rightarrow> bool" where
  "wf_index_info i \<longleftrightarrow>
     ii_name i \<noteq> [] \<and> ii_column i \<noteq> [] \<and> ii_family i \<noteq> [] \<and> ii_metric i \<noteq> [] \<and>
     list_all (\<lambda>(k, x). k \<noteq> [] \<and> x \<noteq> []) (ii_parameters i) \<and> 0 \<le> ii_current_snapshot_id i"

definition wf_writer_options_opt :: "write_options option \<Rightarrow> bool" where
  "wf_writer_options_opt x \<longleftrightarrow> (case x of None \<Rightarrow> True | Some w \<Rightarrow> wf_write_options w)"

lemmas codec_fields = vector_query_fields_def ivf_fields_def writer_options_fields_def
  index_status_fields_def index_info_fields_def

text \<open>A validator applied to what the encoder wrote, as a rewrite rule.\<close>

lemmas field_ok =
  models_string_Inr [THEN iffD2, OF conjI, OF refl]
  optional_string_Inr [THEN iffD2, OF conjI, OF refl]
  positive_integer_Inr [THEN iffD2, OF conjI, OF refl]
  non_negative_integer_Inr [THEN iffD2, OF conjI, OF refl]
  optional_positive_integer_Inr [THEN iffD2, OF conjI, OF refl]
  optional_non_negative_integer_Inr [THEN iffD2, OF conjI, OF refl]
  models_boolean_Inr [THEN iffD2, OF refl]
  traverse_strings [THEN iffD2] optional_number_float

interpretation identifier_codec: wire_codec identifier_to_json identifier_from_json wf_identifier
proof
  show "wf_identifier t \<Longrightarrow> identifier_from_json (identifier_to_json t) = Inr t" for t
    by (simp add: identifier_from_json_def identifier_to_json_def wf_identifier_def field_ok
        new_table_identifier_Inr)
  show "identifier_from_json v = Inr t \<Longrightarrow> wf_identifier t" for v t
    by (auto simp: identifier_from_json_def new_table_identifier_Inr json_case_Inr)
qed

interpretation ivf_codec: wire_codec ivf_to_json ivf_from_json wf_ivf
proof
  show "wf_ivf c \<Longrightarrow> ivf_from_json (ivf_to_json c) = Inr c" for c
    using new_ivf_wf [of c]
    by (auto simp: ivf_from_json_def ivf_to_json_def codec_fields field_ok wf_ivf_def)
  show "ivf_from_json v = Inr c \<Longrightarrow> wf_ivf c" for v c
    by (auto simp: ivf_from_json_def new_ivf_Inr)
qed

interpretation writer_options_codec:
  wire_codec writer_options_to_json writer_options_from_json wf_writer_options_opt
proof
  show "wf_writer_options_opt x \<Longrightarrow> writer_options_from_json (writer_options_to_json x) = Inr x" for x
  proof (cases x)
    case (Some w)
    moreover assume "wf_writer_options_opt x"
    ultimately have w: "wf_write_options w" by (simp add: wf_writer_options_opt_def)
    then have "check_compression (wo_compression w) = Inr ()" by (simp add: wf_write_options_def)
    moreover have "check_compression [] \<noteq> Inr ()"
      by (simp add: check_compression_def codec_levels_def startswith_def)
    ultimately have "wo_compression w \<noteq> []" by auto
    with w new_write_options_wf [OF w] show ?thesis
      by (simp add: Some writer_options_from_json_def writer_options_to_json_def codec_fields field_ok
          wf_write_options_def)
  qed (simp add: writer_options_from_json_def writer_options_to_json_def)
  show "writer_options_from_json v = Inr x \<Longrightarrow> wf_writer_options_opt x" for v x
    by (auto simp: writer_options_from_json_def wf_writer_options_opt_def split: if_splits
        dest: new_write_options_Inr_wf)
qed

interpretation index_status_codec:
  wire_codec index_status_to_json index_status_from_json wf_index_status
proof
  show "wf_index_status st \<Longrightarrow> index_status_from_json (index_status_to_json st) = Inr st" for st
    by (simp add: index_status_from_json_def index_status_to_json_def codec_fields field_ok
        wf_index_status_def status_state_def)
  show "index_status_from_json v = Inr st \<Longrightarrow> wf_index_status st" for v st
    by (auto simp: index_status_from_json_def wf_index_status_def dest: optional_number_finite)
qed

lemma index_parameters_encode:
  "list_all (\<lambda>(k, x). k \<noteq> [] \<and> x \<noteq> []) ps \<Longrightarrow>
     traverse index_parameter (map (\<lambda>(k, x). (k, JStr x)) ps) = Inr ps"
  by (induction ps) (auto simp: index_parameter_def field_ok)

lemma index_parameters_wf:
  "traverse index_parameter raw = Inr ps \<Longrightarrow> list_all (\<lambda>(k, x). k \<noteq> [] \<and> x \<noteq> []) ps"
  by (induction raw arbitrary: ps) (auto simp: index_parameter_def)

interpretation index_info_codec: wire_codec index_info_to_json index_info_from_json wf_index_info
proof
  show "wf_index_info i \<Longrightarrow> index_info_from_json (index_info_to_json i) = Inr i" for i
    by (simp add: index_info_from_json_def index_info_to_json_def codec_fields field_ok
        wf_index_info_def index_parameters_encode)
  show "index_info_from_json v = Inr i \<Longrightarrow> wf_index_info i" for v i
    by (auto simp: index_info_from_json_def wf_index_info_def dest: index_parameters_wf)
qed

lemma query_vector_encode:
  assumes "xs \<noteq> []" and "list_all isfinite xs"
  shows "query_vector (JArr (map JFloat xs)) = Inr xs"
proof -
  have "traverse query_number (map JFloat xs) = Inr xs"
    using assms(2) by (induction xs) (simp_all add: query_number_def)
  with assms(1) show ?thesis by (simp add: query_vector_def)
qed

lemma query_number_finite: "query_number v = Inr x \<Longrightarrow> isfinite x"
  by (auto simp: query_number_def split: json.split_asm if_split_asm)

lemma query_vector_Inr: "query_vector v = Inr xs \<Longrightarrow> xs \<noteq> [] \<and> list_all isfinite xs"
proof -
  assume "query_vector v = Inr xs"
  then obtain items where "items \<noteq> []" and t: "traverse query_number items = Inr xs"
    by (auto simp: query_vector_def split: json.split_asm if_split_asm)
  with traverse_length [OF t] have "xs \<noteq> []" by auto
  moreover have "list_all isfinite xs"
    using traverse_set [OF t] by (auto simp: list_all_iff dest: query_number_finite)
  ultimately show ?thesis by simp
qed

lemma query_projection_Inr:
  "query_projection v = Inr p \<longleftrightarrow> v = opt_json (\<lambda>p. JArr (map JStr p)) p \<and>
     (case p of None \<Rightarrow> True | Some ss \<Rightarrow> list_all (\<lambda>s. s \<noteq> []) ss)"
  by (cases p) (auto simp: query_projection_def traverse_strings_Inr split: json.split)

interpretation vector_query_codec:
  wire_codec vector_query_to_json vector_query_from_json wf_vector_query
proof
  show "wf_vector_query q \<Longrightarrow> vector_query_from_json (vector_query_to_json q) = Inr q" for q
  proof -
    assume "wf_vector_query q"
    then have "query_vector (JArr (map JFloat (vq_query q))) = Inr (vq_query q)"
      and "query_projection (opt_json (\<lambda>p. JArr (map JStr p)) (vq_projection q)) = Inr (vq_projection q)"
      and "positive_opt (vq_probe_count q)"
      by (simp_all add: wf_vector_query_def query_vector_encode query_projection_Inr positive_opt_def)
    with \<open>wf_vector_query q\<close> show ?thesis
      by (simp add: vector_query_from_json_def vector_query_to_json_def codec_fields field_ok
          wf_vector_query_def identifier_codec.decode_encode)
  qed
  show "vector_query_from_json v = Inr q \<Longrightarrow> wf_vector_query q" for v q
    by (auto simp: vector_query_from_json_def wf_vector_query_def query_projection_Inr
        positive_opt_def dest: query_vector_Inr identifier_codec.decode_wf)
qed

lemma huge_component_overflows:
  assumes "2 ^ 1024 \<le> \<bar>i\<bar>" and "set (jkeys body) \<subseteq> set vector_query_fields" and "jget body ''query'' = JArr (JInt i # items)"
  shows "vector_query_from_json (JObj body) = Inl (err OverflowError ''int too large to convert to float'')"
  using assms float_of_int_overflow [OF assms(1)]
  by (simp add: vector_query_from_json_def query_vector_def query_number_def)

section \<open>Properties\<close>

definition sample_identifier :: table_identifier where
  "sample_identifier = \<lparr>ti_catalog = ''parqdb'', ti_namespace = [''default''], ti_name = ''docs''\<rparr>"

definition sample_query :: vector_query where
  "sample_query = \<lparr>vq_source = sample_identifier, vq_query = [Fin 1, Fin (1 / 2)], vq_column = None, vq_index = None,
     vq_projection = None, vq_result_limit = 10, vq_probe_count = None, vq_predicate = None, vq_bypass_index = False\<rparr>"

lemma sample_query_wf: "wf_vector_query sample_query"
  by (simp add: wf_vector_query_def sample_query_def sample_identifier_def wf_identifier_def nonempty_opt_def)

text \<open>
  C8. A vector query sent as JSON is decoded to the same query exactly when it is well-formed: the decoder
  refuses nothing the encoder may legally write, and no malformed query survives the trip.
\<close>

theorem vector_query_wire:
  "vector_query_from_json (vector_query_to_json q) = Inr q \<longleftrightarrow> wf_vector_query q"
  by (rule vector_query_codec.decode_encode_iff)

text \<open>
  Whatever chain of builder calls (\<open>select\<close> with non-empty names, \<open>limit\<close>, \<open>nprobes\<close>, \<open>where\<close>,
  \<open>bypass_vector_index\<close>) made a query from a well-formed one, the result travels unchanged over the wire
  and still asks for the same vector of the same table.
\<close>

theorem built_query_travels:
  assumes "wf_vector_query q" and "built_from q r"
  shows "vector_query_from_json (vector_query_to_json r) = Inr r \<and> vq_source r = vq_source q \<and> vq_query r = vq_query q"
  using vector_query_codec.decode_encode [OF built_from_wf [OF assms(2,1)]] built_from_source [OF assms(2)] by simp

theorem built_query_travels_witness:
  "\<exists>r. vq_limit (vq_bypass_vector_index sample_query) (JInt 3) = Inr r \<and>
     vector_query_from_json (vector_query_to_json r) = Inr r \<and> vq_result_limit r = 3"
proof -
  let ?b = "vq_bypass_vector_index sample_query"
  have "built_from sample_query (?b\<lparr>vq_result_limit := 3\<rparr>)"
    by (rule built_limit [of _ ?b "JInt 3"]) (auto intro: built_from.intros simp: vq_limit_Inr)
  from built_query_travels [OF sample_query_wf this] show ?thesis
    by (intro exI [of _ "?b\<lparr>vq_result_limit := 3\<rparr>"]) (simp add: vq_limit_Inr)
qed

text \<open>
  The other request models: a table identifier, an index configuration and writer options are decoded to
  themselves exactly when they satisfy the invariant of their constructor.
\<close>

theorem request_models_wire:
  "(identifier_from_json (identifier_to_json t) = Inr t \<longleftrightarrow> wf_identifier t) \<and>
   (ivf_from_json (ivf_to_json c) = Inr c \<longleftrightarrow> wf_ivf c) \<and>
   (writer_options_from_json (writer_options_to_json w) = Inr w \<longleftrightarrow> wf_writer_options_opt w)"
  by (simp add: identifier_codec.decode_encode_iff ivf_codec.decode_encode_iff writer_options_codec.decode_encode_iff)

text \<open>
  The response models: a status is accepted by the client exactly when its counters are non-negative, its
  progress is finite and its error comes with its code, an index description exactly when no field is empty.
\<close>

theorem response_models_wire:
  "(index_status_from_json (index_status_to_json st) = Inr st \<longleftrightarrow> wf_index_status st) \<and>
   (index_info_from_json (index_info_to_json i) = Inr i \<longleftrightarrow> wf_index_info i)"
  by (simp add: index_status_codec.decode_encode_iff index_info_codec.decode_encode_iff)

end
