(* ===== verification/Registration.thy ===== *)
theory Registration
  imports Wire
begin

text \<open>
  Schemas and Parquet registrations on the wire (\<open>transport/models.py\<close>): \<open>schema_to_base64\<close>,
  \<open>schema_from_base64\<close>, \<open>table_descriptor_to_json\<close>, \<open>registration_to_json\<close> and
  \<open>registration_from_json\<close>. PyArrow is the parameter \<open>arrow_api\<close>; what the code relies on is
  \<open>arrow_ok\<close>: a serialized schema is not empty and reads back, and a schema lists the fields it was
  built from.
\<close>

section \<open>The Arrow library as a parameter\<close>

record ('s, 't) arrow_api =
  ar_serialize :: "'s \<Rightarrow> string"
  ar_read_schema :: "string \<Rightarrow> 's result"
  ar_schema :: "(string \<times> 't) list \<Rightarrow> 's"
  ar_fields :: "'s \<Rightarrow> (string \<times> 't) list"
  ar_type_for_alias :: "string \<Rightarrow> 't result"
  ar_string :: 't
  ar_int32 :: 't

definition arrow_ok :: "('s, 't) arrow_api \<Rightarrow> bool" where
  "arrow_ok api \<longleftrightarrow>
     (\<forall>s. ar_serialize api s \<noteq> [] \<and> ar_read_schema api (ar_serialize api s) = Inr s) \<and>
     (\<forall>fs. ar_fields api (ar_schema api fs) = fs)"

section \<open>Definitions\<close>

definition schema_to_base64 :: "('s, 't) arrow_api \<Rightarrow> 's \<Rightarrow> string" where
  "schema_to_base64 api schema = b64encode (ar_serialize api schema)"

definition schema_error :: exc where
  "schema_error = err ValueError ''schema is not a valid Arrow IPC schema message''"

definition schema_from_base64 :: "('s, 't) arrow_api \<Rightarrow> json \<Rightarrow> 's result" where
  "schema_from_base64 api v =
     rbind (models_string ''schema'' v) (\<lambda>encoded.
     (case b64decode encoded of
        None \<Rightarrow> Inl schema_error
      | Some payload \<Rightarrow>
          (case ar_read_schema api payload of
             Inl e \<Rightarrow> if isinstance_exc e ValueError \<or> isinstance_exc e ArrowException
                      then Inl schema_error else Inl e
           | Inr schema \<Rightarrow> Inr schema)))"

definition table_descriptor_to_json ::
  "('s, 't) arrow_api \<Rightarrow> table_identifier \<Rightarrow> 's \<Rightarrow> json" where
  "table_descriptor_to_json api ident schema =
     JObj [(''identifier'', identifier_to_json ident),
           (''schema'', JStr (schema_to_base64 api schema))]"

datatype 't column_type = TypeAlias string | ArrowType 't | OtherType

definition arrow_type :: "('s, 't) arrow_api \<Rightarrow> 't column_type \<Rightarrow> 't result" where
  "arrow_type api v =
     (case v of
        ArrowType t \<Rightarrow> Inr t
      | OtherType \<Rightarrow> Inl (err TypeError ''partition column types must be strings or PyArrow types'')
      | TypeAlias s \<Rightarrow>
          (case ar_type_for_alias api s of
             Inl e \<Rightarrow> if isinstance_exc e ValueError
                      then Inl (err ValueError (''unsupported partition column type: '' @ s)) else Inl e
           | Inr t \<Rightarrow> Inr t))"

text \<open>The arguments of \<open>register_parquet\<close>, as the caller gave them.\<close>

record ('s, 't) registration_args =
  ra_name :: json
  ra_source :: json
  ra_partition_cols :: "(string \<times> 't column_type) list option"
  ra_parquet_pruning :: json
  ra_file_extension :: json
  ra_skip_metadata :: json
  ra_schema :: "'s option"
  ra_file_sort_order :: json

definition partition_field :: "('s, 't) arrow_api \<Rightarrow> string \<times> 't column_type \<Rightarrow> (string \<times> 't) result" where
  "partition_field api = (\<lambda>(name, v). rbind (arrow_type api v) (\<lambda>t. Inr (name, t)))"

definition registration_to_json ::
  "('s, 't) arrow_api \<Rightarrow> ('s, 't) registration_args \<Rightarrow> json result" where
  "registration_to_json api a =
     rbind (case ra_partition_cols a of
              None \<Rightarrow> Inr JNull
            | Some cols \<Rightarrow> rbind (traverse (partition_field api) cols) (\<lambda>fs.
                Inr (JStr (schema_to_base64 api (ar_schema api fs))))) (\<lambda>partition_schema.
     rbind (portable_sort_order (ra_file_sort_order a)) (\<lambda>sort_order.
     rbind (models_string ''table name'' (ra_name a)) (\<lambda>name.
     rbind (models_string ''source'' (ra_source a)) (\<lambda>source.
     rbind (models_boolean ''parquet_pruning'' (ra_parquet_pruning a)) (\<lambda>pruning.
     rbind (models_string ''file_extension'' (ra_file_extension a)) (\<lambda>extension.
     rbind (models_boolean ''skip_metadata'' (ra_skip_metadata a)) (\<lambda>skip.
     Inr (JObj
       [(''name'', JStr name),
        (''source'', JStr source),
        (''partition_schema'', partition_schema),
        (''parquet_pruning'', JBool pruning),
        (''file_extension'', JStr extension),
        (''skip_metadata'', JBool skip),
        (''schema'', opt_json (\<lambda>s. JStr (schema_to_base64 api s)) (ra_schema a)),
        (''file_sort_order'', JArr (map (\<lambda>ks. JArr (map JStr ks)) sort_order))]))))))))"

record ('s, 't) registration =
  reg_name :: string
  reg_source :: string
  reg_partition_cols :: "(string \<times> 't) list option"
  reg_parquet_pruning :: bool
  reg_file_extension :: string
  reg_skip_metadata :: bool
  reg_schema :: "'s option"
  reg_file_sort_order :: "string list list"

definition registration_fields :: "string list" where
  "registration_fields =
     [''name'', ''source'', ''partition_schema'', ''parquet_pruning'', ''file_extension'',
      ''skip_metadata'', ''schema'', ''file_sort_order'']"

definition optional_schema :: "('s, 't) arrow_api \<Rightarrow> json \<Rightarrow> 's option result" where
  "optional_schema api v =
     (if v = JNull then Inr None else rbind (schema_from_base64 api v) (\<lambda>s. Inr (Some s)))"

definition registration_from_json ::
  "('s, 't) arrow_api \<Rightarrow> json \<Rightarrow> ('s, 't) registration result" where
  "registration_from_json api v =
     rbind (models_object ''registration'' v) (\<lambda>body.
     rbind (reject_unknown ''registration'' registration_fields body) (\<lambda>_.
     rbind (require_fields ''registration'' registration_fields body) (\<lambda>_.
     rbind (optional_schema api (jget body ''partition_schema'')) (\<lambda>partition_schema.
     rbind (portable_sort_order (jget body ''file_sort_order'')) (\<lambda>sort_order.
     rbind (models_string ''table name'' (jget body ''name'')) (\<lambda>name.
     rbind (models_string ''source'' (jget body ''source'')) (\<lambda>source.
     rbind (models_boolean ''parquet_pruning'' (jget body ''parquet_pruning'')) (\<lambda>pruning.
     rbind (models_string ''file_extension'' (jget body ''file_extension'')) (\<lambda>extension.
     rbind (models_boolean ''skip_metadata'' (jget body ''skip_metadata'')) (\<lambda>skip.
     rbind (optional_schema api (jget body ''schema'')) (\<lambda>schema.
     Inr \<lparr>reg_name = name, reg_source = source,
          reg_partition_cols = map_option (ar_fields api) partition_schema,
          reg_parquet_pruning = pruning, reg_file_extension = extension,
          reg_skip_metadata = skip, reg_schema = schema, reg_file_sort_order = sort_order\<rparr>)))))))))))"

section \<open>Round trips\<close>

lemma schema_round_trip:
  "arrow_ok api \<Longrightarrow> schema_from_base64 api (JStr (schema_to_base64 api s)) = Inr s"
  by (simp add: schema_from_base64_def schema_to_base64_def arrow_ok_def field_ok b64decode_encode)

lemma optional_schema_encode:
  "arrow_ok api \<Longrightarrow>
     optional_schema api (opt_json (\<lambda>s. JStr (schema_to_base64 api s)) x) = Inr x"
  by (cases x) (simp_all add: optional_schema_def schema_round_trip)

lemma portable_sort_order_wf:
  "portable_sort_order v = Inr so \<Longrightarrow> list_all (list_all (\<lambda>s. s \<noteq> [])) so"
proof -
  have "traverse (\<lambda>order. case order of JArr keys \<Rightarrow> traverse (models_string ''sort field'') keys
      | _ \<Rightarrow> Inl sort_order_error) orders = Inr so \<Longrightarrow> list_all (list_all (\<lambda>s. s \<noteq> [])) so" for orders
    by (induction orders arbitrary: so) (auto simp: json_case_Inr traverse_strings_Inr)
  moreover assume "portable_sort_order v = Inr so"
  ultimately show ?thesis by (auto simp: portable_sort_order_def split: json.split_asm)
qed

lemma portable_sort_order_encode:
  "list_all (list_all (\<lambda>s. s \<noteq> [])) so \<Longrightarrow>
     portable_sort_order (JArr (map (\<lambda>ks. JArr (map JStr ks)) so)) = Inr so"
  by (simp add: portable_sort_order_def, induction so) (simp_all add: traverse_strings_Inr)

text \<open>What the server must decode from the arguments the client encoded.\<close>

definition registration_of ::
  "('s, 't) arrow_api \<Rightarrow> ('s, 't) registration_args \<Rightarrow> ('s, 't) registration \<Rightarrow> bool" where
  "registration_of api a r \<longleftrightarrow>
     ra_name a = JStr (reg_name r) \<and> ra_source a = JStr (reg_source r) \<and>
     (case ra_partition_cols a of
        None \<Rightarrow> reg_partition_cols r = None
      | Some cols \<Rightarrow> \<exists>fs. traverse (partition_field api) cols = Inr fs \<and> reg_partition_cols r = Some fs) \<and>
     ra_parquet_pruning a = JBool (reg_parquet_pruning r) \<and>
     ra_file_extension a = JStr (reg_file_extension r) \<and>
     ra_skip_metadata a = JBool (reg_skip_metadata r) \<and> ra_schema a = reg_schema r \<and>
     portable_sort_order (ra_file_sort_order a) = Inr (reg_file_sort_order r)"

text \<open>
  C32. A Parquet registration that the client can encode at all is decoded by the server with the meaning it
  had for the caller: same name, source, flags, schema and sort order, and the partition columns with the Arrow
  types their aliases denote.
\<close>

theorem registration_encode_decode:
  assumes ok: "arrow_ok api" and enc: "registration_to_json api a = Inr v"
  shows "\<exists>r. registration_from_json api v = Inr r \<and> registration_of api a r"
proof -
  from enc obtain pv so nm src pruning ext skip where
    parts: "ra_name a = JStr nm" "nm \<noteq> []" "ra_source a = JStr src" "src \<noteq> []"
      "ra_parquet_pruning a = JBool pruning" "ra_file_extension a = JStr ext" "ext \<noteq> []"
      "ra_skip_metadata a = JBool skip"
    and so: "portable_sort_order (ra_file_sort_order a) = Inr so"
    and v: "v = JObj [(''name'', JStr nm), (''source'', JStr src), (''partition_schema'', pv),
       (''parquet_pruning'', JBool pruning), (''file_extension'', JStr ext), (''skip_metadata'', JBool skip),
       (''schema'', opt_json (\<lambda>s. JStr (schema_to_base64 api s)) (ra_schema a)),
       (''file_sort_order'', JArr (map (\<lambda>ks. JArr (map JStr ks)) so))]"
    and pv: "(case ra_partition_cols a of None \<Rightarrow> Inr JNull
       | Some cols \<Rightarrow> rbind (traverse (partition_field api) cols) (\<lambda>fs.
           Inr (JStr (schema_to_base64 api (ar_schema api fs))))) = Inr pv"
    by (auto simp: registration_to_json_def)
  define ps where "ps = (case ra_partition_cols a of None \<Rightarrow> None
     | Some cols \<Rightarrow> (case traverse (partition_field api) cols of Inl _ \<Rightarrow> None | Inr fs \<Rightarrow> Some fs))"
  have pv': "optional_schema api pv = Inr (map_option (ar_schema api) ps)"
    using pv schema_round_trip [OF ok]
    by (auto simp: optional_schema_def ps_def split: option.splits)
  have fs: "map_option (ar_fields api) (map_option (ar_schema api) ps) = ps"
    using ok by (cases ps) (simp_all add: arrow_ok_def)
  let ?r = "\<lparr>reg_name = nm, reg_source = src, reg_partition_cols = ps, reg_parquet_pruning = pruning,
     reg_file_extension = ext, reg_skip_metadata = skip, reg_schema = ra_schema a, reg_file_sort_order = so\<rparr>"
  have "registration_from_json api v = Inr ?r"
    using parts pv' fs optional_schema_encode [OF ok]
      portable_sort_order_encode [OF portable_sort_order_wf [OF so]]
    by (simp add: registration_from_json_def v registration_fields_def field_ok)
  moreover have "registration_of api a ?r"
    using parts so pv by (auto simp: registration_of_def ps_def split: option.splits)
  ultimately show ?thesis by blast
qed

text \<open>An Arrow library in which a schema is its list of field names.\<close>

definition sample_serialize :: "string list \<Rightarrow> string" where
  "sample_serialize ws = concat (map (\<lambda>w. concat (map (\<lambda>c. [CHR ''c'', c]) w) @ ''n'') ws) @ ''.''"

fun sample_read :: "string \<Rightarrow> string list \<Rightarrow> string \<Rightarrow> string list result" where
  "sample_read cur acc (m # c # r) =
     (if m = CHR ''c'' then sample_read (cur @ [c]) acc r
      else if m = CHR ''n'' then sample_read [] (acc @ [cur]) (c # r)
      else Inl (err ArrowException []))"
| "sample_read cur acc r = (if r = ''.'' \<and> cur = [] then Inr acc else Inl (err ArrowException []))"

definition sample_arrow :: "(string list, unit) arrow_api" where
  "sample_arrow =
     \<lparr>ar_serialize = sample_serialize, ar_read_schema = sample_read [] [], ar_schema = map fst,
      ar_fields = map (\<lambda>n. (n, ())), ar_type_for_alias = (\<lambda>_. Inr ()), ar_string = (), ar_int32 = ()\<rparr>"

lemma sample_read_word: "r \<noteq> [] \<Longrightarrow> sample_read cur acc (concat (map (\<lambda>c. [CHR ''c'', c]) w) @ r) = sample_read (cur @ w) acc r"
  by (induction w arbitrary: cur) auto

lemma sample_read_serialize: "sample_read [] acc (sample_serialize ws) = Inr (acc @ ws)"
proof (induction ws arbitrary: acc)
  case (Cons w ws)
  have "sample_serialize (w # ws) = concat (map (\<lambda>c. [CHR ''c'', c]) w) @ CHR ''n'' # sample_serialize ws"
    by (simp add: sample_serialize_def)
  moreover obtain c r where "sample_serialize ws = c # r" by (cases "sample_serialize ws") (auto simp: sample_serialize_def)
  ultimately show ?case using Cons by (simp add: sample_read_word)
qed (simp add: sample_serialize_def)

lemma sample_arrow_ok: "arrow_ok sample_arrow"
proof -
  have "map (\<lambda>n. (n, ())) (map fst fs) = fs" for fs :: "(string \<times> unit) list" by (induction fs) auto
  moreover have "sample_serialize ws \<noteq> []" for ws by (simp add: sample_serialize_def)
  ultimately show ?thesis by (simp add: arrow_ok_def sample_arrow_def sample_read_serialize)
qed

definition sample_registration :: "(string list, unit) registration_args" where
  "sample_registration =
     \<lparr>ra_name = JStr ''docs'', ra_source = JStr ''s3://bucket/data'', ra_partition_cols = Some [(''day'', TypeAlias ''string'')],
      ra_parquet_pruning = JBool True, ra_file_extension = JStr ''.parquet'', ra_skip_metadata = JBool True,
      ra_schema = Some [''id'', ''embedding''], ra_file_sort_order = JArr [JArr [JStr ''id'']]\<rparr>"

theorem registration_encode_decode_witness:
  "\<exists>v r. registration_to_json sample_arrow sample_registration = Inr v \<and> registration_from_json sample_arrow v = Inr r \<and>
     reg_partition_cols r = Some [(''day'', ())] \<and> reg_file_sort_order r = [[''id'']]"
proof -
  obtain v where v: "registration_to_json sample_arrow sample_registration = Inr v"
    by (simp add: registration_to_json_def sample_registration_def sample_arrow_def partition_field_def arrow_type_def
        portable_sort_order_def field_ok)
  from registration_encode_decode [OF sample_arrow_ok this] obtain r where
    "registration_from_json sample_arrow v = Inr r" "registration_of sample_arrow sample_registration r" by blast
  with v show ?thesis
    by (auto simp: registration_of_def sample_registration_def sample_arrow_def partition_field_def arrow_type_def
        portable_sort_order_def field_ok)
qed

end
