(* ===== verification/Source_Policy.thy ===== *)
theory Source_Policy
  imports Url
begin

text \<open>
  \<open>server/source_policy.py\<close>: which Parquet sources a client may register. A policy holds the
  resolved file roots and the normalised object-store prefixes; \<open>authorize\<close> resolves a source
  and returns its canonical form or raises. The file system enters as \<open>pe_resolve\<close>, the
  components of \<open>Path(text).expanduser().resolve()\<close>.
\<close>

section \<open>Definitions\<close>

record path_env =
  pe_netloc_ok :: "string \<Rightarrow> bool"
  pe_resolve :: "string \<Rightarrow> string list result"

record object_prefix =
  op_scheme :: string
  op_authority :: string
  op_path :: string

record source_policy =
  sp_file_roots :: "string list list"
  sp_object_prefixes :: "object_prefix list"
  sp_resource_name :: string

definition fspath :: "string list \<Rightarrow> string" where
  "fspath comps = CHR ''/'' # join ''/'' comps"

definition local_path :: "split_url \<Rightarrow> string \<Rightarrow> string result" where
  "local_path parsed reference =
     (if su_scheme parsed = [] then Inr reference
      else if su_query parsed \<noteq> [] \<or> su_fragment parsed \<noteq> []
      then Inl (err ValueError ''file URIs must not contain a query or fragment'')
      else if su_netloc parsed \<notin> {'''', ''localhost''}
      then Inl (err ValueError ''file URIs must not contain a remote authority'')
      else if \<not> prefix ''/'' (unquote (su_path parsed))
      then Inl (err ValueError ''file URIs must contain an absolute path'')
      else Inr (unquote (su_path parsed)))"

definition is_control :: "char \<Rightarrow> bool" where
  "is_control c \<longleftrightarrow> code_of c < 32 \<or> code_of c = 127"

definition normalize_object_path :: "string \<Rightarrow> string result" where
  "normalize_object_path path =
     (let decoded = unquote path
      in if list_ex is_control decoded
         then Inl (err ValueError ''source URI paths must not contain control characters'')
         else let normalized = normpath (CHR ''/'' # lstrip_char (CHR ''/'') decoded)
              in Inr (if normalized = ''/.'' then ''/'' else normalized))"

definition object_prefix_of :: "split_url \<Rightarrow> object_prefix result" where
  "object_prefix_of parsed =
     (let scheme = py_lower (su_scheme parsed)
      in if scheme = [] \<or> scheme = ''file''
         then Inl (err ValueError ''object-store URI must contain a non-file scheme'')
         else if CHR ''@'' \<in> set (su_netloc parsed)
         then Inl (err ValueError ''source URIs must not contain credentials'')
         else if su_netloc parsed = []
         then Inl (err ValueError ''object-store URI must contain an authority'')
         else if su_query parsed \<noteq> [] \<or> su_fragment parsed \<noteq> []
         then Inl (err ValueError ''source URIs must not contain a query or fragment'')
         else rbind (normalize_object_path (su_path parsed)) (\<lambda>path.
              Inr \<lparr>op_scheme = scheme, op_authority = su_netloc parsed, op_path = path\<rparr>))"

definition is_below :: "string list \<Rightarrow> string list \<Rightarrow> bool" where
  "is_below path base = prefix base path"

definition matches_object_prefix :: "object_prefix \<Rightarrow> object_prefix \<Rightarrow> bool" where
  "matches_object_prefix candidate p =
     (if (op_scheme candidate, op_authority candidate) \<noteq> (op_scheme p, op_authority p) then False
      else let stripped = rstrip_char (CHR ''/'') (op_path p);
               base = (if stripped = [] then ''/'' else stripped)
           in op_path candidate = base \<or>
              startswith (op_path candidate) (rstrip_char (CHR ''/'') base @ ''/''))"

definition contains_glob :: "string \<Rightarrow> bool" where
  "contains_glob s = list_ex (\<lambda>c. c \<in> set s) ''*?[''"

datatype allowed_prefix = FileRoot "string list" | ObjectPrefix object_prefix

definition allow_prefix :: "path_env \<Rightarrow> string \<Rightarrow> allowed_prefix result" where
  "allow_prefix env reference =
     rbind (urlsplit (pe_netloc_ok env) reference) (\<lambda>parsed.
     if su_scheme parsed \<in> {'''', ''file''}
     then rbind (local_path parsed reference) (\<lambda>path.
          rbind (pe_resolve env path) (\<lambda>base.
          rbind (raise_if (contains_glob (fspath base))
                  (err ValueError ''allowed file roots must not contain glob patterns'')) (\<lambda>_.
          Inr (FileRoot base))))
     else rbind (object_prefix_of parsed) (\<lambda>p.
          rbind (raise_if (contains_glob (op_path p))
                  (err ValueError ''allowed object-store prefixes must not contain glob patterns'')) (\<lambda>_.
          Inr (ObjectPrefix p))))"

definition new_source_policy :: "path_env \<Rightarrow> string list \<Rightarrow> string \<Rightarrow> source_policy result" where
  "new_source_policy env references resource_name =
     rbind (traverse (allow_prefix env) references) (\<lambda>allowed.
     Inr \<lparr>sp_file_roots = concat (map (\<lambda>a. case a of FileRoot r \<Rightarrow> [r] | ObjectPrefix _ \<Rightarrow> []) allowed),
          sp_object_prefixes =
            concat (map (\<lambda>a. case a of FileRoot _ \<Rightarrow> [] | ObjectPrefix p \<Rightarrow> [p]) allowed),
          sp_resource_name = resource_name\<rparr>)"

definition path_safe :: string where
  "path_safe = ''/:@-._~!$&'' @ [CHR 0x27] @ ''()*+,;=[]''"

definition authorize :: "path_env \<Rightarrow> source_policy \<Rightarrow> string \<Rightarrow> string result" where
  "authorize env pol reference =
     (if reference = [] then Inl (err ValueError (sp_resource_name pol @ '' must not be empty''))
      else rbind (urlsplit (pe_netloc_ok env) reference) (\<lambda>parsed.
      if su_scheme parsed \<in> {'''', ''file''}
      then rbind (local_path parsed reference) (\<lambda>text.
           rbind (pe_resolve env text) (\<lambda>path.
           rbind (raise_if (\<not> list_ex (is_below path) (sp_file_roots pol))
             (err PermissionError (sp_resource_name pol @ '' is outside the allowed file roots'')))
             (\<lambda>_. Inr (fspath path))))
      else rbind (object_prefix_of parsed) (\<lambda>candidate.
           rbind (raise_if (\<not> list_ex (matches_object_prefix candidate) (sp_object_prefixes pol))
             (err PermissionError (sp_resource_name pol @ '' is outside the allowed URI prefixes'')))
             (\<lambda>_. Inr (urlunsplit (op_scheme candidate) (op_authority candidate)
                        (quote path_safe (op_path candidate)))))))"

section \<open>Object prefixes by components\<close>

text \<open>Every normalised object path is a slash and clean components.\<close>

definition object_components :: "object_prefix \<Rightarrow> string list \<Rightarrow> bool" where
  "object_components p comps \<longleftrightarrow> op_path p = fspath comps \<and> list_all clean_component comps"

definition wf_policy :: "source_policy \<Rightarrow> bool" where
  "wf_policy pol \<longleftrightarrow> (\<forall>p\<in>set (sp_object_prefixes pol). \<exists>comps. object_components p comps)"

lemma fspath_not_dot: "list_all clean_component comps \<Longrightarrow> fspath comps \<noteq> ''/.''"
proof (cases comps)
  case (Cons x xs)
  assume "list_all clean_component comps"
  with Cons have "x \<noteq> []" "x \<noteq> ''.''" by (simp_all add: clean_component_def)
  with Cons show ?thesis by (cases xs; cases x) (auto simp: fspath_def)
qed (simp add: fspath_def)

lemma normalize_object_path_clean:
  "normalize_object_path path = Inr q \<Longrightarrow>
     \<exists>comps. q = fspath comps \<and> list_all clean_component comps"
proof -
  assume "normalize_object_path path = Inr q"
  let ?s = "lstrip_char (CHR ''/'') (unquote path)"
  have "?s = [] \<or> hd ?s \<noteq> CHR ''/''"
    using hd_dropWhile [of "\<lambda>x. x = CHR ''/''" "unquote path"] by (auto simp: lstrip_char_def)
  from normpath_absolute [OF this] obtain comps where
    n: "normpath (CHR ''/'' # ?s) = fspath comps" and c: "list_all clean_component comps"
    by (auto simp: fspath_def)
  from fspath_not_dot [OF c] n \<open>normalize_object_path path = Inr q\<close> have "q = fspath comps"
    by (simp add: normalize_object_path_def Let_def split: if_splits)
  with c show ?thesis by blast
qed

lemma object_prefix_of_components:
  "object_prefix_of parsed = Inr p \<Longrightarrow> \<exists>comps. object_components p comps"
  by (auto simp: object_prefix_of_def object_components_def Let_def split: if_splits
      dest: normalize_object_path_clean)

lemma fspath_inject:
  assumes "list_all clean_component a" and "list_all clean_component b"
  shows "fspath a = fspath b \<longleftrightarrow> a = b"
  using assms by (metis fspath_def list.inject split_join_slash)

lemma last_join: "list_all clean_component comps \<Longrightarrow> comps \<noteq> [] \<Longrightarrow>
    join ''/'' comps \<noteq> [] \<and> last (join ''/'' comps) \<noteq> CHR ''/''"
proof (induction "''/''" comps rule: join.induct)
  case (2 x)
  then show ?case by (auto simp: clean_component_def) (metis last_in_set)
next
  case (3 x y zs)
  then show ?case by auto
qed simp

lemma rstrip_fspath:
  assumes "list_all clean_component comps"
  shows "rstrip_char (CHR ''/'') (fspath comps) = (if comps = [] then [] else fspath comps)"
proof (cases "comps = []")
  case False
  then have "fspath comps \<noteq> []" "last (fspath comps) \<noteq> CHR ''/''"
    using last_join [OF assms] by (auto simp: fspath_def)
  then have "hd (rev (fspath comps)) \<noteq> CHR ''/''" by (simp add: hd_rev)
  then have "dropWhile (\<lambda>x. x = CHR ''/'') (rev (fspath comps)) = rev (fspath comps)"
    using \<open>fspath comps \<noteq> []\<close> by (cases "rev (fspath comps)") auto
  with False show ?thesis by (simp add: rstrip_char_def)
qed (simp add: rstrip_char_def fspath_def)

lemma prefix_components:
  assumes "list_all clean_component ps" "list_all clean_component cs" "ps \<noteq> []"
  shows "fspath cs = fspath ps \<or> prefix (fspath ps @ ''/'') (fspath cs) \<longleftrightarrow> prefix ps cs"
proof
  have sp: "split_on (CHR ''/'') (join ''/'' xs) = xs" if "list_all clean_component xs" "xs \<noteq> []" for xs
    using that by (intro split_on_join) (auto simp: list_all_iff clean_component_def)
  assume "fspath cs = fspath ps \<or> prefix (fspath ps @ ''/'') (fspath cs)"
  then show "prefix ps cs"
  proof
    assume "prefix (fspath ps @ ''/'') (fspath cs)"
    then obtain rest where "join ''/'' cs = join ''/'' ps @ CHR ''/'' # rest"
      by (auto simp: fspath_def prefix_def)
    moreover from this have "cs \<noteq> []" by auto
    ultimately have "cs = ps @ split_on (CHR ''/'') rest"
      using sp [OF assms(1,3)] sp [OF assms(2)] by (metis split_on_append)
    then show ?thesis by simp
  qed (simp add: fspath_inject assms)
next
  assume "prefix ps cs"
  then obtain qs where cs: "cs = ps @ qs" by (auto simp: prefix_def)
  have "join ''/'' (ps @ q # qs') = join ''/'' ps @ CHR ''/'' # join ''/'' (q # qs')" for q qs'
    using assms(3) by (induction "''/''" ps rule: join.induct) auto
  then show "fspath cs = fspath ps \<or> prefix (fspath ps @ ''/'') (fspath cs)"
    by (cases qs) (simp_all add: cs fspath_def prefix_def)
qed

text \<open>
  The string test of the source is component-wise: a candidate matches when its scheme and
  authority are the prefix's and its components extend the prefix's components.
\<close>

lemma matches_object_prefix_iff:
  assumes "object_components candidate cs" and "object_components p ps"
  shows "matches_object_prefix candidate p \<longleftrightarrow>
     op_scheme candidate = op_scheme p \<and> op_authority candidate = op_authority p \<and> prefix ps cs"
proof -
  have cs: "op_path candidate = fspath cs" "list_all clean_component cs"
    and ps: "op_path p = fspath ps" "list_all clean_component ps"
    using assms by (simp_all add: object_components_def)
  show ?thesis
  proof (cases "ps = []")
    case True
    then show ?thesis
      by (auto simp: matches_object_prefix_def cs ps rstrip_fspath startswith_def Let_def)
         (simp_all add: rstrip_char_def fspath_def)
  next
    case False
    then have "rstrip_char (CHR ''/'') (fspath ps) = fspath ps" and "fspath ps \<noteq> []"
      using rstrip_fspath [OF ps(2)] by (simp, simp add: fspath_def)
    with False show ?thesis
      using prefix_components [OF ps(2) cs(2) False]
      by (auto simp: matches_object_prefix_def cs ps startswith_def Let_def)
  qed
qed

lemma new_source_policy_wf:
  assumes "new_source_policy env references rn = Inr pol"
  shows "wf_policy pol"
proof -
  from assms obtain allowed where t: "traverse (allow_prefix env) references = Inr allowed"
    and pol: "sp_object_prefixes pol =
      concat (map (\<lambda>a. case a of FileRoot _ \<Rightarrow> [] | ObjectPrefix p \<Rightarrow> [p]) allowed)"
    by (auto simp: new_source_policy_def)
  have "\<exists>comps. object_components p comps" if "ObjectPrefix p \<in> set allowed" for p
    using traverse_set [OF t that]
    by (auto simp: allow_prefix_def split: if_splits dest: object_prefix_of_components)
  then show ?thesis
    by (auto simp: wf_policy_def pol split: allowed_prefix.splits)
qed


lemma new_source_policy_members:
  assumes "new_source_policy env references rn = Inr pol"
  shows "b \<in> set (sp_file_roots pol) \<longleftrightarrow> (\<exists>r\<in>set references. allow_prefix env r = Inr (FileRoot b))"
    and "p \<in> set (sp_object_prefixes pol) \<longleftrightarrow>
      (\<exists>r\<in>set references. allow_prefix env r = Inr (ObjectPrefix p))"
proof -
  from assms obtain allowed where t: "traverse (allow_prefix env) references = Inr allowed"
    and pol: "sp_file_roots pol =
      concat (map (\<lambda>a. case a of FileRoot r \<Rightarrow> [r] | ObjectPrefix _ \<Rightarrow> []) allowed)"
      "sp_object_prefixes pol =
      concat (map (\<lambda>a. case a of FileRoot _ \<Rightarrow> [] | ObjectPrefix p \<Rightarrow> [p]) allowed)"
    by (auto simp: new_source_policy_def)
  have mem: "a \<in> set allowed \<longleftrightarrow> (\<exists>r\<in>set references. allow_prefix env r = Inr a)" for a
    by (rule traverse_set_iff [OF t])
  show "b \<in> set (sp_file_roots pol) \<longleftrightarrow> (\<exists>r\<in>set references. allow_prefix env r = Inr (FileRoot b))"
    unfolding mem [symmetric] by (auto simp: pol split: allowed_prefix.splits)
  show "p \<in> set (sp_object_prefixes pol) \<longleftrightarrow>
      (\<exists>r\<in>set references. allow_prefix env r = Inr (ObjectPrefix p))"
    unfolding mem [symmetric] by (auto simp: pol split: allowed_prefix.splits)
qed


section \<open>Authorisation\<close>

definition sample_paths :: path_env where
  "sample_paths = \<lparr>pe_netloc_ok = (\<lambda>_. True), pe_resolve = (\<lambda>s. Inr (filter (\<lambda>w. w \<noteq> []) (split_on (CHR ''/'') s)))\<rparr>"

definition sample_policy :: source_policy where
  "sample_policy = \<lparr>sp_file_roots = [[''srv'', ''data'']],
     sp_object_prefixes = [\<lparr>op_scheme = ''s3'', op_authority = ''bucket'', op_path = ''/data''\<rparr>],
     sp_resource_name = ''source URI''\<rparr>"

lemma sample_policy_new:
  "new_source_policy sample_paths [''/srv/data'', ''s3://bucket/data''] ''source URI'' = Inr sample_policy"
  by code_simp

text \<open>
  C4. Whatever URI a client sends, an accepted source lies below one of the prefixes the server was configured
  with: a resolved file path extends the components of an allowed root, and an object URI has the scheme and
  the bucket of an allowed prefix and a path without dot segments that extends the prefix by whole components.
\<close>

theorem authorize_confined:
  assumes pol: "new_source_policy env references rn = Inr pol"
    and ok: "authorize env pol source = Inr s"
  shows "\<exists>r\<in>set references.
     (case allow_prefix env r of
        Inr (FileRoot base) \<Rightarrow> \<exists>path. prefix base path \<and> s = fspath path
      | Inr (ObjectPrefix p) \<Rightarrow> \<exists>ps qs. op_path p = fspath ps \<and> list_all clean_component (ps @ qs) \<and>
          s = urlunsplit (op_scheme p) (op_authority p) (quote path_safe (fspath (ps @ qs)))
      | Inl _ \<Rightarrow> False)"
proof -
  note members = new_source_policy_members [OF pol]
  from ok obtain parsed where "urlsplit (pe_netloc_ok env) source = Inr parsed"
    by (auto simp: authorize_def split: if_splits)
  with ok consider (local) path base where "base \<in> set (sp_file_roots pol)" "prefix base path" "s = fspath path"
    | (object) c p where "object_prefix_of parsed = Inr c" "p \<in> set (sp_object_prefixes pol)"
        "matches_object_prefix c p"
        "s = urlunsplit (op_scheme c) (op_authority c) (quote path_safe (op_path c))"
    by (auto simp: authorize_def is_below_def list_ex_iff split: if_splits)
  then show ?thesis
  proof cases
    case local
    then obtain r where "r \<in> set references" "allow_prefix env r = Inr (FileRoot base)"
      by (auto simp: members)
    with local show ?thesis by (intro bexI [of _ r]) auto
  next
    case object
    then obtain r where r: "r \<in> set references" "allow_prefix env r = Inr (ObjectPrefix p)"
      by (auto simp: members)
    obtain cs where cs: "object_components c cs"
      using object_prefix_of_components [OF object(1)] by blast
    obtain ps where ps: "object_components p ps"
      using new_source_policy_wf [OF pol] object(2) by (auto simp: wf_policy_def)
    from matches_object_prefix_iff [OF cs ps] object(3) obtain qs where "cs = ps @ qs"
      "op_scheme c = op_scheme p" "op_authority c = op_authority p" by (auto simp: prefix_def)
    with cs ps object(4) have "op_path p = fspath ps \<and> list_all clean_component (ps @ qs) \<and>
        s = urlunsplit (op_scheme p) (op_authority p) (quote path_safe (fspath (ps @ qs)))"
      by (simp add: object_components_def)
    with r show ?thesis by (intro bexI [of _ r]) auto
  qed
qed

theorem authorize_confined_witness:
  "(\<exists>r\<in>set [''/srv/data'', ''s3://bucket/data'']. case allow_prefix sample_paths r of
      Inr (FileRoot base) \<Rightarrow> \<exists>path. prefix base path \<and> ''s3://bucket/data/a%20b.parquet'' = fspath path
    | Inr (ObjectPrefix p) \<Rightarrow> \<exists>ps qs. op_path p = fspath ps \<and> list_all clean_component (ps @ qs) \<and>
        ''s3://bucket/data/a%20b.parquet'' = urlunsplit (op_scheme p) (op_authority p) (quote path_safe (fspath (ps @ qs)))
    | Inl _ \<Rightarrow> False)"
proof (rule authorize_confined [OF sample_policy_new])
  show "authorize sample_paths sample_policy ''s3://bucket/data/./a%20b.parquet'' = Inr ''s3://bucket/data/a%20b.parquet''"
    by code_simp
qed

text \<open>
  C26. For object stores the decision is exact: a URI is accepted when some configured prefix of the same scheme
  and bucket is a component-wise prefix of its normalised path, and refused with \<open>PermissionError\<close> otherwise.
\<close>

theorem authorize_object_iff:
  assumes pol: "new_source_policy env references rn = Inr pol"
    and split: "source \<noteq> []" "urlsplit (pe_netloc_ok env) source = Inr parsed"
      "su_scheme parsed \<notin> {'''', ''file''}"
    and c: "object_prefix_of parsed = Inr c" "object_components c cs"
  shows "authorize env pol source =
     (if \<exists>p\<in>set (sp_object_prefixes pol). \<exists>ps. object_components p ps \<and> prefix ps cs \<and>
           op_scheme p = op_scheme c \<and> op_authority p = op_authority c
      then Inr (urlunsplit (op_scheme c) (op_authority c) (quote path_safe (op_path c)))
      else Inl (err PermissionError (rn @ '' is outside the allowed URI prefixes'')))"
proof -
  have "sp_resource_name pol = rn" using pol by (auto simp: new_source_policy_def)
  moreover have "matches_object_prefix c p \<longleftrightarrow>
      (\<exists>ps. object_components p ps \<and> prefix ps cs \<and> op_scheme p = op_scheme c \<and> op_authority p = op_authority c)"
    if "p \<in> set (sp_object_prefixes pol)" for p
  proof -
    from that new_source_policy_wf [OF pol] obtain ps where ps: "object_components p ps"
      by (auto simp: wf_policy_def)
    then have "ps' = ps" if "object_components p ps'" for ps'
      using that fspath_inject by (auto simp: object_components_def)
    with matches_object_prefix_iff [OF c(2) ps] ps show ?thesis by metis
  qed
  ultimately show ?thesis using split c by (auto simp: authorize_def list_ex_iff raise_if_def)
qed

theorem authorize_object_iff_witness:
  "authorize sample_paths sample_policy ''s3://bucket/database/x'' =
     Inl (err PermissionError ''source URI is outside the allowed URI prefixes'')"
proof -
  let ?u = "\<lparr>su_scheme = ''s3'', su_netloc = ''bucket'', su_path = ''/database/x'', su_query = [], su_fragment = []\<rparr>"
  let ?c = "\<lparr>op_scheme = ''s3'', op_authority = ''bucket'', op_path = ''/database/x''\<rparr>"
  have "urlsplit (pe_netloc_ok sample_paths) ''s3://bucket/database/x'' = Inr ?u" by code_simp
  moreover have "object_prefix_of ?u = Inr ?c" by code_simp
  moreover have "object_components ?c [''database'', ''x'']"
    by (simp add: object_components_def fspath_def clean_component_def)
  moreover have "\<not> (object_components \<lparr>op_scheme = ''s3'', op_authority = ''bucket'', op_path = ''/data''\<rparr> ps \<and>
      prefix ps [''database'', ''x''])" for ps
  proof
    assume a: "object_components \<lparr>op_scheme = ''s3'', op_authority = ''bucket'', op_path = ''/data''\<rparr> ps \<and>
      prefix ps [''database'', ''x'']"
    then have "fspath ps = fspath [''data'']" "list_all clean_component ps"
      by (simp_all add: object_components_def fspath_def)
    then have "ps = [''data'']" by (subst (asm) fspath_inject) (simp_all add: clean_component_def)
    with a show False by simp
  qed
  ultimately show ?thesis
    using authorize_object_iff [OF sample_policy_new, of "''s3://bucket/database/x''" ?u ?c "[''database'', ''x'']"]
    by (simp add: sample_policy_def)
qed


text \<open>
  The canonical form is stable: it parses back to the object that was checked, so a later
  authorisation of the returned URI returns the same URI.
\<close>

lemma object_prefix_of_fields:
  assumes "object_prefix_of parsed = Inr c" and "scheme_ok (su_scheme parsed)"
  shows "op_scheme c = su_scheme parsed" "op_scheme c \<notin> {'''', ''file''}" "op_authority c = su_netloc parsed"
    "CHR ''@'' \<notin> set (op_authority c)" "op_authority c \<noteq> []"
  using assms by (auto simp: object_prefix_of_def Let_def scheme_ok_def split: if_splits)

lemma normalize_object_path_stable:
  assumes n: "normalize_object_path path = Inr q" and ascii: "list_all is_ascii path"
  shows "normalize_object_path (quote path_safe q) = Inr q" and "prefix ''/'' q"
proof -
  from normalize_object_path_clean [OF n] obtain comps where q: "q = fspath comps"
    and c: "list_all clean_component comps" by blast
  let ?d = "unquote path"
  let ?s = "lstrip_char (CHR ''/'') ?d"
  from n have ctl: "\<not> list_ex is_control ?d" and qn: "q = ''/'' \<or> q = normpath (CHR ''/'' # ?s)"
    by (auto simp: normalize_object_path_def Let_def split: if_splits)
  have slash: "is_ascii (CHR ''/'')" by (simp add: is_ascii_def)
  have d: "?d = takeWhile (\<lambda>x. x = CHR ''/'') ?d @ ?s" by (simp add: lstrip_char_def)
  have "utf8_valid ?d" using ascii by (simp add: unquote_ascii utf8_replace_is_valid)
  then have "utf8_valid ?s"
    by (subst (asm) d, subst (asm) utf8_valid_append_ascii)
       (auto simp: list_all_iff slash dest: set_takeWhileD)
  then have "utf8_valid q" using qn by (auto simp: ascii_tail slash intro!: utf8_valid_normpath)
  then have uq: "unquote (quote path_safe q) = q" by (intro unquote_quote) (simp_all add: path_safe_def)
  have "set ?s \<subseteq> set ?d" by (auto simp: lstrip_char_def dest: set_dropWhileD)
  with ctl qn normpath_subset [of "CHR ''/'' # ?s"] have "\<not> list_ex is_control q"
    by (auto simp: list_ex_iff is_control_def dest!: subsetD)
  moreover have "lstrip_char (CHR ''/'') q = join ''/'' comps"
    using join_slash_hd [OF c] by (cases "join ''/'' comps") (auto simp: q fspath_def lstrip_char_def)
  ultimately show "normalize_object_path (quote path_safe q) = Inr q"
    using uq normpath_clean [OF c] fspath_not_dot [OF c] by (simp add: normalize_object_path_def Let_def q fspath_def)
  show "prefix ''/'' q" by (simp add: q fspath_def)
qed


lemma object_prefix_of_stable:
  assumes c: "object_prefix_of parsed = Inr c" and ascii: "list_all is_ascii (su_path parsed)"
    and split: "urlsplit ok source = Inr parsed"
  shows "\<exists>parsed'. urlsplit ok (urlunsplit (op_scheme c) (op_authority c) (quote path_safe (op_path c)))
           = Inr parsed' \<and> object_prefix_of parsed' = Inr c \<and> su_scheme parsed' = op_scheme c"
proof -
  have sch: "scheme_ok (su_scheme parsed)"
    using urlsplit_parts(1) [OF split] c by (auto simp: object_prefix_of_def py_lower_def)
  note fields = object_prefix_of_fields [OF c sch]
  from c have n: "normalize_object_path (su_path parsed) = Inr (op_path c)"
    by (auto simp: object_prefix_of_def Let_def split: if_splits)
  note stable = normalize_object_path_stable [OF n ascii]
  have "plain_url_char x" if "always_safe x \<or> x \<in> set path_safe \<or> x = CHR ''%''" for x
    using that by (auto simp: plain_url_char_def is_unsafe_url_char_def always_safe_def is_alpha_def
        is_digit_def path_safe_def)
  then have plain: "list_all plain_url_char (quote path_safe (op_path c))"
    by (auto simp: list_all_iff dest: quote_chars)
  have slash: "prefix ''/'' (quote path_safe (op_path c))"
    using stable(2) by (auto simp: prefix_def quote_def quote_char_def path_safe_def is_ascii_def)
  let ?p = "\<lparr>su_scheme = op_scheme c, su_netloc = op_authority c, su_path = quote path_safe (op_path c),
      su_query = [], su_fragment = []\<rparr>"
  have "urlsplit ok (urlunsplit (op_scheme c) (op_authority c) (quote path_safe (op_path c))) = Inr ?p"
    using sch urlsplit_parts(2) [OF split] plain slash by (intro urlsplit_urlunsplit) (simp_all add: fields)
  moreover have "object_prefix_of ?p = Inr c"
    using fields sch stable(1) by (simp add: object_prefix_of_def scheme_ok_def)
  ultimately show ?thesis by auto
qed

text \<open>
  The URI that \<open>authorize\<close> returns for an object source is canonical: authorising it again accepts it
  and returns it unchanged, so what the session registers is what the policy judged.
\<close>

theorem authorize_stable:
  assumes ok: "authorize env pol source = Inr s" and ascii: "list_all is_ascii source"
    and split: "urlsplit (pe_netloc_ok env) source = Inr parsed" "su_scheme parsed \<notin> {'''', ''file''}"
  shows "authorize env pol s = Inr s"
proof -
  from ok split obtain c where c: "object_prefix_of parsed = Inr c"
    and m: "list_ex (matches_object_prefix c) (sp_object_prefixes pol)"
    and s: "s = urlunsplit (op_scheme c) (op_authority c) (quote path_safe (op_path c))"
    by (auto simp: authorize_def raise_if_def split: if_splits)
  have "list_all is_ascii (su_path parsed)"
    using urlsplit_parts(3) [OF split(1)] ascii by (auto simp: list_all_iff)
  from object_prefix_of_stable [OF c this split(1)] obtain parsed' where
    p: "urlsplit (pe_netloc_ok env) s = Inr parsed'" "object_prefix_of parsed' = Inr c"
      "su_scheme parsed' = op_scheme c" by (auto simp: s)
  have "op_scheme c \<notin> {'''', ''file''}"
    using c by (auto simp: object_prefix_of_def Let_def split: if_splits)
  moreover have "s \<noteq> []" by (simp add: s urlunsplit_def)
  ultimately show ?thesis using p m by (simp add: authorize_def raise_if_def flip: s)
qed

theorem authorize_stable_witness:
  "authorize sample_paths sample_policy ''s3://bucket/data/a%20b.parquet'' = Inr ''s3://bucket/data/a%20b.parquet''"
proof (rule authorize_stable)
  show "authorize sample_paths sample_policy ''s3://bucket/data/../data/a%20b.parquet'' = Inr ''s3://bucket/data/a%20b.parquet''"
    by code_simp
  show "list_all is_ascii ''s3://bucket/data/../data/a%20b.parquet''" by (simp add: is_ascii_def)
  show "urlsplit (pe_netloc_ok sample_paths) ''s3://bucket/data/../data/a%20b.parquet'' =
      Inr \<lparr>su_scheme = ''s3'', su_netloc = ''bucket'', su_path = ''/data/../data/a%20b.parquet'', su_query = [], su_fragment = []\<rparr>"
    by code_simp
qed simp

end
