(* ===== verification/Streams.thy ===== *)
theory Streams
  imports Prelude
begin

text \<open>
  Asynchronous iterators: one \<open>__anext__\<close> is a step of a state, \<open>Yield\<close> an item, \<open>Stop\<close>
  (\<open>StopAsyncIteration\<close>), \<open>Raise\<close> an exception, or \<open>Diverge\<close> where a loop of the source has used up
  its fuel. The locale \<open>closable_stream\<close> is the contract of \<open>AsyncBatchStream\<close> and \<open>AsyncByteStream\<close>:
  a closed stream is exhausted and stays as it is, closing closes, and an exhausted stream is closed.
\<close>

section \<open>Definitions\<close>

datatype 'a step = Yield 'a | Stop | Raise exc | Diverge

record ('s, 'a) stream_ops =
  st_next :: "'s \<Rightarrow> 'a step \<times> 's"
  st_close :: "'s \<Rightarrow> unit result \<times> 's"

fun drain :: "nat \<Rightarrow> ('s \<Rightarrow> 'a step \<times> 's) \<Rightarrow> 's \<Rightarrow> 'a list \<times> 'a step \<times> 's" where
  "drain 0 nxt s = ([], Diverge, s)"
| "drain (Suc n) nxt s =
     (case nxt s of
        (Yield a, s') \<Rightarrow> (case drain n nxt s' of (xs, e, s'') \<Rightarrow> (a # xs, e, s''))
      | (e, s') \<Rightarrow> ([], e, s'))"

text \<open>
  \<open>try: return [item async for item in stream] finally: await stream.aclose()\<close>; \<open>None\<close> where the
  loop does not end.
\<close>

definition collect_stream ::
  "nat \<Rightarrow> ('s, 'a) stream_ops \<Rightarrow> 's \<Rightarrow> 'a list result option \<times> 's" where
  "collect_stream n ops s =
     (case drain n (st_next ops) s of
        (xs, Diverge, s1) \<Rightarrow> (None, s1)
      | (xs, e, s1) \<Rightarrow>
          (case st_close ops s1 of
             (Inl x, s2) \<Rightarrow> (Some (Inl x), s2)
           | (Inr _, s2) \<Rightarrow> (Some (case e of Raise x \<Rightarrow> Inl x | _ \<Rightarrow> Inr xs), s2)))"

text \<open>A source that yields a list and then ends, either exhausted or with an error.\<close>

definition list_ops :: "('a list \<times> exc option \<times> bool, 'a) stream_ops" where
  "list_ops =
     \<lparr>st_next = (\<lambda>(xs, e, c). if c then (Stop, (xs, e, c)) else case xs of
          x # ys \<Rightarrow> (Yield x, (ys, e, c))
        | [] \<Rightarrow> (case e of None \<Rightarrow> (Stop, ([], e, True)) | Some x \<Rightarrow> (Raise x, ([], None, c)))),
      st_close = (\<lambda>(xs, e, c). (Inr (), (xs, e, True)))\<rparr>"

lemma list_next [simp]:
  "st_next list_ops (x # xs, e, False) = (Yield x, (xs, e, False))"
  "st_next list_ops ([], None, False) = (Stop, ([], None, True))"
  "st_next list_ops ([], Some y, False) = (Raise y, ([], None, False))"
  "st_next list_ops (xs, e, True) = (Stop, (xs, e, True))"
  by (simp_all add: list_ops_def)

lemma list_close [simp]: "st_close list_ops (xs, e, c) = (Inr (), (xs, e, True))"
  by (simp add: list_ops_def)

section \<open>The contract of a closable stream\<close>

locale closable_stream =
  fixes nxt :: "'s \<Rightarrow> 'a step \<times> 's"
    and close :: "'s \<Rightarrow> unit result \<times> 's"
    and closed :: "'s \<Rightarrow> bool"
  assumes next_closed: "closed s \<Longrightarrow> nxt s = (Stop, s)"
    and close_closed: "closed s \<Longrightarrow> close s = (Inr (), s)"
    and close_closes: "closed (snd (close s))"
    and stop_closes: "nxt s = (Stop, s') \<Longrightarrow> closed s'"
begin

lemma close_idem: "close (snd (close s)) = (Inr (), snd (close s))"
  by (rule close_closed [OF close_closes])

lemma stop_stays: "nxt s = (Stop, s') \<Longrightarrow> nxt s' = (Stop, s')"
  by (rule next_closed [OF stop_closes])

lemma drain_closed: "closed s \<Longrightarrow> drain (Suc n) nxt s = ([], Stop, s)"
  by (simp add: next_closed)

lemma drain_after_close: "drain (Suc n) nxt (snd (close s)) = ([], Stop, snd (close s))"
  by (rule drain_closed [OF close_closes])

lemma drain_stop_closed: "drain n nxt s = (xs, Stop, s') \<Longrightarrow> closed s'"
proof (induction n arbitrary: s xs)
  case (Suc n)
  then show ?case by (auto split: prod.splits step.splits dest: stop_closes)
qed simp

text \<open>Collecting leaves the stream closed, whatever ended it.\<close>

lemma collect_closes:
  assumes "collect_stream n \<lparr>st_next = nxt, st_close = close\<rparr> s = (Some r, s')"
  shows "closed s'"
proof -
  obtain xs e s1 where d: "drain n nxt s = (xs, e, s1)" by (cases "drain n nxt s") auto
  with assms have "s' = snd (close s1)"
    by (auto simp: collect_stream_def split: step.splits prod.splits sum.splits)
  then show ?thesis by (simp add: close_closes)
qed

text \<open>A stream read to its end is collected whole, and closing it cannot fail any more.\<close>

lemma collect_exhausted:
  "drain n nxt s = (xs, Stop, s') \<Longrightarrow>
     collect_stream n \<lparr>st_next = nxt, st_close = close\<rparr> s = (Some (Inr xs), s')"
  using drain_stop_closed [of n s xs s'] by (simp add: collect_stream_def close_closed)

end

interpretation list_stream: closable_stream "st_next list_ops" "st_close list_ops" "\<lambda>(xs, e, c). c"
  by unfold_locales (auto simp: list_ops_def split: if_splits list.splits option.splits)

lemma drain_list:
  "length xs < n \<Longrightarrow> drain n (st_next list_ops) (xs, None, False) = (xs, Stop, ([], None, True))"
proof (induction xs arbitrary: n)
  case (Cons x xs)
  then show ?case by (cases n) (auto simp: list_ops_def)
next
  case Nil
  then show ?case by (cases n) (auto simp: list_ops_def)
qed

lemma drain_mono:
  "drain n nxt s = (xs, e, s') \<Longrightarrow> e \<noteq> Diverge \<Longrightarrow> n \<le> m \<Longrightarrow> drain m nxt s = (xs, e, s')"
proof (induction n arbitrary: s xs m)
  case (Suc n)
  then obtain k where m: "m = Suc k" "n \<le> k" by (cases m) auto
  obtain r t where nx: "nxt s = (r, t)" by (cases "nxt s")
  show ?case
  proof (cases r)
    case (Yield a)
    obtain ys e' s'' where d: "drain n nxt t = (ys, e', s'')" by (cases "drain n nxt t")
    with Suc.prems(1) nx Yield have "xs = a # ys" "drain n nxt t = (ys, e, s')" by auto
    with Suc.IH [of t ys k] Suc.prems(2) m nx Yield show ?thesis by simp
  qed (use Suc.prems m nx in auto)
qed simp

section \<open>Counting closes\<close>

text \<open>The same source with a counter of the calls of its \<open>aclose\<close>.\<close>

definition counted :: "('s, 'a) stream_ops \<Rightarrow> ('s \<times> nat, 'a) stream_ops" where
  "counted ops =
     \<lparr>st_next = (\<lambda>(s, n). case st_next ops s of (r, s') \<Rightarrow> (r, (s', n))),
      st_close = (\<lambda>(s, n). case st_close ops s of (r, s') \<Rightarrow> (r, (s', Suc n)))\<rparr>"

lemma counted_next: "snd (snd (st_next (counted ops) s)) = snd s"
  by (cases s) (simp add: counted_def split: prod.splits)

lemma counted_close: "snd (snd (st_close (counted ops) s)) = Suc (snd s)"
  by (cases s) (simp add: counted_def split: prod.splits)

end
