(* ===== verification/Session.thy ===== *)
theory Session
  imports Registration Source_Policy Streams
begin

text \<open>
  \<open>session.py\<close>: the embedded session over the native session of the Rust core. The native session is
  the parameter \<open>native_api\<close>, one command per method the Python code calls, over a state type of its
  own; the command may raise and may change that state. JSON texts exchanged with it are represented
  by the values they denote, and a record batch by its columns. A call runs to its end before the
  next starts.
\<close>

section \<open>The native session as a parameter\<close>

type_synonym batch = "json list list"

record 's native_stream =
  ns_schema :: 's
  ns_batches :: "batch list"
  ns_error :: "exc option"

record search_args =
  sa_source :: json
  sa_index_namespace :: "string list"
  sa_query :: "pyfloat list"
  sa_index :: "string option"
  sa_column :: "string option"
  sa_nprobe :: "int option"
  sa_limit :: int
  sa_projection :: "string list option"
  sa_filter :: "string option"
  sa_bypass_index :: bool

record ('s, 't) native_registration =
  nr_table_name :: json
  nr_source :: string
  nr_partition_cols :: "(string \<times> 't column_type) list"
  nr_parquet_pruning :: json
  nr_file_extension :: json
  nr_skip_metadata :: json
  nr_schema :: "'s option"
  nr_file_sort_order :: "string list list"

record create_args =
  ca_source :: json
  ca_index_namespace :: "string list"
  ca_index :: string
  ca_column :: string
  ca_key :: "string list"
  ca_nlist :: int
  ca_encoding :: string
  ca_metric :: string
  ca_writer_options :: parquet_writer_options
  ca_partitions :: "int option"

record refresh_args =
  fa_source :: json
  fa_index_namespace :: "string list"
  fa_index :: string
  fa_nlist :: "int option"
  fa_encoding :: "string option"
  fa_metric :: "string option"
  fa_writer_options :: parquet_writer_options
  fa_partitions :: "int option"

record build_status =
  bs_state :: string
  bs_progress :: "pyfloat option"
  bs_phase :: "string option"
  bs_completed :: "int option"
  bs_total :: "int option"
  bs_current_snapshot_id :: "int option"
  bs_error :: "string option"
  bs_error_code :: "string option"

text \<open>
  \<open>na_wait_for_index_build\<close> takes the seconds the caller waits and says whether the build ended
  within them. \<open>na_context_*\<close> are the calls of the DataFusion context. \<open>na_str\<close> is \<open>str()\<close> of a float or a
  container, which no definition of the catalog holds where a string is due.
\<close>

record ('n, 's, 't) native_api =
  na_list_table_definitions :: "('n, (string \<times> string list \<times> string) list) cmd"
  na_register_parquet :: "('s, 't) native_registration \<Rightarrow> ('n, unit) cmd"
  na_context_table :: "string \<Rightarrow> ('n, 's) cmd"
  na_context_deregister_table :: "string \<Rightarrow> ('n, unit) cmd"
  na_context_register_view :: "string \<Rightarrow> 's native_stream \<Rightarrow> ('n, unit) cmd"
  na_context_sql_collect :: "string \<Rightarrow> ('n, batch list) cmd"
  na_persistent_table_definition :: "string \<Rightarrow> ('n, json option) cmd"
  na_definition_by_identifier :: "string \<Rightarrow> string list \<Rightarrow> string \<Rightarrow> ('n, json option) cmd"
  na_drop_table_definition_if_exists :: "string \<Rightarrow> ('n, unit) cmd"
  na_select_index_metadata ::
    "json \<Rightarrow> string list \<Rightarrow> string option \<Rightarrow> string option \<Rightarrow> ('n, json) cmd"
  na_plan_search :: "search_args \<Rightarrow> ('n, 's native_stream) cmd"
  na_search_sql :: "search_args \<Rightarrow> ('n, string) cmd"
  na_stream_sql :: "string \<Rightarrow> ('n, 's native_stream) cmd"
  na_stream_search :: "search_args \<Rightarrow> ('n, 's native_stream) cmd"
  na_stream_explain_search :: "search_args \<Rightarrow> bool \<Rightarrow> bool \<Rightarrow> ('n, 's native_stream) cmd"
  na_submit_create_index :: "create_args \<Rightarrow> ('n, unit) cmd"
  na_submit_refresh_index :: "refresh_args \<Rightarrow> ('n, unit) cmd"
  na_register_index :: "json \<Rightarrow> string list \<Rightarrow> string \<Rightarrow> string \<Rightarrow> ('n, unit) cmd"
  na_index_build_status :: "json \<Rightarrow> string list \<Rightarrow> string \<Rightarrow> ('n, build_status) cmd"
  na_wait_for_index_build :: "json \<Rightarrow> string list \<Rightarrow> string \<Rightarrow> rat \<Rightarrow> ('n, bool) cmd"
  na_list_source_indexes :: "json \<Rightarrow> string list \<Rightarrow> ('n, index_info list) cmd"
  na_drop_source_index :: "json \<Rightarrow> string list \<Rightarrow> string \<Rightarrow> ('n, unit) cmd"
  na_str :: "json \<Rightarrow> string"

section \<open>Helpers of the session\<close>

definition session_index_namespace :: "table_identifier \<Rightarrow> string list" where
  "session_index_namespace t = index_namespace t"

definition quote_identifier :: "string \<Rightarrow> string" where
  "quote_identifier s =
     [CHR 34] @ concat (map (\<lambda>c. if c = CHR 34 then [CHR 34, CHR 34] else [c]) s) @ [CHR 34]"

datatype path_arg = PathText string | PathOther

definition absolute_source_reference :: "path_env \<Rightarrow> string \<Rightarrow> string result" where
  "absolute_source_reference env reference =
     rbind (urlsplit (pe_netloc_ok env) reference) (\<lambda>parsed.
     if su_scheme parsed \<noteq> [] then Inr reference
     else rbind (pe_resolve env reference) (\<lambda>path. Inr (fspath path)))"

text \<open>
  \<open>_persistent_sort_order\<close>: the check iterates over every order and every key until it meets one that
  is not a string.
\<close>

definition not_iterable :: exc where
  "not_iterable = err TypeError ''object is not iterable''"

fun all_string_keys :: "json list \<Rightarrow> bool result" where
  "all_string_keys [] = Inr True"
| "all_string_keys (order # orders) =
     (case py_iter order of
        None \<Rightarrow> Inl not_iterable
      | Some keys \<Rightarrow> if list_all (\<lambda>k. case k of JStr _ \<Rightarrow> True | _ \<Rightarrow> False) keys
                     then all_string_keys orders else Inr False)"

definition order_keys :: "json \<Rightarrow> string list" where
  "order_keys order =
     (case py_iter order of
        None \<Rightarrow> []
      | Some keys \<Rightarrow> concat (map (\<lambda>k. case k of JStr s \<Rightarrow> [s] | _ \<Rightarrow> []) keys))"

definition persistent_sort_order :: "json \<Rightarrow> string list list result" where
  "persistent_sort_order v =
     (if v = JNull then Inr []
      else case py_iter v of
          None \<Rightarrow> Inl not_iterable
        | Some orders \<Rightarrow>
            rbind (all_string_keys orders) (\<lambda>ok.
            if ok then Inr (map order_keys orders)
            else Inl (err NotImplementedError
                  ''persistent Parquet tables currently require string file_sort_order keys'')))"

text \<open>\<open>SessionContext._convert_table_partition_cols\<close>: only the literals \<open>string\<close> and \<open>int\<close>.\<close>

definition convert_partition_col ::
  "('s, 't) arrow_api \<Rightarrow> string \<times> 't column_type \<Rightarrow> (string \<times> 't column_type) result" where
  "convert_partition_col api = (\<lambda>(col, data_type).
     (case data_type of
        TypeAlias a \<Rightarrow>
          if a = ''string'' then Inr (col, ArrowType (ar_string api))
          else if a = ''int'' then Inr (col, ArrowType (ar_int32 api))
          else Inl (err ValueError (''Unsupported literal data type '' @ in_quotes a @
                 '' for partition column. Supported types are '' @ in_quotes ''string'' @ '' and '' @
                 in_quotes ''int''))
      | _ \<Rightarrow> Inr (col, data_type)))"

definition convert_table_partition_cols ::
  "('s, 't) arrow_api \<Rightarrow> (string \<times> 't column_type) list \<Rightarrow> (string \<times> 't column_type) list result" where
  "convert_table_partition_cols api cols = traverse (convert_partition_col api) cols"

text \<open>Sections of \<open>EXPLAIN\<close> output: \<open>_format_explain\<close> and \<open>_format_explain_batches\<close>.\<close>

definition plan_section :: "json \<times> json \<Rightarrow> string result" where
  "plan_section = (\<lambda>(plan_type, plan).
     (case (plan_type, plan) of
        (JStr t, JStr p) \<Rightarrow> Inr (t @ [CHR 10] @ p)
      | _ \<Rightarrow> Inl (err RuntimeError ''DataFusion EXPLAIN returned a non-string plan'')))"

definition explain_sections :: "batch \<Rightarrow> string list result" where
  "explain_sections b =
     (case b of
        [types, plans] \<Rightarrow>
          rbind (traverse plan_section (zip types plans)) (\<lambda>sections.
          rbind (raise_if (length types \<noteq> length plans)
                  (err ValueError ''zip() arguments have different lengths'')) (\<lambda>_.
          Inr sections))
      | _ \<Rightarrow> Inl (err RuntimeError ''DataFusion EXPLAIN returned an invalid schema''))"

definition format_explain :: "batch list \<Rightarrow> string result" where
  "format_explain batches =
     rbind (traverse explain_sections batches) (\<lambda>sections.
     rbind (raise_if (concat sections = [])
             (err RuntimeError ''DataFusion EXPLAIN returned no plan'')) (\<lambda>_.
     Inr (join [CHR 10] (concat sections))))"

section \<open>Index metadata\<close>

definition py_getitem :: "json \<Rightarrow> string \<Rightarrow> json result" where
  "py_getitem v k =
     (case v of
        JObj kvs \<Rightarrow> (case map_of kvs k of
            None \<Rightarrow> Inl (err KeyError (in_quotes k)) | Some x \<Rightarrow> Inr x)
      | _ \<Rightarrow> Inl (err TypeError ''object is not subscriptable by a string''))"

definition py_get :: "json \<Rightarrow> string \<Rightarrow> json result" where
  "py_get v k =
     (case v of JObj kvs \<Rightarrow> Inr (jget kvs k)
      | _ \<Rightarrow> Inl (err AttributeError ''object has no attribute get''))"

definition py_int :: "json \<Rightarrow> int result" where
  "py_int v =
     (case v of
        JInt i \<Rightarrow> Inr i
      | JBool b \<Rightarrow> Inr (if b then 1 else 0)
      | JFloat x \<Rightarrow> (case x of
            Fin q \<Rightarrow> Inr (if q < 0 then - \<lfloor>- q\<rfloor> else \<lfloor>q\<rfloor>)
          | NaN \<Rightarrow> Inl (err ValueError ''cannot convert float NaN to integer'')
          | _ \<Rightarrow> Inl (err OverflowError ''cannot convert float infinity to integer''))
      | JStr s \<Rightarrow> (case parse_int s of
            None \<Rightarrow> Inl (err ValueError ''invalid literal for int() with base 10'') | Some i \<Rightarrow> Inr i)
      | _ \<Rightarrow> Inl (err TypeError ''int() argument must be a string or a real number''))"

definition is_py_int :: "json \<Rightarrow> bool" where
  "is_py_int v = (case v of JInt _ \<Rightarrow> True | JBool _ \<Rightarrow> True | _ \<Rightarrow> False)"

text \<open>\<open>next(snapshot for snapshot in snapshots if int(snapshot["snapshot-id"]) == snapshot_id)\<close>.\<close>

fun next_snapshot :: "int \<Rightarrow> json list \<Rightarrow> json result" where
  "next_snapshot i [] = Inl (err StopIteration [])"
| "next_snapshot i (s # ss) =
     rbind (py_getitem s ''snapshot-id'') (\<lambda>v.
     rbind (py_int v) (\<lambda>j.
     if j = i then Inr s else next_snapshot i ss))"

definition check_index_table :: "json \<Rightarrow> unit result" where
  "check_index_table t =
     rbind (py_get t ''definition-version'') (\<lambda>v.
     rbind (raise_if (\<not> is_py_int v)
             (err ValueError ''index table definition version must be an integer'')) (\<lambda>_.
     rbind (py_get t ''properties'') (\<lambda>ps.
     raise_if (\<not> (case ps of JObj _ \<Rightarrow> True | _ \<Rightarrow> False))
       (err ValueError ''index table properties must be an object''))))"

definition prepare_metadata_tables :: "json \<Rightarrow> unit result" where
  "prepare_metadata_tables metadata =
     rbind (py_getitem metadata ''current-snapshot-id'') (\<lambda>v.
     rbind (py_int v) (\<lambda>snapshot_id.
     rbind (py_getitem metadata ''snapshots'') (\<lambda>sv.
     (case py_iter sv of
        None \<Rightarrow> Inl not_iterable
      | Some snapshots \<Rightarrow>
          rbind (next_snapshot snapshot_id snapshots) (\<lambda>snapshot.
          rbind (py_getitem snapshot ''index-provider'') (\<lambda>provider.
          rbind (py_get provider ''provider'') (\<lambda>nm.
          rbind (raise_if (\<not> (case nm of JStr _ \<Rightarrow> True | _ \<Rightarrow> False))
                  (err ValueError ''index provider name must be a string'')) (\<lambda>_.
          rbind (py_getitem snapshot ''index-tables'') (\<lambda>tables.
          (case tables of
             JObj kvs \<Rightarrow> rbind (traverse (\<lambda>(k, t). check_index_table t) kvs) (\<lambda>_. Inr ())
           | _ \<Rightarrow> Inl (err AttributeError ''object has no attribute values'')))))))))))"

section \<open>The session\<close>

record 'n embedded =
  em_root :: "string list"
  em_warehouse :: string
  em_query_names :: nat
  em_native :: 'n

datatype 'c typed_arg = Typed 'c | Mistyped

record ('c, 'r) open_args =
  oa_root :: string
  oa_warehouse :: "string option"
  oa_storage_options :: "(json \<times> json) list"
  oa_catalog_path :: "string option"
  oa_config :: "'c typed_arg option"
  oa_runtime :: "'r typed_arg option"

text \<open>
  \<open>_NativeSession(...)\<close>: the root, the warehouse, the storage options, the catalog path and the two
  configurations give a native session and its warehouse root, or raise.
\<close>

type_synonym ('c, 'r, 'n) native_open =
  "string list \<Rightarrow> string option \<Rightarrow> (json \<times> json) list option \<Rightarrow> string list option
     \<Rightarrow> 'c option \<Rightarrow> 'r option \<Rightarrow> ('n \<times> string) result"

definition is_json_string :: "json \<Rightarrow> bool" where
  "is_json_string v = (case v of JStr _ \<Rightarrow> True | _ \<Rightarrow> False)"

definition typed_value :: "string \<Rightarrow> 'c typed_arg option \<Rightarrow> 'c option result" where
  "typed_value message a =
     (case a of None \<Rightarrow> Inr None | Some (Typed c) \<Rightarrow> Inr (Some c)
      | Some Mistyped \<Rightarrow> Inl (err TypeError message))"

definition new_embedded_session ::
  "path_env \<Rightarrow> ('c, 'r, 'n) native_open \<Rightarrow> ('c, 'r) open_args \<Rightarrow> 'n embedded result" where
  "new_embedded_session env native_open a =
     rbind (pe_resolve env (oa_root a)) (\<lambda>root_path.
     rbind (raise_if (list_ex (\<lambda>(k, v). \<not> is_json_string k \<or> \<not> is_json_string v) (oa_storage_options a))
             (err TypeError ''storage_options keys and values must be strings'')) (\<lambda>_.
     rbind (case oa_catalog_path a of None \<Rightarrow> Inr None
            | Some p \<Rightarrow> rbind (pe_resolve env p) (\<lambda>q. Inr (Some q))) (\<lambda>catalog.
     rbind (typed_value ''config must be parqdb.datafusion.SessionConfig'' (oa_config a)) (\<lambda>config.
     rbind (typed_value ''runtime must be parqdb.datafusion.RuntimeEnvBuilder'' (oa_runtime a)) (\<lambda>runtime.
     rbind (native_open root_path (oa_warehouse a)
              (if oa_storage_options a = [] then None else Some (oa_storage_options a))
              catalog config runtime) (\<lambda>(native, warehouse).
     Inr \<lparr>em_root = root_path, em_warehouse = warehouse, em_query_names = 0, em_native = native\<rparr>))))))"

definition native_call :: "('n, 'a) cmd \<Rightarrow> ('n embedded, 'a) cmd" where
  "native_call op = (\<lambda>s. case op (em_native s) of (r, n) \<Rightarrow> (r, s\<lparr>em_native := n\<rparr>))"

record ('s, 't) parquet_args =
  pq_name :: json
  pq_path :: path_arg
  pq_partition_cols :: "(string \<times> 't column_type) list option"
  pq_parquet_pruning :: json
  pq_file_extension :: json
  pq_skip_metadata :: json
  pq_schema :: "'s option"
  pq_file_sort_order :: json

definition em_register_parquet ::
  "('n, 's, 't) native_api \<Rightarrow> ('s, 't) arrow_api \<Rightarrow> path_env \<Rightarrow> ('s, 't) parquet_args \<Rightarrow> ('n embedded, unit) cmd" where
  "em_register_parquet api ar env a =
     (case pq_path a of
        PathOther \<Rightarrow>
          sraise (err TypeError ''persistent Parquet tables require one path or wildcard pattern'')
      | PathText path \<Rightarrow>
          sbind (slift (absolute_source_reference env path)) (\<lambda>source.
          sbind (slift (persistent_sort_order (pq_file_sort_order a))) (\<lambda>sort_order.
          sbind (slift (convert_table_partition_cols ar
                   (case pq_partition_cols a of None \<Rightarrow> [] | Some cs \<Rightarrow> cs))) (\<lambda>cols.
          native_call (na_register_parquet api
            \<lparr>nr_table_name = pq_name a, nr_source = source, nr_partition_cols = cols,
             nr_parquet_pruning = pq_parquet_pruning a, nr_file_extension = pq_file_extension a,
             nr_skip_metadata = pq_skip_metadata a, nr_schema = pq_schema a,
             nr_file_sort_order = sort_order\<rparr>)))))"

definition py_str :: "('n, 's, 't) native_api \<Rightarrow> json \<Rightarrow> string" where
  "py_str api v =
     (case v of JStr s \<Rightarrow> s | JInt i \<Rightarrow> show_int i | JBool True \<Rightarrow> ''True'' | JBool False \<Rightarrow> ''False''
      | JNull \<Rightarrow> ''None'' | _ \<Rightarrow> na_str api v)"

record 's source_table =
  src_identifier :: table_identifier
  src_schema :: 's
  src_build_source :: "string option"

datatype 's frame = PlainFrame 's | SourceFrame "'s source_table"

definition definition_identifier :: "('n, 's, 't) native_api \<Rightarrow> json \<Rightarrow> table_identifier result" where
  "definition_identifier api d =
     rbind (py_getitem d ''identifier'') (\<lambda>raw.
     rbind (py_getitem raw ''catalog'') (\<lambda>c.
     rbind (py_getitem raw ''namespace'') (\<lambda>ns.
     (case py_iter ns of
        None \<Rightarrow> Inl not_iterable
      | Some segments \<Rightarrow>
          rbind (py_getitem raw ''name'') (\<lambda>n.
          new_table_identifier (py_str api c) (map (py_str api) segments) (py_str api n))))))"

definition definition_build_source :: "('n, 's, 't) native_api \<Rightarrow> json \<Rightarrow> string option result" where
  "definition_build_source api d =
     rbind (py_getitem d ''provider'') (\<lambda>p.
     if p = JStr ''parquet''
     then rbind (py_getitem d ''properties'') (\<lambda>ps.
          rbind (py_getitem ps ''location'') (\<lambda>l. Inr (Some (py_str api l))))
     else Inr None)"

definition em_table :: "('n, 's, 't) native_api \<Rightarrow> string \<Rightarrow> ('n embedded, 's frame) cmd" where
  "em_table api name =
     sbind (native_call (na_context_table api name)) (\<lambda>schema.
     sbind (native_call (na_persistent_table_definition api name)) (\<lambda>d.
     (case d of
        None \<Rightarrow> sret (PlainFrame schema)
      | Some definition_json \<Rightarrow>
          sbind (slift (definition_identifier api definition_json)) (\<lambda>ident.
          sbind (slift (definition_build_source api definition_json)) (\<lambda>build_source.
          sret (SourceFrame \<lparr>src_identifier = ident, src_schema = schema,
                  src_build_source = build_source\<rparr>))))))"

definition em_deregister_table :: "('n, 's, 't) native_api \<Rightarrow> string \<Rightarrow> ('n embedded, unit) cmd" where
  "em_deregister_table api name =
     sbind (native_call (na_drop_table_definition_if_exists api name)) (\<lambda>_.
     native_call (na_context_deregister_table api name))"

text \<open>
  \<open>repr()\<close> of a string: single quotes, or double quotes where the text has a single quote and no
  double quote; a backslash, the quote itself and control characters are escaped.
\<close>

definition repr_char :: "char \<Rightarrow> char \<Rightarrow> string" where
  "repr_char q c =
     (let n = code_of c
      in if c = q \<or> n = 92 then [CHR 92, c]
         else if n = 10 then [CHR 92, CHR ''n''] else if n = 13 then [CHR 92, CHR ''r'']
         else if n = 9 then [CHR 92, CHR ''t'']
         else if n < 32 \<or> n = 127
         then [CHR 92, CHR ''x'', lower_char (hex_char (n div 16)), lower_char (hex_char (n mod 16))]
         else [c])"

definition py_repr :: "string \<Rightarrow> string" where
  "py_repr s =
     (let q = (if CHR 39 \<in> set s \<and> CHR 34 \<notin> set s then CHR 34 else CHR 39)
      in [q] @ concat (map (repr_char q) s) @ [q])"

definition py_repr_tuple :: "string list \<Rightarrow> string" where
  "py_repr_tuple xs =
     (case xs of [x] \<Rightarrow> ''('' @ py_repr x @ '',)'' | _ \<Rightarrow> ''('' @ join '', '' (map py_repr xs) @ '')'')"

definition py_repr_identifier :: "table_identifier \<Rightarrow> string" where
  "py_repr_identifier t =
     ''TableIdentifier(catalog='' @ py_repr (ti_catalog t) @ '', namespace='' @
       py_repr_tuple (ti_namespace t) @ '', name='' @ py_repr (ti_name t) @ '')''"

definition table_definition :: "('n, 's, 't) native_api \<Rightarrow> table_identifier \<Rightarrow> ('n embedded, json) cmd" where
  "table_definition api t =
     sbind (native_call (na_definition_by_identifier api (ti_catalog t) (ti_namespace t) (ti_name t))) (\<lambda>d.
     (case d of
        None \<Rightarrow> sraise (err ValueError (''query source is not registered: '' @ py_repr_identifier t))
      | Some definition_json \<Rightarrow> sret definition_json))"

datatype query_arg = QueryVector vector_query | QuerySql string | QueryOther

definition resolve_query_source :: "('n, 's, 't) native_api \<Rightarrow> query_arg \<Rightarrow> ('n embedded, json) cmd" where
  "resolve_query_source api q =
     (case q of
        QueryVector v \<Rightarrow> table_definition api (vq_source v)
      | _ \<Rightarrow> sraise (err TypeError ''query must be a parqdb.VectorQuery''))"

definition prepare_index_tables ::
  "('n, 's, 't) native_api \<Rightarrow> vector_query \<Rightarrow> json \<Rightarrow> ('n embedded, unit) cmd" where
  "prepare_index_tables api q source =
     (if vq_bypass_index q then sret ()
      else sbind (native_call (na_select_index_metadata api source
                    (session_index_namespace (vq_source q)) (vq_index q) (vq_column q))) (\<lambda>metadata.
           slift (prepare_metadata_tables metadata)))"

definition search_arguments :: "vector_query \<Rightarrow> json \<Rightarrow> search_args" where
  "search_arguments q source =
     \<lparr>sa_source = source, sa_index_namespace = session_index_namespace (vq_source q),
      sa_query = vq_query q, sa_index = vq_index q, sa_column = vq_column q,
      sa_nprobe = vq_probe_count q, sa_limit = vq_result_limit q, sa_projection = vq_projection q,
      sa_filter = vq_predicate q, sa_bypass_index = vq_bypass_index q\<rparr>"

text \<open>The resolved source and the prepared index of a query, as every search entry point does it.\<close>

definition prepared_search ::
  "('n, 's, 't) native_api \<Rightarrow> query_arg \<Rightarrow> ('n embedded, search_args) cmd" where
  "prepared_search api q =
     sbind (resolve_query_source api q) (\<lambda>source.
     (case q of
        QueryVector v \<Rightarrow>
          sbind (prepare_index_tables api v source) (\<lambda>_. sret (search_arguments v source))
      | _ \<Rightarrow> sraise (err TypeError ''query must be a parqdb.VectorQuery'')))"

definition em_to_dataframe ::
  "('n, 's, 't) native_api \<Rightarrow> query_arg \<Rightarrow> ('n embedded, 's native_stream) cmd" where
  "em_to_dataframe api q =
     sbind (prepared_search api q) (\<lambda>args. native_call (na_plan_search api args))"

definition frame_collect :: "'s native_stream \<Rightarrow> batch list result" where
  "frame_collect df = (case ns_error df of None \<Rightarrow> Inr (ns_batches df) | Some e \<Rightarrow> Inl e)"

definition em_collect ::
  "('n, 's, 't) native_api \<Rightarrow> query_arg \<Rightarrow> ('n embedded, batch list \<times> 's) cmd" where
  "em_collect api q =
     sbind (em_to_dataframe api q) (\<lambda>df.
     sbind (slift (frame_collect df)) (\<lambda>bs. sret (bs, ns_schema df)))"

definition em_to_sql :: "('n, 's, 't) native_api \<Rightarrow> query_arg \<Rightarrow> ('n embedded, string) cmd" where
  "em_to_sql api q =
     sbind (prepared_search api q) (\<lambda>args. native_call (na_search_sql api args))"

definition explain_prefix :: "bool \<Rightarrow> bool \<Rightarrow> string" where
  "explain_prefix verbose analyze =
     (if analyze then ''EXPLAIN ANALYZE'' else if verbose then ''EXPLAIN VERBOSE'' else ''EXPLAIN'')"

definition explain_query ::
  "('n, 's, 't) native_api \<Rightarrow> query_arg \<Rightarrow> bool \<Rightarrow> bool \<Rightarrow> ('n embedded, string) cmd" where
  "explain_query api q verbose analyze =
     sbind (em_to_dataframe api q) (\<lambda>df.
     sbind (\<lambda>s. (Inr (em_query_names s), s\<lparr>em_query_names := Suc (em_query_names s)\<rparr>)) (\<lambda>i.
     let name = ''__parqdb_explain_'' @ show_nat i
     in sbind (native_call (na_context_register_view api name df)) (\<lambda>_.
        sfinally
          (sbind (native_call (na_context_sql_collect api
                    (explain_prefix verbose analyze @ '' SELECT * FROM '' @ quote_identifier name)))
             (\<lambda>bs. slift (format_explain bs)))
          (em_deregister_table api name))))"

definition em_explain :: "('n, 's, 't) native_api \<Rightarrow> query_arg \<Rightarrow> json \<Rightarrow> ('n embedded, string) cmd" where
  "em_explain api q verbose =
     (case verbose of
        JBool b \<Rightarrow> explain_query api q b False
      | _ \<Rightarrow> sraise (err TypeError ''verbose must be a boolean''))"

definition em_analyze :: "('n, 's, 't) native_api \<Rightarrow> query_arg \<Rightarrow> ('n embedded, string) cmd" where
  "em_analyze api q = explain_query api q False True"

end
