(* ===== verification/Service.thy ===== *)
theory Service
  imports Session
begin

text \<open>
  \<open>runtime/service.py\<close>: \<open>SessionService\<close> guards the
  embedded session with its \<open>closed\<close> flag, validates what a call needs before it reaches the native
  session, and converts what comes back.
\<close>

section \<open>Arguments\<close>

datatype table_ref = RefText string | RefIdentifier table_identifier | RefOther

datatype time_arg = TimeDelta rat | TimeValue json

datatype config_arg = ConfigIvf ivf | ConfigOther

text \<open>\<open>writer_options\<close>: options, \<open>None\<close>, another false value, or another true value.\<close>

datatype writer_arg = WriterNone | WriterFalse | WriterOptions write_options | WriterOther

record 's descriptor =
  td_identifier :: table_identifier
  td_schema :: 's

definition table_reference :: "table_ref \<Rightarrow> string result" where
  "table_reference r =
     (case r of
        RefText s \<Rightarrow> if s = [] then Inl (err ValueError ''table identifier must not be empty'') else Inr s
      | RefIdentifier t \<Rightarrow> Inr (join ''.'' (ti_catalog t # ti_namespace t @ [ti_name t]))
      | RefOther \<Rightarrow> Inl (err TypeError ''table identifier must be a string or parqdb.TableIdentifier''))"

definition validate_timeout :: "time_arg \<Rightarrow> string \<Rightarrow> rat result" where
  "validate_timeout t nm =
     (case t of
        TimeDelta q \<Rightarrow> if q \<le> 0 then Inl (err ValueError (nm @ '' must be positive'')) else Inr q
      | TimeValue _ \<Rightarrow> Inl (err TypeError (nm @ '' must be datetime.timedelta'')))"

definition check_wait_timeout :: "time_arg option \<Rightarrow> rat option result" where
  "check_wait_timeout w =
     (case w of None \<Rightarrow> Inr None | Some t \<Rightarrow> rbind (validate_timeout t ''wait_timeout'') (\<lambda>q. Inr (Some q)))"

definition check_config :: "config_arg \<Rightarrow> ivf result" where
  "check_config c =
     (case c of ConfigIvf i \<Rightarrow> Inr i
      | ConfigOther \<Rightarrow> Inl (err TypeError ''the first implementation supports only parqdb.IVF''))"

definition writer_options_or_default :: "writer_arg \<Rightarrow> write_options result" where
  "writer_options_or_default w =
     (case w of
        WriterOptions x \<Rightarrow> Inr x
      | WriterOther \<Rightarrow> Inl (err TypeError ''writer_options must be parqdb.WriteOptions'')
      | _ \<Rightarrow> Inr default_write_options)"

text \<open>
  \<open>_collect_batches\<close>. A native stream gives its batches and then ends or raises; the loop reads one
  item per turn, so one more turn than there are batches ends it.
\<close>

definition collect_batches :: "'s native_stream \<Rightarrow> batch list result" where
  "collect_batches st =
     (case fst (collect_stream (Suc (length (ns_batches st))) list_ops (ns_batches st, ns_error st, False)) of
        Some r \<Rightarrow> r
      | None \<Rightarrow> Inr (ns_batches st))"

definition format_explain_batches :: "batch list \<Rightarrow> string result" where
  "format_explain_batches batches =
     rbind (traverse explain_sections batches) (\<lambda>sections.
     rbind (raise_if (concat sections = [])
             (err RuntimeError ''DataFusion EXPLAIN returned no plan'')) (\<lambda>_.
     Inr (join [CHR 10] (concat sections))))"

section \<open>The service\<close>

record 'n service =
  sv_host :: "'n embedded"
  sv_closed :: bool

definition new_service :: "'n embedded \<Rightarrow> 'n service" where
  "new_service host = \<lparr>sv_host = host, sv_closed = False\<rparr>"

definition session_closed :: exc where
  "session_closed = err RuntimeError ''session is closed''"

definition ensure_open :: "('n service, unit) cmd" where
  "ensure_open = (\<lambda>s. if sv_closed s then (Inl session_closed, s) else (Inr (), s))"

definition host_call :: "('n embedded, 'a) cmd \<Rightarrow> ('n service, 'a) cmd" where
  "host_call op = (\<lambda>s. case op (sv_host s) of (r, h) \<Rightarrow> (r, s\<lparr>sv_host := h\<rparr>))"

text \<open>\<open>asyncio.to_thread\<close>: a \<open>StopIteration\<close> cannot be set on a future and arrives as \<open>RuntimeError\<close>.\<close>

definition to_thread :: "('n service, 'a) cmd \<Rightarrow> ('n service, 'a) cmd" where
  "to_thread m = scatch m (\<lambda>e.
     if isinstance_exc e StopIteration
     then sraise (err RuntimeError
            ''StopIteration interacts badly with generators and cannot be raised into a Future'')
     else sraise e)"

definition svc_register_parquet ::
  "('n, 's, 't) native_api \<Rightarrow> ('s, 't) arrow_api \<Rightarrow> path_env \<Rightarrow> ('s, 't) parquet_args \<Rightarrow> ('n service, unit) cmd" where
  "svc_register_parquet api ar env a =
     sbind ensure_open (\<lambda>_. to_thread (host_call (em_register_parquet api ar env a)))"

definition svc_list_tables :: "('n, 's, 't) native_api \<Rightarrow> ('n service, table_identifier list) cmd" where
  "svc_list_tables api =
     sbind ensure_open (\<lambda>_.
     sbind (to_thread (host_call (native_call (na_list_table_definitions api)))) (\<lambda>definitions.
     slift (traverse (\<lambda>(c, ns, n). new_table_identifier c ns n) definitions)))"

definition svc_table :: "('n, 's, 't) native_api \<Rightarrow> table_ref \<Rightarrow> ('n service, 's descriptor) cmd" where
  "svc_table api ref =
     sbind ensure_open (\<lambda>_.
     sbind (slift (table_reference ref)) (\<lambda>name.
     sbind (to_thread (host_call (em_table api name))) (\<lambda>frame.
     (case frame of
        PlainFrame _ \<Rightarrow> sraise (err ValueError (''table is not a registered ParqDB source: '' @ name))
      | SourceFrame t \<Rightarrow> sret \<lparr>td_identifier = src_identifier t, td_schema = src_schema t\<rparr>))))"

definition svc_deregister_table :: "('n, 's, 't) native_api \<Rightarrow> table_ref \<Rightarrow> ('n service, unit) cmd" where
  "svc_deregister_table api ref =
     sbind ensure_open (\<lambda>_.
     sbind (slift (table_reference ref)) (\<lambda>name.
     to_thread (host_call (em_deregister_table api name))))"

definition svc_stream :: "('n, 's, 't) native_api \<Rightarrow> query_arg \<Rightarrow> ('n service, 's native_stream) cmd" where
  "svc_stream api q =
     sbind ensure_open (\<lambda>_.
     (case q of
        QuerySql sql \<Rightarrow>
          if py_strip sql = [] then sraise (err ValueError ''SQL statement must not be empty'')
          else host_call (native_call (na_stream_sql api sql))
      | QueryOther \<Rightarrow> sraise (err TypeError ''query must be a parqdb.VectorQuery or SQL string'')
      | QueryVector _ \<Rightarrow>
          sbind (to_thread (host_call (prepared_search api q))) (\<lambda>args.
          host_call (native_call (na_stream_search api args)))))"

definition svc_explain ::
  "('n, 's, 't) native_api \<Rightarrow> query_arg \<Rightarrow> bool \<Rightarrow> bool \<Rightarrow> ('n service, string) cmd" where
  "svc_explain api q verbose analyze =
     sbind ensure_open (\<lambda>_.
     sbind (case q of
              QueryVector _ \<Rightarrow>
                sbind (to_thread (host_call (prepared_search api q))) (\<lambda>args.
                host_call (native_call (na_stream_explain_search api args verbose analyze)))
            | QueryOther \<Rightarrow> sraise (err TypeError ''query must be a parqdb.VectorQuery or SQL string'')
            | QuerySql sql \<Rightarrow> svc_stream api (QuerySql (explain_prefix verbose analyze @ '' '' @ sql)))
       (\<lambda>stream.
     sbind (slift (collect_batches stream)) (\<lambda>batches.
     slift (format_explain_batches batches))))"

definition svc_to_sql :: "('n, 's, 't) native_api \<Rightarrow> query_arg \<Rightarrow> ('n service, string) cmd" where
  "svc_to_sql api q = sbind ensure_open (\<lambda>_. to_thread (host_call (em_to_sql api q)))"

definition source_reference :: "('n, 's, 't) native_api \<Rightarrow> table_identifier \<Rightarrow> ('n service, json) cmd" where
  "source_reference api t = to_thread (host_call (table_definition api t))"

definition timed_out :: "string \<Rightarrow> exc" where
  "timed_out index = err TimeoutError (''timed out waiting for index: '' @ index)"

definition wait_for_build ::
  "('n, 's, 't) native_api \<Rightarrow> json \<Rightarrow> table_identifier \<Rightarrow> string \<Rightarrow> rat \<Rightarrow> ('n service, unit) cmd" where
  "wait_for_build api source t index seconds =
     scatch
       (sbind (host_call (native_call
          (na_wait_for_index_build api source (session_index_namespace t) index seconds))) (\<lambda>ended.
        if ended then sret () else sraise (err TimeoutError [])))
       (\<lambda>e. if isinstance_exc e TimeoutError then sraise (timed_out index) else sraise e)"

record create_request =
  cr_identifier :: table_identifier
  cr_index :: string
  cr_column :: string
  cr_key :: "string list"
  cr_config :: config_arg
  cr_writer_options :: writer_arg
  cr_wait_timeout :: "time_arg option"

definition svc_create_index :: "('n, 's, 't) native_api \<Rightarrow> create_request \<Rightarrow> ('n service, unit) cmd" where
  "svc_create_index api c =
     sbind ensure_open (\<lambda>_.
     sbind (slift (check_wait_timeout (cr_wait_timeout c))) (\<lambda>wait.
     sbind (slift (check_config (cr_config c))) (\<lambda>config.
     sbind (slift (writer_options_or_default (cr_writer_options c))) (\<lambda>options.
     sbind (source_reference api (cr_identifier c)) (\<lambda>source.
     sbind (host_call (native_call (na_submit_create_index api
       \<lparr>ca_source = source, ca_index_namespace = session_index_namespace (cr_identifier c),
        ca_index = cr_index c, ca_column = cr_column c, ca_key = cr_key c,
        ca_nlist = ivf_nlist config, ca_encoding = ivf_encoding config, ca_metric = ivf_metric config,
        ca_writer_options = native_writer_options options, ca_partitions = wo_partitions options\<rparr>))) (\<lambda>_.
     (case wait of None \<Rightarrow> sret ()
      | Some seconds \<Rightarrow> wait_for_build api source (cr_identifier c) (cr_index c) seconds)))))))"

definition svc_register_index ::
  "('n, 's, 't) native_api \<Rightarrow> table_identifier \<Rightarrow> string \<Rightarrow> json \<Rightarrow> ('n service, unit) cmd" where
  "svc_register_index api t index manifest_location =
     sbind ensure_open (\<lambda>_.
     (case manifest_location of
        JStr location \<Rightarrow>
          if location = [] then sraise (err ValueError ''manifest_location must be a non-empty string'')
          else sbind (source_reference api t) (\<lambda>source.
               to_thread (host_call (native_call
                 (na_register_index api source (session_index_namespace t) index location))))
      | _ \<Rightarrow> sraise (err ValueError ''manifest_location must be a non-empty string'')))"

record refresh_request =
  rr_identifier :: table_identifier
  rr_index :: string
  rr_config :: "config_arg option"
  rr_writer_options :: writer_arg
  rr_wait_timeout :: "time_arg option"

definition svc_refresh_index :: "('n, 's, 't) native_api \<Rightarrow> refresh_request \<Rightarrow> ('n service, unit) cmd" where
  "svc_refresh_index api c =
     sbind ensure_open (\<lambda>_.
     sbind (slift (check_wait_timeout (rr_wait_timeout c))) (\<lambda>wait.
     sbind (slift (case rr_config c of None \<Rightarrow> Inr None
                   | Some x \<Rightarrow> rbind (check_config x) (\<lambda>i. Inr (Some i)))) (\<lambda>config.
     sbind (slift (writer_options_or_default (rr_writer_options c))) (\<lambda>options.
     sbind (source_reference api (rr_identifier c)) (\<lambda>source.
     sbind (host_call (native_call (na_submit_refresh_index api
       \<lparr>fa_source = source, fa_index_namespace = session_index_namespace (rr_identifier c),
        fa_index = rr_index c, fa_nlist = map_option ivf_nlist config,
        fa_encoding = map_option ivf_encoding config, fa_metric = map_option ivf_metric config,
        fa_writer_options = native_writer_options options, fa_partitions = wo_partitions options\<rparr>))) (\<lambda>_.
     (case wait of None \<Rightarrow> sret ()
      | Some seconds \<Rightarrow> wait_for_build api source (rr_identifier c) (rr_index c) seconds)))))))"

definition status_of_build :: "build_status \<Rightarrow> index_status result" where
  "status_of_build b =
     (case state_of_name (bs_state b) of
        None \<Rightarrow> Inl (err RuntimeError
                 (''native build coordinator returned invalid state: '' @ bs_state b))
      | Some st \<Rightarrow>
          Inr \<lparr>is_state = st, is_progress = bs_progress b, is_phase = bs_phase b,
               is_completed = bs_completed b, is_total = bs_total b,
               is_current_snapshot_id = bs_current_snapshot_id b, is_error = bs_error b,
               is_error_code = bs_error_code b\<rparr>)"

definition svc_index_status ::
  "('n, 's, 't) native_api \<Rightarrow> table_identifier \<Rightarrow> string \<Rightarrow> ('n service, index_status) cmd" where
  "svc_index_status api t index =
     sbind ensure_open (\<lambda>_.
     sbind (source_reference api t) (\<lambda>source.
     sbind (host_call (native_call
       (na_index_build_status api source (session_index_namespace t) index))) (\<lambda>b.
     slift (status_of_build b))))"

definition svc_wait_for_index ::
  "('n, 's, 't) native_api \<Rightarrow> table_identifier \<Rightarrow> string \<Rightarrow> time_arg \<Rightarrow> ('n service, unit) cmd" where
  "svc_wait_for_index api t index timeout =
     sbind ensure_open (\<lambda>_.
     sbind (slift (validate_timeout timeout ''timeout'')) (\<lambda>seconds.
     sbind (source_reference api t) (\<lambda>source.
     wait_for_build api source t index seconds)))"

definition svc_list_indexes ::
  "('n, 's, 't) native_api \<Rightarrow> table_identifier \<Rightarrow> ('n service, index_info list) cmd" where
  "svc_list_indexes api t =
     sbind ensure_open (\<lambda>_.
     sbind (source_reference api t) (\<lambda>source.
     to_thread (host_call (native_call (na_list_source_indexes api source (session_index_namespace t))))))"

definition svc_drop_index ::
  "('n, 's, 't) native_api \<Rightarrow> table_identifier \<Rightarrow> string \<Rightarrow> ('n service, unit) cmd" where
  "svc_drop_index api t index =
     sbind ensure_open (\<lambda>_.
     sbind (source_reference api t) (\<lambda>source.
     to_thread (host_call (native_call
       (na_drop_source_index api source (session_index_namespace t) index)))))"

definition svc_close :: "('n service, unit) cmd" where
  "svc_close = (\<lambda>s. (Inr (), s\<lparr>sv_closed := True\<rparr>))"

definition svc_datafusion_context :: "('n service, unit) cmd" where
  "svc_datafusion_context = sbind ensure_open (\<lambda>_. sret ())"

definition svc_host :: "('n service, 'n embedded) cmd" where
  "svc_host = sbind ensure_open (\<lambda>_ s. (Inr (sv_host s), s))"

definition svc_open ::
  "path_env \<Rightarrow> ('c, 'r, 'n) native_open \<Rightarrow> ('c, 'r) open_args \<Rightarrow> 'n service result" where
  "svc_open env native_open a =
     rbind (new_embedded_session env native_open a) (\<lambda>host. Inr (new_service host))"

section \<open>What every operation keeps\<close>

lemma keeps_host_call [keeps_rules]: "keeps sv_closed (host_call m)"
  by (rule keepsI) (auto simp: host_call_def split: prod.splits)

lemma keeps_to_thread [keeps_rules]: "keeps f m \<Longrightarrow> keeps f (to_thread m)"
  unfolding to_thread_def by (intro keeps_rules)

lemma keeps_ensure_open [keeps_rules]: "keeps f ensure_open"
  by (rule keepsI) (auto simp: ensure_open_def split: if_splits)

lemma ensure_open_simps [simp]:
  "sv_closed s \<Longrightarrow> ensure_open s = (Inl session_closed, s)" "\<not> sv_closed s \<Longrightarrow> ensure_open s = (Inr (), s)"
  by (simp_all add: ensure_open_def)

end
