(* ===== verification/Transport.thy ===== *)
theory Transport
  imports Service
begin

text \<open>
  \<open>transport/base.py\<close>: the \<open>SessionTransport\<close> protocol as a record with one field per method, the methods of
  \<open>InProcessTransport\<close> as an instance of it, and the contract that the facade relies on as the locale
  \<open>session_transport\<close>: a closed transport refuses every call without touching its state, no call opens or
  closes it, and closing is final and repeatable.
\<close>

section \<open>The protocol\<close>

text \<open>
  \<open>'w\<close> is the state of the transport and \<open>'x\<close> that of a result stream it opened. The last three fields are
  the methods of \<open>AsyncBatchStream\<close>.
\<close>

record ('w, 's, 't, 'x) transport_ops =
  tr_register_parquet :: "('s, 't) parquet_args \<Rightarrow> ('w, unit) fcmd"
  tr_list_tables :: "('w, table_identifier list) fcmd"
  tr_table :: "table_ref \<Rightarrow> ('w, 's descriptor) fcmd"
  tr_deregister_table :: "table_ref \<Rightarrow> ('w, unit) fcmd"
  tr_stream :: "query_arg \<Rightarrow> ('w, 'x) fcmd"
  tr_explain :: "query_arg \<Rightarrow> bool \<Rightarrow> bool \<Rightarrow> ('w, string) fcmd"
  tr_to_sql :: "query_arg \<Rightarrow> ('w, string) fcmd"
  tr_create_index :: "create_request \<Rightarrow> ('w, unit) fcmd"
  tr_register_index :: "table_identifier \<Rightarrow> string \<Rightarrow> json \<Rightarrow> ('w, unit) fcmd"
  tr_refresh_index :: "refresh_request \<Rightarrow> ('w, unit) fcmd"
  tr_index_status :: "table_identifier \<Rightarrow> string \<Rightarrow> ('w, index_status) fcmd"
  tr_wait_for_index :: "table_identifier \<Rightarrow> string \<Rightarrow> time_arg \<Rightarrow> ('w, unit) fcmd"
  tr_list_indexes :: "table_identifier \<Rightarrow> ('w, index_info list) fcmd"
  tr_drop_index :: "table_identifier \<Rightarrow> string \<Rightarrow> ('w, unit) fcmd"
  tr_datafusion_context :: "('w, unit) fcmd"
  tr_close :: "('w, unit) fcmd"
  tr_schema :: "'x \<Rightarrow> 's result"
  tr_next :: "'x \<Rightarrow> batch step \<times> 'x"
  tr_aclose :: "'x \<Rightarrow> unit result \<times> 'x"

text \<open>A call of any method, and what it returns.\<close>

datatype ('s, 't) request =
    RegisterParquet "('s, 't) parquet_args"
  | ListTables
  | GetTable table_ref
  | DeregisterTable table_ref
  | OpenStream query_arg
  | Explain query_arg bool bool
  | ToSql query_arg
  | CreateIndex create_request
  | RegisterIndex table_identifier string json
  | RefreshIndex refresh_request
  | GetIndexStatus table_identifier string
  | WaitForIndex table_identifier string time_arg
  | ListIndexes table_identifier
  | DropIndex table_identifier string
  | DatafusionContext

datatype ('s, 'x) response =
    Done | Tables "table_identifier list" | Descriptor "'s descriptor" | Opened 'x | Text string
  | Status index_status | Indexes "index_info list"

definition fmap :: "('a \<Rightarrow> 'b) \<Rightarrow> ('s, 'a) fcmd \<Rightarrow> ('s, 'b) fcmd" where
  "fmap f m = fbind m (\<lambda>x. fdo (sret (f x)))"

fun transport_call ::
  "('w, 's, 't, 'x) transport_ops \<Rightarrow> ('s, 't) request \<Rightarrow> ('w, ('s, 'x) response) fcmd" where
  "transport_call tr (RegisterParquet a) = fmap (\<lambda>_. Done) (tr_register_parquet tr a)"
| "transport_call tr ListTables = fmap Tables (tr_list_tables tr)"
| "transport_call tr (GetTable r) = fmap Descriptor (tr_table tr r)"
| "transport_call tr (DeregisterTable r) = fmap (\<lambda>_. Done) (tr_deregister_table tr r)"
| "transport_call tr (OpenStream q) = fmap Opened (tr_stream tr q)"
| "transport_call tr (Explain q v a) = fmap Text (tr_explain tr q v a)"
| "transport_call tr (ToSql q) = fmap Text (tr_to_sql tr q)"
| "transport_call tr (CreateIndex c) = fmap (\<lambda>_. Done) (tr_create_index tr c)"
| "transport_call tr (RegisterIndex t i m) = fmap (\<lambda>_. Done) (tr_register_index tr t i m)"
| "transport_call tr (RefreshIndex c) = fmap (\<lambda>_. Done) (tr_refresh_index tr c)"
| "transport_call tr (GetIndexStatus t i) = fmap Status (tr_index_status tr t i)"
| "transport_call tr (WaitForIndex t i w) = fmap (\<lambda>_. Done) (tr_wait_for_index tr t i w)"
| "transport_call tr (ListIndexes t) = fmap Indexes (tr_list_indexes tr t)"
| "transport_call tr (DropIndex t i) = fmap (\<lambda>_. Done) (tr_drop_index tr t i)"
| "transport_call tr DatafusionContext = fmap (\<lambda>_. Done) (tr_datafusion_context tr)"

section \<open>The in-process transport\<close>

text \<open>A native result stream: its schema, and its batches as the state of \<open>list_ops\<close>.\<close>

type_synonym 's native_reader = "'s \<times> (batch list \<times> exc option \<times> bool)"

definition native_reader :: "'s native_stream \<Rightarrow> 's native_reader" where
  "native_reader st = (ns_schema st, (ns_batches st, ns_error st, False))"

definition in_process_transport ::
  "('n, 's, 't) native_api \<Rightarrow> ('s, 't) arrow_api \<Rightarrow> path_env \<Rightarrow> ('n service, 's, 't, 's native_reader) transport_ops" where
  "in_process_transport api ar env =
     \<lparr>tr_register_parquet = (\<lambda>a. fdo (svc_register_parquet api ar env a)),
      tr_list_tables = fdo (svc_list_tables api),
      tr_table = (\<lambda>r. fdo (svc_table api r)),
      tr_deregister_table = (\<lambda>r. fdo (svc_deregister_table api r)),
      tr_stream = (\<lambda>q. fmap native_reader (fdo (svc_stream api q))),
      tr_explain = (\<lambda>q v a. fdo (svc_explain api q v a)),
      tr_to_sql = (\<lambda>q. fdo (svc_to_sql api q)),
      tr_create_index = (\<lambda>c. fdo (svc_create_index api c)),
      tr_register_index = (\<lambda>t i m. fdo (svc_register_index api t i m)),
      tr_refresh_index = (\<lambda>c. fdo (svc_refresh_index api c)),
      tr_index_status = (\<lambda>t i. fdo (svc_index_status api t i)),
      tr_wait_for_index = (\<lambda>t i w. fdo (svc_wait_for_index api t i w)),
      tr_list_indexes = (\<lambda>t. fdo (svc_list_indexes api t)),
      tr_drop_index = (\<lambda>t i. fdo (svc_drop_index api t i)),
      tr_datafusion_context = fdo svc_datafusion_context,
      tr_close = fdo svc_close,
      tr_schema = (\<lambda>(schema, _). Inr schema),
      tr_next = (\<lambda>(schema, st). case st_next list_ops st of (r, st') \<Rightarrow> (r, (schema, st'))),
      tr_aclose = (\<lambda>(schema, st). case st_close list_ops st of (r, st') \<Rightarrow> (r, (schema, st')))\<rparr>"

section \<open>The contract\<close>

fun call_all :: "('r \<Rightarrow> 'w \<Rightarrow> 'o \<times> 'w) \<Rightarrow> 'r list \<Rightarrow> 'w \<Rightarrow> 'o list \<times> 'w" where
  "call_all call [] w = ([], w)"
| "call_all call (r # rs) w =
     (case call r w of (x, w1) \<Rightarrow> (case call_all call rs w1 of (xs, w2) \<Rightarrow> (x # xs, w2)))"

definition refused :: "'a result option \<Rightarrow> bool" where
  "refused x \<longleftrightarrow> (case x of Some (Inl _) \<Rightarrow> True | _ \<Rightarrow> False)"

locale session_transport =
  fixes call :: "'r \<Rightarrow> ('w, 'a) fcmd"
    and close :: "('w, unit) fcmd"
    and closed :: "'w \<Rightarrow> bool"
  assumes closed_call: "closed w \<Longrightarrow> \<exists>e. call r w = (Some (Inl e), w)"
    and call_keeps: "keeps closed (call r)"
    and close_closes: "closed (snd (close w))"
    and close_again: "closed w \<Longrightarrow> close w = (Some (Inr ()), w)"
begin

lemma closed_calls: "closed w \<Longrightarrow> snd (call_all call rs w) = w \<and> list_all refused (fst (call_all call rs w))"
proof (induction rs)
  case (Cons r rs)
  obtain e where "call r w = (Some (Inl e), w)" using closed_call [OF Cons.prems] by blast
  with Cons show ?case by (auto simp: refused_def split: prod.splits)
qed simp

lemma after_close:
  "call_all call rs (snd (close w)) = (xs, w') \<Longrightarrow> w' = snd (close w) \<and> list_all refused xs"
  using closed_calls [OF close_closes [of w], of rs] by simp

lemma calls_keep: "closed (snd (call_all call rs w)) = closed w"
proof (induction rs arbitrary: w)
  case (Cons r rs)
  obtain x w1 where "call r w = (x, w1)" by (cases "call r w")
  with Cons.IH [of w1] keepsD [OF call_keeps this] show ?case by (auto split: prod.splits)
qed simp

lemma close_idem: "close (snd (close w)) = (Some (Inr ()), snd (close w))"
  by (rule close_again [OF close_closes])

end

text \<open>The in-process transport meets the contract.\<close>

lemma keeps_fmap [keeps_rules]: "keeps f m \<Longrightarrow> keeps f (fmap g m)"
  unfolding fmap_def by (intro keeps_rules)

lemma fmap_raise: "m w = (Some (Inl e), w') \<Longrightarrow> fmap g m w = (Some (Inl e), w')"
  by (simp add: fmap_def)

lemmas svc_defs = svc_register_parquet_def svc_list_tables_def svc_table_def svc_deregister_table_def svc_stream_def
  svc_explain_def svc_to_sql_def svc_create_index_def svc_register_index_def svc_refresh_index_def
  svc_index_status_def svc_wait_for_index_def svc_list_indexes_def svc_drop_index_def svc_datafusion_context_def

lemma keeps_source_reference [keeps_rules]: "keeps sv_closed (source_reference api t)"
  unfolding source_reference_def by (intro keeps_rules)

lemma keeps_wait_for_build [keeps_rules]: "keeps sv_closed (wait_for_build api source t i q)"
  unfolding wait_for_build_def by (intro keeps_rules)

lemma in_process_keeps: "keeps sv_closed (transport_call (in_process_transport api ar env) r)"
  by (cases r)
     (auto simp: in_process_transport_def svc_defs intro!: keeps_rules
        split: query_arg.split json.split frame.split option.split)

lemma in_process_closed:
  "sv_closed w \<Longrightarrow> transport_call (in_process_transport api ar env) r w = (Some (Inl session_closed), w)"
  by (cases r) (simp_all add: in_process_transport_def svc_defs fmap_def fdo_def fbind_def)

interpretation in_process: session_transport
  "transport_call (in_process_transport api ar env)" "tr_close (in_process_transport api ar env)" sv_closed
  for api ar env
proof
  show "\<exists>e. transport_call (in_process_transport api ar env) r w = (Some (Inl e), w)" if "sv_closed w" for r w
    using in_process_closed [OF that] by blast
  show "keeps sv_closed (transport_call (in_process_transport api ar env) r)" for r
    by (rule in_process_keeps)
  show "sv_closed (snd (tr_close (in_process_transport api ar env) w))" for w
    by (simp add: in_process_transport_def fdo_def svc_close_def)
  show "tr_close (in_process_transport api ar env) w = (Some (Inr ()), w)" if "sv_closed w" for w
    using that by (simp add: in_process_transport_def fdo_def svc_close_def)
qed

end
