(* ===== verification/Ipc.thy ===== *)
theory Ipc
  imports Streams
begin

text \<open>
  \<open>transport/ipc.py\<close>: the Arrow IPC byte stream of a batch stream (\<open>_EncodedIpcStream\<close>) and the batch
  stream of a byte stream (\<open>_DecodedIpcStream\<close>). The native encoder and decoder are parameters. The
  \<open>while not self._pending\<close> loops take fuel, one unit per read of the underlying source; with the
  source's length plus two the loop always ends (\<open>encoded_drain\<close>, \<open>decoded_drain\<close>).
\<close>

section \<open>Encoding\<close>

record ('b, 'e) encoder_ops =
  en_start :: "'e \<Rightarrow> string list result \<times> 'e"
  en_write :: "'b \<Rightarrow> 'e \<Rightarrow> string list result \<times> 'e"
  en_finish :: "'e \<Rightarrow> string list result \<times> 'e"

record ('s, 'e) encoded_stream =
  es_source :: 's
  es_encoder :: 'e
  es_pending :: "string list"
  es_input_finished :: bool
  es_closed :: bool

definition new_encoded_stream :: "'s \<Rightarrow> 'e \<Rightarrow> string list \<Rightarrow> ('s, 'e) encoded_stream" where
  "new_encoded_stream source encoder initial =
     \<lparr>es_source = source, es_encoder = encoder, es_pending = initial, es_input_finished = False,
      es_closed = False\<rparr>"

definition encode_ipc_stream ::
  "('b, 'e) encoder_ops \<Rightarrow> 's \<Rightarrow> 'e \<Rightarrow> ('s, 'e) encoded_stream result" where
  "encode_ipc_stream eo source encoder =
     (case en_start eo encoder of
        (Inl x, _) \<Rightarrow> Inl x
      | (Inr initial, encoder') \<Rightarrow> Inr (new_encoded_stream source encoder' initial))"

definition encoded_aclose ::
  "('s, 'b) stream_ops \<Rightarrow> ('s, 'e) encoded_stream \<Rightarrow> unit result \<times> ('s, 'e) encoded_stream" where
  "encoded_aclose so st =
     (if es_closed st then (Inr (), st)
      else let st1 = st\<lparr>es_closed := True, es_pending := []\<rparr>
           in if es_input_finished st then (Inr (), st1)
              else case st_close so (es_source st) of (r, src) \<Rightarrow> (r, st1\<lparr>es_source := src\<rparr>))"

text \<open>\<open>except BaseException: await self.aclose(); raise\<close>.\<close>

definition encoded_fail ::
  "('s, 'b) stream_ops \<Rightarrow> exc \<Rightarrow> ('s, 'e) encoded_stream \<Rightarrow> string step \<times> ('s, 'e) encoded_stream" where
  "encoded_fail so e st =
     (case encoded_aclose so st of (Inl x, st') \<Rightarrow> (Raise x, st') | (Inr _, st') \<Rightarrow> (Raise e, st'))"

fun encoded_loop ::
  "('s, 'b) stream_ops \<Rightarrow> ('b, 'e) encoder_ops \<Rightarrow> nat \<Rightarrow> ('s, 'e) encoded_stream
     \<Rightarrow> string step \<times> ('s, 'e) encoded_stream" where
  "encoded_loop so eo n st =
     (case es_pending st of
        c # cs \<Rightarrow> (Yield c, st\<lparr>es_pending := cs\<rparr>)
      | [] \<Rightarrow>
          if es_input_finished st
          then (case encoded_aclose so st of (Inl x, st') \<Rightarrow> (Raise x, st') | (Inr _, st') \<Rightarrow> (Stop, st'))
          else (case n of
             0 \<Rightarrow> (Diverge, st)
           | Suc m \<Rightarrow>
               (case st_next so (es_source st) of
                  (Stop, src) \<Rightarrow>
                    (case st_close so src of
                       (Inl x, src') \<Rightarrow> (Raise x, st\<lparr>es_input_finished := True, es_source := src'\<rparr>)
                     | (Inr _, src') \<Rightarrow>
                         (case en_finish eo (es_encoder st) of
                            (Inl x, enc) \<Rightarrow>
                              (Raise x, st\<lparr>es_input_finished := True, es_source := src', es_encoder := enc\<rparr>)
                          | (Inr chunks, enc) \<Rightarrow>
                              encoded_loop so eo m
                                (st\<lparr>es_input_finished := True, es_source := src', es_encoder := enc,
                                   es_pending := chunks\<rparr>)))
                | (Raise x, src) \<Rightarrow> encoded_fail so x (st\<lparr>es_source := src\<rparr>)
                | (Diverge, src) \<Rightarrow> (Diverge, st\<lparr>es_source := src\<rparr>)
                | (Yield b, src) \<Rightarrow>
                    (case en_write eo b (es_encoder st) of
                       (Inl x, enc) \<Rightarrow> encoded_fail so x (st\<lparr>es_source := src, es_encoder := enc\<rparr>)
                     | (Inr chunks, enc) \<Rightarrow>
                         encoded_loop so eo m
                           (st\<lparr>es_source := src, es_encoder := enc, es_pending := chunks\<rparr>)))))"

declare encoded_loop.simps [simp del]

definition encoded_next ::
  "('s, 'b) stream_ops \<Rightarrow> ('b, 'e) encoder_ops \<Rightarrow> nat \<Rightarrow> ('s, 'e) encoded_stream
     \<Rightarrow> string step \<times> ('s, 'e) encoded_stream" where
  "encoded_next so eo n st = (if es_closed st then (Stop, st) else encoded_loop so eo n st)"

definition encoded_ops ::
  "('s, 'b) stream_ops \<Rightarrow> ('b, 'e) encoder_ops \<Rightarrow> nat \<Rightarrow> (('s, 'e) encoded_stream, string) stream_ops" where
  "encoded_ops so eo n = \<lparr>st_next = encoded_next so eo n, st_close = encoded_aclose so\<rparr>"

section \<open>Decoding\<close>

datatype chunk = Bytes string | NotBytes

record ('b, 'm, 'd) decoder_ops =
  de_push :: "string \<Rightarrow> 'd \<Rightarrow> ('m option \<times> 'b option \<times> bool) result \<times> 'd"
  de_finish :: "'d \<Rightarrow> unit result \<times> 'd"

text \<open>An async iterator of chunks; it may have no \<open>aclose\<close>.\<close>

record 's chunk_source =
  cs_next :: "'s \<Rightarrow> chunk step \<times> 's"
  cs_aclose :: "('s \<Rightarrow> unit result \<times> 's) option"

record ('s, 'b, 'm, 'd) decoded_stream =
  ds_source :: 's
  ds_decoder :: 'd
  ds_schema :: "'m option"
  ds_pending :: "'b list"
  ds_decoder_buffered :: bool
  ds_input_finished :: bool
  ds_closed :: bool

definition new_decoded_stream :: "'s \<Rightarrow> 'd \<Rightarrow> ('s, 'b, 'm, 'd) decoded_stream" where
  "new_decoded_stream source decoder =
     \<lparr>ds_source = source, ds_decoder = decoder, ds_schema = None, ds_pending = [],
      ds_decoder_buffered = False, ds_input_finished = False, ds_closed = False\<rparr>"

definition close_async_iterator :: "'s chunk_source \<Rightarrow> 's \<Rightarrow> unit result \<times> 's" where
  "close_async_iterator src s = (case cs_aclose src of None \<Rightarrow> (Inr (), s) | Some close \<Rightarrow> close s)"

definition decoded_schema :: "('s, 'b, 'm, 'd) decoded_stream \<Rightarrow> 'm result" where
  "decoded_schema st =
     (case ds_schema st of
        None \<Rightarrow> Inl (err RuntimeError ''Arrow IPC schema has not been decoded'') | Some m \<Rightarrow> Inr m)"

definition decoded_aclose ::
  "'s chunk_source \<Rightarrow> ('s, 'b, 'm, 'd) decoded_stream \<Rightarrow> unit result \<times> ('s, 'b, 'm, 'd) decoded_stream" where
  "decoded_aclose src st =
     (if ds_closed st then (Inr (), st)
      else let st1 = st\<lparr>ds_closed := True, ds_pending := []\<rparr>
           in if ds_input_finished st then (Inr (), st1)
              else case close_async_iterator src (ds_source st) of (r, s) \<Rightarrow> (r, st1\<lparr>ds_source := s\<rparr>))"

definition decoded_fail ::
  "'s chunk_source \<Rightarrow> exc \<Rightarrow> ('s, 'b, 'm, 'd) decoded_stream \<Rightarrow> exc option \<times> ('s, 'b, 'm, 'd) decoded_stream" where
  "decoded_fail src e st =
     (case decoded_aclose src st of (Inl x, st') \<Rightarrow> (Some x, st') | (Inr _, st') \<Rightarrow> (Some e, st'))"

text \<open>\<open>_read_next_chunk\<close>: \<open>Some (Some e)\<close> where it raises, \<open>None\<close> where the source does not answer.\<close>

definition push_chunk ::
  "'s chunk_source \<Rightarrow> ('b, 'm, 'd) decoder_ops \<Rightarrow> chunk \<Rightarrow> ('s, 'b, 'm, 'd) decoded_stream
     \<Rightarrow> exc option \<times> ('s, 'b, 'm, 'd) decoded_stream" where
  "push_chunk src dec ch st =
     (case ch of
        NotBytes \<Rightarrow> decoded_fail src (err TypeError ''Arrow IPC byte stream must yield bytes'') st
      | Bytes bs \<Rightarrow>
          (case de_push dec bs (ds_decoder st) of
             (Inl x, d) \<Rightarrow> decoded_fail src x (st\<lparr>ds_decoder := d\<rparr>)
           | (Inr (schema, batch, buffered), d) \<Rightarrow>
               let st1 = st\<lparr>ds_decoder := d, ds_decoder_buffered := buffered\<rparr>
               in if schema \<noteq> None \<and> ds_schema st \<noteq> None \<and> schema \<noteq> ds_schema st
                  then decoded_fail src (err ValueError ''Arrow IPC stream contains multiple schemas'') st1
                  else (None, st1\<lparr>ds_schema := (if schema = None then ds_schema st else schema),
                                  ds_pending := ds_pending st @ (case batch of None \<Rightarrow> [] | Some b \<Rightarrow> [b])\<rparr>)))"

definition read_next_chunk ::
  "'s chunk_source \<Rightarrow> ('b, 'm, 'd) decoder_ops \<Rightarrow> ('s, 'b, 'm, 'd) decoded_stream
     \<Rightarrow> exc option option \<times> ('s, 'b, 'm, 'd) decoded_stream" where
  "read_next_chunk src dec st =
     (if ds_decoder_buffered st then map_prod Some id (push_chunk src dec (Bytes []) st)
      else case cs_next src (ds_source st) of
          (Yield ch, s) \<Rightarrow> map_prod Some id (push_chunk src dec ch (st\<lparr>ds_source := s\<rparr>))
        | (Stop, s) \<Rightarrow>
            (case de_finish dec (ds_decoder st) of
               (Inl x, d) \<Rightarrow> map_prod Some id (decoded_fail src x (st\<lparr>ds_source := s, ds_decoder := d\<rparr>))
             | (Inr _, d) \<Rightarrow>
                 (case close_async_iterator src s of
                    (Inl x, s') \<Rightarrow> (Some (Some x), st\<lparr>ds_source := s', ds_decoder := d, ds_input_finished := True\<rparr>)
                  | (Inr _, s') \<Rightarrow> (Some None, st\<lparr>ds_source := s', ds_decoder := d, ds_input_finished := True\<rparr>)))
        | (Raise x, s) \<Rightarrow> map_prod Some id (decoded_fail src x (st\<lparr>ds_source := s\<rparr>))
        | (Diverge, s) \<Rightarrow> (None, st\<lparr>ds_source := s\<rparr>))"

fun decoded_loop ::
  "'s chunk_source \<Rightarrow> ('b, 'm, 'd) decoder_ops \<Rightarrow> nat \<Rightarrow> ('s, 'b, 'm, 'd) decoded_stream
     \<Rightarrow> 'b step \<times> ('s, 'b, 'm, 'd) decoded_stream" where
  "decoded_loop src dec n st =
     (case ds_pending st of
        b # bs \<Rightarrow> (Yield b, st\<lparr>ds_pending := bs\<rparr>)
      | [] \<Rightarrow>
          if ds_input_finished st
          then (case decoded_aclose src st of (Inl x, st') \<Rightarrow> (Raise x, st') | (Inr _, st') \<Rightarrow> (Stop, st'))
          else (case n of
             0 \<Rightarrow> (Diverge, st)
           | Suc m \<Rightarrow>
               (case read_next_chunk src dec st of
                  (None, st') \<Rightarrow> (Diverge, st')
                | (Some (Some x), st') \<Rightarrow> (Raise x, st')
                | (Some None, st') \<Rightarrow> decoded_loop src dec m st')))"

declare decoded_loop.simps [simp del]

definition decoded_next ::
  "'s chunk_source \<Rightarrow> ('b, 'm, 'd) decoder_ops \<Rightarrow> nat \<Rightarrow> ('s, 'b, 'm, 'd) decoded_stream
     \<Rightarrow> 'b step \<times> ('s, 'b, 'm, 'd) decoded_stream" where
  "decoded_next src dec n st = (if ds_closed st then (Stop, st) else decoded_loop src dec n st)"

definition decoded_ops ::
  "'s chunk_source \<Rightarrow> ('b, 'm, 'd) decoder_ops \<Rightarrow> nat \<Rightarrow> (('s, 'b, 'm, 'd) decoded_stream, 'b) stream_ops" where
  "decoded_ops src dec n = \<lparr>st_next = decoded_next src dec n, st_close = decoded_aclose src\<rparr>"

text \<open>\<open>read_schema\<close>; \<open>None\<close> where it does not end.\<close>

fun read_schema ::
  "'s chunk_source \<Rightarrow> ('b, 'm, 'd) decoder_ops \<Rightarrow> nat \<Rightarrow> ('s, 'b, 'm, 'd) decoded_stream
     \<Rightarrow> unit result option \<times> ('s, 'b, 'm, 'd) decoded_stream" where
  "read_schema src dec n st =
     (if ds_schema st \<noteq> None then (Some (Inr ()), st)
      else if ds_input_finished st
      then (case decoded_aclose src st of
              (Inl x, st') \<Rightarrow> (Some (Inl x), st')
            | (Inr _, st') \<Rightarrow> (Some (Inl (err ValueError ''Arrow IPC stream ended before its schema'')), st'))
      else (case n of
         0 \<Rightarrow> (None, st)
       | Suc m \<Rightarrow>
           (case read_next_chunk src dec st of
              (None, st') \<Rightarrow> (None, st')
            | (Some (Some x), st') \<Rightarrow> (Some (Inl x), st')
            | (Some None, st') \<Rightarrow> read_schema src dec m st')))"

declare read_schema.simps [simp del]

definition decode_ipc_stream ::
  "'s chunk_source \<Rightarrow> ('b, 'm, 'd) decoder_ops \<Rightarrow> nat \<Rightarrow> 's \<Rightarrow> 'd
     \<Rightarrow> unit result option \<times> ('s, 'b, 'm, 'd) decoded_stream" where
  "decode_ipc_stream src dec n s d = read_schema src dec n (new_decoded_stream s d)"

section \<open>Both streams are closable streams\<close>

lemma encoded_aclose_closed: "es_closed (snd (encoded_aclose so st))"
  by (simp add: encoded_aclose_def Let_def split: prod.splits)

lemma encoded_loop_Stop: "encoded_loop so eo n st = (Stop, st') \<Longrightarrow> es_closed st'"
proof (induction n arbitrary: st)
  case 0
  then show ?case
    using encoded_aclose_closed [of so st]
    by (auto simp: encoded_loop.simps [of _ _ 0] split: list.splits if_splits prod.splits sum.splits)
next
  case (Suc n)
  then show ?case
    using encoded_aclose_closed [of so st]
    by (auto simp: encoded_loop.simps [of _ _ "Suc n"] encoded_fail_def
        split: list.splits if_splits prod.splits sum.splits step.splits)
qed

interpretation encoded: closable_stream "encoded_next so eo n" "encoded_aclose so" es_closed for so eo n
  by unfold_locales
     (auto simp: encoded_next_def encoded_aclose_closed split: if_splits dest: encoded_loop_Stop,
      simp add: encoded_aclose_def)

lemma decoded_aclose_closed: "ds_closed (snd (decoded_aclose src st))"
  by (simp add: decoded_aclose_def Let_def split: prod.splits)

lemma decoded_loop_Stop: "decoded_loop src dec n st = (Stop, st') \<Longrightarrow> ds_closed st'"
proof (induction n arbitrary: st)
  case 0
  then show ?case
    using decoded_aclose_closed [of src st]
    by (auto simp: decoded_loop.simps [of _ _ 0] split: list.splits if_splits prod.splits sum.splits)
next
  case (Suc n)
  then show ?case
    using decoded_aclose_closed [of src st]
    by (auto simp: decoded_loop.simps [of _ _ "Suc n"]
        split: list.splits if_splits prod.splits sum.splits option.splits)
qed

interpretation decoded: closable_stream "decoded_next src dec n" "decoded_aclose src" ds_closed for src dec n
  by unfold_locales
     (auto simp: decoded_next_def decoded_aclose_closed split: if_splits dest: decoded_loop_Stop,
      simp add: decoded_aclose_def)

section \<open>The encoded stream against its specification\<close>

text \<open>What a byte stream carries: the chunks of every batch in order, then the trailer or the error.\<close>

fun encode_spec :: "('b, 'e) encoder_ops \<Rightarrow> 'e \<Rightarrow> 'b list \<Rightarrow> exc option \<Rightarrow> string list \<times> string step" where
  "encode_spec eo enc [] (Some x) = ([], Raise x)"
| "encode_spec eo enc [] None =
     (case fst (en_finish eo enc) of Inl x \<Rightarrow> ([], Raise x) | Inr chunks \<Rightarrow> (chunks, Stop))"
| "encode_spec eo enc (b # bs) e =
     (case en_write eo b enc of
        (Inl x, _) \<Rightarrow> ([], Raise x)
      | (Inr chunks, enc') \<Rightarrow> (case encode_spec eo enc' bs e of (cs, r) \<Rightarrow> (chunks @ cs, r)))"

lemma encoded_loop_finished:
  "es_input_finished st \<or> es_pending st \<noteq> [] \<Longrightarrow> encoded_loop so eo n st = encoded_loop so eo m st"
  by (cases "es_pending st") (simp_all add: encoded_loop.simps [of _ _ _ st])

text \<open>The equations of one turn of the loop over a list source.\<close>

lemma encoded_loop_turn:
  assumes "es_pending st = []" "\<not> es_input_finished st"
  shows "es_source st = (b # bs, e, False) \<Longrightarrow> encoded_loop list_ops eo (Suc n) st =
       (case en_write eo b (es_encoder st) of
          (Inl x, enc) \<Rightarrow> encoded_fail list_ops x (st\<lparr>es_source := (bs, e, False), es_encoder := enc\<rparr>)
        | (Inr chunks, enc) \<Rightarrow> encoded_loop list_ops eo n
            (st\<lparr>es_source := (bs, e, False), es_encoder := enc, es_pending := chunks\<rparr>))"
    and "es_source st = ([], Some x, False) \<Longrightarrow>
       encoded_loop list_ops eo (Suc n) st = encoded_fail list_ops x (st\<lparr>es_source := ([], None, False)\<rparr>)"
    and "es_source st = ([], None, False) \<Longrightarrow> encoded_loop list_ops eo (Suc n) st =
       (case en_finish eo (es_encoder st) of
          (Inl x, enc) \<Rightarrow> (Raise x, st\<lparr>es_input_finished := True, es_source := ([], None, True), es_encoder := enc\<rparr>)
        | (Inr chunks, enc) \<Rightarrow> encoded_loop list_ops eo n
            (st\<lparr>es_input_finished := True, es_source := ([], None, True), es_encoder := enc,
               es_pending := chunks\<rparr>))"
  using assms by (simp_all add: encoded_loop.simps [of _ _ "Suc n"])

lemma encoded_loop_fuel:
  assumes "length bs < n" "length bs < m" "es_source st = (bs, e, False)"
  shows "encoded_loop list_ops eo n st = encoded_loop list_ops eo m st"
  using assms
proof (induction bs arbitrary: n m st)
  case Nil
  then obtain i j where nm: "n = Suc i" "m = Suc j" by (cases n; cases m) auto
  show ?case
  proof (cases "es_input_finished st \<or> es_pending st \<noteq> []")
    case False
    have "encoded_loop list_ops eo i st' = encoded_loop list_ops eo j st'" if "es_input_finished st'" for st'
      using that by (intro encoded_loop_finished) simp
    with False Nil nm show ?thesis
      by (cases e) (simp_all add: encoded_loop_turn split: prod.splits sum.splits)
  qed (rule encoded_loop_finished)
next
  case (Cons b bs)
  from Cons.prems obtain i j where nm: "n = Suc i" "m = Suc j" "length bs < i" "length bs < j"
    by (cases n; cases m) simp_all
  show ?case
  proof (cases "es_input_finished st \<or> es_pending st \<noteq> []")
    case False
    have "encoded_loop list_ops eo i st' = encoded_loop list_ops eo j st'"
      if "es_source st' = (bs, e, False)" for st'
      by (rule Cons.IH [OF nm(3,4) that])
    with False Cons.prems nm show ?thesis
      by (simp add: encoded_loop_turn split: prod.splits sum.splits)
  qed (rule encoded_loop_finished)
qed

lemma drain_pending:
  assumes "\<not> es_closed st"
  shows "drain (length p + m) (encoded_next so eo n) (st\<lparr>es_pending := p\<rparr>) =
     (case drain m (encoded_next so eo n) (st\<lparr>es_pending := []\<rparr>) of (xs, e, s) \<Rightarrow> (p @ xs, e, s))"
proof (induction p)
  case (Cons c p)
  have "encoded_next so eo n (st\<lparr>es_pending := c # p\<rparr>) = (Yield c, st\<lparr>es_pending := p\<rparr>)"
    using assms by (simp add: encoded_next_def encoded_loop.simps [of _ _ n])
  with Cons show ?case by (simp split: prod.splits)
qed (simp split: prod.splits)

lemma drain_same_step: "nxt s = nxt t \<Longrightarrow> drain (Suc m) nxt s = drain (Suc m) nxt t"
  by simp

text \<open>
  Reading a byte stream to its end gives what is pending and then what the specification says;
  fuel beyond the number of batches and reads beyond the number of chunks change nothing.
\<close>

lemma encoded_drain:
  assumes "es_source st = (bs, e, False)" "es_pending st = []" "\<not> es_closed st" "\<not> es_input_finished st"
    and "encode_spec eo (es_encoder st) bs e = (cs, r)" and "length bs < n"
  shows "\<exists>st'. drain (Suc (length cs + m)) (encoded_next list_ops eo n) st = (cs, r, st') \<and>
     (es_closed st' \<or> es_input_finished st')"
  using assms
proof (induction bs arbitrary: st cs)
  case Nil
  then obtain i where n: "n = Suc i" by (cases n) auto
  have fin: "drain (Suc k) (encoded_next list_ops eo n) (s\<lparr>es_pending := []\<rparr>) =
      ([], Stop, s\<lparr>es_pending := [], es_closed := True\<rparr>)"
    if "es_input_finished s" "\<not> es_closed s" for k s
    using that by (simp add: encoded_next_def encoded_loop.simps [of _ _ n] encoded_aclose_def)
  show ?case
  proof (cases e)
    case (Some x)
    with Nil n show ?thesis
      by (auto simp: encoded_next_def encoded_loop_turn encoded_fail_def encoded_aclose_def)
  next
    case None
    obtain f enc where f: "en_finish eo (es_encoder st) = (f, enc)" by fastforce
    show ?thesis
    proof (cases f)
      case (Inl x)
      with Nil n None f show ?thesis by (auto simp: encoded_next_def encoded_loop_turn)
    next
      case (Inr chunks)
      let ?s = "st\<lparr>es_input_finished := True, es_source := ([], None, True), es_encoder := enc\<rparr>"
      have step: "encoded_next list_ops eo n st = encoded_next list_ops eo n (?s\<lparr>es_pending := chunks\<rparr>)"
        using Nil n None f Inr encoded_loop_finished [of "?s\<lparr>es_pending := chunks\<rparr>" list_ops eo i n]
        by (simp add: encoded_next_def encoded_loop_turn)
      have "cs = chunks" "r = Stop" using Nil None f Inr by auto
      with drain_same_step [of "encoded_next list_ops eo n", OF step, of "length chunks + m"]
        drain_pending [of ?s chunks "Suc m" list_ops eo n] fin [of ?s m] Nil show ?thesis
        by (simp del: drain.simps)
    qed
  qed
next
  case (Cons b bs)
  then obtain i where n: "n = Suc i" by (cases n) auto
  obtain w enc where w: "en_write eo b (es_encoder st) = (w, enc)" by fastforce
  show ?case
  proof (cases w)
    case (Inl x)
    with Cons n w show ?thesis
      by (auto simp: encoded_next_def encoded_loop_turn encoded_fail_def encoded_aclose_def)
  next
    case (Inr chunks)
    let ?s = "st\<lparr>es_source := (bs, e, False), es_encoder := enc\<rparr>"
    obtain cs' where spec: "encode_spec eo enc bs e = (cs', r)" and cs: "cs = chunks @ cs'"
      using Cons.prems(5) w Inr by (auto split: prod.splits)
    have step: "encoded_next list_ops eo n st = encoded_next list_ops eo n (?s\<lparr>es_pending := chunks\<rparr>)"
      using Cons.prems n w Inr encoded_loop_fuel [of bs i n "?s\<lparr>es_pending := chunks\<rparr>" e eo]
      by (simp add: encoded_next_def encoded_loop_turn)
    obtain st' where "drain (Suc (length cs' + m)) (encoded_next list_ops eo n) (?s\<lparr>es_pending := []\<rparr>) = (cs', r, st')"
      "es_closed st' \<or> es_input_finished st'"
      using Cons.IH [of "?s\<lparr>es_pending := []\<rparr>" cs'] Cons.prems spec by auto
    with drain_same_step [of "encoded_next list_ops eo n", OF step, of "length cs + m"]
      drain_pending [of ?s chunks "Suc (length cs' + m)" list_ops eo n] Cons.prems(3) cs
    show ?thesis by (simp del: drain.simps add: add.assoc)
  qed
qed

section \<open>The decoded stream against its specification\<close>

text \<open>
  \<open>decodes dec d m buffered cs bs k mf\<close>: in decoder state \<open>d\<close> with the schema \<open>m\<close> seen so far, pushing the
  chunks \<open>cs\<close> (and an empty chunk while the decoder reports buffered input) takes \<open>k\<close> pushes, gives the
  batches \<open>bs\<close> and the schema \<open>mf\<close>, and finishes cleanly.
\<close>

inductive decodes ::
  "('b, 'm, 'd) decoder_ops \<Rightarrow> 'd \<Rightarrow> 'm option \<Rightarrow> bool \<Rightarrow> string list \<Rightarrow> 'b list \<Rightarrow> nat \<Rightarrow> 'm option \<Rightarrow> bool"
  for dec where
  decodes_end: "de_finish dec d = (Inr (), d') \<Longrightarrow> decodes dec d m False [] [] 0 m"
| decodes_chunk: "de_push dec c d = (Inr (sch, b, buf), d') \<Longrightarrow> sch = None \<or> m = None \<or> sch = m \<Longrightarrow>
    decodes dec d' (if sch = None then m else sch) buf cs bs k mf \<Longrightarrow>
    decodes dec d m False (c # cs) ((case b of None \<Rightarrow> [] | Some x \<Rightarrow> [x]) @ bs) (Suc k) mf"
| decodes_buffered: "de_push dec [] d = (Inr (sch, b, buf), d') \<Longrightarrow> sch = None \<or> m = None \<or> sch = m \<Longrightarrow>
    decodes dec d' (if sch = None then m else sch) buf cs bs k mf \<Longrightarrow>
    decodes dec d m True cs ((case b of None \<Rightarrow> [] | Some x \<Rightarrow> [x]) @ bs) (Suc k) mf"

inductive_cases decodes_TrueE: "decodes dec d m True cs bs k mf"
inductive_cases decodes_FalseE: "decodes dec d m False cs bs k mf"

lemma decodes_schema: "decodes dec d m buf cs bs k mf \<Longrightarrow> m \<noteq> None \<Longrightarrow> mf = m"
  by (induction rule: decodes.induct) (auto split: if_splits)

text \<open>A byte stream as the chunk source of a decoder.\<close>

definition byte_source :: "('a \<Rightarrow> string) \<Rightarrow> ('s, 'a) stream_ops \<Rightarrow> 's chunk_source" where
  "byte_source g ops =
     \<lparr>cs_next = (\<lambda>s. case st_next ops s of
          (Yield a, s') \<Rightarrow> (Yield (Bytes (g a)), s') | (Stop, s') \<Rightarrow> (Stop, s')
        | (Raise x, s') \<Rightarrow> (Raise x, s') | (Diverge, s') \<Rightarrow> (Diverge, s')),
      cs_aclose = Some (st_close ops)\<rparr>"

text \<open>The batches a decoded stream still owes and the number of reads that needs.\<close>

definition decoding ::
  "('s \<Rightarrow> 'a step \<times> 's) \<Rightarrow> ('a \<Rightarrow> string) \<Rightarrow> ('b, 'm, 'd) decoder_ops \<Rightarrow> ('s, 'b, 'm, 'd) decoded_stream
     \<Rightarrow> 'b list \<Rightarrow> nat \<Rightarrow> 'm option \<Rightarrow> bool" where
  "decoding nxt g dec st bs k mf \<longleftrightarrow> \<not> ds_closed st \<and>
     (if ds_input_finished st then bs = ds_pending st \<and> k = 0 \<and> mf = ds_schema st
      else \<exists>cs bs' j i s'. bs = ds_pending st @ bs' \<and> k = Suc i \<and> drain j nxt (ds_source st) = (cs, Stop, s') \<and>
        decodes dec (ds_decoder st) (ds_schema st) (ds_decoder_buffered st) (map g cs) bs' i mf)"

lemma decodingI:
  "\<not> ds_closed st \<Longrightarrow> \<not> ds_input_finished st \<Longrightarrow> drain j nxt (ds_source st) = (cs, Stop, s') \<Longrightarrow>
   decodes dec (ds_decoder st) (ds_schema st) (ds_decoder_buffered st) (map g cs) bs' i mf \<Longrightarrow>
   bs = ds_pending st @ bs' \<Longrightarrow> decoding nxt g dec st bs (Suc i) mf"
  by (auto simp: decoding_def)

lemma drain_StopE:
  assumes "drain j nxt s = (cs, Stop, s')"
  obtains "cs = []" "nxt s = (Stop, s')"
    | c cs' s1 i where "cs = c # cs'" "nxt s = (Yield c, s1)" "drain i nxt s1 = (cs', Stop, s')"
proof -
  obtain i where j: "j = Suc i" using assms by (cases j) auto
  obtain r t where "nxt s = (r, t)" by (cases "nxt s")
  with assms j that show thesis
    by (cases r) (auto split: prod.splits)
qed

lemma push_chunk_ok:
  assumes "de_push dec c (ds_decoder st) = (Inr (sch, b, buf), d')"
    and "sch = None \<or> ds_schema st = None \<or> sch = ds_schema st"
  shows "push_chunk src dec (Bytes c) st =
     (None, st\<lparr>ds_decoder := d', ds_decoder_buffered := buf,
        ds_schema := (if sch = None then ds_schema st else sch),
        ds_pending := ds_pending st @ (case b of None \<Rightarrow> [] | Some x \<Rightarrow> [x])\<rparr>)"
  using assms by (auto simp: push_chunk_def Let_def)

context closable_stream
begin

lemma read_next_chunk_decoding:
  assumes "decoding nxt g dec st bs (Suc k) mf"
  shows "\<exists>st'. read_next_chunk (byte_source g \<lparr>st_next = nxt, st_close = close\<rparr>) dec st = (Some None, st') \<and>
     decoding nxt g dec st' bs k mf"
proof -
  let ?src = "byte_source g \<lparr>st_next = nxt, st_close = close\<rparr>"
  from assms have open_st: "\<not> ds_closed st" "\<not> ds_input_finished st"
    by (auto simp: decoding_def split: if_splits)
  with assms obtain cs bs' j s' where bs: "bs = ds_pending st @ bs'"
    and dr: "drain j nxt (ds_source st) = (cs, Stop, s')"
    and de: "decodes dec (ds_decoder st) (ds_schema st) (ds_decoder_buffered st) (map g cs) bs' k mf"
    by (auto simp: decoding_def)
  show ?thesis
  proof (cases "ds_decoder_buffered st")
    case True
    with de obtain sch b buf d' bs'' l where
      p: "de_push dec [] (ds_decoder st) = (Inr (sch, b, buf), d')"
        "sch = None \<or> ds_schema st = None \<or> sch = ds_schema st"
        "decodes dec d' (if sch = None then ds_schema st else sch) buf (map g cs) bs'' l mf"
      and k: "k = Suc l" and bs': "bs' = (case b of None \<Rightarrow> [] | Some x \<Rightarrow> [x]) @ bs''"
      by (auto elim!: decodes_TrueE)
    have "decoding nxt g dec (st\<lparr>ds_decoder := d', ds_decoder_buffered := buf,
            ds_schema := (if sch = None then ds_schema st else sch),
            ds_pending := ds_pending st @ (case b of None \<Rightarrow> [] | Some x \<Rightarrow> [x])\<rparr>) bs k mf"
      unfolding k using open_st dr p(3) bs bs' by (intro decodingI) simp_all
    with True push_chunk_ok [OF p(1,2)] show ?thesis by (simp add: read_next_chunk_def)
  next
    case False
    with de have de': "decodes dec (ds_decoder st) (ds_schema st) False (map g cs) bs' k mf" by simp
    from dr show ?thesis
    proof (cases rule: drain_StopE)
      case 1
      with de' have "\<exists>d'. de_finish dec (ds_decoder st) = (Inr (), d')" "bs' = []" "k = 0" "mf = ds_schema st"
        by (auto elim: decodes_FalseE)
      moreover have "close s' = (Inr (), s')" using stop_closes [OF 1(2)] by (rule close_closed)
      ultimately show ?thesis using False 1 open_st bs
        by (auto simp: read_next_chunk_def decoding_def byte_source_def close_async_iterator_def)
    next
      case (2 c cs' s1 i)
      from de' 2(1) obtain sch b buf d' bs'' l where
        p: "de_push dec (g c) (ds_decoder st) = (Inr (sch, b, buf), d')"
          "sch = None \<or> ds_schema st = None \<or> sch = ds_schema st"
          "decodes dec d' (if sch = None then ds_schema st else sch) buf (map g cs') bs'' l mf"
        and k: "k = Suc l" and bs': "bs' = (case b of None \<Rightarrow> [] | Some x \<Rightarrow> [x]) @ bs''"
        by (auto elim!: decodes_FalseE)
      have "decoding nxt g dec (st\<lparr>ds_source := s1, ds_decoder := d', ds_decoder_buffered := buf,
            ds_schema := (if sch = None then ds_schema st else sch),
            ds_pending := ds_pending st @ (case b of None \<Rightarrow> [] | Some x \<Rightarrow> [x])\<rparr>) bs k mf"
        unfolding k using open_st 2(3) p(3) bs bs' by (intro decodingI) simp_all
      moreover have "cs_next ?src (ds_source st) = (Yield (Bytes (g c)), s1)"
        using 2(2) by (simp add: byte_source_def)
      ultimately show ?thesis
        using False push_chunk_ok [of dec "g c" "st\<lparr>ds_source := s1\<rparr>" sch b buf d' ?src] p(1,2)
        by (cases sch) (simp_all add: read_next_chunk_def)
    qed
  qed
qed

lemma decoded_loop_decoding:
  assumes "decoding nxt g dec st bs k mf" and "k \<le> n"
  shows "(case bs of
       [] \<Rightarrow> \<exists>st'. decoded_loop (byte_source g \<lparr>st_next = nxt, st_close = close\<rparr>) dec n st = (Stop, st') \<and>
            ds_schema st' = mf
     | b # bs' \<Rightarrow> \<exists>st' i. decoded_loop (byte_source g \<lparr>st_next = nxt, st_close = close\<rparr>) dec n st = (Yield b, st') \<and>
            i \<le> k \<and> decoding nxt g dec st' bs' i mf)"
  using assms
proof (induction k arbitrary: st n)
  case 0
  then have fin: "ds_input_finished st" "bs = ds_pending st" "mf = ds_schema st" "\<not> ds_closed st"
    by (auto simp: decoding_def split: if_splits)
  then show ?case
    by (cases "ds_pending st")
       (auto simp: decoded_loop.simps [of _ _ n] decoded_aclose_def decoding_def)
next
  case (Suc k)
  then have unfin: "\<not> ds_input_finished st" by (auto simp: decoding_def split: if_splits)
  show ?case
  proof (cases "ds_pending st")
    case Nil
    obtain st' where "read_next_chunk (byte_source g \<lparr>st_next = nxt, st_close = close\<rparr>) dec st = (Some None, st')"
      and d: "decoding nxt g dec st' bs k mf"
      using read_next_chunk_decoding [OF Suc.prems(1)] by blast
    moreover obtain m where m: "n = Suc m" "k \<le> m" using Suc.prems(2) by (cases n) auto
    ultimately have "decoded_loop (byte_source g \<lparr>st_next = nxt, st_close = close\<rparr>) dec n st =
        decoded_loop (byte_source g \<lparr>st_next = nxt, st_close = close\<rparr>) dec m st'"
      using Nil unfin by (simp add: decoded_loop.simps [of _ _ "Suc m"])
    with Suc.IH [OF d m(2)] show ?thesis by (auto split: list.splits intro: le_SucI)
  next
    case (Cons b ps)
    from Suc.prems(1) unfin obtain cs bs' j s' where open_st: "\<not> ds_closed st" and bs: "bs = b # ps @ bs'"
      and src: "drain j nxt (ds_source st) = (cs, Stop, s')"
      and de: "decodes dec (ds_decoder st) (ds_schema st) (ds_decoder_buffered st) (map g cs) bs' k mf"
      by (auto simp: decoding_def Cons)
    have "decoding nxt g dec (st\<lparr>ds_pending := ps\<rparr>) (ps @ bs') (Suc k) mf"
      using open_st unfin src de by (intro decodingI) simp_all
    with Cons bs show ?thesis by (auto simp: decoded_loop.simps [of _ _ n])
  qed
qed

lemma decoded_drain:
  assumes "decoding nxt g dec st bs k mf" and "k \<le> n"
  shows "\<exists>st'. drain (Suc (length bs + m)) (decoded_next (byte_source g \<lparr>st_next = nxt, st_close = close\<rparr>) dec n) st
     = (bs, Stop, st') \<and> ds_schema st' = mf"
  using assms
proof (induction bs arbitrary: st k)
  case Nil
  then have "\<not> ds_closed st" by (simp add: decoding_def)
  with decoded_loop_decoding [OF Nil] show ?case by (auto simp: decoded_next_def)
next
  case (Cons b bs)
  then have "\<not> ds_closed st" by (simp add: decoding_def)
  with decoded_loop_decoding [OF Cons.prems] obtain st' i where
    "decoded_next (byte_source g \<lparr>st_next = nxt, st_close = close\<rparr>) dec n st = (Yield b, st')" "i \<le> k"
    "decoding nxt g dec st' bs i mf" by (auto simp: decoded_next_def)
  with Cons.IH [of st' i] Cons.prems(2) show ?case by auto
qed

lemma read_schema_decoding:
  assumes "decoding nxt g dec st bs k (Some m)" and "k \<le> n"
  shows "\<exists>st' i. read_schema (byte_source g \<lparr>st_next = nxt, st_close = close\<rparr>) dec n st = (Some (Inr ()), st') \<and>
     i \<le> k \<and> decoding nxt g dec st' bs i (Some m) \<and> ds_schema st' \<noteq> None"
  using assms
proof (induction k arbitrary: st n)
  case 0
  then have "ds_schema st = Some m" by (auto simp: decoding_def split: if_splits)
  with 0 show ?case by (auto simp: read_schema.simps [of _ _ n])
next
  case (Suc k)
  then have unfin: "\<not> ds_input_finished st" by (auto simp: decoding_def split: if_splits)
  show ?case
  proof (cases "ds_schema st")
    case None
    obtain st' where "read_next_chunk (byte_source g \<lparr>st_next = nxt, st_close = close\<rparr>) dec st = (Some None, st')"
      and d: "decoding nxt g dec st' bs k (Some m)"
      using read_next_chunk_decoding [OF Suc.prems(1)] by blast
    moreover obtain l where l: "n = Suc l" "k \<le> l" using Suc.prems(2) by (cases n) auto
    ultimately have "read_schema (byte_source g \<lparr>st_next = nxt, st_close = close\<rparr>) dec n st =
        read_schema (byte_source g \<lparr>st_next = nxt, st_close = close\<rparr>) dec l st'"
      using None unfin by (simp add: read_schema.simps [of _ _ "Suc l"])
    with Suc.IH [OF d l(2)] show ?thesis by (auto intro: le_SucI)
  next
    case (Some m')
    with Suc.prems(1) show ?thesis by (intro exI [of _ st] exI [of _ "Suc k"]) (simp add: read_schema.simps [of _ _ n])
  qed
qed

text \<open>Decoding a byte stream whose content the decoder accepts: the schema is found, then every batch.\<close>

lemma decode_ipc_stream_ok:
  assumes "drain j nxt s = (cs, Stop, s')" and "decodes dec d None False (map g cs) bs k (Some m)" and "k < n"
  shows "\<exists>st st'. decode_ipc_stream (byte_source g \<lparr>st_next = nxt, st_close = close\<rparr>) dec n s d = (Some (Inr ()), st) \<and>
     drain (Suc (length bs + l)) (decoded_next (byte_source g \<lparr>st_next = nxt, st_close = close\<rparr>) dec n) st
       = (bs, Stop, st') \<and> ds_schema st' = Some m \<and> ds_schema st = Some m"
proof -
  have "decoding nxt g dec (new_decoded_stream s d) bs (Suc k) (Some m)"
    using assms by (intro decodingI) (simp_all add: new_decoded_stream_def)
  from read_schema_decoding [OF this, of n] assms(3) obtain st i where
    "decode_ipc_stream (byte_source g \<lparr>st_next = nxt, st_close = close\<rparr>) dec n s d = (Some (Inr ()), st)"
    "i \<le> Suc k" and dec: "decoding nxt g dec st bs i (Some m)" and "ds_schema st \<noteq> None"
    by (auto simp: decode_ipc_stream_def)
  moreover from dec this have "ds_schema st = Some m"
    by (auto simp: decoding_def split: if_splits dest: decodes_schema)
  ultimately show ?thesis using decoded_drain [of g dec st bs i "Some m" n l] assms(3) by auto
qed

end

section \<open>From batches to batches\<close>

lemma encoded_ops_eta: "encoded_ops so eo n = \<lparr>st_next = encoded_next so eo n, st_close = encoded_aclose so\<rparr>"
  by (simp add: encoded_ops_def)

lemma encode_ipc_stream_drain:
  assumes "encode_ipc_stream eo (bs, e, False) enc = Inr es"
    and "encode_spec eo (es_encoder es) bs e = (cs, r)" and "length bs < n"
  shows "\<exists>st'. drain (Suc (length (es_pending es @ cs))) (encoded_next list_ops eo n) es = (es_pending es @ cs, r, st') \<and>
     (es_closed st' \<or> es_input_finished st')"
proof -
  from assms(1) obtain initial enc' where es: "es = new_encoded_stream (bs, e, False) enc' initial"
    by (auto simp: encode_ipc_stream_def split: prod.splits sum.splits)
  let ?st = "es\<lparr>es_pending := []\<rparr>"
  obtain st' where "drain (Suc (length cs)) (encoded_next list_ops eo n) ?st = (cs, r, st')"
    "es_closed st' \<or> es_input_finished st'"
    using encoded_drain [of ?st bs e eo cs r n 0] assms(2,3) by (auto simp: es new_encoded_stream_def)
  with drain_pending [of ?st "es_pending es" "Suc (length cs)" list_ops eo n] show ?thesis
    by (simp add: es new_encoded_stream_def del: drain.simps)
qed

section \<open>The source is closed exactly once\<close>

definition es_once :: "('s \<times> nat, 'e) encoded_stream \<Rightarrow> bool" where
  "es_once st \<longleftrightarrow> snd (es_source st) = (if es_closed st \<or> es_input_finished st then 1 else 0)"

lemma es_once_open: "snd (es_source st) = 0 \<Longrightarrow> \<not> es_closed st \<Longrightarrow> \<not> es_input_finished st \<Longrightarrow> es_once st"
  and es_once_finished: "snd (es_source st) = Suc 0 \<Longrightarrow> es_input_finished st \<Longrightarrow> es_once st"
  by (simp_all add: es_once_def)

lemma es_once_aclose: "es_once st \<Longrightarrow> es_once (snd (encoded_aclose (counted so) st))"
  using counted_close [of so "es_source st"]
  by (auto simp: es_once_def encoded_aclose_def Let_def split: prod.splits)

lemma es_once_fail: "es_once st \<Longrightarrow> es_once (snd (encoded_fail (counted so) x st))"
  using es_once_aclose [of st so] by (auto simp: encoded_fail_def split: prod.splits sum.splits)

lemma es_once_loop: "es_once st \<Longrightarrow> \<not> es_closed st \<Longrightarrow> es_once (snd (encoded_loop (counted so) eo n st))"
proof (induction n arbitrary: st)
  case 0
  then show ?case using es_once_aclose [of st so]
    by (auto simp: encoded_loop.simps [of _ _ 0] es_once_def split: list.splits prod.splits sum.splits)
next
  case (Suc n)
  show ?case
  proof (cases "es_pending st = [] \<and> \<not> es_input_finished st")
    case False
    with Suc.prems es_once_aclose [of st so] show ?thesis
      by (auto simp: encoded_loop.simps [of _ _ "Suc n"] es_once_def split: list.splits prod.splits sum.splits)
  next
    case True
    obtain r src where nx: "st_next (counted so) (es_source st) = (r, src)"
      by (cases "st_next (counted so) (es_source st)")
    have cnt: "snd src = 0"
      using counted_next [of so "es_source st"] Suc.prems True nx by (simp add: es_once_def)
    show ?thesis
    proof (cases r)
      case (Yield b)
      with True Suc.prems nx cnt show ?thesis
        by (auto simp: encoded_loop.simps [of _ _ "Suc n"]
            split: prod.splits sum.splits intro!: Suc.IH es_once_fail es_once_open)
    next
      case Stop
      with True Suc.prems nx cnt counted_close [of so src] show ?thesis
        by (auto simp: encoded_loop.simps [of _ _ "Suc n"] es_once_finished
            split: prod.splits sum.splits intro!: Suc.IH)
    qed (use True Suc.prems nx cnt in
        \<open>auto simp: encoded_loop.simps [of _ _ "Suc n"] intro!: es_once_fail es_once_open\<close>)
  qed
qed

text \<open>Any sequence of reads and closes of the stream that \<open>encode_ipc_stream\<close> returned.\<close>

inductive encoded_reach ::
  "('s, 'b) stream_ops \<Rightarrow> ('b, 'e) encoder_ops \<Rightarrow> ('s, 'e) encoded_stream \<Rightarrow> ('s, 'e) encoded_stream \<Rightarrow> bool"
  for so eo where
  reach_start: "encoded_reach so eo st st"
| reach_next: "encoded_reach so eo st st1 \<Longrightarrow> encoded_next so eo n st1 = (r, st2) \<Longrightarrow> encoded_reach so eo st st2"
| reach_close: "encoded_reach so eo st st1 \<Longrightarrow> encoded_aclose so st1 = (r, st2) \<Longrightarrow> encoded_reach so eo st st2"

lemma encoded_reach_once:
  "encoded_reach (counted so) eo st st' \<Longrightarrow> es_once st \<Longrightarrow> es_once st'"
proof (induction rule: encoded_reach.induct)
  case (reach_next st st1 n r st2)
  then show ?case using es_once_loop [of st1 so eo n]
    by (auto simp: encoded_next_def split: if_splits)
next
  case (reach_close st st1 r st2)
  then show ?case using es_once_aclose [of st1 so] by simp
qed

section \<open>Properties\<close>

text \<open>A codec whose batches are lists of empty columns, written as one letter per column.\<close>

definition sample_encoder :: "('x list list, unit) encoder_ops" where
  "sample_encoder =
     \<lparr>en_start = (\<lambda>u. (Inr [''S''], u)),
      en_write = (\<lambda>b u. (Inr [CHR ''B'' # replicate (length b) (CHR ''c'')], u)),
      en_finish = (\<lambda>u. (Inr [''E''], u))\<rparr>"

definition sample_decoder :: "'m \<Rightarrow> ('x list list, 'm, unit) decoder_ops" where
  "sample_decoder m =
     \<lparr>de_push = (\<lambda>c u.
        (if c = ''S'' then Inr (Some m, None, False)
         else if c = ''E'' then Inr (None, None, False)
         else Inr (None, Some (map (\<lambda>_. []) (tl c)), False), u)),
      de_finish = (\<lambda>u. (Inr (), u))\<rparr>"

lemma sample_encode_spec:
  "encode_spec sample_encoder () bs None = (map (\<lambda>b. CHR ''B'' # replicate (length b) (CHR ''c'')) bs @ [''E''], Stop)"
  by (induction bs) (simp_all add: sample_encoder_def)

abbreviation sample_chunk :: "'x list list \<Rightarrow> string" where
  "sample_chunk b \<equiv> CHR ''B'' # replicate (length b) (CHR ''c'')"

lemma sample_push:
  "de_push (sample_decoder m) ''S'' () = (Inr (Some m, None, False), ())"
  "de_push (sample_decoder m) ''E'' () = (Inr (None, None, False), ())"
  "list_all (\<lambda>col. col = []) b \<Longrightarrow> de_push (sample_decoder m) (sample_chunk b) () = (Inr (None, Some b, False), ())"
proof -
  show "de_push (sample_decoder m) (sample_chunk b) () = (Inr (None, Some b, False), ())" if "list_all (\<lambda>col. col = []) b"
  proof -
    have "replicate (length b) [] = b" using that by (induction b) auto
    then show ?thesis by (simp add: sample_decoder_def map_replicate_const)
  qed
qed (simp_all add: sample_decoder_def)

lemma sample_decodes_batches:
  "list_all (list_all (\<lambda>col. col = [])) bs \<Longrightarrow>
   decodes (sample_decoder m) () (Some m) False (map sample_chunk bs @ [''E'']) bs (Suc (length bs)) (Some m)"
proof (induction bs)
  case Nil
  have "decodes (sample_decoder m) () (Some m) False [] [] 0 (Some m)"
    by (rule decodes_end) (simp add: sample_decoder_def)
  then show ?case
    using decodes_chunk [where dec = "sample_decoder m" and c = "''E''" and sch = None and b = None and buf = False
        and m = "Some m" and cs = "[]" and bs = "[]" and k = 0 and mf = "Some m", OF sample_push(2)] by simp
next
  case (Cons b bs)
  then have "list_all (\<lambda>col. col = []) b" by simp
  from Cons decodes_chunk [where dec = "sample_decoder m" and sch = None and b = "Some b" and buf = False
      and m = "Some m" and cs = "map sample_chunk bs @ [''E'']" and bs = bs and k = "Suc (length bs)" and mf = "Some m",
      OF sample_push(3) [OF this]]
  show ?case by simp
qed

lemma sample_decodes:
  assumes "list_all (list_all (\<lambda>col. col = [])) bs"
  shows "decodes (sample_decoder m) () None False (''S'' # map sample_chunk bs @ [''E'']) bs (Suc (Suc (length bs))) (Some m)"
  using sample_decodes_batches [OF assms, of m]
    decodes_chunk [where dec = "sample_decoder m" and sch = "Some m" and b = None and buf = False
      and m = None and cs = "map sample_chunk bs @ [''E'']" and bs = bs and k = "Suc (length bs)" and mf = "Some m",
      OF sample_push(1)] by simp

lemma sample_encode:
  "encode_ipc_stream sample_encoder src () = Inr (new_encoded_stream src () [''S''])"
  by (simp add: encode_ipc_stream_def sample_encoder_def)

text \<open>
  C25. Reading the byte stream of a result to its end gives the schema chunks, then for every batch exactly
  the chunks its encoding produced, in order, then the end-of-stream chunks, or the error of the source or the
  encoder at the point where it occurred; enough turns of the inner loop are one per batch and one more.
\<close>

theorem byte_stream_content:
  assumes "encode_ipc_stream eo (bs, e, False) enc = Inr es"
    and "encode_spec eo (es_encoder es) bs e = (cs, r)" and "length bs < n"
  shows "\<exists>st'. drain (Suc (length (es_pending es @ cs))) (encoded_next list_ops eo n) es = (es_pending es @ cs, r, st') \<and>
     (es_closed st' \<or> es_input_finished st')"
  by (rule encode_ipc_stream_drain [OF assms])

theorem byte_stream_content_witness:
  "\<exists>st'. drain 4 (encoded_next list_ops sample_encoder 2)
     (new_encoded_stream ([[[], []]] :: unit list list list, None, False) () [''S'']) = ([''S'', ''Bcc'', ''E''], Stop, st')"
  using byte_stream_content [where bs = "[[[], []]] :: unit list list list" and e = None and n = 2
      and cs = "[''Bcc'', ''E'']" and r = Stop, OF sample_encode] sample_encode_spec [of "[[[], []]] :: unit list list list"]
  by (auto simp: new_encoded_stream_def eval_nat_numeral simp del: drain.simps encode_spec.simps)

text \<open>
  C19. Whatever a consumer does with the byte stream, any number of reads and closes in any order, the batch
  source below it is closed once when the stream has been closed or its input has ended, and never twice.
\<close>

theorem batch_source_closed_once:
  assumes "encode_ipc_stream eo (src, 0) enc = Inr st" and "encoded_reach (counted so) eo st st'"
  shows "snd (es_source st') = (if es_closed st' \<or> es_input_finished st' then 1 else 0)"
proof -
  have "es_once st"
    using assms(1) by (auto simp: encode_ipc_stream_def new_encoded_stream_def es_once_def split: prod.splits sum.splits)
  from encoded_reach_once [OF assms(2) this] show ?thesis by (simp add: es_once_def)
qed

theorem batch_source_closed_once_witness:
  "\<exists>st'. encoded_aclose (counted list_ops) (snd (encoded_aclose (counted list_ops)
       (new_encoded_stream (([] :: unit list list list, None, False), 0) () [''S'']))) = (Inr (), st') \<and> snd (es_source st') = 1"
proof -
  let ?st = "new_encoded_stream (([] :: unit list list list, None :: exc option, False), 0) () [''S'']"
  obtain r1 s1 where 1: "encoded_aclose (counted list_ops) ?st = (r1, s1)"
    by (cases "encoded_aclose (counted list_ops) ?st")
  obtain r2 s2 where 2: "encoded_aclose (counted list_ops) s1 = (r2, s2)"
    by (cases "encoded_aclose (counted list_ops) s1")
  have "encoded_reach (counted list_ops) sample_encoder ?st s2"
    by (rule reach_close [OF reach_close [OF reach_start 1] 2])
  from batch_source_closed_once [OF sample_encode this] 1 2 encoded_aclose_closed [of "counted list_ops" s1] encoded_aclose_closed [of "counted list_ops" ?st]
  show ?thesis by (auto simp: encoded_aclose_def)
qed

text \<open>
  C12. A result that the encoder turned into bytes comes out of the decoder as the same batches, in order and
  ending, with the schema available before the first batch, when the decoder accepts the encoder's chunks.
\<close>

theorem ipc_round_trip:
  assumes es: "encode_ipc_stream eo (bs, None, False) enc = Inr es"
    and spec: "encode_spec eo (es_encoder es) bs None = (cs, Stop)" and fuel: "length bs < fuel"
    and dec: "decodes dec d None False (es_pending es @ cs) bs k (Some m)" "k < n"
  shows "\<exists>st st'. decode_ipc_stream (byte_source id (encoded_ops list_ops eo fuel)) dec n es d = (Some (Inr ()), st) \<and>
     drain (Suc (length bs)) (decoded_next (byte_source id (encoded_ops list_ops eo fuel)) dec n) st = (bs, Stop, st') \<and>
     ds_schema st = Some m"
proof -
  obtain st where "drain (Suc (length (es_pending es @ cs))) (encoded_next list_ops eo fuel) es = (es_pending es @ cs, Stop, st)"
    using encode_ipc_stream_drain [OF es spec fuel] by blast
  from encoded.decode_ipc_stream_ok [OF this, of dec d id bs k m n 0] dec show ?thesis
    by (auto simp: encoded_ops_eta simp del: drain.simps)
qed

theorem ipc_round_trip_witness:
  "\<exists>st st'. decode_ipc_stream (byte_source id (encoded_ops list_ops sample_encoder 3)) (sample_decoder ''schema'') 5
       (new_encoded_stream ([[[], []], [[]]] :: unit list list list, None, False) () [''S'']) () = (Some (Inr ()), st) \<and>
     drain 3 (decoded_next (byte_source id (encoded_ops list_ops sample_encoder 3)) (sample_decoder ''schema'') 5) st
       = ([[[], []], [[]]] :: unit list list list, Stop, st') \<and> ds_schema st = Some ''schema''"
  using ipc_round_trip [where bs = "[[[], []], [[]]] :: unit list list list" and cs = "[''Bcc'', ''Bc'', ''E'']" and fuel = 3
      and n = 5 and k = 4 and dec = "sample_decoder ''schema''" and d = "()" and m = "''schema''", OF sample_encode]
    sample_encode_spec [of "[[[], []], [[]]] :: unit list list list"]
    sample_decodes [of "[[[], []], [[]]] :: unit list list list" "''schema''"]
  by (auto simp: new_encoded_stream_def eval_nat_numeral simp del: drain.simps encode_spec.simps)

end
