(* ===== verification/Identifier_Path.thy ===== *)
theory Identifier_Path
  imports Wire
begin

text \<open>
  Table identifiers as URL path segments: \<open>encode_identifier_path\<close>, \<open>decode_identifier_path\<close>
  and \<open>identifier_matches_path\<close> of \<open>transport/models.py\<close>, and the client's route builders of
  \<open>transport/http.py\<close> with their choice of a delimiter.
\<close>

definition arrow_stream_media_type :: string where
  "arrow_stream_media_type = ''application/vnd.apache.arrow.stream''"

definition max_list_tables_page_size :: int where
  "max_list_tables_page_size = 1000"

definition default_identifier_delimiter :: string where
  "default_identifier_delimiter = ''$''"

definition identifier_delimiter :: "json \<Rightarrow> string result" where
  "identifier_delimiter v =
     rbind (models_string ''delimiter'' v) (\<lambda>d.
     rbind (raise_if (py_len d \<noteq> 1 \<or> d \<in> {''/'', ''%''})
             (err ValueError (''delimiter must be one character other than '' @ in_quotes ''/''
                @ '' or '' @ in_quotes ''%''))) (\<lambda>_.
     Inr d))"

definition identifier_segments :: "table_identifier \<Rightarrow> string list" where
  "identifier_segments t = ti_namespace t @ [ti_name t]"

definition encode_identifier_path :: "table_identifier \<Rightarrow> json \<Rightarrow> (string \<times> string) result" where
  "encode_identifier_path t delimiter =
     rbind (identifier_delimiter delimiter) (\<lambda>d.
     rbind (raise_if (list_ex (\<lambda>s. sublist d s) (identifier_segments t))
             (err ValueError ''identifier delimiter must not occur in a table identifier'')) (\<lambda>_.
     Inr (join d (map (quote []) (identifier_segments t)), d)))"

definition decode_identifier_path :: "string \<Rightarrow> json \<Rightarrow> string list result" where
  "decode_identifier_path path delimiter =
     rbind (identifier_delimiter delimiter) (\<lambda>d.
     rbind (raise_if (path = []) (err ValueError ''table identifier must not be empty'')) (\<lambda>_.
     (let segments = map unquote (split_str d path)
      in rbind (raise_if (list_ex (\<lambda>s. s = []) segments)
             (err ValueError ''table identifier contains an empty segment'')) (\<lambda>_.
     Inr segments))))"

definition identifier_matches_path :: "table_identifier \<Rightarrow> string list \<Rightarrow> bool" where
  "identifier_matches_path t path \<longleftrightarrow> identifier_segments t = path"

section \<open>The client's routes\<close>

definition route_delimiters :: "string list" where
  "route_delimiters = [default_identifier_delimiter, ''~'', ''!'', ''^'', ''|'']"

definition choose_delimiter_for_segments :: "string list \<Rightarrow> string result" where
  "choose_delimiter_for_segments segments =
     (case find (\<lambda>d. list_all (\<lambda>s. \<not> sublist d s) segments) route_delimiters of
        Some d \<Rightarrow> Inr d
      | None \<Rightarrow> Inl (err ValueError ''table identifier contains every supported route delimiter''))"

definition choose_delimiter :: "table_identifier \<Rightarrow> string result" where
  "choose_delimiter t = choose_delimiter_for_segments (identifier_segments t)"

text \<open>A route: the path and the \<open>delimiter\<close> query parameter.\<close>

type_synonym route = "string \<times> string"

definition table_path :: "table_identifier \<Rightarrow> string \<Rightarrow> route result" where
  "table_path t operation =
     rbind (choose_delimiter t) (\<lambda>delimiter.
     rbind (encode_identifier_path t (JStr delimiter)) (\<lambda>(path, d).
     Inr (''v1/table/'' @ path @ ''/'' @ operation, d)))"

definition registration_path :: "json \<Rightarrow> route result" where
  "registration_path nm =
     (case nm of
        JStr s \<Rightarrow>
          if s = [] then Inl (err ValueError ''table name must not be empty'')
          else rbind (choose_delimiter_for_segments [s]) (\<lambda>d.
               Inr (''v1/table/'' @ quote [] s @ ''/register'', d))
      | _ \<Rightarrow> Inl (err TypeError ''table name must be a string''))"

definition index_path :: "table_identifier \<Rightarrow> json \<Rightarrow> string \<Rightarrow> route result" where
  "index_path t index operation =
     (case index of
        JStr s \<Rightarrow>
          if py_strip s = [] then Inl (err ValueError ''index name must not be empty'')
          else table_path t (''index/'' @ quote [] s @ ''/'' @ operation)
      | _ \<Rightarrow> Inl (err TypeError ''index name must be a string''))"

definition identifier_reference :: "table_identifier \<Rightarrow> string" where
  "identifier_reference t = join ''.'' (ti_catalog t # ti_namespace t @ [ti_name t])"

section \<open>Lemmas\<close>

definition hex_upper :: string where
  "hex_upper = map hex_char [0..<16]"

lemma hex_char_upper: "d < 16 \<Longrightarrow> hex_char d \<in> set hex_upper"
  by (simp add: hex_upper_def)

lemma hex_upper_alnum: "x \<in> set hex_upper \<Longrightarrow> is_digit x \<or> is_alpha x"
  by (auto simp: hex_upper_def hex_char_def is_digit_def is_alpha_def Let_def of_char_of)

lemma quote_new_chars: "x \<in> set (quote safe s) \<Longrightarrow> x \<in> set s \<or> x = CHR ''%'' \<or> x \<in> set hex_upper"
proof -
  assume "x \<in> set (quote safe s)"
  then obtain c where "c \<in> set s" and c: "x \<in> set (quote_char safe c)" by (auto simp: quote_def)
  moreover have "code_of c div 16 < 16" using code_of_lt [of c] by linarith
  then have "hex_char (code_of c div 16) \<in> set hex_upper" "hex_char (code_of c mod 16) \<in> set hex_upper"
    by (intro hex_char_upper; simp)+
  ultimately show ?thesis by (auto simp: quote_char_def split: if_splits)
qed

lemma identifier_delimiter_char:
  assumes "is_ascii d" and "d \<noteq> CHR ''/''" and "d \<noteq> CHR ''%''"
  shows "identifier_delimiter (JStr [d]) = Inr [d]"
  using assms by (simp add: identifier_delimiter_def py_len_def is_ascii_def models_string_def)

lemma sublist_char: "sublist [d] = (\<lambda>s. d \<in> set s)"
  by (auto simp: sublist_def in_set_conv_decomp fun_eq_iff)

lemma encode_identifier_path_char:
  assumes "is_ascii d" "d \<noteq> CHR ''/''" "d \<noteq> CHR ''%''"
  shows "encode_identifier_path t (JStr [d]) =
    (if list_ex (\<lambda>s. d \<in> set s) (identifier_segments t)
     then Inl (err ValueError ''identifier delimiter must not occur in a table identifier'')
     else Inr (join [d] (map (quote []) (identifier_segments t)), [d]))"
  using assms by (simp add: encode_identifier_path_def identifier_delimiter_char sublist_char)

lemma join_not_Nil: "xs \<noteq> [] \<Longrightarrow> list_all (\<lambda>s. s \<noteq> []) xs \<Longrightarrow> join sep xs \<noteq> []"
  by (induction sep xs rule: join.induct) auto

lemma identifier_segments_wf:
  "wf_identifier t \<Longrightarrow> identifier_segments t \<noteq> [] \<and> list_all (\<lambda>s. s \<noteq> []) (identifier_segments t)"
  by (simp add: identifier_segments_def wf_identifier_def)

text \<open>
  Decoding a path whose segments avoid the delimiter and unquote to themselves, whatever quoted
  form they are in.
\<close>

lemma decode_joined_path:
  assumes d: "is_ascii d" "d \<noteq> CHR ''/''" "d \<noteq> CHR ''%''"
    and segs: "segs \<noteq> []" "list_all (\<lambda>s. s \<noteq> []) segs"
    and enc: "\<And>s. s \<in> set segs \<Longrightarrow> d \<notin> set (f s) \<and> unquote (f s) = s"
  shows "decode_identifier_path (join [d] (map f segs)) (JStr [d]) = Inr segs"
proof -
  have "f s \<noteq> []" if "s \<in> set segs" for s
    using enc [OF that] segs(2) that by (force simp: list_all_iff unquote_def)
  then have "join [d] (map f segs) \<noteq> []"
    using segs(1) by (intro join_not_Nil) (auto simp: list_all_iff)
  moreover have "split_on d (join [d] (map f segs)) = map f segs"
    using segs(1) enc by (intro split_on_join) auto
  moreover have "map (unquote \<circ> f) segs = segs"
    using enc by (intro map_idI) simp
  moreover have "\<not> list_ex (\<lambda>s. s = []) segs"
    using segs(2) by (simp add: list_ex_Nil)
  ultimately show ?thesis
    by (simp add: decode_identifier_path_def identifier_delimiter_char [OF d] split_str_single)
qed

lemma route_delimiters_map: "route_delimiters = map (\<lambda>c. [c]) ''$~!^|''"
  by (simp add: route_delimiters_def default_identifier_delimiter_def)

lemma route_delimiter_cases:
  "choose_delimiter_for_segments segs = Inr d \<Longrightarrow>
     \<exists>c. d = [c] \<and> c \<in> set ''$~!^|'' \<and> list_all (\<lambda>s. c \<notin> set s) segs"
proof -
  assume "choose_delimiter_for_segments segs = Inr d"
  then have "find (\<lambda>d. list_all (\<lambda>s. \<not> sublist d s) segs) route_delimiters = Some d"
    by (auto simp: choose_delimiter_for_segments_def split: option.splits)
  then have d: "d \<in> set route_delimiters" and fresh: "list_all (\<lambda>s. \<not> sublist d s) segs"
    by (auto dest: find_SomeD)
  obtain c where "d = [c]" "c \<in> set ''$~!^|''"
    using d unfolding route_delimiters_map list.set_map by (rule imageE)
  moreover from fresh have "list_all (\<lambda>s. c \<notin> set s) segs"
    by (simp add: \<open>d = [c]\<close> sublist_char)
  ultimately show ?thesis by blast
qed

lemma route_delimiter_char:
  "c \<in> set ''$~!^|'' \<Longrightarrow>
     is_ascii c \<and> c \<noteq> CHR ''/'' \<and> c \<noteq> CHR ''%'' \<and> c \<notin> set hex_upper"
  by (auto simp: is_ascii_def is_digit_def is_alpha_def dest!: hex_upper_alnum)

lemma decode_encode_identifier_path:
  assumes "wf_identifier t" and "list_all utf8_valid (identifier_segments t)"
    and d: "is_ascii d" "d \<noteq> CHR ''/''" "d \<noteq> CHR ''%''" "d \<notin> set hex_upper"
    and "encode_identifier_path t (JStr [d]) = Inr (path, delim)"
  shows "decode_identifier_path path (JStr delim) = Inr (identifier_segments t)"
proof -
  from assms(7) have "delim = [d]" "path = join [d] (map (quote []) (identifier_segments t))"
    and fresh: "\<And>s. s \<in> set (identifier_segments t) \<Longrightarrow> d \<notin> set s"
    by (auto simp: encode_identifier_path_char [OF d(1-3)] list_ex_iff split: if_splits)
  moreover have "d \<notin> set (quote [] s) \<and> unquote (quote [] s) = s"
    if "s \<in> set (identifier_segments t)" for s
    using that fresh [OF that] d assms(2) quote_new_chars [of d "[]" s]
    by (auto simp: list_all_iff unquote_quote)
  ultimately show ?thesis
    using decode_joined_path [OF d(1-3), of "identifier_segments t" "quote []"]
      identifier_segments_wf [OF assms(1)] by simp
qed

section \<open>Properties\<close>

text \<open>
  The path a client builds for a table is read back by the server as exactly the identifier's
  segments, whatever characters they contain: slashes, percent signs and non-ASCII text are quoted, and
  the delimiter the client picks occurs in no segment.
\<close>

theorem table_path_round_trip:
  assumes "wf_identifier t" and "list_all utf8_valid (identifier_segments t)" and "choose_delimiter t = Inr d"
  shows "\<exists>path. encode_identifier_path t (JStr d) = Inr (path, d) \<and>
     table_path t operation = Inr (''v1/table/'' @ path @ ''/'' @ operation, d) \<and>
     decode_identifier_path path (JStr d) = Inr (identifier_segments t) \<and>
     identifier_matches_path t (identifier_segments t)"
proof -
  obtain c where c: "d = [c]" "c \<in> set ''$~!^|''" "list_all (\<lambda>s. c \<notin> set s) (identifier_segments t)"
    using assms(3) route_delimiter_cases [of "identifier_segments t" d] by (auto simp: choose_delimiter_def)
  note cc = route_delimiter_char [OF c(2)]
  obtain path where enc: "encode_identifier_path t (JStr [c]) = Inr (path, [c])"
    using cc c(3) encode_identifier_path_char [of c t] by (auto simp: list_ex_iff list_all_iff)
  moreover have "decode_identifier_path path (JStr [c]) = Inr (identifier_segments t)"
    using decode_encode_identifier_path [OF assms(1,2) _ _ _ _ enc] cc by blast
  ultimately show ?thesis
    using assms(3) by (simp add: c(1) table_path_def identifier_matches_path_def)
qed

theorem table_path_round_trip_witness:
  "\<exists>path. decode_identifier_path path (JStr ''~'') = Inr [''a/b'', ''x%41$'']"
proof -
  let ?t = "\<lparr>ti_catalog = ''cat'', ti_namespace = [''a/b''], ti_name = ''x%41$''\<rparr>"
  have seg: "identifier_segments ?t = [''a/b'', ''x%41$'']" by (simp add: identifier_segments_def)
  have "wf_identifier ?t" by (simp add: wf_identifier_def)
  moreover have "list_all utf8_valid (identifier_segments ?t)"
    by (simp add: seg ascii_utf8_valid is_ascii_def del: utf8_valid.simps)
  moreover have "choose_delimiter ?t = Inr ''~''"
    by (simp add: choose_delimiter_def seg choose_delimiter_for_segments_def route_delimiters_def
        default_identifier_delimiter_def sublist_char)
  ultimately show ?thesis using table_path_round_trip [of ?t "''~''" "''query''"] by (auto simp: seg)
qed

end
