(* ===== verification/Transport_Errors.thy ===== *)
theory Transport_Errors
  imports Json
begin

text \<open>
  Errors across the HTTP boundary (\<open>transport/errors.py\<close>): the server's table from exception
  classes to status and code, the client's table from codes back to classes, and the client's
  reading of an error body. \<open>remote_class\<close> composes the two tables: the class a remote caller
  sees for an exception raised on the server.
\<close>

record http_error =
  he_status :: int
  he_code :: string
  he_message :: string
  he_request_id :: string

definition http_error_json :: "http_error \<Rightarrow> json" where
  "http_error_json h =
     JObj [(''error'',
        JObj [(''code'', JStr (he_code h)), (''message'', JStr (he_message h)),
              (''request_id'', JStr (he_request_id h))])]"

definition server_errors :: "(exc_class \<times> int \<times> string) list" where
  "server_errors =
    [(QueryQueueFullError, 429, ''query_queue_full''),
     (QueryQueueTimeoutError, 429, ''query_queue_timeout''),
     (IndexNotFoundError, 404, ''index_not_found''),
     (AlreadyExistsError, 409, ''already_exists''),
     (BuildAlreadyRunningError, 409, ''build_already_running''),
     (AmbiguousIndexError, 409, ''ambiguous_index''),
     (InvalidSchemaError, 400, ''invalid_schema''),
     (InvalidMetadataError, 400, ''invalid_metadata''),
     (InvalidArgumentError, 400, ''invalid_argument''),
     (PermissionError, 403, ''permission_denied''),
     (UnsupportedOperationError, 501, ''unsupported_operation''),
     (TypeError, 400, ''invalid_argument''),
     (ValueError, 400, ''invalid_argument''),
     (CatalogError, 500, ''catalog_error''),
     (StorageError, 500, ''storage_error''),
     (BackendError, 500, ''backend_error'')]"

definition client_errors :: "(string \<times> exc_class) list" where
  "client_errors =
    [(''query_queue_full'', QueryQueueFullError),
     (''query_queue_timeout'', QueryQueueTimeoutError),
     (''index_not_found'', IndexNotFoundError),
     (''already_exists'', AlreadyExistsError),
     (''build_already_running'', BuildAlreadyRunningError),
     (''ambiguous_index'', AmbiguousIndexError),
     (''invalid_schema'', InvalidSchemaError),
     (''invalid_metadata'', InvalidMetadataError),
     (''invalid_argument'', InvalidArgumentError),
     (''permission_denied'', PermissionError),
     (''unsupported_operation'', UnsupportedOperationError),
     (''catalog_error'', CatalogError),
     (''storage_error'', StorageError),
     (''backend_error'', BackendError)]"

definition classify_server_error :: "exc \<Rightarrow> string \<Rightarrow> http_error" where
  "classify_server_error e rid =
     (case find (\<lambda>(c, status, code). isinstance_exc e c) server_errors of
        Some (c, status, code) \<Rightarrow>
          \<lparr>he_status = status, he_code = code, he_message = exc_msg e, he_request_id = rid\<rparr>
      | None \<Rightarrow>
          \<lparr>he_status = 500, he_code = ''internal'', he_message = ''internal server error'',
           he_request_id = rid\<rparr>)"

text \<open>What \<open>raise_remote_error(response, body)\<close> raises, from the status, the header and the body.\<close>

definition remote_field :: "jobject \<Rightarrow> string \<Rightarrow> string option" where
  "remote_field body k = (case jget body k of JStr s \<Rightarrow> Some s | _ \<Rightarrow> None)"

definition raise_remote_error :: "int \<Rightarrow> string option \<Rightarrow> json \<Rightarrow> exc" where
  "raise_remote_error status header_id body =
     (let detail = (case body of JObj kvs \<Rightarrow> (case jget kvs ''error'' of JObj v \<Rightarrow> v | _ \<Rightarrow> [])
                    | _ \<Rightarrow> []);
          code = (case remote_field detail ''code'' of Some c \<Rightarrow> c | None \<Rightarrow> ''remote_error'');
          message = (case remote_field detail ''message'' of Some m \<Rightarrow> m
                     | None \<Rightarrow> ''ParqDB server returned HTTP '' @ show_int status);
          request_id = (case remote_field detail ''request_id'' of Some r \<Rightarrow> Some r
                        | None \<Rightarrow> header_id);
          message' = (case request_id of
                        Some r \<Rightarrow> if r = [] then message else message @ '' (request_id='' @ r @ '')''
                      | None \<Rightarrow> message)
      in err (case map_of client_errors code of Some c \<Rightarrow> c | None \<Rightarrow> BackendError) message')"

definition raise_remote_build_error :: "string option \<Rightarrow> string \<Rightarrow> exc" where
  "raise_remote_build_error code message =
     err (case map_of client_errors (case code of Some c \<Rightarrow> c | None \<Rightarrow> []) of
            Some c \<Rightarrow> c | None \<Rightarrow> ParqDBError) message"

definition unavailable :: "exc \<Rightarrow> exc" where
  "unavailable e = err ServiceUnavailableError (''ParqDB server is unavailable: '' @ exc_msg e)"

section \<open>What survives the boundary\<close>

definition portable_classes :: "exc_class list" where
  "portable_classes = map snd client_errors"

definition remote_class :: "exc_class \<Rightarrow> exc_class" where
  "remote_class c =
     (if c \<in> set portable_classes then c
      else if c \<le> TypeError \<or> c \<le> ValueError then InvalidArgumentError else BackendError)"

definition server_row :: "exc_class \<Rightarrow> (exc_class \<times> int \<times> string) option" where
  "server_row k = find (\<lambda>(c, status, code). k \<le> c) server_errors"

lemma server_row_eval:
  "server_row k =
     (if k \<in> {QueryQueueFullError, QueryQueueTimeoutError} then
        Some (k, 429, if k = QueryQueueFullError then ''query_queue_full'' else ''query_queue_timeout'')
      else if k = IndexNotFoundError then Some (k, 404, ''index_not_found'')
      else if k = AlreadyExistsError then Some (k, 409, ''already_exists'')
      else if k = BuildAlreadyRunningError then Some (k, 409, ''build_already_running'')
      else if k = AmbiguousIndexError then Some (k, 409, ''ambiguous_index'')
      else if k = InvalidSchemaError then Some (k, 400, ''invalid_schema'')
      else if k = InvalidMetadataError then Some (k, 400, ''invalid_metadata'')
      else if k = InvalidArgumentError then Some (k, 400, ''invalid_argument'')
      else if k = PermissionError then Some (k, 403, ''permission_denied'')
      else if k = UnsupportedOperationError then Some (k, 501, ''unsupported_operation'')
      else if k = TypeError then Some (k, 400, ''invalid_argument'')
      else if k \<in> {ValueError, UnicodeDecodeError, JSONDecodeError, TOMLDecodeError}
        then Some (ValueError, 400, ''invalid_argument'')
      else if k = CatalogError then Some (k, 500, ''catalog_error'')
      else if k = StorageError then Some (k, 500, ''storage_error'')
      else if k = BackendError then Some (k, 500, ''backend_error'')
      else None)"
  by (cases k) (simp_all add: server_row_def server_errors_def issubclass_eval)

lemma classify_server_row:
  "classify_server_error e rid =
     (case server_row (exc_cls e) of
        Some (c, status, code) \<Rightarrow>
          \<lparr>he_status = status, he_code = code, he_message = exc_msg e, he_request_id = rid\<rparr>
      | None \<Rightarrow>
          \<lparr>he_status = 500, he_code = ''internal'', he_message = ''internal server error'',
           he_request_id = rid\<rparr>)"
  by (simp add: classify_server_error_def server_row_def isinstance_exc_def)

lemma remote_class_eval:
  "remote_class k =
     (case server_row k of
        Some (c, status, code) \<Rightarrow> (case map_of client_errors code of Some d \<Rightarrow> d | None \<Rightarrow> BackendError)
      | None \<Rightarrow> BackendError)"
  by (cases k)
     (simp_all add: server_row_eval remote_class_def portable_classes_def client_errors_def
        issubclass_eval)

lemma raise_remote_error_http_error:
  "he_request_id h \<noteq> [] \<Longrightarrow>
   raise_remote_error (he_status h) header (http_error_json h) =
     err (case map_of client_errors (he_code h) of Some c \<Rightarrow> c | None \<Rightarrow> BackendError)
       (he_message h @ '' (request_id='' @ he_request_id h @ '')'')"
  by (simp add: raise_remote_error_def http_error_json_def remote_field_def Let_def)

text \<open>
  An exception raised on the server reaches the remote caller as \<open>remote_class\<close> of its class,
  and its message, when the class is one the server reports, prefixes the remote message.
\<close>

lemma classify_then_raise_class:
  assumes "rid \<noteq> []"
  shows "exc_cls (raise_remote_error (he_status (classify_server_error e rid)) header
           (http_error_json (classify_server_error e rid))) = remote_class (exc_cls e)"
  using assms
  by (subst raise_remote_error_http_error)
     (auto simp: classify_server_row remote_class_eval client_errors_def split: option.splits)

lemma classify_status_range: "400 \<le> he_status (classify_server_error e rid) \<and>
    he_status (classify_server_error e rid) < 600"
  by (auto simp: classify_server_row server_row_eval)

lemma classify_hides_internal:
  "server_row (exc_cls e) = None \<Longrightarrow>
     he_message (classify_server_error e rid) = ''internal server error''"
  by (simp add: classify_server_row)

section \<open>Properties\<close>

text \<open>
  C29. An exception raised on the server reaches the caller of a remote session as the same exception class
  when that class is one of the portable ones, as \<open>InvalidArgumentError\<close> when it is a type or value error, and
  as \<open>BackendError\<close> otherwise; the message names the request.
\<close>

theorem remote_error_class:
  assumes "rid \<noteq> []"
  shows "raise_remote_error (he_status (classify_server_error e rid)) header (http_error_json (classify_server_error e rid)) =
     err (remote_class (exc_cls e)) (he_message (classify_server_error e rid) @ '' (request_id='' @ rid @ '')'')"
proof -
  have "he_request_id (classify_server_error e rid) = rid"
    by (simp add: classify_server_row split: option.splits prod.splits)
  moreover have "exc_cls (raise_remote_error (he_status (classify_server_error e rid)) header
      (http_error_json (classify_server_error e rid))) = remote_class (exc_cls e)"
    by (rule classify_then_raise_class [OF assms])
  ultimately show ?thesis using assms by (simp add: raise_remote_error_http_error)
qed

theorem remote_error_class_witness:
  "raise_remote_error 404 None (http_error_json (classify_server_error (err IndexNotFoundError ''no index'') ''r1'')) =
     err IndexNotFoundError ''no index (request_id=r1)''"
  using remote_error_class [of "''r1''" "err IndexNotFoundError ''no index''" None]
  by (simp add: classify_server_row server_row_eval remote_class_def portable_classes_def client_errors_def)

text \<open>
  Nothing of an unexpected failure leaves the server: the response of an exception outside the server's
  table has status 500 and depends on the request identifier alone, not on the exception.
\<close>

theorem internal_errors_hidden:
  assumes "server_row (exc_cls e) = None"
  shows "classify_server_error e rid =
     \<lparr>he_status = 500, he_code = ''internal'', he_message = ''internal server error'', he_request_id = rid\<rparr>"
  using assms by (simp add: classify_server_row)

theorem internal_errors_hidden_witness:
  "he_message (classify_server_error (err RuntimeError ''password=hunter2'') ''r1'') = ''internal server error''"
proof -
  have "server_row (exc_cls (err RuntimeError ''password=hunter2'')) = None" by (simp add: server_row_eval)
  from internal_errors_hidden [OF this] show ?thesis by simp
qed

end
