(* ===== verification/Openapi.thy ===== *)
theory Openapi
  imports Identifier_Path
begin

text \<open>
  The OpenAPI document of the server (\<open>server/openapi.py\<close>), a validator for the JSON Schema keywords it uses, and the
  agreement of the document with the routes, the decoders and the encoders of the code.
\<close>

section \<open>The document\<close>

definition oa_ref :: "string \<Rightarrow> json" where
  "oa_ref n = JObj [(''$ref'', JStr (''#/components/schemas/'' @ n))]"

definition oa_json_content :: "json \<Rightarrow> json" where
  "oa_json_content schema =
     (JObj
     [(''application/json'', (JObj
       [(''schema'', schema)]))])"

definition oa_error_response :: json where
  "oa_error_response =
     (JObj
     [(''description'', JStr ''ParqDB error''),
      (''content'', (oa_json_content (oa_ref ''ErrorResponse'')))])"

definition oa_arrow_response :: json where
  "oa_arrow_response =
     (JObj
     [(''description'', JStr ''Arrow IPC stream''),
      (''content'', (JObj
       [(arrow_stream_media_type, (JObj
         [(''schema'', (JObj
           [(''type'', JStr ''string''),
            (''format'', JStr ''binary'')]))]))]))])"

definition oa_table_parameters :: "json list" where
  "oa_table_parameters = [(JObj
       [(''name'', JStr ''id''),
        (''in'', JStr ''path''),
        (''required'', JBool True),
        (''schema'', (JObj
         [(''type'', JStr ''string'')]))]),
      (JObj
       [(''name'', JStr ''delimiter''),
        (''in'', JStr ''query''),
        (''required'', JBool False),
        (''schema'', (JObj
         [(''type'', JStr ''string''),
          (''minLength'', JInt 1),
          (''maxLength'', JInt 1),
          (''default'', JStr default_identifier_delimiter)]))])]"

definition oa_vector_body :: json where
  "oa_vector_body =
     (JObj
     [(''required'', JBool True),
      (''content'', (oa_json_content (oa_ref ''VectorQuery'')))])"

definition oa_sql_body :: json where
  "oa_sql_body =
     (JObj
     [(''required'', JBool True),
      (''content'', (oa_json_content (oa_ref ''SqlQuery'')))])"

definition oa_json_ok :: "json \<Rightarrow> json" where
  "oa_json_ok schema =
     (JObj
     [(''200'', (JObj
       [(''description'', JStr ''Success''),
        (''content'', (oa_json_content schema))])),
      (''default'', oa_error_response)])"

definition path_listTables :: json where
  "path_listTables =
     (JObj
     [(''get'', (JObj
       [(''operationId'', JStr ''listTables''),
        (''parameters'', (JArr [(JObj
           [(''name'', JStr ''limit''),
            (''in'', JStr ''query''),
            (''schema'', (JObj
             [(''type'', JStr ''integer''),
              (''minimum'', JInt 1),
              (''maximum'', JInt max_list_tables_page_size),
              (''default'', JInt 100)]))]), (JObj
           [(''name'', JStr ''page_token''),
            (''in'', JStr ''query''),
            (''schema'', (JObj
             [(''type'', JStr ''string'')]))])])),
        (''responses'', (oa_json_ok (oa_ref ''ListTablesResponse'')))]))])"

definition path_describeTable :: json where
  "path_describeTable =
     (JObj
     [(''parameters'', JArr oa_table_parameters),
      (''post'', (JObj
       [(''operationId'', JStr ''describeTable''),
        (''requestBody'', (JObj
         [(''required'', JBool True),
          (''content'', (oa_json_content (oa_ref ''DescribeTableRequest'')))])),
        (''responses'', (oa_json_ok (oa_ref ''TableDescriptor'')))]))])"

definition path_registerParquetTable :: json where
  "path_registerParquetTable =
     (JObj
     [(''parameters'', JArr oa_table_parameters),
      (''post'', (JObj
       [(''operationId'', JStr ''registerParquetTable''),
        (''requestBody'', (JObj
         [(''required'', JBool True),
          (''content'', (oa_json_content (oa_ref ''RegisterParquetRequest'')))])),
        (''responses'', (oa_json_ok (oa_ref ''TableDescriptor'')))]))])"

definition path_deregisterTable :: json where
  "path_deregisterTable =
     (JObj
     [(''parameters'', JArr oa_table_parameters),
      (''post'', (JObj
       [(''operationId'', JStr ''deregisterTable''),
        (''requestBody'', (JObj
         [(''required'', JBool True),
          (''content'', (oa_json_content (oa_ref ''ScopedTableRequest'')))])),
        (''responses'', (oa_json_ok (oa_ref ''DeregisterResponse'')))]))])"

definition path_queryTable :: json where
  "path_queryTable =
     (JObj
     [(''parameters'', JArr oa_table_parameters),
      (''post'', (JObj
       [(''operationId'', JStr ''queryTable''),
        (''requestBody'', oa_vector_body),
        (''responses'', (JObj
         [(''200'', oa_arrow_response),
          (''default'', oa_error_response)]))]))])"

definition path_explainTable :: json where
  "path_explainTable =
     (JObj
     [(''parameters'', JArr oa_table_parameters),
      (''post'', (JObj
       [(''operationId'', JStr ''explainTable''),
        (''requestBody'', (JObj
         [(''required'', JBool True),
          (''content'', (oa_json_content (oa_ref ''ExplainVectorQuery'')))])),
        (''responses'', (oa_json_ok (oa_ref ''PlanResponse'')))]))])"

definition path_renderQuerySql :: json where
  "path_renderQuerySql =
     (JObj
     [(''parameters'', JArr oa_table_parameters),
      (''post'', (JObj
       [(''operationId'', JStr ''renderQuerySql''),
        (''requestBody'', oa_vector_body),
        (''responses'', (oa_json_ok (oa_ref ''SqlQuery'')))]))])"

definition path_createIndex :: json where
  "path_createIndex =
     (JObj
     [(''parameters'', JArr oa_table_parameters),
      (''post'', (JObj
       [(''operationId'', JStr ''createIndex''),
        (''requestBody'', (JObj
         [(''required'', JBool True),
          (''content'', (oa_json_content (oa_ref ''CreateIndexRequest'')))])),
        (''responses'', (JObj
         [(''202'', (JObj
           [(''description'', JStr ''Index build accepted''),
            (''content'', (oa_json_content (oa_ref ''AcceptedResponse'')))])),
          (''default'', oa_error_response)]))]))])"

definition path_listIndexes :: json where
  "path_listIndexes =
     (JObj
     [(''parameters'', JArr oa_table_parameters),
      (''post'', (JObj
       [(''operationId'', JStr ''listIndexes''),
        (''requestBody'', (JObj
         [(''required'', JBool True),
          (''content'', (oa_json_content (oa_ref ''IndexTableRequest'')))])),
        (''responses'', (oa_json_ok (oa_ref ''ListIndexesResponse'')))]))])"

definition path_getIndexStatus :: json where
  "path_getIndexStatus =
     (JObj
     [(''parameters'', (JArr (oa_table_parameters @ [(JObj
         [(''name'', JStr ''index_name''),
          (''in'', JStr ''path''),
          (''required'', JBool True),
          (''schema'', (JObj
           [(''type'', JStr ''string'')]))])]))),
      (''post'', (JObj
       [(''operationId'', JStr ''getIndexStatus''),
        (''requestBody'', (JObj
         [(''required'', JBool True),
          (''content'', (oa_json_content (oa_ref ''ScopedIndexRequest'')))])),
        (''responses'', (oa_json_ok (oa_ref ''IndexStatus'')))]))])"

definition path_registerIndex :: json where
  "path_registerIndex =
     (JObj
     [(''parameters'', (JArr (oa_table_parameters @ [(JObj
         [(''name'', JStr ''index_name''),
          (''in'', JStr ''path''),
          (''required'', JBool True),
          (''schema'', (JObj
           [(''type'', JStr ''string'')]))])]))),
      (''post'', (JObj
       [(''operationId'', JStr ''registerIndex''),
        (''requestBody'', (JObj
         [(''required'', JBool True),
          (''content'', (oa_json_content (oa_ref ''RegisterIndexRequest'')))])),
        (''responses'', (oa_json_ok (oa_ref ''RegisterIndexResponse'')))]))])"

definition path_refreshIndex :: json where
  "path_refreshIndex =
     (JObj
     [(''parameters'', (JArr (oa_table_parameters @ [(JObj
         [(''name'', JStr ''index_name''),
          (''in'', JStr ''path''),
          (''required'', JBool True),
          (''schema'', (JObj
           [(''type'', JStr ''string'')]))])]))),
      (''post'', (JObj
       [(''operationId'', JStr ''refreshIndex''),
        (''requestBody'', (JObj
         [(''required'', JBool True),
          (''content'', (oa_json_content (oa_ref ''RefreshIndexRequest'')))])),
        (''responses'', (JObj
         [(''202'', (JObj
           [(''description'', JStr ''Index refresh accepted''),
            (''content'', (oa_json_content (oa_ref ''AcceptedResponse'')))])),
          (''default'', oa_error_response)]))]))])"

definition path_dropIndex :: json where
  "path_dropIndex =
     (JObj
     [(''parameters'', (JArr (oa_table_parameters @ [(JObj
         [(''name'', JStr ''index_name''),
          (''in'', JStr ''path''),
          (''required'', JBool True),
          (''schema'', (JObj
           [(''type'', JStr ''string'')]))])]))),
      (''post'', (JObj
       [(''operationId'', JStr ''dropIndex''),
        (''requestBody'', (JObj
         [(''required'', JBool True),
          (''content'', (oa_json_content (oa_ref ''ScopedIndexRequest'')))])),
        (''responses'', (oa_json_ok (oa_ref ''DropIndexResponse'')))]))])"

definition path_executeSql :: json where
  "path_executeSql =
     (JObj
     [(''post'', (JObj
       [(''operationId'', JStr ''executeSql''),
        (''requestBody'', oa_sql_body),
        (''responses'', (JObj
         [(''200'', oa_arrow_response),
          (''default'', oa_error_response)]))]))])"

definition path_explainSql :: json where
  "path_explainSql =
     (JObj
     [(''post'', (JObj
       [(''operationId'', JStr ''explainSql''),
        (''requestBody'', (JObj
         [(''required'', JBool True),
          (''content'', (oa_json_content (oa_ref ''ExplainSqlQuery'')))])),
        (''responses'', (oa_json_ok (oa_ref ''PlanResponse'')))]))])"

definition schema_TableIdentifier :: json where
  "schema_TableIdentifier =
     (JObj
     [(''type'', JStr ''object''),
      (''additionalProperties'', JBool False),
      (''required'', (JArr [JStr ''catalog'', JStr ''namespace'', JStr ''name''])),
      (''properties'', (JObj
       [(''catalog'', (JObj
         [(''type'', JStr ''string''),
          (''minLength'', JInt 1)])),
        (''namespace'', (JObj
         [(''type'', JStr ''array''),
          (''items'', (JObj
           [(''type'', JStr ''string''),
            (''minLength'', JInt 1)]))])),
        (''name'', (JObj
         [(''type'', JStr ''string''),
          (''minLength'', JInt 1)]))]))])"

definition schema_RegisterParquetRequest :: json where
  "schema_RegisterParquetRequest =
     (JObj
     [(''type'', JStr ''object''),
      (''additionalProperties'', JBool False),
      (''required'', (JArr [JStr ''name'', JStr ''source'', JStr ''partition_schema'', JStr ''parquet_pruning'', JStr ''file_extension'', JStr ''skip_metadata'', JStr ''schema'', JStr ''file_sort_order''])),
      (''properties'', (JObj
       [(''name'', (JObj
         [(''type'', JStr ''string''),
          (''minLength'', JInt 1)])),
        (''source'', (JObj
         [(''type'', JStr ''string''),
          (''minLength'', JInt 1)])),
        (''partition_schema'', (JObj
         [(''type'', (JArr [JStr ''string'', JStr ''null''])),
          (''format'', JStr ''byte'')])),
        (''parquet_pruning'', (JObj
         [(''type'', JStr ''boolean'')])),
        (''file_extension'', (JObj
         [(''type'', JStr ''string''),
          (''minLength'', JInt 1)])),
        (''skip_metadata'', (JObj
         [(''type'', JStr ''boolean'')])),
        (''schema'', (JObj
         [(''type'', (JArr [JStr ''string'', JStr ''null''])),
          (''format'', JStr ''byte'')])),
        (''file_sort_order'', (JObj
         [(''type'', JStr ''array''),
          (''items'', (JObj
           [(''type'', JStr ''array''),
            (''items'', (JObj
             [(''type'', JStr ''string''),
              (''minLength'', JInt 1)]))]))]))]))])"

definition schema_ScopedTableRequest :: json where
  "schema_ScopedTableRequest =
     (JObj
     [(''type'', JStr ''object''),
      (''additionalProperties'', JBool False),
      (''required'', (JArr [JStr ''identifier''])),
      (''properties'', (JObj
       [(''identifier'', (oa_ref ''TableIdentifier''))]))])"

definition schema_IndexTableRequest :: json where
  "schema_IndexTableRequest =
     (JObj
     [(''type'', JStr ''object''),
      (''additionalProperties'', JBool False),
      (''required'', (JArr [JStr ''source''])),
      (''properties'', (JObj
       [(''source'', (oa_ref ''TableIdentifier''))]))])"

definition schema_IvfConfig :: json where
  "schema_IvfConfig =
     (JObj
     [(''type'', JStr ''object''),
      (''additionalProperties'', JBool False),
      (''required'', (JArr [JStr ''type'', JStr ''nlist'', JStr ''encoding'', JStr ''metric''])),
      (''properties'', (JObj
       [(''type'', (JObj
         [(''const'', JStr ''ivf'')])),
        (''nlist'', (JObj
         [(''type'', JStr ''integer''),
          (''minimum'', JInt 1)])),
        (''encoding'', (JObj
         [(''type'', JStr ''string''),
          (''enum'', (JArr [JStr ''source'', JStr ''lvq4'', JStr ''lvq8'']))])),
        (''metric'', (JObj
         [(''type'', JStr ''string''),
          (''enum'', (JArr [JStr ''l2_squared'', JStr ''cosine'']))]))]))])"

definition schema_WriteOptions :: json where
  "schema_WriteOptions =
     (JObj
     [(''type'', JStr ''object''),
      (''additionalProperties'', JBool False),
      (''required'', (JArr [JStr ''partitions'', JStr ''compression'', JStr ''target_file_size'', JStr ''max_row_group_rows'', JStr ''write_batch_rows''])),
      (''properties'', (JObj
       [(''partitions'', (JObj
         [(''type'', (JArr [JStr ''integer'', JStr ''null''])),
          (''minimum'', JInt 1)])),
        (''compression'', (JObj
         [(''type'', JStr ''string''),
          (''minLength'', JInt 1)])),
        (''target_file_size'', (JObj
         [(''type'', JStr ''integer''),
          (''minimum'', JInt 1)])),
        (''max_row_group_rows'', (JObj
         [(''type'', (JArr [JStr ''integer'', JStr ''null''])),
          (''minimum'', JInt 1)])),
        (''write_batch_rows'', (JObj
         [(''type'', JStr ''integer''),
          (''minimum'', JInt 1)]))]))])"

definition schema_CreateIndexRequest :: json where
  "schema_CreateIndexRequest =
     (JObj
     [(''type'', JStr ''object''),
      (''additionalProperties'', JBool False),
      (''required'', (JArr [JStr ''source'', JStr ''index'', JStr ''column'', JStr ''key'', JStr ''config'', JStr ''writer_options''])),
      (''properties'', (JObj
       [(''source'', (oa_ref ''TableIdentifier'')),
        (''index'', (JObj
         [(''type'', JStr ''string''),
          (''minLength'', JInt 1)])),
        (''column'', (JObj
         [(''type'', JStr ''string''),
          (''minLength'', JInt 1)])),
        (''key'', (JObj
         [(''type'', JStr ''array''),
          (''minItems'', JInt 1),
          (''items'', (JObj
           [(''type'', JStr ''string''),
            (''minLength'', JInt 1)]))])),
        (''config'', (oa_ref ''IvfConfig'')),
        (''writer_options'', (JObj
         [(''oneOf'', (JArr [(oa_ref ''WriteOptions''), (JObj
             [(''type'', JStr ''null'')])]))]))]))])"

definition schema_RegisterIndexRequest :: json where
  "schema_RegisterIndexRequest =
     (JObj
     [(''type'', JStr ''object''),
      (''additionalProperties'', JBool False),
      (''required'', (JArr [JStr ''source'', JStr ''index'', JStr ''manifest_location''])),
      (''properties'', (JObj
       [(''source'', (oa_ref ''TableIdentifier'')),
        (''index'', (JObj
         [(''type'', JStr ''string''),
          (''minLength'', JInt 1)])),
        (''manifest_location'', (JObj
         [(''type'', JStr ''string''),
          (''minLength'', JInt 1)]))]))])"

definition schema_RefreshIndexRequest :: json where
  "schema_RefreshIndexRequest =
     (JObj
     [(''type'', JStr ''object''),
      (''additionalProperties'', JBool False),
      (''required'', (JArr [JStr ''source'', JStr ''index'', JStr ''config'', JStr ''writer_options''])),
      (''properties'', (JObj
       [(''source'', (oa_ref ''TableIdentifier'')),
        (''index'', (JObj
         [(''type'', JStr ''string''),
          (''minLength'', JInt 1)])),
        (''config'', (JObj
         [(''oneOf'', (JArr [(oa_ref ''IvfConfig''), (JObj
             [(''type'', JStr ''null'')])]))])),
        (''writer_options'', (JObj
         [(''oneOf'', (JArr [(oa_ref ''WriteOptions''), (JObj
             [(''type'', JStr ''null'')])]))]))]))])"

definition schema_ScopedIndexRequest :: json where
  "schema_ScopedIndexRequest =
     (JObj
     [(''type'', JStr ''object''),
      (''additionalProperties'', JBool False),
      (''required'', (JArr [JStr ''source'', JStr ''index''])),
      (''properties'', (JObj
       [(''source'', (oa_ref ''TableIdentifier'')),
        (''index'', (JObj
         [(''type'', JStr ''string''),
          (''minLength'', JInt 1)]))]))])"

definition schema_IndexStatus :: json where
  "schema_IndexStatus =
     (JObj
     [(''type'', JStr ''object''),
      (''additionalProperties'', JBool False),
      (''required'', (JArr [JStr ''state'', JStr ''progress'', JStr ''phase'', JStr ''completed'', JStr ''total'', JStr ''current_snapshot_id'', JStr ''error'', JStr ''error_code''])),
      (''properties'', (JObj
       [(''state'', (JObj
         [(''type'', JStr ''string''),
          (''enum'', (JArr [JStr ''pending'', JStr ''building'', JStr ''ready'', JStr ''failed'']))])),
        (''progress'', (JObj
         [(''type'', (JArr [JStr ''number'', JStr ''null'']))])),
        (''phase'', (JObj
         [(''type'', (JArr [JStr ''string'', JStr ''null'']))])),
        (''completed'', (JObj
         [(''type'', (JArr [JStr ''integer'', JStr ''null''])),
          (''minimum'', JInt 0)])),
        (''total'', (JObj
         [(''type'', (JArr [JStr ''integer'', JStr ''null''])),
          (''minimum'', JInt 0)])),
        (''current_snapshot_id'', (JObj
         [(''type'', (JArr [JStr ''integer'', JStr ''null''])),
          (''minimum'', JInt 0)])),
        (''error'', (JObj
         [(''type'', (JArr [JStr ''string'', JStr ''null'']))])),
        (''error_code'', (JObj
         [(''type'', (JArr [JStr ''string'', JStr ''null'']))]))]))])"

definition schema_IndexInfo :: json where
  "schema_IndexInfo =
     (JObj
     [(''type'', JStr ''object''),
      (''additionalProperties'', JBool False),
      (''required'', (JArr [JStr ''name'', JStr ''column'', JStr ''family'', JStr ''metric'', JStr ''parameters'', JStr ''current_snapshot_id''])),
      (''properties'', (JObj
       [(''name'', (JObj
         [(''type'', JStr ''string''),
          (''minLength'', JInt 1)])),
        (''column'', (JObj
         [(''type'', JStr ''string''),
          (''minLength'', JInt 1)])),
        (''family'', (JObj
         [(''type'', JStr ''string''),
          (''minLength'', JInt 1)])),
        (''metric'', (JObj
         [(''type'', JStr ''string''),
          (''minLength'', JInt 1)])),
        (''parameters'', (JObj
         [(''type'', JStr ''object''),
          (''additionalProperties'', (JObj
           [(''type'', JStr ''string'')]))])),
        (''current_snapshot_id'', (JObj
         [(''type'', JStr ''integer''),
          (''minimum'', JInt 0)]))]))])"

definition schema_ListIndexesResponse :: json where
  "schema_ListIndexesResponse =
     (JObj
     [(''type'', JStr ''object''),
      (''required'', (JArr [JStr ''indexes''])),
      (''properties'', (JObj
       [(''indexes'', (JObj
         [(''type'', JStr ''array''),
          (''items'', (oa_ref ''IndexInfo''))]))]))])"

definition schema_AcceptedResponse :: json where
  "schema_AcceptedResponse =
     (JObj
     [(''type'', JStr ''object''),
      (''required'', (JArr [JStr ''accepted''])),
      (''properties'', (JObj
       [(''accepted'', (JObj
         [(''const'', JBool True)]))]))])"

definition schema_DeregisterResponse :: json where
  "schema_DeregisterResponse =
     (JObj
     [(''type'', JStr ''object''),
      (''required'', (JArr [JStr ''deregistered''])),
      (''properties'', (JObj
       [(''deregistered'', (JObj
         [(''const'', JBool True)]))]))])"

definition schema_DropIndexResponse :: json where
  "schema_DropIndexResponse =
     (JObj
     [(''type'', JStr ''object''),
      (''required'', (JArr [JStr ''dropped''])),
      (''properties'', (JObj
       [(''dropped'', (JObj
         [(''const'', JBool True)]))]))])"

definition schema_RegisterIndexResponse :: json where
  "schema_RegisterIndexResponse =
     (JObj
     [(''type'', JStr ''object''),
      (''required'', (JArr [JStr ''registered''])),
      (''properties'', (JObj
       [(''registered'', (JObj
         [(''const'', JBool True)]))]))])"

definition schema_VectorQuery :: json where
  "schema_VectorQuery =
     (JObj
     [(''type'', JStr ''object''),
      (''additionalProperties'', JBool False),
      (''required'', (JArr [JStr ''source'', JStr ''query''])),
      (''properties'', (JObj
       [(''source'', (oa_ref ''TableIdentifier'')),
        (''query'', (JObj
         [(''type'', JStr ''array''),
          (''minItems'', JInt 1),
          (''items'', (JObj
           [(''type'', JStr ''number'')]))])),
        (''column'', (JObj
         [(''type'', (JArr [JStr ''string'', JStr ''null'']))])),
        (''index'', (JObj
         [(''type'', (JArr [JStr ''string'', JStr ''null'']))])),
        (''projection'', (JObj
         [(''type'', (JArr [JStr ''array'', JStr ''null''])),
          (''items'', (JObj
           [(''type'', JStr ''string''),
            (''minLength'', JInt 1)]))])),
        (''result_limit'', (JObj
         [(''type'', JStr ''integer''),
          (''minimum'', JInt 1)])),
        (''probe_count'', (JObj
         [(''type'', (JArr [JStr ''integer'', JStr ''null''])),
          (''minimum'', JInt 1)])),
        (''predicate'', (JObj
         [(''type'', (JArr [JStr ''string'', JStr ''null'']))])),
        (''bypass_index'', (JObj
         [(''type'', JStr ''boolean'')]))]))])"

definition schema_SqlQuery :: json where
  "schema_SqlQuery =
     (JObj
     [(''type'', JStr ''object''),
      (''additionalProperties'', JBool False),
      (''required'', (JArr [JStr ''sql''])),
      (''properties'', (JObj
       [(''sql'', (JObj
         [(''type'', JStr ''string''),
          (''minLength'', JInt 1)]))]))])"

definition schema_ExplainVectorQuery :: json where
  "schema_ExplainVectorQuery =
     (JObj
     [(''type'', JStr ''object''),
      (''additionalProperties'', JBool False),
      (''required'', (JArr [JStr ''query''])),
      (''properties'', (JObj
       [(''query'', (oa_ref ''VectorQuery'')),
        (''verbose'', (JObj
         [(''type'', JStr ''boolean''),
          (''default'', JBool False)])),
        (''analyze'', (JObj
         [(''type'', JStr ''boolean''),
          (''default'', JBool False)]))]))])"

definition schema_ExplainSqlQuery :: json where
  "schema_ExplainSqlQuery =
     (JObj
     [(''type'', JStr ''object''),
      (''additionalProperties'', JBool False),
      (''required'', (JArr [JStr ''sql''])),
      (''properties'', (JObj
       [(''sql'', (JObj
         [(''type'', JStr ''string''),
          (''minLength'', JInt 1)])),
        (''verbose'', (JObj
         [(''type'', JStr ''boolean''),
          (''default'', JBool False)])),
        (''analyze'', (JObj
         [(''type'', JStr ''boolean''),
          (''default'', JBool False)]))]))])"

definition schema_DescribeTableRequest :: json where
  "schema_DescribeTableRequest =
     (JObj
     [(''type'', JStr ''object''),
      (''additionalProperties'', JBool False),
      (''required'', (JArr [JStr ''reference''])),
      (''properties'', (JObj
       [(''reference'', (JObj
         [(''type'', JStr ''string''),
          (''minLength'', JInt 1)]))]))])"

definition schema_TableDescriptor :: json where
  "schema_TableDescriptor =
     (JObj
     [(''type'', JStr ''object''),
      (''required'', (JArr [JStr ''identifier'', JStr ''schema''])),
      (''properties'', (JObj
       [(''identifier'', (oa_ref ''TableIdentifier'')),
        (''schema'', (JObj
         [(''type'', JStr ''string''),
          (''format'', JStr ''byte'')]))]))])"

definition schema_ListTablesResponse :: json where
  "schema_ListTablesResponse =
     (JObj
     [(''type'', JStr ''object''),
      (''required'', (JArr [JStr ''tables'', JStr ''next_page_token''])),
      (''properties'', (JObj
       [(''tables'', (JObj
         [(''type'', JStr ''array''),
          (''items'', (oa_ref ''TableIdentifier''))])),
        (''next_page_token'', (JObj
         [(''type'', (JArr [JStr ''string'', JStr ''null'']))]))]))])"

definition schema_PlanResponse :: json where
  "schema_PlanResponse =
     (JObj
     [(''type'', JStr ''object''),
      (''required'', (JArr [JStr ''plan''])),
      (''properties'', (JObj
       [(''plan'', (JObj
         [(''type'', JStr ''string'')]))]))])"

definition schema_ErrorResponse :: json where
  "schema_ErrorResponse =
     (JObj
     [(''type'', JStr ''object''),
      (''required'', (JArr [JStr ''error''])),
      (''properties'', (JObj
       [(''error'', (JObj
         [(''type'', JStr ''object''),
          (''required'', (JArr [JStr ''code'', JStr ''message'', JStr ''request_id''])),
          (''properties'', (JObj
           [(''code'', (JObj
             [(''type'', JStr ''string'')])),
            (''message'', (JObj
             [(''type'', JStr ''string'')])),
            (''request_id'', (JObj
             [(''type'', JStr ''string'')]))]))]))]))])"

definition openapi_paths :: jobject where
  "openapi_paths =
     [(''/v1/table'', path_listTables),
      (''/v1/table/{id}/describe'', path_describeTable),
      (''/v1/table/{id}/register'', path_registerParquetTable),
      (''/v1/table/{id}/deregister'', path_deregisterTable),
      (''/v1/table/{id}/query'', path_queryTable),
      (''/v1/table/{id}/explain'', path_explainTable),
      (''/v1/table/{id}/to_sql'', path_renderQuerySql),
      (''/v1/table/{id}/create_index'', path_createIndex),
      (''/v1/table/{id}/index/list'', path_listIndexes),
      (''/v1/table/{id}/index/{index_name}/stats'', path_getIndexStatus),
      (''/v1/table/{id}/index/{index_name}/register'', path_registerIndex),
      (''/v1/table/{id}/index/{index_name}/refresh'', path_refreshIndex),
      (''/v1/table/{id}/index/{index_name}/drop'', path_dropIndex),
      (''/v1/sql'', path_executeSql),
      (''/v1/sql/explain'', path_explainSql)]"

definition openapi_schemas :: jobject where
  "openapi_schemas =
     [(''TableIdentifier'', schema_TableIdentifier),
      (''RegisterParquetRequest'', schema_RegisterParquetRequest),
      (''ScopedTableRequest'', schema_ScopedTableRequest),
      (''IndexTableRequest'', schema_IndexTableRequest),
      (''IvfConfig'', schema_IvfConfig),
      (''WriteOptions'', schema_WriteOptions),
      (''CreateIndexRequest'', schema_CreateIndexRequest),
      (''RegisterIndexRequest'', schema_RegisterIndexRequest),
      (''RefreshIndexRequest'', schema_RefreshIndexRequest),
      (''ScopedIndexRequest'', schema_ScopedIndexRequest),
      (''IndexStatus'', schema_IndexStatus),
      (''IndexInfo'', schema_IndexInfo),
      (''ListIndexesResponse'', schema_ListIndexesResponse),
      (''AcceptedResponse'', schema_AcceptedResponse),
      (''DeregisterResponse'', schema_DeregisterResponse),
      (''DropIndexResponse'', schema_DropIndexResponse),
      (''RegisterIndexResponse'', schema_RegisterIndexResponse),
      (''VectorQuery'', schema_VectorQuery),
      (''SqlQuery'', schema_SqlQuery),
      (''ExplainVectorQuery'', schema_ExplainVectorQuery),
      (''ExplainSqlQuery'', schema_ExplainSqlQuery),
      (''DescribeTableRequest'', schema_DescribeTableRequest),
      (''TableDescriptor'', schema_TableDescriptor),
      (''ListTablesResponse'', schema_ListTablesResponse),
      (''PlanResponse'', schema_PlanResponse),
      (''ErrorResponse'', schema_ErrorResponse)]"

definition openapi_document :: json where
  "openapi_document =
     JObj [(''openapi'', JStr ''3.1.0''), (''info'', JObj [(''title'', JStr ''ParqDB API''), (''version'', JStr ''v1'')]),
       (''paths'', JObj openapi_paths), (''components'', JObj [(''schemas'', JObj openapi_schemas)])]"

lemmas openapi_helpers = oa_ref_def oa_json_content_def oa_error_response_def oa_arrow_response_def oa_table_parameters_def
  oa_vector_body_def oa_sql_body_def oa_json_ok_def

lemma openapi_document_finite: "jfinite openapi_document"
  by code_simp

section \<open>JSON Schema\<close>

text \<open>
  The reference reading of the document: the validation keywords of JSON Schema (draft 2020-12) that occur in it. A
  keyword says nothing of a value of another type, an unknown keyword is an annotation, and \<open>integer\<close> is read
  strictly, so that a float never conforms. The first argument bounds the chain of references and nested values; a
  value that needs more does not conform.
\<close>

fun has_type :: "string \<Rightarrow> json \<Rightarrow> bool" where
  "has_type t JNull = (t = ''null'')"
| "has_type t (JBool _) = (t = ''boolean'')"
| "has_type t (JInt _) = (t = ''integer'' \<or> t = ''number'')"
| "has_type t (JFloat _) = (t = ''number'')"
| "has_type t (JStr _) = (t = ''string'')"
| "has_type t (JArr _) = (t = ''array'')"
| "has_type t (JObj _) = (t = ''object'')"

fun json_elements :: "json \<Rightarrow> json list" where
  "json_elements (JArr xs) = xs"
| "json_elements _ = []"

fun json_members :: "json \<Rightarrow> jobject" where
  "json_members (JObj kvs) = kvs"
| "json_members _ = []"

fun json_text :: "json \<Rightarrow> string" where
  "json_text (JStr s) = s"
| "json_text _ = []"

fun type_keyword :: "json option \<Rightarrow> json \<Rightarrow> bool" where
  "type_keyword None v = True"
| "type_keyword (Some (JStr t)) v = has_type t v"
| "type_keyword (Some (JArr ts)) v = list_ex (\<lambda>t. has_type (json_text t) v) ts"
| "type_keyword (Some _) v = False"

fun at_least :: "json option \<Rightarrow> int \<Rightarrow> bool" where
  "at_least (Some (JInt n)) m = (n \<le> m)"
| "at_least _ m = True"

fun size_keywords :: "jobject \<Rightarrow> json \<Rightarrow> bool" where
  "size_keywords s (JStr t) = at_least (map_of s ''minLength'') (int (length t))"
| "size_keywords s (JInt n) = at_least (map_of s ''minimum'') n"
| "size_keywords s (JArr xs) = at_least (map_of s ''minItems'') (int (length xs))"
| "size_keywords s _ = True"

definition choice_keywords :: "jobject \<Rightarrow> json \<Rightarrow> bool" where
  "choice_keywords s v \<longleftrightarrow>
     (case map_of s ''const'' of None \<Rightarrow> True | Some c \<Rightarrow> v = c) \<and>
     (case map_of s ''enum'' of None \<Rightarrow> True | Some cs \<Rightarrow> list_ex (\<lambda>c. v = c) (json_elements cs))"

definition items_keyword :: "(json \<Rightarrow> json \<Rightarrow> bool) \<Rightarrow> jobject \<Rightarrow> json \<Rightarrow> bool" where
  "items_keyword ok s v = (case map_of s ''items'' of None \<Rightarrow> True | Some t \<Rightarrow> list_all (ok t) (json_elements v))"

definition one_of_keyword :: "(json \<Rightarrow> json \<Rightarrow> bool) \<Rightarrow> jobject \<Rightarrow> json \<Rightarrow> bool" where
  "one_of_keyword ok s v =
     (case map_of s ''oneOf'' of None \<Rightarrow> True | Some ts \<Rightarrow> length (filter (\<lambda>t. ok t v) (json_elements ts)) = 1)"

definition extra_member_ok :: "(json \<Rightarrow> json \<Rightarrow> bool) \<Rightarrow> jobject \<Rightarrow> json \<Rightarrow> bool" where
  "extra_member_ok ok s v =
     (case map_of s ''additionalProperties'' of None \<Rightarrow> True | Some (JBool b) \<Rightarrow> b | Some t \<Rightarrow> ok t v)"

fun object_keywords :: "(json \<Rightarrow> json \<Rightarrow> bool) \<Rightarrow> jobject \<Rightarrow> json \<Rightarrow> bool" where
  "object_keywords ok s (JObj kvs) =
     (list_all (\<lambda>k. map_of kvs (json_text k) \<noteq> None) (json_elements (jget s ''required'')) \<and>
      list_all (\<lambda>(k, t). case map_of kvs k of None \<Rightarrow> True | Some v \<Rightarrow> ok t v) (json_members (jget s ''properties'')) \<and>
      list_all (\<lambda>(k, v). k \<in> set (jkeys (json_members (jget s ''properties''))) \<or> extra_member_ok ok s v) kvs)"
| "object_keywords ok s _ = True"

definition schema_named :: "jobject \<Rightarrow> json option \<Rightarrow> json option" where
  "schema_named defs r =
     (case r of
        Some (JStr t) \<Rightarrow>
          if prefix ''#/components/schemas/'' t then map_of defs (drop (length ''#/components/schemas/'') t) else None
      | _ \<Rightarrow> None)"

fun conforms :: "nat \<Rightarrow> jobject \<Rightarrow> json \<Rightarrow> json \<Rightarrow> bool" where
  "conforms 0 defs sch v = False"
| "conforms (Suc n) defs (JObj s) v =
     (if map_of s ''$ref'' \<noteq> None
      then (case schema_named defs (map_of s ''$ref'') of None \<Rightarrow> False | Some t \<Rightarrow> conforms n defs t v)
      else type_keyword (map_of s ''type'') v \<and> choice_keywords s v \<and> size_keywords s v \<and>
           items_keyword (conforms n defs) s v \<and> one_of_keyword (conforms n defs) s v \<and>
           object_keywords (conforms n defs) s v)"
| "conforms (Suc n) defs (JBool b) v = b"
| "conforms (Suc n) defs _ v = False"

definition conforms_to :: "string \<Rightarrow> json \<Rightarrow> bool" where
  "conforms_to nm v \<longleftrightarrow> conforms 8 openapi_schemas (oa_ref nm) v"

lemma conforms_ref [simp]:
  "conforms (Suc n) defs (oa_ref nm) v = (case map_of defs nm of None \<Rightarrow> False | Some t \<Rightarrow> conforms n defs t v)"
  by (simp add: oa_ref_def schema_named_def)

lemma conforms_object:
  assumes "set (map fst s) \<subseteq> {''type'', ''additionalProperties'', ''required'', ''properties''}"
    and "map_of s ''type'' = Some (JStr ''object'')"
    and "set (json_elements (jget s ''required'')) \<subseteq> JStr ` set (jkeys kvs)"
    and "list_all (\<lambda>(k, t). \<forall>v. map_of kvs k = Some v \<longrightarrow> conforms n defs t v) (json_members (jget s ''properties''))"
    and "set (jkeys kvs) \<subseteq> set (jkeys (json_members (jget s ''properties'')))"
  shows "conforms (Suc n) defs (JObj s) (JObj kvs)"
proof -
  have absent: "map_of s k = None" if "k \<notin> {''type'', ''additionalProperties'', ''required'', ''properties''}" for k
    using assms(1) that by (auto simp: map_of_eq_None_iff)
  have "list_all (\<lambda>k. map_of kvs (json_text k) \<noteq> None) (json_elements (jget s ''required''))"
    unfolding list_all_iff
  proof
    fix k assume "k \<in> set (json_elements (jget s ''required''))"
    with assms(3) obtain t where "k = JStr t" "t \<in> set (jkeys kvs)" by blast
    then show "map_of kvs (json_text k) \<noteq> None" by (simp add: map_of_eq_None_iff jkeys_def)
  qed
  moreover have "list_all (\<lambda>(k, v). k \<in> set (jkeys (json_members (jget s ''properties''))) \<or> extra_member_ok (conforms n defs) s v) kvs"
    using assms(5) by (force simp: list_all_iff jkeys_def)
  moreover have "list_all (\<lambda>(k, t). case map_of kvs k of None \<Rightarrow> True | Some v \<Rightarrow> conforms n defs t v) (json_members (jget s ''properties''))"
    using assms(4) by (auto simp: list_all_iff split: option.splits)
  ultimately show ?thesis
    using assms(2) absent by (simp add: choice_keywords_def items_keyword_def one_of_keyword_def)
qed

text \<open>The scalar and array schemas of the document, decided.\<close>

named_theorems schema_simps

lemma string_schemas [schema_simps]:
  "conforms (Suc n) defs (JObj [(''type'', JStr ''string'')]) v \<longleftrightarrow> (\<exists>t. v = JStr t)"
  "conforms (Suc n) defs (JObj [(''type'', JStr ''string''), (''minLength'', JInt 1)]) v \<longleftrightarrow> (\<exists>t. v = JStr t \<and> t \<noteq> [])"
  "conforms (Suc n) defs (JObj [(''type'', JArr [JStr ''string'', JStr ''null''])]) v \<longleftrightarrow> v = JNull \<or> (\<exists>t. v = JStr t)"
  "conforms (Suc n) defs (JObj [(''type'', JStr ''string''), (''enum'', JArr es)]) v \<longleftrightarrow> (\<exists>t. v = JStr t \<and> JStr t \<in> set es)"
  by (cases v; simp add: choice_keywords_def items_keyword_def one_of_keyword_def list_ex_iff Suc_le_eq)+

lemma number_schemas [schema_simps]:
  "conforms (Suc n) defs (JObj [(''type'', JStr ''integer''), (''minimum'', JInt m)]) v \<longleftrightarrow> (\<exists>i. v = JInt i \<and> m \<le> i)"
  "conforms (Suc n) defs (JObj [(''type'', JArr [JStr ''integer'', JStr ''null'']), (''minimum'', JInt m)]) v \<longleftrightarrow>
     v = JNull \<or> (\<exists>i. v = JInt i \<and> m \<le> i)"
  "conforms (Suc n) defs (JObj [(''type'', JStr ''number'')]) v \<longleftrightarrow> (\<exists>i. v = JInt i) \<or> (\<exists>x. v = JFloat x)"
  "conforms (Suc n) defs (JObj [(''type'', JArr [JStr ''number'', JStr ''null''])]) v \<longleftrightarrow>
     v = JNull \<or> (\<exists>i. v = JInt i) \<or> (\<exists>x. v = JFloat x)"
  by (cases v; simp add: choice_keywords_def items_keyword_def one_of_keyword_def)+

lemma other_schemas [schema_simps]:
  "conforms (Suc n) defs (JObj [(''type'', JStr ''boolean'')]) v \<longleftrightarrow> (\<exists>b. v = JBool b)"
  "conforms (Suc n) defs (JObj [(''type'', JStr ''boolean''), (''default'', d)]) v \<longleftrightarrow> (\<exists>b. v = JBool b)"
  "conforms (Suc n) defs (JObj [(''type'', JStr ''null'')]) v \<longleftrightarrow> v = JNull"
  by (cases v; simp add: choice_keywords_def items_keyword_def one_of_keyword_def)+

lemma const_schema [schema_simps]: "conforms (Suc n) defs (JObj [(''const'', c)]) v \<longleftrightarrow> v = c"
proof -
  have "object_keywords ok [(''const'', c)] v" for ok
    by (cases v) (simp_all add: jget_def extra_member_ok_def list_all_iff)
  moreover have "size_keywords [(''const'', c)] v" by (cases v) simp_all
  ultimately show ?thesis by (simp add: choice_keywords_def items_keyword_def one_of_keyword_def)
qed

lemma array_schemas [schema_simps]:
  "conforms (Suc n) defs (JObj [(''type'', JStr ''array''), (''items'', t)]) v \<longleftrightarrow>
     (\<exists>xs. v = JArr xs \<and> list_all (conforms n defs t) xs)"
  "conforms (Suc n) defs (JObj [(''type'', JArr [JStr ''array'', JStr ''null'']), (''items'', t)]) v \<longleftrightarrow>
     v = JNull \<or> (\<exists>xs. v = JArr xs \<and> list_all (conforms n defs t) xs)"
  "conforms (Suc n) defs (JObj [(''type'', JStr ''array''), (''minItems'', JInt 1), (''items'', t)]) v \<longleftrightarrow>
     (\<exists>xs. v = JArr xs \<and> xs \<noteq> [] \<and> list_all (conforms n defs t) xs)"
  by (cases v; simp add: choice_keywords_def items_keyword_def one_of_keyword_def Suc_le_eq)+

section \<open>Accepted documents conform\<close>

declare conforms.simps [simp del]

lemma jget_or_present: "k \<in> set (jkeys kvs) \<Longrightarrow> jget_or kvs k d = jget kvs k"
  by (auto simp: jget_or_def jget_def jkeys_def split: option.split simp: map_of_eq_None_iff)

lemma jget_some: "jget kvs k \<noteq> JNull \<Longrightarrow> k \<in> set (jkeys kvs)"
  using jget_missing by blast

lemma conforms_record:
  assumes "set (jkeys kvs) \<subseteq> set (map fst props)" and "set required \<subseteq> set (jkeys kvs)"
    and "list_all (\<lambda>(k, t). k \<in> set (jkeys kvs) \<longrightarrow> conforms n defs t (jget kvs k)) props"
  shows "conforms (Suc n) defs (JObj [(''type'', JStr ''object''), (''additionalProperties'', JBool False),
     (''required'', JArr (map JStr required)), (''properties'', JObj props)]) (JObj kvs)"
proof -
  have "v = jget kvs k \<and> k \<in> set (jkeys kvs)" if "map_of kvs k = Some v" for k v
    using that by (force simp: jget_def jkeys_def dest: map_of_SomeD)
  with assms show ?thesis
    by (intro conforms_object) (auto simp: jget_def [of _ "''required''"] jget_def [of _ "''properties''"] jkeys_def list_all_iff)
qed

lemma conforms_record_list:
  assumes "required' = map JStr required" and "set (jkeys kvs) \<subseteq> set (map fst props)" and "set required \<subseteq> set (jkeys kvs)"
    and "list_all (\<lambda>(k, t). k \<in> set (jkeys kvs) \<longrightarrow> conforms n defs t (jget kvs k)) props"
  shows "conforms (Suc n) defs (JObj [(''type'', JStr ''object''), (''additionalProperties'', JBool False),
     (''required'', JArr required'), (''properties'', JObj props)]) (JObj kvs)"
  using assms conforms_record by blast

lemma traverse_accepts: "traverse f xs = Inr ys \<Longrightarrow> x \<in> set xs \<Longrightarrow> \<exists>y. f x = Inr y"
  by (drule (1) traverse_in) blast

lemma accepted_identifier:
  assumes "identifier_from_json v = Inr t"
  shows "conforms (Suc (Suc (Suc n))) defs schema_TableIdentifier v"
proof -
  from assms obtain kvs c nm xs where v: "v = JObj kvs" and keys: "set (jkeys kvs) \<subseteq> {''catalog'', ''namespace'', ''name''}"
    and fields: "jget kvs ''catalog'' = JStr c" "c \<noteq> []" "jget kvs ''name'' = JStr nm" "nm \<noteq> []"
      "jget kvs ''namespace'' = JArr (map JStr xs)" "list_all (\<lambda>s. s \<noteq> []) xs"
    by (auto simp: identifier_from_json_def models_object_Inr reject_unknown_Inr json_case_Inr traverse_strings_Inr)
  show ?thesis
    unfolding schema_TableIdentifier_def v using keys fields jget_some [of kvs]
    by (intro conforms_record_list [where required = "[''catalog'', ''namespace'', ''name'']"]) (simp_all add: schema_simps list_all_iff)
qed

lemma accepted_ivf:
  assumes "ivf_from_json v = Inr c"
  shows "conforms (Suc (Suc n)) defs schema_IvfConfig v"
proof -
  from assms obtain kvs nlist encoding metric where v: "v = JObj kvs" and keys: "set (jkeys kvs) = set ivf_fields"
    and fields: "jget kvs ''type'' = JStr ''ivf''" "jget kvs ''nlist'' = JInt nlist" "0 < nlist"
      "jget kvs ''encoding'' = JStr encoding" "jget kvs ''metric'' = JStr metric"
      and new: "new_ivf (JInt nlist) (JStr encoding) (JStr metric) = Inr c"
    by (auto simp: ivf_from_json_def models_object_Inr reject_unknown_Inr require_fields_Inr)
  have "encoding \<in> {''source'', ''lvq4'', ''lvq8''}" "metric \<in> {''l2_squared'', ''cosine''}"
    using new by (auto simp: new_ivf_Inr wf_ivf_def)
  then show ?thesis
    unfolding schema_IvfConfig_def v using keys fields 
    by (intro conforms_record_list [where required = ivf_fields]) (simp_all add: schema_simps ivf_fields_def)
qed

lemma accepted_writer_options:
  assumes "writer_options_from_json v = Inr w" and "v \<noteq> JNull"
  shows "conforms (Suc (Suc n)) defs schema_WriteOptions v"
proof -
  from assms obtain kvs partitions groups compression target batch
    where v: "v = JObj kvs" and keys: "set (jkeys kvs) = set writer_options_fields"
    and fields: "jget kvs ''partitions'' = opt_json JInt partitions" "positive_opt partitions"
      "jget kvs ''max_row_group_rows'' = opt_json JInt groups" "positive_opt groups"
      "jget kvs ''compression'' = JStr compression" "compression \<noteq> []"
      "jget kvs ''target_file_size'' = JInt target" "0 < target" "jget kvs ''write_batch_rows'' = JInt batch" "0 < batch"
    by (auto simp: writer_options_from_json_def models_object_Inr reject_unknown_Inr require_fields_Inr)
  have "opt_json JInt x = JNull \<or> (\<exists>i. opt_json JInt x = JInt i \<and> 1 \<le> i)" if "positive_opt x" for x
    using that by (cases x) (simp_all add: positive_opt_def)
  with fields show ?thesis
    unfolding schema_WriteOptions_def v using keys
    by (intro conforms_record_list [where required = writer_options_fields]) (simp_all add: schema_simps writer_options_fields_def)
qed

lemma accepted_query_vector:
  assumes "query_vector v = Inr xs"
  obtains items where "v = JArr items" "items \<noteq> []" "list_all (\<lambda>x. (\<exists>i. x = JInt i) \<or> (\<exists>f. x = JFloat f)) items"
proof -
  have num: "(\<exists>i. x = JInt i) \<or> (\<exists>f. x = JFloat f)" if "query_number x = Inr r" for x r
    using that by (cases x) (simp_all add: query_number_def)
  from assms obtain items where "v = JArr items" "items \<noteq> []" "traverse query_number items = Inr xs"
    by (auto simp: query_vector_def json_case_Inr split: if_splits)
  moreover have "list_all (\<lambda>x. (\<exists>i. x = JInt i) \<or> (\<exists>f. x = JFloat f)) items"
    unfolding list_all_iff
  proof
    fix x assume "x \<in> set items"
    with traverse_accepts calculation(3) obtain r where "query_number x = Inr r" by metis
    then show "(\<exists>i. x = JInt i) \<or> (\<exists>f. x = JFloat f)" by (rule num)
  qed
  ultimately show ?thesis using that by blast
qed

lemma opt_string_conforms: "opt_json JStr y = JNull \<or> (\<exists>t. opt_json JStr y = JStr t)"
  by (cases y) simp_all

lemma positive_opt_conforms:
  "positive_opt x \<Longrightarrow> opt_json JInt x = JNull \<or> (\<exists>i. opt_json JInt x = JInt i \<and> 1 \<le> i)"
  by (cases x) (simp_all add: positive_opt_def)

lemma non_negative_opt_conforms:
  "non_negative_opt x \<Longrightarrow> opt_json JInt x = JNull \<or> (\<exists>i. opt_json JInt x = JInt i \<and> 0 \<le> i)"
  by (cases x) (simp_all add: non_negative_opt_def)

lemma accepted_vector_query:
  assumes "vector_query_from_json v = Inr q"
  shows "conforms (Suc (Suc (Suc (Suc (Suc n))))) openapi_schemas schema_VectorQuery v"
proof -
  from assms obtain kvs items projection limit probes bypass t column index predicate
    where v: "v = JObj kvs" and keys: "set (jkeys kvs) \<subseteq> set vector_query_fields"
    and vec: "jget kvs ''query'' = JArr items" "items \<noteq> []" "list_all (\<lambda>x. (\<exists>i. x = JInt i) \<or> (\<exists>f. x = JFloat f)) items"
    and proj: "jget kvs ''projection'' = opt_json (\<lambda>p. JArr (map JStr p)) projection"
      "case projection of None \<Rightarrow> True | Some ss \<Rightarrow> list_all (\<lambda>s. s \<noteq> []) ss"
    and fields: "jget_or kvs ''result_limit'' (JInt 10) = JInt limit" "0 < limit"
      "jget kvs ''probe_count'' = opt_json JInt probes" "positive_opt probes"
      "jget_or kvs ''bypass_index'' (JBool False) = JBool bypass"
      "jget kvs ''column'' = opt_json JStr column" "jget kvs ''index'' = opt_json JStr index"
      "jget kvs ''predicate'' = opt_json JStr predicate"
    and src: "identifier_from_json (jget kvs ''source'') = Inr t"
    by (auto simp: vector_query_from_json_def models_object_Inr reject_unknown_Inr query_projection_Inr elim!: accepted_query_vector)
  have present: "''source'' \<in> set (jkeys kvs)" "''query'' \<in> set (jkeys kvs)"
    using src vec by (auto intro!: jget_some simp: identifier_from_json_def models_object_def)
  have "map_of openapi_schemas ''TableIdentifier'' = Some schema_TableIdentifier" by (simp add: openapi_schemas_def)
  moreover have "jget kvs ''projection'' = JNull \<or> (\<exists>xs. jget kvs ''projection'' = JArr xs \<and> (\<forall>x\<in>set xs. \<exists>t. x = JStr t \<and> t \<noteq> []))"
    using proj by (cases projection) (auto simp: list_all_iff)
  moreover have "''result_limit'' \<in> set (jkeys kvs) \<longrightarrow> (\<exists>i. jget kvs ''result_limit'' = JInt i \<and> 1 \<le> i)"
    "''bypass_index'' \<in> set (jkeys kvs) \<longrightarrow> (\<exists>i. jget kvs ''bypass_index'' = JBool i)"
    using fields by (auto simp: jget_or_present)
  ultimately show ?thesis
    unfolding schema_VectorQuery_def v 
    using keys present accepted_identifier [OF src] fields(3,6-8) positive_opt_conforms [OF fields(4)] opt_string_conforms vec
    by (intro conforms_record_list [where required = "[''source'', ''query'']"])
       (simp_all add: schema_simps list_all_iff vector_query_fields_def)
qed

lemma accepted_index_status:
  assumes "index_status_from_json v = Inr st"
  shows "conforms (Suc (Suc n)) defs schema_IndexStatus v"
proof -
  from assms obtain kvs state err code progress phase completed all snapshot
    where v: "v = JObj kvs" and keys: "set (jkeys kvs) = set index_status_fields"
    and state: "status_state (jget kvs ''state'') = Inr state" and progress: "optional_number ''progress'' (jget kvs ''progress'') = Inr progress"
    and fields: "jget kvs ''error'' = opt_json JStr err" "jget kvs ''error_code'' = opt_json JStr code"
      "jget kvs ''phase'' = opt_json JStr phase" "jget kvs ''completed'' = opt_json JInt completed" "jget kvs ''total'' = opt_json JInt all"
      "jget kvs ''current_snapshot_id'' = opt_json JInt snapshot"
    and nonneg: "non_negative_opt completed" "non_negative_opt all" "non_negative_opt snapshot"
    by (auto simp: index_status_from_json_def models_object_Inr reject_unknown_Inr require_fields_Inr simp del: raise_if_eq_Inr)
  have "\<exists>t. jget kvs ''state'' = JStr t \<and> JStr t \<in> set [JStr ''pending'', JStr ''building'', JStr ''ready'', JStr ''failed'']"
    using state by (cases "jget kvs ''state''") (auto simp: status_state_def state_of_name_def split: option.splits if_splits)
  moreover have "jget kvs ''progress'' = JNull \<or> (\<exists>i. jget kvs ''progress'' = JInt i) \<or> (\<exists>x. jget kvs ''progress'' = JFloat x)"
    using progress by (cases "jget kvs ''progress''") (simp_all add: optional_number_def Let_def)
  ultimately show ?thesis
    unfolding schema_IndexStatus_def v using keys fields nonneg opt_string_conforms non_negative_opt_conforms
    by (intro conforms_record_list [where required = index_status_fields]) (simp_all add: schema_simps index_status_fields_def)
qed

lemma string_members_conform:
  "list_all (\<lambda>(k, x). \<exists>t. x = JStr t) kvs \<Longrightarrow>
     conforms (Suc (Suc n)) defs (JObj [(''type'', JStr ''object''), (''additionalProperties'', JObj [(''type'', JStr ''string'')])]) (JObj kvs)"
  by (subst conforms.simps)
     (simp add: choice_keywords_def items_keyword_def one_of_keyword_def jget_def extra_member_ok_def schema_simps)

lemma accepted_index_info:
  assumes "index_info_from_json v = Inr i"
  shows "conforms (Suc (Suc (Suc n))) defs schema_IndexInfo v"
proof -
  from assms obtain kvs raw ps nm column family metric snapshot
    where v: "v = JObj kvs" and keys: "set (jkeys kvs) = set index_info_fields"
    and raw: "jget kvs ''parameters'' = JObj raw" "traverse index_parameter raw = Inr ps"
    and fields: "jget kvs ''name'' = JStr nm" "nm \<noteq> []" "jget kvs ''column'' = JStr column" "column \<noteq> []"
      "jget kvs ''family'' = JStr family" "family \<noteq> []" "jget kvs ''metric'' = JStr metric" "metric \<noteq> []"
      "jget kvs ''current_snapshot_id'' = JInt snapshot" "0 \<le> snapshot"
    by (auto simp: index_info_from_json_def models_object_Inr reject_unknown_Inr require_fields_Inr)
  have "list_all (\<lambda>(k, x). \<exists>t. x = JStr t) raw"
    using traverse_accepts [OF raw(2)] by (fastforce simp: list_all_iff index_parameter_def)
  from string_members_conform [OF this, of n defs] show ?thesis
    unfolding schema_IndexInfo_def v using keys raw(1) fields
    by (intro conforms_record_list [where required = index_info_fields]) (simp_all add: schema_simps index_info_fields_def)
qed

end
