(* ===== verification/App.thy ===== *)
theory App
  imports Transport Ipc Identifier_Path Transport_Errors Openapi
begin

text \<open>
  \<open>server/app.py\<close>: the HTTP application. A request carries its method, its percent-decoded path, its
  query parameters, its headers and the chunks of its body; the body's JSON text is represented by the
  value it denotes (\<open>None\<close> where it is not JSON) and by the sizes of its chunks. \<open>routes\<close> is the table of
  \<open>_application\<close> with the matching of Starlette's path templates, and every handler is a command on the
  server's state.
\<close>

section \<open>Requests and responses\<close>

record http_request =
  hq_method :: string
  hq_path :: string
  hq_query :: "(string \<times> string) list"
  hq_headers :: "(string \<times> string) list"
  hq_chunks :: "nat list"
  hq_json :: "json option"
  hq_fresh_id :: string

type_synonym 'e byte_stream = "(batch list \<times> exc option \<times> bool, 'e) encoded_stream"

datatype 'e http_body = BodyJson json | BodyText string | BodyStream "'e byte_stream"

record 'e http_response =
  hp_status :: int
  hp_content_type :: string
  hp_request_id :: "string option"
  hp_body :: "'e http_body"

record 'n server =
  sr_service :: "'n service option"
  sr_policy :: "source_policy option"

text \<open>The parameters of the application: the native session, Arrow, the file system and the encoder.\<close>

record ('n, 's, 't, 'e) app_env =
  ae_native :: "('n, 's, 't) native_api"
  ae_arrow :: "('s, 't) arrow_api"
  ae_paths :: path_env
  ae_new_encoder :: "'s \<Rightarrow> 'e result"
  ae_encoder :: "(batch, 'e) encoder_ops"

definition max_json_body_bytes :: nat where
  "max_json_body_bytes = 1024 * 1024"

definition header :: "http_request \<Rightarrow> string \<Rightarrow> string option" where
  "header rq nm = map_of (hq_headers rq) nm"

definition query_param :: "http_request \<Rightarrow> string \<Rightarrow> string \<Rightarrow> string" where
  "query_param rq nm d = (case map_of (rev (hq_query rq)) nm of None \<Rightarrow> d | Some v \<Rightarrow> v)"

text \<open>\<open>_request_id\<close>: the supplied identifier if it is short printable ASCII, else a fresh one.\<close>

definition request_id :: "http_request \<Rightarrow> string" where
  "request_id rq =
     (case header rq ''x-request-id'' of
        Some supplied \<Rightarrow>
          if supplied \<noteq> [] \<and> py_len supplied \<le> 128 \<and>
             list_all (\<lambda>c. 32 \<le> code_of c \<and> code_of c < 127) supplied
          then supplied else hq_fresh_id rq
      | None \<Rightarrow> hq_fresh_id rq)"

definition json_response :: "http_request \<Rightarrow> int \<Rightarrow> json \<Rightarrow> 'e http_response result" where
  "json_response rq status v =
     rbind (json_dumps v) (\<lambda>text.
     Inr \<lparr>hp_status = status, hp_content_type = ''application/json'',
          hp_request_id = Some (request_id rq), hp_body = BodyJson text\<rparr>)"

text \<open>\<open>_handle\<close>: every \<open>Exception\<close> of the operation becomes a JSON error response.\<close>

definition error_response :: "http_request \<Rightarrow> exc \<Rightarrow> 'e http_response" where
  "error_response rq e =
     (let detail = classify_server_error e (request_id rq)
      in \<lparr>hp_status = he_status detail, hp_content_type = ''application/json'',
          hp_request_id = Some (he_request_id detail), hp_body = BodyJson (http_error_json detail)\<rparr>)"

definition handle ::
  "http_request \<Rightarrow> ('n server, 'e http_response) cmd \<Rightarrow> ('n server, 'e http_response) cmd" where
  "handle rq operation =
     scatch operation (\<lambda>e. if isinstance_exc e Exception then sret (error_response rq e) else sraise e)"

section \<open>Reading a request\<close>

text \<open>The loop over \<open>request.stream()\<close>.\<close>

fun body_too_large :: "nat \<Rightarrow> nat list \<Rightarrow> bool" where
  "body_too_large sofar [] = False"
| "body_too_large sofar (n # ns) =
     (sofar + n > max_json_body_bytes \<or> body_too_large (sofar + n) ns)"

definition check_content_length :: "string option \<Rightarrow> unit result" where
  "check_content_length h =
     (case h of
        None \<Rightarrow> Inr ()
      | Some text \<Rightarrow>
          (case parse_int text of
             None \<Rightarrow> Inl (err ValueError ''content-length must be an integer'')
           | Some n \<Rightarrow>
               if n < 0 then Inl (err ValueError ''content-length must not be negative'')
               else raise_if (n > int max_json_body_bytes)
                      (err ValueError ''JSON request body is too large'')))"

definition json_body :: "http_request \<Rightarrow> jobject result" where
  "json_body rq =
     rbind (raise_if (before_char (CHR '';'') (case header rq ''content-type'' of None \<Rightarrow> [] | Some v \<Rightarrow> v)
                        \<noteq> ''application/json'')
             (err ValueError ''content-type must be application/json'')) (\<lambda>_.
     rbind (check_content_length (header rq ''content-length'')) (\<lambda>_.
     rbind (raise_if (body_too_large 0 (hq_chunks rq))
             (err ValueError ''JSON request body is too large'')) (\<lambda>_.
     (case hq_json rq of
        None \<Rightarrow> Inl (err ValueError ''request body must contain valid JSON'')
      | Some (JObj kvs) \<Rightarrow> Inr kvs
      | Some _ \<Rightarrow> Inl (err ValueError ''request body must be a JSON object'')))))"

definition only_fields :: "string list \<Rightarrow> jobject \<Rightarrow> unit result" where
  "only_fields allowed body =
     (case sort (remdups (filter (\<lambda>k. k \<notin> set allowed) (jkeys body))) of
        [] \<Rightarrow> Inr ()
      | k # _ \<Rightarrow> Inl (err ValueError (''request contains unknown field: '' @ k)))"

definition app_boolean :: "string \<Rightarrow> json \<Rightarrow> bool result" where
  "app_boolean nm v =
     (case v of JBool b \<Rightarrow> Inr b | _ \<Rightarrow> Inl (err ValueError (nm @ '' must be a boolean'')))"

definition required_string :: "string \<Rightarrow> json \<Rightarrow> string result" where
  "required_string nm v =
     (case v of
        JStr s \<Rightarrow> if s = [] then Inl (err ValueError (nm @ '' must be a non-empty string'')) else Inr s
      | _ \<Rightarrow> Inl (err ValueError (nm @ '' must be a non-empty string'')))"

definition string_array :: "string \<Rightarrow> bool \<Rightarrow> json \<Rightarrow> string list result" where
  "string_array nm allow_empty v =
     (case v of
        JArr xs \<Rightarrow>
          if xs = [] \<and> \<not> allow_empty then Inl (err ValueError (nm @ '' must be a non-empty array of strings''))
          else traverse (required_string (nm @ '' item'')) xs
      | _ \<Rightarrow> Inl (err ValueError (nm @ '' must be a'' @ (if allow_empty then [] else '' non-empty'') @
               '' array of strings'')))"

definition validate_route_identifier :: "http_request \<Rightarrow> string \<Rightarrow> table_identifier \<Rightarrow> unit result" where
  "validate_route_identifier rq table_id t =
     rbind (decode_identifier_path table_id
              (JStr (query_param rq ''delimiter'' default_identifier_delimiter))) (\<lambda>path.
     raise_if (\<not> identifier_matches_path t path)
       (err ValueError ''route and request table identifiers do not match''))"

definition validate_registration_route :: "http_request \<Rightarrow> string \<Rightarrow> string \<Rightarrow> unit result" where
  "validate_registration_route rq table_id name =
     rbind (decode_identifier_path table_id
              (JStr (query_param rq ''delimiter'' default_identifier_delimiter))) (\<lambda>path.
     raise_if (path \<noteq> [name]) (err ValueError ''route and request table names do not match''))"

definition scoped_identifier ::
  "http_request \<Rightarrow> string \<Rightarrow> jobject \<Rightarrow> string \<Rightarrow> table_identifier result" where
  "scoped_identifier rq table_id body field =
     rbind (identifier_from_json (jget body field)) (\<lambda>t.
     rbind (validate_route_identifier rq table_id t) (\<lambda>_. Inr t))"

definition scoped_index :: "string \<Rightarrow> jobject \<Rightarrow> string result" where
  "scoped_index index_name body =
     rbind (required_string ''index'' (jget body ''index'')) (\<lambda>index.
     rbind (raise_if (unquote index_name \<noteq> index)
             (err ValueError ''route and request index names do not match'')) (\<lambda>_. Inr index))"

section \<open>Server state\<close>

definition with_service :: "('n service, 'a) cmd \<Rightarrow> ('n server, 'a) cmd" where
  "with_service op = (\<lambda>s. case sr_service s of
     None \<Rightarrow> (Inl (err RuntimeError ''ParqDB server has not completed startup''), s)
   | Some service \<Rightarrow> (case op service of (r, service') \<Rightarrow> (r, s\<lparr>sr_service := Some service'\<rparr>)))"

definition get_source_policy :: "('n server, source_policy) cmd" where
  "get_source_policy = (\<lambda>s. case sr_policy s of
     None \<Rightarrow> (Inl (err RuntimeError ''ParqDB server source policy is not configured''), s)
   | Some p \<Rightarrow> (Inr p, s))"

section \<open>Handlers\<close>

definition h_health :: "http_request \<Rightarrow> ('n server, 'e http_response) cmd" where
  "h_health rq = slift (json_response rq 200 (JObj [(''status'', JStr ''ok'')]))"

definition h_openapi :: "('n, 's, 't, 'e) app_env \<Rightarrow> http_request \<Rightarrow> ('n server, 'e http_response) cmd" where
  "h_openapi env rq = slift (json_response rq 200 openapi_document)"

definition page_of :: "int \<Rightarrow> int \<Rightarrow> table_identifier list \<Rightarrow> json" where
  "page_of limit offset tables =
     (let page = take (nat limit) (drop (nat offset) tables);
          next_offset = offset + int (length page)
      in JObj [(''tables'', JArr (map identifier_to_json page)),
               (''next_page_token'',
                 if next_offset < int (length tables) then JStr (show_int next_offset) else JNull)])"

definition list_tables_operation ::
  "('n, 's, 't, 'e) app_env \<Rightarrow> http_request \<Rightarrow> ('n server, 'e http_response) cmd" where
  "list_tables_operation env rq =
     (case (parse_int (query_param rq ''limit'' ''100''), parse_int (query_param rq ''page_token'' ''0'')) of
        (Some limit, Some offset) \<Rightarrow>
          if limit \<le> 0 \<or> limit > max_list_tables_page_size
          then sraise (err ValueError (''limit must be between 1 and '' @ show_int max_list_tables_page_size))
          else if offset < 0 then sraise (err ValueError ''page_token must not be negative'')
          else sbind (with_service (svc_list_tables (ae_native env))) (\<lambda>tables.
               slift (json_response rq 200 (page_of limit offset tables)))
      | _ \<Rightarrow> sraise (err ValueError ''limit and page_token must be integers''))"

definition h_list_tables :: "('n, 's, 't, 'e) app_env \<Rightarrow> http_request \<Rightarrow> ('n server, 'e http_response) cmd" where
  "h_list_tables env rq = handle rq (list_tables_operation env rq)"

definition descriptor_response ::
  "('n, 's, 't, 'e) app_env \<Rightarrow> http_request \<Rightarrow> 's descriptor \<Rightarrow> 'e http_response result" where
  "descriptor_response env rq d =
     json_response rq 200 (table_descriptor_to_json (ae_arrow env) (td_identifier d) (td_schema d))"

definition register_table_operation ::
  "('n, 's, 't, 'e) app_env \<Rightarrow> http_request \<Rightarrow> string \<Rightarrow> ('n server, 'e http_response) cmd" where
  "register_table_operation env rq table_id =
     sbind (slift (json_body rq)) (\<lambda>body.
     sbind (slift (registration_from_json (ae_arrow env) (JObj body))) (\<lambda>reg.
     sbind (slift (validate_registration_route rq table_id (reg_name reg))) (\<lambda>_.
     sbind get_source_policy (\<lambda>policy.
     sbind (slift (authorize (ae_paths env) policy (reg_source reg))) (\<lambda>path.
     sbind (with_service (svc_register_parquet (ae_native env) (ae_arrow env) (ae_paths env)
        \<lparr>pq_name = JStr (reg_name reg), pq_path = PathText path,
         pq_partition_cols = map_option (map (\<lambda>(n, t). (n, ArrowType t))) (reg_partition_cols reg),
         pq_parquet_pruning = JBool (reg_parquet_pruning reg),
         pq_file_extension = JStr (reg_file_extension reg),
         pq_skip_metadata = JBool (reg_skip_metadata reg), pq_schema = reg_schema reg,
         pq_file_sort_order = JArr (map (\<lambda>ks. JArr (map JStr ks)) (reg_file_sort_order reg))\<rparr>)) (\<lambda>_.
     sbind (with_service (svc_table (ae_native env) (RefText (reg_name reg)))) (\<lambda>d.
     slift (descriptor_response env rq d))))))))"

definition describe_table_operation ::
  "('n, 's, 't, 'e) app_env \<Rightarrow> http_request \<Rightarrow> string \<Rightarrow> ('n server, 'e http_response) cmd" where
  "describe_table_operation env rq table_id =
     sbind (slift (json_body rq)) (\<lambda>body.
     sbind (slift (required_string ''reference'' (jget body ''reference''))) (\<lambda>reference.
     sbind (with_service (svc_table (ae_native env) (RefText reference))) (\<lambda>d.
     sbind (slift (validate_route_identifier rq table_id (td_identifier d))) (\<lambda>_.
     slift (descriptor_response env rq d)))))"

definition deregister_table_operation ::
  "('n, 's, 't, 'e) app_env \<Rightarrow> http_request \<Rightarrow> string \<Rightarrow> ('n server, 'e http_response) cmd" where
  "deregister_table_operation env rq table_id =
     sbind (slift (json_body rq)) (\<lambda>body.
     sbind (slift (only_fields [''identifier''] body)) (\<lambda>_.
     sbind (slift (scoped_identifier rq table_id body ''identifier'')) (\<lambda>t.
     sbind (with_service (svc_deregister_table (ae_native env) (RefIdentifier t))) (\<lambda>_.
     slift (json_response rq 200 (JObj [(''deregistered'', JBool True)]))))))"

definition writer_arg_of :: "write_options option \<Rightarrow> writer_arg" where
  "writer_arg_of w = (case w of None \<Rightarrow> WriterNone | Some x \<Rightarrow> WriterOptions x)"

definition create_index_operation ::
  "('n, 's, 't, 'e) app_env \<Rightarrow> http_request \<Rightarrow> string \<Rightarrow> ('n server, 'e http_response) cmd" where
  "create_index_operation env rq table_id =
     sbind (slift (json_body rq)) (\<lambda>body.
     sbind (slift (only_fields [''source'', ''index'', ''column'', ''key'', ''config'', ''writer_options''] body)) (\<lambda>_.
     sbind (slift (scoped_identifier rq table_id body ''source'')) (\<lambda>t.
     sbind (slift (required_string ''index'' (jget body ''index''))) (\<lambda>index.
     sbind (slift (string_array ''key'' False (jget body ''key''))) (\<lambda>key.
     sbind (slift (required_string ''column'' (jget body ''column''))) (\<lambda>column.
     sbind (slift (ivf_from_json (jget body ''config''))) (\<lambda>config.
     sbind (slift (writer_options_from_json (jget body ''writer_options''))) (\<lambda>options.
     sbind (with_service (svc_create_index (ae_native env)
        \<lparr>cr_identifier = t, cr_index = index, cr_column = column, cr_key = key,
         cr_config = ConfigIvf config, cr_writer_options = writer_arg_of options,
         cr_wait_timeout = None\<rparr>)) (\<lambda>_.
     slift (json_response rq 202 (JObj [(''accepted'', JBool True)])))))))))))"

definition list_indexes_operation ::
  "('n, 's, 't, 'e) app_env \<Rightarrow> http_request \<Rightarrow> string \<Rightarrow> ('n server, 'e http_response) cmd" where
  "list_indexes_operation env rq table_id =
     sbind (slift (json_body rq)) (\<lambda>body.
     sbind (slift (only_fields [''source''] body)) (\<lambda>_.
     sbind (slift (scoped_identifier rq table_id body ''source'')) (\<lambda>t.
     sbind (with_service (svc_list_indexes (ae_native env) t)) (\<lambda>indexes.
     slift (json_response rq 200 (JObj [(''indexes'', JArr (map index_info_to_json indexes))]))))))"

definition register_index_operation ::
  "('n, 's, 't, 'e) app_env \<Rightarrow> http_request \<Rightarrow> string \<Rightarrow> string \<Rightarrow> ('n server, 'e http_response) cmd" where
  "register_index_operation env rq table_id index_name =
     sbind (slift (json_body rq)) (\<lambda>body.
     sbind (slift (only_fields [''source'', ''index'', ''manifest_location''] body)) (\<lambda>_.
     sbind (slift (scoped_identifier rq table_id body ''source'')) (\<lambda>t.
     sbind (slift (scoped_index index_name body)) (\<lambda>index.
     sbind (slift (required_string ''manifest_location'' (jget body ''manifest_location''))) (\<lambda>location.
     sbind (with_service (svc_register_index (ae_native env) t index (JStr location))) (\<lambda>_.
     slift (json_response rq 200 (JObj [(''registered'', JBool True)]))))))))"

definition index_status_operation ::
  "('n, 's, 't, 'e) app_env \<Rightarrow> http_request \<Rightarrow> string \<Rightarrow> string \<Rightarrow> ('n server, 'e http_response) cmd" where
  "index_status_operation env rq table_id index_name =
     sbind (slift (json_body rq)) (\<lambda>body.
     sbind (slift (only_fields [''source'', ''index''] body)) (\<lambda>_.
     sbind (slift (scoped_identifier rq table_id body ''source'')) (\<lambda>t.
     sbind (slift (scoped_index index_name body)) (\<lambda>index.
     sbind (with_service (svc_index_status (ae_native env) t index)) (\<lambda>status.
     slift (json_response rq 200 (index_status_to_json status)))))))"

definition refresh_index_operation ::
  "('n, 's, 't, 'e) app_env \<Rightarrow> http_request \<Rightarrow> string \<Rightarrow> string \<Rightarrow> ('n server, 'e http_response) cmd" where
  "refresh_index_operation env rq table_id index_name =
     sbind (slift (json_body rq)) (\<lambda>body.
     sbind (slift (only_fields [''source'', ''index'', ''config'', ''writer_options''] body)) (\<lambda>_.
     sbind (slift (scoped_identifier rq table_id body ''source'')) (\<lambda>t.
     sbind (slift (scoped_index index_name body)) (\<lambda>index.
     sbind (slift (if jget body ''config'' = JNull then Inr None
                   else rbind (ivf_from_json (jget body ''config'')) (\<lambda>c. Inr (Some (ConfigIvf c))))) (\<lambda>config.
     sbind (slift (writer_options_from_json (jget body ''writer_options''))) (\<lambda>options.
     sbind (with_service (svc_refresh_index (ae_native env)
        \<lparr>rr_identifier = t, rr_index = index, rr_config = config,
         rr_writer_options = writer_arg_of options, rr_wait_timeout = None\<rparr>)) (\<lambda>_.
     slift (json_response rq 202 (JObj [(''accepted'', JBool True)])))))))))"

definition drop_index_operation ::
  "('n, 's, 't, 'e) app_env \<Rightarrow> http_request \<Rightarrow> string \<Rightarrow> string \<Rightarrow> ('n server, 'e http_response) cmd" where
  "drop_index_operation env rq table_id index_name =
     sbind (slift (json_body rq)) (\<lambda>body.
     sbind (slift (only_fields [''source'', ''index''] body)) (\<lambda>_.
     sbind (slift (scoped_identifier rq table_id body ''source'')) (\<lambda>t.
     sbind (slift (scoped_index index_name body)) (\<lambda>index.
     sbind (with_service (svc_drop_index (ae_native env) t index)) (\<lambda>_.
     slift (json_response rq 200 (JObj [(''dropped'', JBool True)])))))))"

text \<open>\<open>_stream_response\<close>: the encoder is built from the schema before the response starts.\<close>

definition stream_response ::
  "('n, 's, 't, 'e) app_env \<Rightarrow> http_request \<Rightarrow> 's native_stream \<Rightarrow> 'e http_response result" where
  "stream_response env rq st =
     rbind (ae_new_encoder env (ns_schema st)) (\<lambda>encoder.
     rbind (encode_ipc_stream (ae_encoder env) (ns_batches st, ns_error st, False) encoder) (\<lambda>encoded.
     Inr \<lparr>hp_status = 200, hp_content_type = arrow_stream_media_type,
          hp_request_id = Some (request_id rq), hp_body = BodyStream encoded\<rparr>))"

definition query_table_operation ::
  "('n, 's, 't, 'e) app_env \<Rightarrow> http_request \<Rightarrow> string \<Rightarrow> ('n server, 'e http_response) cmd" where
  "query_table_operation env rq table_id =
     sbind (slift (json_body rq)) (\<lambda>body.
     sbind (slift (vector_query_from_json (JObj body))) (\<lambda>query.
     sbind (slift (validate_route_identifier rq table_id (vq_source query))) (\<lambda>_.
     sbind (with_service (svc_stream (ae_native env) (QueryVector query))) (\<lambda>stream.
     slift (stream_response env rq stream)))))"

definition sql_of_body :: "jobject \<Rightarrow> string result" where
  "sql_of_body body =
     (case jget body ''sql'' of
        JStr sql \<Rightarrow> if py_strip sql = [] then Inl (err ValueError ''sql must be a non-empty string'') else Inr sql
      | _ \<Rightarrow> Inl (err ValueError ''sql must be a non-empty string''))"

definition query_sql_operation ::
  "('n, 's, 't, 'e) app_env \<Rightarrow> http_request \<Rightarrow> ('n server, 'e http_response) cmd" where
  "query_sql_operation env rq =
     sbind (slift (json_body rq)) (\<lambda>body.
     sbind (slift (only_fields [''sql''] body)) (\<lambda>_.
     sbind (slift (sql_of_body body)) (\<lambda>sql.
     sbind (with_service (svc_stream (ae_native env) (QuerySql sql))) (\<lambda>stream.
     slift (stream_response env rq stream)))))"

definition explain_table_operation ::
  "('n, 's, 't, 'e) app_env \<Rightarrow> http_request \<Rightarrow> string \<Rightarrow> ('n server, 'e http_response) cmd" where
  "explain_table_operation env rq table_id =
     sbind (slift (json_body rq)) (\<lambda>body.
     sbind (slift (only_fields [''query'', ''verbose'', ''analyze''] body)) (\<lambda>_.
     sbind (slift (vector_query_from_json (jget body ''query''))) (\<lambda>query.
     sbind (slift (validate_route_identifier rq table_id (vq_source query))) (\<lambda>_.
     sbind (slift (app_boolean ''verbose'' (jget_or body ''verbose'' (JBool False)))) (\<lambda>verbose.
     sbind (slift (app_boolean ''analyze'' (jget_or body ''analyze'' (JBool False)))) (\<lambda>analyze.
     sbind (with_service (svc_explain (ae_native env) (QueryVector query) verbose analyze)) (\<lambda>plan.
     slift (json_response rq 200 (JObj [(''plan'', JStr plan)])))))))))"

definition explain_sql_operation ::
  "('n, 's, 't, 'e) app_env \<Rightarrow> http_request \<Rightarrow> ('n server, 'e http_response) cmd" where
  "explain_sql_operation env rq =
     sbind (slift (json_body rq)) (\<lambda>body.
     sbind (slift (only_fields [''sql'', ''verbose'', ''analyze''] body)) (\<lambda>_.
     sbind (slift (sql_of_body body)) (\<lambda>sql.
     sbind (slift (app_boolean ''verbose'' (jget_or body ''verbose'' (JBool False)))) (\<lambda>verbose.
     sbind (slift (app_boolean ''analyze'' (jget_or body ''analyze'' (JBool False)))) (\<lambda>analyze.
     sbind (with_service (svc_explain (ae_native env) (QuerySql sql) verbose analyze)) (\<lambda>plan.
     slift (json_response rq 200 (JObj [(''plan'', JStr plan)]))))))))"

definition to_sql_operation ::
  "('n, 's, 't, 'e) app_env \<Rightarrow> http_request \<Rightarrow> string \<Rightarrow> ('n server, 'e http_response) cmd" where
  "to_sql_operation env rq table_id =
     sbind (slift (json_body rq)) (\<lambda>body.
     sbind (slift (vector_query_from_json (JObj body))) (\<lambda>query.
     sbind (slift (validate_route_identifier rq table_id (vq_source query))) (\<lambda>_.
     sbind (with_service (svc_to_sql (ae_native env) (QueryVector query))) (\<lambda>sql.
     slift (json_response rq 200 (JObj [(''sql'', JStr sql)]))))))"

section \<open>Routes\<close>

datatype pat = Lit string | Param

fun first_some :: "('a \<Rightarrow> 'b option) \<Rightarrow> 'a list \<Rightarrow> 'b option" where
  "first_some f [] = None"
| "first_some f (x # xs) = (case f x of None \<Rightarrow> first_some f xs | Some y \<Rightarrow> Some y)"

text \<open>
  A path template with \<open>{name:path}\<close> parameters is the regular expression \<open>^...(.*)...$\<close>: a parameter takes
  the longest newline-free text that lets the rest match, and \<open>$\<close> also matches before a final newline.
\<close>

primrec match_pat :: "pat list \<Rightarrow> string \<Rightarrow> string list option" where
  "match_pat [] s = (if s = [] \<or> s = [CHR 10] then Some [] else None)"
| "match_pat (p # ps) s =
     (case p of
        Lit l \<Rightarrow> if prefix l s then match_pat ps (drop (length l) s) else None
      | Param \<Rightarrow> first_some (\<lambda>k. if CHR 10 \<in> set (take k s) then None
                   else map_option ((#) (take k s)) (match_pat ps (drop k s))) (rev [0..<Suc (length s)]))"

datatype endpoint =
    EpHealth | EpOpenapi | EpListTables | EpRegisterIndex | EpRegisterTable | EpDescribe | EpQuery | EpExplain
  | EpToSql | EpDeregister | EpCreateIndex | EpListIndexes | EpIndexStatus | EpRefreshIndex | EpDropIndex
  | EpSql | EpSqlExplain

definition table_route :: "string \<Rightarrow> pat list" where
  "table_route operation = [Lit ''/v1/table/'', Param, Lit (CHR ''/'' # operation)]"

definition index_route :: "string \<Rightarrow> pat list" where
  "index_route operation = [Lit ''/v1/table/'', Param, Lit ''/index/'', Param, Lit (CHR ''/'' # operation)]"

definition routes :: "(string \<times> pat list \<times> endpoint) list" where
  "routes =
    [(''GET'', [Lit ''/health''], EpHealth),
     (''GET'', [Lit ''/openapi.json''], EpOpenapi),
     (''GET'', [Lit ''/v1/table''], EpListTables),
     (''POST'', index_route ''register'', EpRegisterIndex),
     (''POST'', table_route ''register'', EpRegisterTable),
     (''POST'', table_route ''describe'', EpDescribe),
     (''POST'', table_route ''query'', EpQuery),
     (''POST'', table_route ''explain'', EpExplain),
     (''POST'', table_route ''to_sql'', EpToSql),
     (''POST'', table_route ''deregister'', EpDeregister),
     (''POST'', table_route ''create_index'', EpCreateIndex),
     (''POST'', table_route ''index/list'', EpListIndexes),
     (''POST'', index_route ''stats'', EpIndexStatus),
     (''POST'', index_route ''refresh'', EpRefreshIndex),
     (''POST'', index_route ''drop'', EpDropIndex),
     (''POST'', [Lit ''/v1/sql''], EpSql),
     (''POST'', [Lit ''/v1/sql/explain''], EpSqlExplain)]"

definition method_ok :: "string \<Rightarrow> string \<Rightarrow> bool" where
  "method_ok allowed actual \<longleftrightarrow> actual = allowed \<or> allowed = ''GET'' \<and> actual = ''HEAD''"

definition find_route :: "string \<Rightarrow> string \<Rightarrow> (endpoint \<times> string list) option" where
  "find_route m path =
     first_some (\<lambda>(allowed, pats, ep). if method_ok allowed m then map_option (Pair ep) (match_pat pats path) else None)
       routes"

definition path_known :: "string \<Rightarrow> bool" where
  "path_known path \<longleftrightarrow> list_ex (\<lambda>(allowed, pats, ep). match_pat pats path \<noteq> None) routes"

definition table_param :: "string list \<Rightarrow> string" where
  "table_param ps = (case ps of t # _ \<Rightarrow> t | [] \<Rightarrow> [])"

definition index_param :: "string list \<Rightarrow> string" where
  "index_param ps = (case ps of _ # i # _ \<Rightarrow> i | _ \<Rightarrow> [])"

definition run_endpoint ::
  "('n, 's, 't, 'e) app_env \<Rightarrow> http_request \<Rightarrow> endpoint \<Rightarrow> string list \<Rightarrow> ('n server, 'e http_response) cmd" where
  "run_endpoint env rq ep ps =
     (let t = table_param ps; i = index_param ps
      in case ep of
           EpHealth \<Rightarrow> h_health rq
         | EpOpenapi \<Rightarrow> h_openapi env rq
         | EpListTables \<Rightarrow> h_list_tables env rq
         | EpRegisterIndex \<Rightarrow> handle rq (register_index_operation env rq t i)
         | EpRegisterTable \<Rightarrow> handle rq (register_table_operation env rq t)
         | EpDescribe \<Rightarrow> handle rq (describe_table_operation env rq t)
         | EpQuery \<Rightarrow> handle rq (query_table_operation env rq t)
         | EpExplain \<Rightarrow> handle rq (explain_table_operation env rq t)
         | EpToSql \<Rightarrow> handle rq (to_sql_operation env rq t)
         | EpDeregister \<Rightarrow> handle rq (deregister_table_operation env rq t)
         | EpCreateIndex \<Rightarrow> handle rq (create_index_operation env rq t)
         | EpListIndexes \<Rightarrow> handle rq (list_indexes_operation env rq t)
         | EpIndexStatus \<Rightarrow> handle rq (index_status_operation env rq t i)
         | EpRefreshIndex \<Rightarrow> handle rq (refresh_index_operation env rq t i)
         | EpDropIndex \<Rightarrow> handle rq (drop_index_operation env rq t i)
         | EpSql \<Rightarrow> handle rq (query_sql_operation env rq)
         | EpSqlExplain \<Rightarrow> handle rq (explain_sql_operation env rq))"

definition text_response :: "int \<Rightarrow> string \<Rightarrow> 'e http_response" where
  "text_response status text =
     \<lparr>hp_status = status, hp_content_type = ''text/plain; charset=utf-8'', hp_request_id = None,
      hp_body = BodyText text\<rparr>"

definition application ::
  "('n, 's, 't, 'e) app_env \<Rightarrow> http_request \<Rightarrow> ('n server, 'e http_response) cmd" where
  "application env rq =
     (case find_route (hq_method rq) (hq_path rq) of
        Some (ep, ps) \<Rightarrow> run_endpoint env rq ep ps
      | None \<Rightarrow> sret (if path_known (hq_path rq) then text_response 405 ''Method Not Allowed''
                      else text_response 404 ''Not Found''))"

definition create_http_app_for_service ::
  "path_env \<Rightarrow> 'n service \<Rightarrow> string list \<Rightarrow> 'n server result" where
  "create_http_app_for_service env service allowed_source_prefixes =
     rbind (new_source_policy env allowed_source_prefixes ''Parquet source'') (\<lambda>policy.
     Inr \<lparr>sr_service = Some service, sr_policy = Some policy\<rparr>)"

text \<open>\<open>create_http_app\<close>: the policy first, then the service when the application starts and its close when it stops.\<close>

definition create_http_app ::
  "path_env \<Rightarrow> string list \<Rightarrow> 'n server result" where
  "create_http_app env allowed_source_prefixes =
     rbind (new_source_policy env allowed_source_prefixes ''Parquet source'') (\<lambda>policy.
     Inr \<lparr>sr_service = None, sr_policy = Some policy\<rparr>)"

definition lifespan_start ::
  "path_env \<Rightarrow> ('c, 'r, 'n) native_open \<Rightarrow> ('c, 'r) open_args \<Rightarrow> ('n server, unit) cmd" where
  "lifespan_start env native_open a = (\<lambda>s. case new_embedded_session env native_open a of
     Inl e \<Rightarrow> (Inl e, s)
   | Inr host \<Rightarrow> (Inr (), s\<lparr>sr_service := Some (new_service host)\<rparr>))"

definition lifespan_stop :: "('n server, unit) cmd" where
  "lifespan_stop = with_service svc_close"

section \<open>Routing of the client's paths\<close>

lemma first_some_SomeD: "first_some f xs = Some y \<Longrightarrow> \<exists>x\<in>set xs. f x = Some y"
  by (induction xs) (auto split: option.splits)

lemma first_some_append_None: "(\<And>x. x \<in> set xs \<Longrightarrow> f x = None) \<Longrightarrow> first_some f (xs @ ys) = first_some f ys"
  by (induction xs) auto

text \<open>The longest choice that matches wins.\<close>

lemma first_some_longest:
  assumes "k \<le> n" "f k = Some y" "\<And>j. k < j \<Longrightarrow> j \<le> n \<Longrightarrow> f j = None"
  shows "first_some f (rev [0..<Suc n]) = Some y"
proof -
  have "[0..<Suc n] = [0..<k] @ k # [Suc k..<Suc n]"
    using assms(1) by (metis less_Suc_eq_le upt_conv_Cons upt_add_eq_append le_add_diff_inverse zero_le less_imp_le_nat)
  then have "rev [0..<Suc n] = rev [Suc k..<Suc n] @ k # rev [0..<k]" by simp
  moreover have "first_some f (rev [Suc k..<Suc n] @ k # rev [0..<k]) = first_some f (k # rev [0..<k])"
    by (rule first_some_append_None) (use assms(3) in auto)
  ultimately show ?thesis using assms(2) by (simp del: upt_Suc)
qed

text \<open>A match fills the template: the literals and the parameters in order, and perhaps a newline.\<close>

fun fill :: "pat list \<Rightarrow> string list \<Rightarrow> string" where
  "fill [] vs = []"
| "fill (Lit l # ps) vs = l @ fill ps vs"
| "fill (Param # ps) [] = []"
| "fill (Param # ps) (v # vs) = v @ fill ps vs"

lemma match_pat_fill: "match_pat ps s = Some vs \<Longrightarrow> s = fill ps vs \<or> s = fill ps vs @ [CHR 10]"
proof (induction ps arbitrary: s vs)
  case (Cons p ps)
  show ?case
  proof (cases p)
    case (Lit l)
    with Cons.prems have "prefix l s" and m: "match_pat ps (drop (length l) s) = Some vs"
      by (auto split: if_splits)
    then show ?thesis using Cons.IH [OF m] Lit by (auto simp: prefix_def)
  next
    case Param
    with Cons.prems obtain k ws where m: "match_pat ps (drop k s) = Some ws" and vs: "vs = take k s # ws"
      by (auto dest!: first_some_SomeD split: if_splits simp del: upt_Suc)
    show ?thesis using Cons.IH [OF m] Param vs by (metis append.assoc append_take_drop_id fill.simps(4))
  qed
qed (auto split: if_splits)

lemma match_pat_no_newline: "match_pat ps s = Some vs \<Longrightarrow> CHR 10 \<notin> set s \<Longrightarrow> s = fill ps vs"
  using match_pat_fill [of ps s vs] by auto

lemma match_pat_Lit: "match_pat (Lit l # ps) (l @ s) = match_pat ps s"
  by simp

lemma match_pat_Param:
  "match_pat (Param # ps) s = first_some (\<lambda>k. if CHR 10 \<in> set (take k s) then None
     else map_option ((#) (take k s)) (match_pat ps (drop k s))) (rev [0..<Suc (length s)])"
  by (simp del: upt_Suc)

lemma match_table_route:
  assumes "CHR 10 \<notin> set t"
  shows "match_pat (table_route operation) (''/v1/table/'' @ t @ CHR ''/'' # operation) = Some [t]"
proof -
  let ?s = "t @ CHR ''/'' # operation"
  let ?f = "\<lambda>k. if CHR 10 \<in> set (take k ?s) then None
     else map_option ((#) (take k ?s)) (match_pat [Lit (CHR ''/'' # operation)] (drop k ?s))"
  have "first_some ?f (rev [0..<Suc (length ?s)]) = Some [t]"
  proof (rule first_some_longest [of "length t"])
    show "?f j = None" if "length t < j" "j \<le> length ?s" for j
    proof -
      have "length (drop j ?s) < length (CHR ''/'' # operation)" using that by simp
      then have "\<not> prefix (CHR ''/'' # operation) (drop j ?s)" by (metis leD prefix_length_le)
      then show ?thesis by simp
    qed
  qed (use assms in simp_all)
  then show ?thesis by (simp add: table_route_def del: upt_Suc)
qed

abbreviation slashes :: "string \<Rightarrow> nat" where
  "slashes s \<equiv> count_list s (CHR ''/'')"

lemma slashes_drop: "slashes (drop k s) \<le> slashes s"
  by (metis append_take_drop_id count_list_append le_add2)

lemma slashes_0: "CHR ''/'' \<notin> set s \<Longrightarrow> slashes s = 0"
  by (simp add: count_list_0_iff)

lemma match_tail_slashes:
  assumes "match_pat [Lit ''/index/'', Param, Lit (CHR ''/'' # operation)] s = Some vs"
  shows "3 \<le> slashes s"
proof -
  have "vs \<noteq> []"
    using assms by (auto dest!: first_some_SomeD split: if_splits simp del: upt_Suc)
  with match_pat_fill [OF assms] show ?thesis by (cases vs) auto
qed

lemma match_index_route:
  assumes nl: "CHR 10 \<notin> set t" "CHR 10 \<notin> set i"
    and sl: "CHR ''/'' \<notin> set i" "CHR ''/'' \<notin> set operation"
  shows "match_pat (index_route operation) (''/v1/table/'' @ t @ ''/index/'' @ i @ CHR ''/'' # operation) = Some [t, i]"
proof -
  let ?r = "''/index/'' @ i @ CHR ''/'' # operation"
  let ?ps = "[Lit ''/index/'', Param, Lit (CHR ''/'' # operation)]"
  have inner: "match_pat ?ps ?r = Some [i]"
    using match_table_route [OF nl(2), of operation] by (simp add: table_route_def del: upt_Suc)
  let ?s = "t @ ?r"
  let ?f = "\<lambda>k. if CHR 10 \<in> set (take k ?s) then None
     else map_option ((#) (take k ?s)) (match_pat ?ps (drop k ?s))"
  have "first_some ?f (rev [0..<Suc (length ?s)]) = Some [t, i]"
  proof (rule first_some_longest [of "length t"])
    show "?f j = None" if "length t < j" "j \<le> length ?s" for j
    proof -
      obtain m where m: "j = length t + Suc m" using \<open>length t < j\<close> by (metis add_Suc_right less_iff_Suc_add)
      have "drop j ?s = drop m (''index/'' @ i @ CHR ''/'' # operation)" by (simp add: m)
      then have "slashes (drop j ?s) \<le> slashes (''index/'' @ i @ CHR ''/'' # operation)"
        by (simp only: slashes_drop)
      also have "\<dots> < 3" using sl by (simp add: slashes_0)
      finally have "match_pat ?ps (drop j ?s) = None"
        using match_tail_slashes [of operation "drop j ?s"] by (cases "match_pat ?ps (drop j ?s)") auto
      then show ?thesis by (simp del: match_pat.simps)
    qed
    show "?f (length t) = Some [t, i]" using inner nl(1) by (simp del: match_pat.simps)
  qed simp
  then show ?thesis unfolding index_route_def match_pat_Lit match_pat_Param .
qed

text \<open>The last segment of a path decides which templates can match it.\<close>

definition last_segment :: "string \<Rightarrow> string" where
  "last_segment s = rev (takeWhile (\<lambda>c. c \<noteq> CHR ''/'') (rev s))"

lemma last_segment_append: "CHR ''/'' \<notin> set b \<Longrightarrow> last_segment (a @ CHR ''/'' # b) = b"
  by (simp add: last_segment_def takeWhile_append)

lemma last_segment_slash: "last_segment (a @ CHR ''/'' # b) = last_segment (CHR ''/'' # b)"
  by (auto simp: last_segment_def takeWhile_append)

lemma table_route_last:
  assumes "CHR 10 \<notin> set s" "last_segment s \<noteq> last_segment (CHR ''/'' # operation)"
  shows "match_pat (table_route operation) s = None"
proof (rule ccontr)
  assume "match_pat (table_route operation) s \<noteq> None"
  then obtain vs where m: "match_pat (table_route operation) s = Some vs" by blast
  then have "vs \<noteq> []"
    by (auto simp: table_route_def dest!: first_some_SomeD split: if_splits simp del: upt_Suc)
  with match_pat_no_newline [OF m assms(1)] obtain a where "s = a @ CHR ''/'' # operation"
    by (cases vs) (auto simp: table_route_def)
  with assms(2) show False by (simp add: last_segment_slash [of a])
qed

lemma index_route_shape:
  assumes "match_pat (index_route operation) s = Some vs" "CHR 10 \<notin> set s"
  shows "\<exists>t i. vs = [t, i] \<and> s = ''/v1/table/'' @ t @ ''/index/'' @ i @ CHR ''/'' # operation"
proof -
  have "length vs = 2"
    using assms(1) by (auto simp: index_route_def dest!: first_some_SomeD split: if_splits simp del: upt_Suc)
  then obtain t i where "vs = [t, i]" by (auto simp: length_Suc_conv numeral_2_eq_2)
  with match_pat_no_newline [OF assms] show ?thesis by (auto simp: index_route_def)
qed

lemma index_route_last:
  assumes "CHR 10 \<notin> set s" "last_segment s \<noteq> last_segment (CHR ''/'' # operation)"
  shows "match_pat (index_route operation) s = None"
proof (rule ccontr)
  assume "match_pat (index_route operation) s \<noteq> None"
  then obtain vs where "match_pat (index_route operation) s = Some vs" by blast
  from index_route_shape [OF this assms(1)] obtain a where "s = a @ CHR ''/'' # operation"
    by (metis append.assoc)
  with assms(2) show False by (simp add: last_segment_slash [of a])
qed

lemma last_segments:
  "last_segment (CHR ''/'' # ''register'') = ''register''" "last_segment (CHR ''/'' # ''describe'') = ''describe''"
  "last_segment (CHR ''/'' # ''query'') = ''query''" "last_segment (CHR ''/'' # ''explain'') = ''explain''"
  "last_segment (CHR ''/'' # ''to_sql'') = ''to_sql''" "last_segment (CHR ''/'' # ''deregister'') = ''deregister''"
  "last_segment (CHR ''/'' # ''create_index'') = ''create_index''"
  "last_segment (CHR ''/'' # ''index/list'') = ''list''" "last_segment (CHR ''/'' # ''stats'') = ''stats''"
  "last_segment (CHR ''/'' # ''refresh'') = ''refresh''" "last_segment (CHR ''/'' # ''drop'') = ''drop''"
  by (simp_all add: last_segment_def)

definition table_endpoint :: "string \<Rightarrow> endpoint option" where
  "table_endpoint operation = map_of [(''describe'', EpDescribe), (''query'', EpQuery), (''explain'', EpExplain),
     (''to_sql'', EpToSql), (''deregister'', EpDeregister), (''create_index'', EpCreateIndex),
     (''index/list'', EpListIndexes)] operation"

definition index_endpoint :: "string \<Rightarrow> endpoint option" where
  "index_endpoint operation = map_of [(''register'', EpRegisterIndex), (''stats'', EpIndexStatus),
     (''refresh'', EpRefreshIndex), (''drop'', EpDropIndex)] operation"

lemma route_misses:
  assumes "CHR 10 \<notin> set path" "last_segment path = seg"
  shows "seg \<noteq> last_segment (CHR ''/'' # operation) \<Longrightarrow> match_pat (table_route operation) path = None"
    and "seg \<noteq> last_segment (CHR ''/'' # operation) \<Longrightarrow> match_pat (index_route operation) path = None"
  using assms table_route_last index_route_last by auto

lemma find_route_table:
  assumes op: "table_endpoint operation = Some ep" and nl: "CHR 10 \<notin> set t"
  shows "find_route ''POST'' (''/v1/table/'' @ t @ CHR ''/'' # operation) = Some (ep, [t])"
proof -
  define path where "path = ''/v1/table/'' @ t @ CHR ''/'' # operation"
  have m: "match_pat (table_route operation) path = Some [t]"
    unfolding path_def using match_table_route [OF nl] .
  have "CHR 10 \<notin> set operation" using op by (auto simp: table_endpoint_def split: if_splits)
  then have "CHR 10 \<notin> set path" using nl by (simp add: path_def)
  moreover have "last_segment path = last_segment (CHR ''/'' # operation)"
    unfolding path_def by (metis append.assoc last_segment_slash)
  ultimately have miss: "last_segment (CHR ''/'' # operation) \<noteq> last_segment (CHR ''/'' # o') \<Longrightarrow>
      match_pat (table_route o') path = None \<and> match_pat (index_route o') path = None" for o'
    using route_misses [of path "last_segment (CHR ''/'' # operation)" o'] by auto
  have "find_route ''POST'' path = Some (ep, [t])"
    using op miss m unfolding find_route_def routes_def
    by (auto simp: table_endpoint_def method_ok_def last_segments simp del: match_pat.simps split: if_splits)
  then show ?thesis by (simp add: path_def)
qed

lemma find_route_register_table:
  assumes "CHR 10 \<notin> set t" "CHR ''/'' \<notin> set t"
  shows "find_route ''POST'' (''/v1/table/'' @ t @ ''/register'') = Some (EpRegisterTable, [t])"
proof -
  let ?path = "''/v1/table/'' @ t @ ''/register''"
  have "match_pat (index_route ''register'') ?path = None"
  proof (rule ccontr)
    assume "match_pat (index_route ''register'') ?path \<noteq> None"
    then obtain vs where "match_pat (index_route ''register'') ?path = Some vs" by blast
    from index_route_shape [OF this] assms(1) obtain t' i where
      "?path = ''/v1/table/'' @ t' @ ''/index/'' @ i @ CHR ''/'' # ''register''" by auto
    then have "slashes ?path = slashes (''/v1/table/'' @ t' @ ''/index/'' @ i @ CHR ''/'' # ''register'')" by simp
    then show False using assms(2) by (simp add: slashes_0)
  qed
  moreover have "match_pat (table_route ''register'') ?path = Some [t]"
    using match_table_route [OF assms(1), of "''register''"] .
  ultimately show ?thesis unfolding find_route_def routes_def
    by (simp add: method_ok_def del: match_pat.simps)
qed

lemma find_route_index:
  assumes op: "index_endpoint operation = Some ep" and nl: "CHR 10 \<notin> set t" "CHR 10 \<notin> set i"
    and sl: "CHR ''/'' \<notin> set i"
  shows "find_route ''POST'' (''/v1/table/'' @ t @ ''/index/'' @ i @ CHR ''/'' # operation) = Some (ep, [t, i])"
proof -
  define path where "path = ''/v1/table/'' @ t @ ''/index/'' @ i @ CHR ''/'' # operation"
  have ops: "CHR ''/'' \<notin> set operation" "CHR 10 \<notin> set operation"
    using op by (auto simp: index_endpoint_def split: if_splits)
  have m: "match_pat (index_route operation) path = Some [t, i]"
    unfolding path_def using match_index_route [OF nl sl ops(1)] .
  have "CHR 10 \<notin> set path" using nl ops by (simp add: path_def)
  moreover have "last_segment path = last_segment (CHR ''/'' # operation)"
    unfolding path_def by (metis append.assoc last_segment_slash)
  ultimately have miss: "last_segment (CHR ''/'' # operation) \<noteq> last_segment (CHR ''/'' # o') \<Longrightarrow>
      match_pat (table_route o') path = None \<and> match_pat (index_route o') path = None" for o'
    using route_misses [of path "last_segment (CHR ''/'' # operation)" o'] by auto
  have "find_route ''POST'' path = Some (ep, [t, i])"
    using op miss m unfolding find_route_def routes_def
    by (auto simp: index_endpoint_def method_ok_def last_segments simp del: match_pat.simps split: if_splits)
  then show ?thesis by (simp add: path_def)
qed

lemma find_route_fixed:
  "find_route ''GET'' ''/v1/table'' = Some (EpListTables, [])"
  "find_route ''POST'' ''/v1/sql'' = Some (EpSql, [])"
  "find_route ''POST'' ''/v1/sql/explain'' = Some (EpSqlExplain, [])"
  by (simp_all add: find_route_def routes_def method_ok_def table_route_def index_route_def)

end
