(* ===== verification/Http_Client.thy ===== *)
theory Http_Client
  imports App
begin

text \<open>
  \<open>transport/http.py\<close>: the remote transport. \<open>httpx\<close> and the network are the parameters \<open>ce_send\<close> (one
  request and its response head, or an \<open>HTTPError\<close>), \<open>ce_aclose\<close> and \<open>ce_body\<close> (the chunks of a response
  body) over a world state that also carries the monotonic clock. The byte length of a JSON text is the
  parameter \<open>ce_size\<close>. Loops that follow the server's answers take fuel and give \<open>None\<close> when it runs out:
  the page loop of \<open>list_tables\<close> one unit per page, the poll loop of \<open>wait_for_index\<close> one unit per poll.
\<close>

section \<open>The client\<close>

record ('w, 'e) client_env =
  ce_send :: "http_request \<Rightarrow> ('w, 'e http_response) cmd"
  ce_aclose :: "('w, unit) cmd"
  ce_body :: "('e byte_stream, string) stream_ops"
  ce_size :: "json \<Rightarrow> nat"
  ce_now :: "'w \<Rightarrow> rat"
  ce_sleep :: "rat \<Rightarrow> 'w \<Rightarrow> 'w"
  ce_fresh_id :: "'w \<Rightarrow> string"

record 'w http_transport =
  ht_world :: 'w
  ht_owns_client :: bool
  ht_closed :: bool

definition error_body_limit :: nat where
  "error_body_limit = 1024 * 1024"

definition http_ensure_open :: "('w http_transport, unit) cmd" where
  "http_ensure_open = (\<lambda>s. if ht_closed s then (Inl session_closed, s) else (Inr (), s))"

definition world_call :: "('w, 'a) cmd \<Rightarrow> ('w http_transport, 'a) cmd" where
  "world_call m = (\<lambda>s. case m (ht_world s) of (r, w) \<Rightarrow> (r, s\<lparr>ht_world := w\<rparr>))"

text \<open>
  What \<open>httpx\<close> puts on the wire: the body is serialised with \<open>allow_nan=False\<close> before anything is sent,
  and the server sees the percent-decoded path.
\<close>

definition build_request ::
  "('w, 'e) client_env \<Rightarrow> string \<Rightarrow> string \<Rightarrow> (string \<times> string) list \<Rightarrow> json option \<Rightarrow> string \<Rightarrow> 'w
     \<Rightarrow> http_request result" where
  "build_request env m path params body accept w =
     rbind (case body of None \<Rightarrow> Inr None | Some v \<Rightarrow> rbind (json_dumps v) (\<lambda>t. Inr (Some t))) (\<lambda>text.
     Inr \<lparr>hq_method = m, hq_path = CHR ''/'' # unquote path, hq_query = params,
          hq_headers = (''accept'', accept) # (case text of None \<Rightarrow> []
             | Some t \<Rightarrow> [(''content-type'', ''application/json''), (''content-length'', show_nat (ce_size env t))]),
          hq_chunks = (case text of None \<Rightarrow> [] | Some t \<Rightarrow> [ce_size env t]),
          hq_json = text, hq_fresh_id = ce_fresh_id env w\<rparr>)"

definition send_request ::
  "('w, 'e) client_env \<Rightarrow> string \<Rightarrow> string \<Rightarrow> (string \<times> string) list \<Rightarrow> json option \<Rightarrow> string
     \<Rightarrow> ('w http_transport, 'e http_response) cmd" where
  "send_request env m path params body accept = (\<lambda>s.
     sbind (slift (build_request env m path params body accept (ht_world s))) (\<lambda>rq.
     scatch (world_call (ce_send env rq))
       (\<lambda>e. if isinstance_exc e HTTPError then sraise (unavailable e) else sraise e)) s)"

definition stream_error :: "string \<Rightarrow> exc" where
  "stream_error message = err StreamExecutionError message"

definition json_bytes :: "('w, 'e) client_env \<Rightarrow> 'e http_body \<Rightarrow> json" where
  "json_bytes env body =
     (case body of
        BodyJson v \<Rightarrow> if ce_size env v > error_body_limit then JNull else v
      | _ \<Rightarrow> JNull)"

definition response_json :: "('w, 'e) client_env \<Rightarrow> 'e http_response \<Rightarrow> json result" where
  "response_json env rs =
     (case hp_body rs of
        BodyJson v \<Rightarrow>
          if ce_size env v > error_body_limit
          then Inl (stream_error ''ParqDB server returned an oversized JSON response'')
          else Inr v
      | _ \<Rightarrow> Inr JNull)"

definition is_error_status :: "int \<Rightarrow> bool" where
  "is_error_status status \<longleftrightarrow> 400 \<le> status \<and> status \<le> 599"

definition request_json ::
  "('w, 'e) client_env \<Rightarrow> string \<Rightarrow> string \<Rightarrow> (string \<times> string) list \<Rightarrow> json option
     \<Rightarrow> ('w http_transport, jobject) cmd" where
  "request_json env m path params body =
     sbind http_ensure_open (\<lambda>_.
     sbind (send_request env m path params body ''application/json'') (\<lambda>rs.
     sbind (slift (response_json env rs)) (\<lambda>v.
     if is_error_status (hp_status rs) then sraise (raise_remote_error (hp_status rs) (hp_request_id rs) v)
     else (case v of JObj kvs \<Rightarrow> sret kvs
           | _ \<Rightarrow> sraise (stream_error ''ParqDB server returned invalid JSON'')))))"

definition route_params :: "route \<Rightarrow> (string \<times> string) list" where
  "route_params r = [(''delimiter'', snd r)]"

definition post_json ::
  "('w, 'e) client_env \<Rightarrow> route \<Rightarrow> json \<Rightarrow> ('w http_transport, jobject) cmd" where
  "post_json env r body = request_json env ''POST'' (fst r) (route_params r) (Some body)"

section \<open>Tables\<close>

definition http_register_parquet ::
  "('w, 'e) client_env \<Rightarrow> ('s, 't) arrow_api \<Rightarrow> ('s, 't) parquet_args \<Rightarrow> ('w http_transport, unit) cmd" where
  "http_register_parquet env ar a =
     sbind http_ensure_open (\<lambda>_.
     (case pq_path a of
        PathOther \<Rightarrow> sraise (err TypeError ''persistent Parquet tables require one path or wildcard pattern'')
      | PathText path \<Rightarrow>
          sbind (slift (registration_path (pq_name a))) (\<lambda>r.
          sbind (slift (registration_to_json ar
            \<lparr>ra_name = pq_name a, ra_source = JStr path, ra_partition_cols = pq_partition_cols a,
             ra_parquet_pruning = pq_parquet_pruning a, ra_file_extension = pq_file_extension a,
             ra_skip_metadata = pq_skip_metadata a, ra_schema = pq_schema a,
             ra_file_sort_order = pq_file_sort_order a\<rparr>)) (\<lambda>body.
          sbind (post_json env r body) (\<lambda>_. sret ())))))"

text \<open>The page loop of \<open>list_tables\<close>.\<close>

definition page_params :: "string option \<Rightarrow> (string \<times> string) list" where
  "page_params token =
     (''limit'', ''1000'') # (case token of None \<Rightarrow> [] | Some t \<Rightarrow> [(''page_token'', t)])"

fun list_tables_loop ::
  "('w, 'e) client_env \<Rightarrow> nat \<Rightarrow> table_identifier list \<Rightarrow> string option \<Rightarrow> string list
     \<Rightarrow> ('w http_transport, table_identifier list) fcmd" where
  "list_tables_loop env 0 tables token seen = (\<lambda>s. (None, s))"
| "list_tables_loop env (Suc n) tables token seen =
     fbind (fdo (request_json env ''GET'' ''v1/table'' (page_params token) None)) (\<lambda>body.
     (case jget body ''tables'' of
        JArr values \<Rightarrow>
          fbind (fdo (slift (traverse identifier_from_json values))) (\<lambda>page.
          (case jget body ''next_page_token'' of
             JNull \<Rightarrow> fdo (sret (tables @ page))
           | JStr t \<Rightarrow>
               if t = [] then fdo (sraise (stream_error ''ParqDB server returned an invalid page token''))
               else if t \<in> set seen
               then fdo (sraise (stream_error ''ParqDB server repeated a table page token''))
               else list_tables_loop env n (tables @ page) (Some t) (t # seen)
           | _ \<Rightarrow> fdo (sraise (stream_error ''ParqDB server returned an invalid page token''))))
      | _ \<Rightarrow> fdo (sraise (stream_error ''ParqDB server returned invalid table metadata''))))"

definition http_list_tables ::
  "('w, 'e) client_env \<Rightarrow> nat \<Rightarrow> ('w http_transport, table_identifier list) fcmd" where
  "http_list_tables env n = fbind (fdo http_ensure_open) (\<lambda>_. list_tables_loop env n [] None [])"

definition reference_matches :: "string \<Rightarrow> table_identifier \<Rightarrow> bool" where
  "reference_matches r t \<longleftrightarrow>
     r \<in> {ti_name t, join ''.'' (ti_namespace t @ [ti_name t]),
          join ''.'' (ti_catalog t # ti_namespace t @ [ti_name t])}"

definition resolve_identifier ::
  "('w, 'e) client_env \<Rightarrow> nat \<Rightarrow> table_ref \<Rightarrow> ('w http_transport, table_identifier) fcmd" where
  "resolve_identifier env n r =
     (case r of
        RefIdentifier t \<Rightarrow> fdo (sret t)
      | RefOther \<Rightarrow> fdo (sraise (err TypeError ''table identifier must be a string or parqdb.TableIdentifier''))
      | RefText s \<Rightarrow>
          if s = [] then fdo (sraise (err ValueError ''table identifier must not be empty''))
          else (let qualified = split_on (CHR ''.'') s
                in if 3 \<le> length qualified \<and> list_all (\<lambda>x. x \<noteq> []) qualified
                   then fdo (slift (new_table_identifier (hd qualified) (butlast (tl qualified)) (last qualified)))
                   else fbind (http_list_tables env n) (\<lambda>tables.
                        (case filter (reference_matches s) tables of
                           [t] \<Rightarrow> fdo (sret t)
                         | ts \<Rightarrow> fdo (sraise (err ValueError (''table reference resolved to '' @
                                   show_nat (length ts) @ '' registered tables: '' @ s)))))))"

definition http_table ::
  "('w, 'e) client_env \<Rightarrow> ('s, 't) arrow_api \<Rightarrow> nat \<Rightarrow> table_ref \<Rightarrow> ('w http_transport, 's descriptor) fcmd" where
  "http_table env ar n r =
     fbind (fdo http_ensure_open) (\<lambda>_.
     fbind (resolve_identifier env n r) (\<lambda>t.
     fdo (sbind (slift (table_path t ''describe'')) (\<lambda>p.
          sbind (post_json env p (JObj [(''reference'', JStr (identifier_reference t))])) (\<lambda>body.
          sbind (slift (identifier_from_json (jget body ''identifier''))) (\<lambda>ident.
          sbind (slift (schema_from_base64 ar (jget body ''schema''))) (\<lambda>schema.
          sret \<lparr>td_identifier = ident, td_schema = schema\<rparr>)))))))"

definition http_deregister_table ::
  "('w, 'e) client_env \<Rightarrow> nat \<Rightarrow> table_ref \<Rightarrow> ('w http_transport, unit) fcmd" where
  "http_deregister_table env n r =
     fbind (fdo http_ensure_open) (\<lambda>_.
     fbind (resolve_identifier env n r) (\<lambda>t.
     fdo (sbind (slift (table_path t ''deregister'')) (\<lambda>p.
          sbind (post_json env p (JObj [(''identifier'', identifier_to_json t)])) (\<lambda>_. sret ())))))"

section \<open>Result streams\<close>

record 'x response_stream =
  rs_iterator :: 'x
  rs_closed :: bool

definition response_aclose ::
  "('x, string) stream_ops \<Rightarrow> 'x response_stream \<Rightarrow> unit result \<times> 'x response_stream" where
  "response_aclose ops st =
     (if rs_closed st then (Inr (), st)
      else case st_close ops (rs_iterator st) of (r, x) \<Rightarrow> (r, \<lparr>rs_iterator = x, rs_closed = True\<rparr>))"

definition response_next ::
  "('x, string) stream_ops \<Rightarrow> 'x response_stream \<Rightarrow> string step \<times> 'x response_stream" where
  "response_next ops st =
     (if rs_closed st then (Stop, st)
      else case st_next ops (rs_iterator st) of
          (Stop, x) \<Rightarrow> (case response_aclose ops (st\<lparr>rs_iterator := x\<rparr>) of
              (Inl e, st') \<Rightarrow> (Raise e, st') | (Inr _, st') \<Rightarrow> (Stop, st'))
        | (r, x) \<Rightarrow> (r, st\<lparr>rs_iterator := x\<rparr>))"

record 'y remote_stream =
  rm_source :: 'y
  rm_request_id :: "string option"

definition remote_next ::
  "('y, 'b) stream_ops \<Rightarrow> 'y remote_stream \<Rightarrow> 'b step \<times> 'y remote_stream" where
  "remote_next ops st =
     (case st_next ops (rm_source st) of
        (Raise e, y) \<Rightarrow>
          (Raise (if isinstance_exc e Exception
                  then Exc StreamExecutionError ''ParqDB query failed while streaming its result'' (rm_request_id st)
                  else e), st\<lparr>rm_source := y\<rparr>)
      | (r, y) \<Rightarrow> (r, st\<lparr>rm_source := y\<rparr>))"

definition remote_aclose ::
  "('y, 'b) stream_ops \<Rightarrow> 'y remote_stream \<Rightarrow> unit result \<times> 'y remote_stream" where
  "remote_aclose ops st = (case st_close ops (rm_source st) of (r, y) \<Rightarrow> (r, st\<lparr>rm_source := y\<rparr>))"

type_synonym ('e, 's, 'd) remote_result =
  "('e byte_stream response_stream, batch, 's, 'd) decoded_stream remote_stream"

text \<open>The parameters of a decoder and the fuel of one read.\<close>

record ('s, 'd) decode_env =
  dn_new :: 'd
  dn_ops :: "(batch, 's, 'd) decoder_ops"
  dn_fuel :: nat

definition response_source :: "('w, 'e) client_env \<Rightarrow> 'e byte_stream response_stream chunk_source" where
  "response_source env =
     byte_source id \<lparr>st_next = response_next (ce_body env), st_close = response_aclose (ce_body env)\<rparr>"

definition request_stream ::
  "('w, 'e) client_env \<Rightarrow> ('s, 'd) decode_env \<Rightarrow> string \<Rightarrow> (string \<times> string) list \<Rightarrow> json
     \<Rightarrow> ('w http_transport, ('e, 's, 'd) remote_result) fcmd" where
  "request_stream env dn path params body =
     fbind (fdo (send_request env ''POST'' path params (Some body) arrow_stream_media_type)) (\<lambda>rs.
     if is_error_status (hp_status rs)
     then fdo (sraise (raise_remote_error (hp_status rs) (hp_request_id rs) (json_bytes env (hp_body rs))))
     else if before_char (CHR '';'') (hp_content_type rs) \<noteq> arrow_stream_media_type
     then fdo (sraise (Exc StreamExecutionError ''ParqDB server returned an unexpected response type'' (hp_request_id rs)))
     else (case hp_body rs of
         BodyStream bs \<Rightarrow>
           (\<lambda>s. case decode_ipc_stream (response_source env) (dn_ops dn) (dn_fuel dn)
                      \<lparr>rs_iterator = bs, rs_closed = False\<rparr> (dn_new dn) of
                (None, _) \<Rightarrow> (None, s)
              | (Some (Inl e), _) \<Rightarrow>
                  (Some (Inl (if isinstance_exc e Exception
                     then Exc StreamExecutionError ''ParqDB query stream ended before its Arrow schema'' (hp_request_id rs)
                     else e)), s)
              | (Some (Inr _), decoded) \<Rightarrow>
                  (Some (Inr \<lparr>rm_source = decoded, rm_request_id = hp_request_id rs\<rparr>), s))
       | _ \<Rightarrow> fdo (sraise (Exc StreamExecutionError ''ParqDB query stream ended before its Arrow schema''
                (hp_request_id rs)))))"

definition http_stream ::
  "('w, 'e) client_env \<Rightarrow> ('s, 'd) decode_env \<Rightarrow> query_arg \<Rightarrow> ('w http_transport, ('e, 's, 'd) remote_result) fcmd" where
  "http_stream env dn q =
     fbind (fdo http_ensure_open) (\<lambda>_.
     (case q of
        QueryVector v \<Rightarrow>
          fbind (fdo (slift (table_path (vq_source v) ''query''))) (\<lambda>p.
          request_stream env dn (fst p) (route_params p) (vector_query_to_json v))
      | QuerySql sql \<Rightarrow>
          if py_strip sql = [] then fdo (sraise (err ValueError ''SQL statement must not be empty''))
          else request_stream env dn ''v1/sql'' [] (JObj [(''sql'', JStr sql)])
      | QueryOther \<Rightarrow> fdo (sraise (err TypeError ''query must be a parqdb.VectorQuery or SQL string''))))"

section \<open>Plans and SQL\<close>

definition string_field :: "jobject \<Rightarrow> string \<Rightarrow> string \<Rightarrow> string result" where
  "string_field body k message =
     (case jget body k of JStr s \<Rightarrow> Inr s | _ \<Rightarrow> Inl (stream_error message))"

definition http_explain ::
  "('w, 'e) client_env \<Rightarrow> query_arg \<Rightarrow> bool \<Rightarrow> bool \<Rightarrow> ('w http_transport, string) cmd" where
  "http_explain env q verbose analyze =
     sbind http_ensure_open (\<lambda>_.
     sbind (case q of
              QueryVector v \<Rightarrow>
                sbind (slift (table_path (vq_source v) ''explain'')) (\<lambda>p.
                post_json env p (JObj [(''query'', vector_query_to_json v), (''verbose'', JBool verbose),
                                       (''analyze'', JBool analyze)]))
            | QuerySql sql \<Rightarrow>
                request_json env ''POST'' ''v1/sql/explain'' []
                  (Some (JObj [(''sql'', JStr sql), (''verbose'', JBool verbose), (''analyze'', JBool analyze)]))
            | QueryOther \<Rightarrow> sraise (err TypeError ''query must be a parqdb.VectorQuery or SQL string'')) (\<lambda>body.
     slift (string_field body ''plan'' ''ParqDB server returned an invalid query plan'')))"

definition http_to_sql :: "('w, 'e) client_env \<Rightarrow> query_arg \<Rightarrow> ('w http_transport, string) cmd" where
  "http_to_sql env q =
     sbind http_ensure_open (\<lambda>_.
     (case q of
        QueryVector v \<Rightarrow>
          sbind (slift (table_path (vq_source v) ''to_sql'')) (\<lambda>p.
          sbind (post_json env p (vector_query_to_json v)) (\<lambda>body.
          slift (string_field body ''sql'' ''ParqDB server returned invalid SQL'')))
      | _ \<Rightarrow> sraise (err TypeError ''query must be a parqdb.VectorQuery'')))"

section \<open>Indexes\<close>

definition timeout_seconds :: "time_arg \<Rightarrow> pyfloat result" where
  "timeout_seconds t =
     (let bad = Inl (err ValueError ''timeout must be positive'')
      in case t of
           TimeDelta q \<Rightarrow> if q \<le> 0 then bad else Inr (Fin q)
         | TimeValue (JInt i) \<Rightarrow> if i \<le> 0 then bad else float_of_int i
         | TimeValue (JFloat (Fin q)) \<Rightarrow> if q \<le> 0 then bad else Inr (Fin q)
         | TimeValue (JFloat NegInf) \<Rightarrow> bad
         | TimeValue (JFloat x) \<Rightarrow> Inr x
         | _ \<Rightarrow> bad)"

definition index_body :: "table_identifier \<Rightarrow> string \<Rightarrow> jobject" where
  "index_body t index = [(''source'', identifier_to_json t), (''index'', JStr index)]"

definition http_index_status ::
  "('w, 'e) client_env \<Rightarrow> table_identifier \<Rightarrow> string \<Rightarrow> ('w http_transport, index_status) cmd" where
  "http_index_status env t index =
     sbind http_ensure_open (\<lambda>_.
     sbind (slift (index_path t (JStr index) ''stats'')) (\<lambda>p.
     sbind (post_json env p (JObj (index_body t index))) (\<lambda>body.
     slift (case index_status_from_json (JObj body) of
              Inl e \<Rightarrow> Inl (if isinstance_exc e ValueError
                 then stream_error ''ParqDB server returned invalid index status'' else e)
            | Inr st \<Rightarrow> Inr st))))"

text \<open>
  \<open>asyncio.timeout(remaining)\<close> around a call: a call that takes longer than what remains is cut off with
  \<open>TimeoutError\<close>; the clock then stands at the end of the call.
\<close>

definition with_timeout ::
  "('w, 'e) client_env \<Rightarrow> rat option \<Rightarrow> ('w http_transport, 'a) cmd \<Rightarrow> ('w http_transport, 'a) cmd" where
  "with_timeout env remaining m = (\<lambda>s. case m s of (r, s') \<Rightarrow>
     (case remaining of
        Some q \<Rightarrow> if ce_now env (ht_world s') - ce_now env (ht_world s) > q
                  then (Inl (err TimeoutError []), s') else (r, s')
      | None \<Rightarrow> (r, s')))"

definition expired :: "('w, 'e) client_env \<Rightarrow> rat option \<Rightarrow> 'w http_transport \<Rightarrow> bool" where
  "expired env deadline s = (case deadline of None \<Rightarrow> False | Some d \<Rightarrow> d - ce_now env (ht_world s) \<le> 0)"

definition remaining_time :: "('w, 'e) client_env \<Rightarrow> rat option \<Rightarrow> 'w http_transport \<Rightarrow> rat option" where
  "remaining_time env deadline s = map_option (\<lambda>d. d - ce_now env (ht_world s)) deadline"

definition sleep_for :: "rat \<Rightarrow> rat option \<Rightarrow> rat" where
  "sleep_for delay remaining = (case remaining of None \<Rightarrow> delay | Some q \<Rightarrow> min delay q)"

text \<open>What one answer decides: the build failed, it is ready, or the client has to wait.\<close>

definition poll_outcome :: "string \<Rightarrow> index_status \<Rightarrow> unit result option" where
  "poll_outcome index st =
     (case is_error st of
        Some message \<Rightarrow> Some (Inl (raise_remote_build_error (is_error_code st) message))
      | None \<Rightarrow>
          (case is_state st of
             Ready \<Rightarrow> Some (Inr ())
           | Failed \<Rightarrow> Some (Inl (raise_remote_build_error (is_error_code st) (''index build failed: '' @ index)))
           | _ \<Rightarrow> None))"

fun wait_loop ::
  "('w, 'e) client_env \<Rightarrow> nat \<Rightarrow> table_identifier \<Rightarrow> string \<Rightarrow> rat option \<Rightarrow> rat \<Rightarrow> ('w http_transport, unit) fcmd" where
  "wait_loop env 0 t index deadline delay = (\<lambda>s. (None, s))"
| "wait_loop env (Suc n) t index deadline delay = (\<lambda>s.
     if expired env deadline s then (Some (Inl (timed_out index)), s)
     else (case with_timeout env (remaining_time env deadline s) (http_index_status env t index) s of
        (Inl e, s1) \<Rightarrow> (Some (Inl (if isinstance_exc e TimeoutError then timed_out index else e)), s1)
      | (Inr st, s1) \<Rightarrow>
          (case poll_outcome index st of
             Some r \<Rightarrow> (Some r, s1)
           | None \<Rightarrow>
               if expired env deadline s1 then (Some (Inl (timed_out index)), s1)
               else wait_loop env n t index deadline (min (delay * (3 / 2)) 1)
                      (s1\<lparr>ht_world := ce_sleep env (sleep_for delay (remaining_time env deadline s1)) (ht_world s1)\<rparr>))))"

definition http_wait_for_index ::
  "('w, 'e) client_env \<Rightarrow> nat \<Rightarrow> table_identifier \<Rightarrow> string \<Rightarrow> time_arg \<Rightarrow> ('w http_transport, unit) fcmd" where
  "http_wait_for_index env n t index timeout = (\<lambda>s.
     (case timeout_seconds timeout of
        Inl e \<Rightarrow> (Some (Inl e), s)
      | Inr seconds \<Rightarrow>
          wait_loop env n t index
            (case seconds of Fin q \<Rightarrow> Some (ce_now env (ht_world s) + q) | _ \<Rightarrow> None) (1 / 20) s))"

definition wait_if ::
  "('w, 'e) client_env \<Rightarrow> nat \<Rightarrow> table_identifier \<Rightarrow> string \<Rightarrow> time_arg option \<Rightarrow> ('w http_transport, unit) fcmd" where
  "wait_if env n t index w =
     (case w of None \<Rightarrow> fdo (sret ()) | Some timeout \<Rightarrow> http_wait_for_index env n t index timeout)"

definition config_to_json :: "config_arg \<Rightarrow> json result" where
  "config_to_json c = rbind (check_config c) (\<lambda>i. Inr (ivf_to_json i))"

definition writer_arg_to_json :: "writer_arg \<Rightarrow> json result" where
  "writer_arg_to_json w =
     (case w of
        WriterNone \<Rightarrow> Inr JNull
      | WriterOptions x \<Rightarrow> Inr (writer_options_to_json (Some x))
      | _ \<Rightarrow> Inl (err TypeError ''writer_options must be parqdb.WriteOptions''))"

definition http_create_index ::
  "('w, 'e) client_env \<Rightarrow> nat \<Rightarrow> create_request \<Rightarrow> ('w http_transport, unit) fcmd" where
  "http_create_index env n c =
     fbind (fdo (sbind http_ensure_open (\<lambda>_.
       sbind (slift (table_path (cr_identifier c) ''create_index'')) (\<lambda>p.
       sbind (slift (config_to_json (cr_config c))) (\<lambda>config.
       sbind (slift (writer_arg_to_json (cr_writer_options c))) (\<lambda>options.
       post_json env p (JObj [(''source'', identifier_to_json (cr_identifier c)), (''index'', JStr (cr_index c)),
         (''column'', JStr (cr_column c)), (''key'', JArr (map JStr (cr_key c))), (''config'', config),
         (''writer_options'', options)]))))))) (\<lambda>_.
     wait_if env n (cr_identifier c) (cr_index c) (cr_wait_timeout c))"

definition http_register_index ::
  "('w, 'e) client_env \<Rightarrow> table_identifier \<Rightarrow> string \<Rightarrow> json \<Rightarrow> ('w http_transport, unit) cmd" where
  "http_register_index env t index manifest_location =
     sbind http_ensure_open (\<lambda>_.
     sbind (slift (index_path t (JStr index) ''register'')) (\<lambda>p.
     sbind (post_json env p (JObj (index_body t index @ [(''manifest_location'', manifest_location)]))) (\<lambda>_. sret ())))"

definition http_refresh_index ::
  "('w, 'e) client_env \<Rightarrow> nat \<Rightarrow> refresh_request \<Rightarrow> ('w http_transport, unit) fcmd" where
  "http_refresh_index env n c =
     fbind (fdo (sbind http_ensure_open (\<lambda>_.
       sbind (slift (index_path (rr_identifier c) (JStr (rr_index c)) ''refresh'')) (\<lambda>p.
       sbind (slift (case rr_config c of None \<Rightarrow> Inr JNull | Some x \<Rightarrow> config_to_json x)) (\<lambda>config.
       sbind (slift (writer_arg_to_json (rr_writer_options c))) (\<lambda>options.
       post_json env p (JObj (index_body (rr_identifier c) (rr_index c) @
         [(''config'', config), (''writer_options'', options)])))))))) (\<lambda>_.
     wait_if env n (rr_identifier c) (rr_index c) (rr_wait_timeout c))"

definition http_list_indexes ::
  "('w, 'e) client_env \<Rightarrow> table_identifier \<Rightarrow> ('w http_transport, index_info list) cmd" where
  "http_list_indexes env t =
     sbind http_ensure_open (\<lambda>_.
     sbind (slift (table_path t ''index/list'')) (\<lambda>p.
     sbind (post_json env p (JObj [(''source'', identifier_to_json t)])) (\<lambda>body.
     let invalid = stream_error ''ParqDB server returned invalid index metadata''
     in slift (case jget body ''indexes'' of
          JArr values \<Rightarrow>
            (case traverse index_info_from_json values of
               Inl e \<Rightarrow> Inl (if isinstance_exc e ValueError then invalid else e)
             | Inr infos \<Rightarrow> Inr infos)
        | _ \<Rightarrow> Inl invalid))))"

definition http_drop_index ::
  "('w, 'e) client_env \<Rightarrow> table_identifier \<Rightarrow> string \<Rightarrow> ('w http_transport, unit) cmd" where
  "http_drop_index env t index =
     sbind http_ensure_open (\<lambda>_.
     sbind (slift (index_path t (JStr index) ''drop'')) (\<lambda>p.
     sbind (post_json env p (JObj (index_body t index))) (\<lambda>_. sret ())))"

definition http_datafusion_context :: "('w http_transport, unit) cmd" where
  "http_datafusion_context =
     sraise (err UnsupportedOperationError ''datafusion_context is available only in embedded mode'')"

definition http_close :: "('w, 'e) client_env \<Rightarrow> ('w http_transport, unit) cmd" where
  "http_close env = (\<lambda>s. if ht_closed s then (Inr (), s)
     else let s' = s\<lparr>ht_closed := True\<rparr>
          in if ht_owns_client s then world_call (ce_aclose env) s' else (Inr (), s'))"

section \<open>Opening\<close>

definition base_url :: "(string \<Rightarrow> bool) \<Rightarrow> json \<Rightarrow> string result" where
  "base_url netloc_ok v =
     (case v of
        JStr url \<Rightarrow>
          rbind (urlsplit netloc_ok url) (\<lambda>parsed.
          rbind (raise_if (su_scheme parsed \<notin> {''http'', ''https''} \<or> su_netloc parsed = [])
                  (err ValueError ''server URL must use http or https'')) (\<lambda>_.
          rbind (raise_if (su_query parsed \<noteq> [] \<or> su_fragment parsed \<noteq> [])
                  (err ValueError ''server URL must not contain a query or fragment'')) (\<lambda>_.
          Inr (rstrip_char (CHR ''/'') url @ ''/''))))
      | _ \<Rightarrow> Inl (err TypeError ''server URL must be a string''))"

definition check_headers :: "(json \<times> json) list \<Rightarrow> (json \<times> json) list result" where
  "check_headers hs =
     rbind (raise_if (list_ex (\<lambda>(k, v). \<not> is_json_string k \<or> \<not> is_json_string v) hs)
             (err TypeError ''HTTP header names and values must be strings'')) (\<lambda>_. Inr hs)"

text \<open>The four limits of \<open>httpx.Timeout\<close>: connect, read, write and pool.\<close>

definition default_timeout :: "pyfloat option list" where
  "default_timeout = [Some (Fin 10), None, Some (Fin 30), Some (Fin 30)]"

definition http_open ::
  "(string \<Rightarrow> bool) \<Rightarrow> (string \<Rightarrow> (json \<times> json) list \<Rightarrow> pyfloat option list \<Rightarrow> 'w) \<Rightarrow> json \<Rightarrow> (json \<times> json) list
     \<Rightarrow> time_arg option \<Rightarrow> 'w option \<Rightarrow> 'w http_transport result" where
  "http_open netloc_ok new_client url headers timeout client =
     rbind (base_url netloc_ok url) (\<lambda>base.
     rbind (check_headers headers) (\<lambda>hs.
     (case client of
        Some c \<Rightarrow> Inr \<lparr>ht_world = c, ht_owns_client = False, ht_closed = False\<rparr>
      | None \<Rightarrow>
          rbind (case timeout of
                   None \<Rightarrow> Inr default_timeout
                 | Some t \<Rightarrow> rbind (timeout_seconds t) (\<lambda>x. Inr [Some x, Some x, Some x, Some x])) (\<lambda>limits.
          Inr \<lparr>ht_world = new_client base hs limits, ht_owns_client = True, ht_closed = False\<rparr>))))"

section \<open>The transport\<close>

definition http_transport_ops ::
  "('w, 'e) client_env \<Rightarrow> ('s, 't) arrow_api \<Rightarrow> ('s, 'd) decode_env \<Rightarrow> nat
     \<Rightarrow> ('w http_transport, 's, 't, ('e, 's, 'd) remote_result) transport_ops" where
  "http_transport_ops env ar dn n =
     (let decoded = decoded_ops (response_source env) (dn_ops dn) (dn_fuel dn)
      in \<lparr>tr_register_parquet = (\<lambda>a. fdo (http_register_parquet env ar a)),
          tr_list_tables = http_list_tables env n,
          tr_table = http_table env ar n,
          tr_deregister_table = http_deregister_table env n,
          tr_stream = http_stream env dn,
          tr_explain = (\<lambda>q v a. fdo (http_explain env q v a)),
          tr_to_sql = (\<lambda>q. fdo (http_to_sql env q)),
          tr_create_index = http_create_index env n,
          tr_register_index = (\<lambda>t i m. fdo (http_register_index env t i m)),
          tr_refresh_index = http_refresh_index env n,
          tr_index_status = (\<lambda>t i. fdo (http_index_status env t i)),
          tr_wait_for_index = http_wait_for_index env n,
          tr_list_indexes = (\<lambda>t. fdo (http_list_indexes env t)),
          tr_drop_index = (\<lambda>t i. fdo (http_drop_index env t i)),
          tr_datafusion_context = fdo http_datafusion_context,
          tr_close = fdo (http_close env),
          tr_schema = (\<lambda>st. decoded_schema (rm_source st)),
          tr_next = remote_next decoded,
          tr_aclose = remote_aclose decoded\<rparr>)"

text \<open>No call changes the \<open>closed\<close> flag.\<close>

lemma keeps_world_call [keeps_rules]: "keeps ht_closed (world_call m)"
  by (rule keepsI) (auto simp: world_call_def split: prod.splits)

lemma keeps_http_ensure_open [keeps_rules]: "keeps f http_ensure_open"
  by (rule keepsI) (auto simp: http_ensure_open_def split: if_splits)

lemma keeps_send_request [keeps_rules]: "keeps ht_closed (send_request env m path params body accept)"
  unfolding send_request_def
  by (rule keeps_read [where h = id, simplified]) (intro keeps_rules)

lemma keeps_request_json [keeps_rules]: "keeps ht_closed (request_json env m path params body)"
  unfolding request_json_def by (intro keeps_rules) (auto intro!: keeps_rules split: json.split)

lemma keeps_post_json [keeps_rules]: "keeps ht_closed (post_json env r body)"
  unfolding post_json_def by (intro keeps_rules)

lemma keeps_list_tables_loop [keeps_rules]: "keeps ht_closed (list_tables_loop env n tables token seen)"
proof (induction n arbitrary: tables token seen)
  case (Suc n)
  then show ?case by (auto intro!: keeps_rules split: json.split)
qed (simp add: keeps_def)

lemma keeps_resolve_identifier [keeps_rules]: "keeps ht_closed (resolve_identifier env n r)"
  unfolding resolve_identifier_def http_list_tables_def Let_def
  by (auto intro!: keeps_rules split: table_ref.split list.split)

lemma keeps_request_stream [keeps_rules]: "keeps ht_closed (request_stream env dn path params body)"
  unfolding request_stream_def
  by (intro keeps_rules) (auto intro!: keeps_rules simp: keeps_def fdo_apply split: http_body.split option.split sum.split prod.split)

lemma keeps_http_index_status [keeps_rules]: "keeps ht_closed (http_index_status env t i)"
  unfolding http_index_status_def by (intro keeps_rules)

lemma keeps_with_timeout [keeps_rules]: "keeps f m \<Longrightarrow> keeps f (with_timeout env q m)"
  by (rule keepsI) (auto simp: with_timeout_def dest: keepsD split: prod.splits option.splits if_splits)

lemma keeps_wait_loop [keeps_rules]: "keeps ht_closed (wait_loop env n t i deadline delay)"
proof (induction n arbitrary: delay)
  case (Suc n)
  have poll: "with_timeout env q (http_index_status env t i) s = (r, s1) \<Longrightarrow> ht_closed s1 = ht_closed s" for q s r s1
    by (erule keepsD [rotated]) (intro keeps_rules)
  show ?case
  proof (rule keepsI)
    fix s r s'
    assume "wait_loop env (Suc n) t i deadline delay s = (r, s')"
    then show "ht_closed s' = ht_closed s"
      by (auto split: if_splits prod.splits sum.splits option.splits dest!: poll dest: keepsD [OF Suc])
  qed
qed (simp add: keeps_def)

lemma keeps_wait_for_index [keeps_rules]: "keeps ht_closed (http_wait_for_index env n t i w)"
  by (rule keepsI) (auto simp: http_wait_for_index_def split: sum.splits dest: keepsD [OF keeps_wait_loop])

lemma keeps_wait_if [keeps_rules]: "keeps ht_closed (wait_if env n t i w)"
  unfolding wait_if_def by (auto intro!: keeps_rules split: option.split)

lemmas http_defs = http_register_parquet_def http_list_tables_def http_table_def http_deregister_table_def http_stream_def
  http_explain_def http_to_sql_def http_create_index_def http_register_index_def http_refresh_index_def
  http_list_indexes_def http_drop_index_def http_datafusion_context_def

lemma http_keeps: "keeps ht_closed (transport_call (http_transport_ops env ar dn n) r)"
  by (cases r)
     (auto simp: http_transport_ops_def Let_def http_defs intro!: keeps_rules split: query_arg.split path_arg.split)

lemma http_ensure_open_closed [simp]: "ht_closed w \<Longrightarrow> http_ensure_open w = (Inl session_closed, w)"
  by (simp add: http_ensure_open_def)

lemma wait_closed:
  assumes "ht_closed w"
  shows "\<exists>e. http_wait_for_index env (Suc n) t i timeout w = (Some (Inl e), w)"
proof -
  have "http_index_status env t i w = (Inl session_closed, w)"
    using assms by (simp add: http_index_status_def)
  then show ?thesis
    by (auto simp: http_wait_for_index_def with_timeout_def expired_def remaining_time_def
        split: sum.splits pyfloat.splits)
qed

text \<open>With at least one unit of fuel a closed transport refuses every call.\<close>

lemma http_closed:
  assumes "ht_closed w"
  shows "\<exists>e. transport_call (http_transport_ops env ar dn (Suc n)) r w = (Some (Inl e), w)"
proof (cases r)
  case (WaitForIndex t i timeout)
  with wait_closed [OF assms, of env n t i timeout] show ?thesis
    by (auto simp: http_transport_ops_def Let_def fmap_def fbind_def)
qed (use assms in \<open>simp_all add: http_transport_ops_def Let_def http_defs http_index_status_def fmap_def fdo_def fbind_def\<close>)

interpretation http: session_transport
  "transport_call (http_transport_ops env ar dn (Suc n))" "tr_close (http_transport_ops env ar dn (Suc n))" ht_closed
  for env ar dn n
proof
  show "\<exists>e. transport_call (http_transport_ops env ar dn (Suc n)) r w = (Some (Inl e), w)" if "ht_closed w" for r w
    by (rule http_closed [OF that])
  show "keeps ht_closed (transport_call (http_transport_ops env ar dn (Suc n)) r)" for r
    by (rule http_keeps)
  show "ht_closed (snd (tr_close (http_transport_ops env ar dn (Suc n)) w))" for w
    by (simp add: http_transport_ops_def Let_def fdo_def http_close_def world_call_def split: prod.splits)
  show "tr_close (http_transport_ops env ar dn (Suc n)) w = (Some (Inr ()), w)" if "ht_closed w" for w
    using that by (simp add: http_transport_ops_def Let_def fdo_def http_close_def)
qed

end
