(* ===== verification/Facade.thy ===== *)
theory Facade
  imports Http_Client
begin

text \<open>
  \<open>facade.py\<close>: \<open>AsyncSession\<close> and \<open>AsyncResultStream\<close> over any transport, the blocking \<open>Session\<close> with its
  bridge thread and batch iterators, and \<open>connect\<close>. Result streams are shared objects (the caller holds one, the
  session keeps another reference in its registry), so they live in a store under addresses; the registry is
  the list of the addresses in the Python set. Coroutines run to their end before the next one starts.
\<close>

section \<open>Result streams\<close>

record ('x, 's) result_stream =
  ars_stream :: 'x
  ars_schema :: 's
  ars_on_close :: bool
  ars_closed :: bool

record ('w, 'x, 's) async_session =
  as_transport :: 'w
  as_streams :: "nat list"
  as_closed :: bool
  as_store :: "nat \<Rightarrow> ('x, 's) result_stream option"
  as_fresh :: nat

definition new_async_session :: "'w \<Rightarrow> ('w, 'x, 's) async_session" where
  "new_async_session transport =
     \<lparr>as_transport = transport, as_streams = [], as_closed = False, as_store = (\<lambda>_. None), as_fresh = 0\<rparr>"

text \<open>
  \<open>AsyncResultStream.aclose\<close>: the flag first, then the underlying stream, and in \<open>finally\<close> the callback, which
  takes the stream out of the session's registry. \<open>ars_on_close\<close> says that the callback is that of a session;
  the callback of a blocking reader does nothing.
\<close>

definition ars_aclose ::
  "('w, 's, 't, 'x) transport_ops \<Rightarrow> nat \<Rightarrow> (('w, 'x, 's) async_session, unit) cmd" where
  "ars_aclose tr i = (\<lambda>s. case as_store s i of
     None \<Rightarrow> (Inr (), s)
   | Some st \<Rightarrow>
       if ars_closed st then (Inr (), s)
       else (case tr_aclose tr (ars_stream st) of (r, x) \<Rightarrow>
         (r, s\<lparr>as_store := (as_store s)(i \<mapsto> st\<lparr>ars_stream := x, ars_closed := True, ars_on_close := False\<rparr>),
               as_streams := (if ars_on_close st then filter (\<lambda>j. j \<noteq> i) (as_streams s) else as_streams s)\<rparr>)))"

definition ars_next ::
  "('w, 's, 't, 'x) transport_ops \<Rightarrow> nat \<Rightarrow> ('w, 'x, 's) async_session \<Rightarrow> batch step \<times> ('w, 'x, 's) async_session" where
  "ars_next tr i s =
     (case as_store s i of
        None \<Rightarrow> (Stop, s)
      | Some st \<Rightarrow>
          if ars_closed st then (Stop, s)
          else (case tr_next tr (ars_stream st) of (r, x) \<Rightarrow>
            let s1 = s\<lparr>as_store := (as_store s)(i \<mapsto> st\<lparr>ars_stream := x\<rparr>)\<rparr>
            in case r of
                 Stop \<Rightarrow> (case ars_aclose tr i s1 of (Inl e, s2) \<Rightarrow> (Raise e, s2) | (Inr _, s2) \<Rightarrow> (Stop, s2))
               | _ \<Rightarrow> (r, s1)))"

section \<open>The asynchronous session\<close>

definition on_transport :: "('w, 'a) fcmd \<Rightarrow> (('w, 'x, 's) async_session, 'a) fcmd" where
  "on_transport m = (\<lambda>s. case m (as_transport s) of (r, w) \<Rightarrow> (r, s\<lparr>as_transport := w\<rparr>))"

definition as_register_parquet where
  "as_register_parquet tr a = on_transport (tr_register_parquet tr a)"

definition as_list_tables where
  "as_list_tables tr = on_transport (tr_list_tables tr)"

text \<open>An \<open>AsyncSourceTable\<close> is its descriptor: every method of it goes to the transport of the session.\<close>

definition as_table where
  "as_table tr r = on_transport (tr_table tr r)"

definition as_deregister_table where
  "as_deregister_table tr r = on_transport (tr_deregister_table tr r)"

definition new_result_stream ::
  "('w, 's, 't, 'x) transport_ops \<Rightarrow> bool \<Rightarrow> 'x \<Rightarrow> (('w, 'x, 's) async_session, nat) cmd" where
  "new_result_stream tr on_close x = (\<lambda>s. case tr_schema tr x of
     Inl e \<Rightarrow> (Inl e, s)
   | Inr schema \<Rightarrow>
       (Inr (as_fresh s),
        s\<lparr>as_store := (as_store s)(as_fresh s \<mapsto>
             \<lparr>ars_stream = x, ars_schema = schema, ars_on_close = on_close, ars_closed = False\<rparr>),
          as_fresh := Suc (as_fresh s)\<rparr>))"

definition as_stream ::
  "('w, 's, 't, 'x) transport_ops \<Rightarrow> query_arg \<Rightarrow> (('w, 'x, 's) async_session, nat) fcmd" where
  "as_stream tr q =
     fbind (on_transport (tr_stream tr q)) (\<lambda>x.
     fbind (fdo (new_result_stream tr True x)) (\<lambda>i.
     fdo (\<lambda>s. (Inr i, s\<lparr>as_streams := as_streams s @ [i]\<rparr>))))"

text \<open>
  \<open>collect\<close>: the comprehension reads until the stream ends or raises, and the \<open>finally\<close> closes it; the fuel
  bounds the number of reads.
\<close>

definition as_collect ::
  "('w, 's, 't, 'x) transport_ops \<Rightarrow> nat \<Rightarrow> query_arg \<Rightarrow> (('w, 'x, 's) async_session, batch list \<times> 's) fcmd" where
  "as_collect tr n q =
     fbind (as_stream tr q) (\<lambda>i s.
     (case drain n (ars_next tr i) s of
        (batches, Stop, s1) \<Rightarrow>
          (case ars_aclose tr i s1 of
             (Inl e, s2) \<Rightarrow> (Some (Inl e), s2)
           | (Inr _, s2) \<Rightarrow>
               (case as_store s2 i of
                  Some st \<Rightarrow> (Some (Inr (batches, ars_schema st)), s2)
                | None \<Rightarrow> (None, s2)))
      | (batches, Raise e, s1) \<Rightarrow>
          (case ars_aclose tr i s1 of
             (Inl e', s2) \<Rightarrow> (Some (Inl e'), s2)
           | (Inr _, s2) \<Rightarrow> (Some (Inl e), s2))
      | (_, _, s1) \<Rightarrow> (None, s1)))"

definition as_sql where
  "as_sql tr n statement = as_collect tr n (QuerySql statement)"

definition as_to_sql where
  "as_to_sql tr q = on_transport (tr_to_sql tr q)"

definition as_explain ::
  "('w, 's, 't, 'x) transport_ops \<Rightarrow> query_arg \<Rightarrow> json \<Rightarrow> (('w, 'x, 's) async_session, string) fcmd" where
  "as_explain tr q verbose =
     (case verbose of
        JBool v \<Rightarrow> on_transport (tr_explain tr q v False)
      | _ \<Rightarrow> fdo (sraise (err TypeError ''verbose must be a boolean'')))"

definition as_analyze where
  "as_analyze tr q = on_transport (tr_explain tr q False True)"

definition as_datafusion_context where
  "as_datafusion_context tr = on_transport (tr_datafusion_context tr)"

text \<open>
  \<open>close\<close>: a snapshot of the registry in the order in which Python iterates over the set (the parameter
  \<open>order\<close>); an \<open>aclose\<close> that raises ends the loop and \<open>close\<close> with it.
\<close>

fun aclose_all ::
  "('w, 's, 't, 'x) transport_ops \<Rightarrow> nat list \<Rightarrow> (('w, 'x, 's) async_session, unit) cmd" where
  "aclose_all tr [] = sret ()"
| "aclose_all tr (i # is) = sbind (ars_aclose tr i) (\<lambda>_. aclose_all tr is)"

definition as_close ::
  "('w, 's, 't, 'x) transport_ops \<Rightarrow> (nat list \<Rightarrow> nat list) \<Rightarrow> (('w, 'x, 's) async_session, unit) fcmd" where
  "as_close tr order = (\<lambda>s.
     if as_closed s then (Some (Inr ()), s)
     else fbind (fdo (aclose_all tr (order (as_streams s)))) (\<lambda>_.
          fbind (fdo (\<lambda>s. (Inr (), s\<lparr>as_streams := []\<rparr>))) (\<lambda>_.
          on_transport (tr_close tr))) (s\<lparr>as_closed := True\<rparr>))"

section \<open>Tables and queries\<close>

definition ast_create_index where
  "ast_create_index tr (table :: 's descriptor) c = on_transport (tr_create_index tr (c\<lparr>cr_identifier := td_identifier table\<rparr>))"

definition ast_register_index where
  "ast_register_index tr (table :: 's descriptor) index m = on_transport (tr_register_index tr (td_identifier table) index m)"

definition ast_refresh_index where
  "ast_refresh_index tr (table :: 's descriptor) c = on_transport (tr_refresh_index tr (c\<lparr>rr_identifier := td_identifier table\<rparr>))"

definition ast_index_status where
  "ast_index_status tr (table :: 's descriptor) index = on_transport (tr_index_status tr (td_identifier table) index)"

definition ast_wait_for_index where
  "ast_wait_for_index tr (table :: 's descriptor) index timeout =
     on_transport (tr_wait_for_index tr (td_identifier table) index timeout)"

definition ast_list_indexes where
  "ast_list_indexes tr (table :: 's descriptor) = on_transport (tr_list_indexes tr (td_identifier table))"

definition ast_drop_index where
  "ast_drop_index tr (table :: 's descriptor) index = on_transport (tr_drop_index tr (td_identifier table) index)"

definition facade_vector_query ::
  "(string \<Rightarrow> pyfloat option) \<Rightarrow> table_identifier \<Rightarrow> query_input \<Rightarrow> string option \<Rightarrow> string option \<Rightarrow> vector_query result" where
  "facade_vector_query parse_float t q column index =
     rbind (normalize_query parse_float q) (\<lambda>vector. Inr (new_vector_query t vector column index))"

section \<open>The blocking session\<close>

text \<open>
  PyArrow's readers are the parameter \<open>reader_api\<close>: whether a stream has \<open>__arrow_c_stream__\<close>, the reader over a
  C stream, the reader over a Python iterator (given by its address), and \<open>close\<close>.
\<close>

record ('x, 's, 'rd) reader_api =
  pa_has_c_stream :: "'x \<Rightarrow> bool"
  pa_from_stream :: "'x \<Rightarrow> 'rd result"
  pa_from_batches :: "'s \<Rightarrow> nat \<Rightarrow> 'rd result"
  pa_close :: "'rd \<Rightarrow> unit result \<times> 'rd"

record ('w, 'x, 's, 'rd) session =
  ss_async :: "('w, 'x, 's) async_session"
  ss_bridge_closed :: bool
  ss_readers :: "nat list"
  ss_closed :: bool
  ss_reader_store :: "nat \<Rightarrow> 'rd option"
  ss_reader_fresh :: nat
  ss_iterators :: "nat \<Rightarrow> bool option"

text \<open>A batch iterator is stored under the address of its stream; the value is its \<open>_closed\<close>.\<close>

definition new_session :: "('w, 'x, 's) async_session \<Rightarrow> ('w, 'x, 's, 'rd) session" where
  "new_session a =
     \<lparr>ss_async = a, ss_bridge_closed = False, ss_readers = [], ss_closed = False, ss_reader_store = (\<lambda>_. None),
      ss_reader_fresh = 0, ss_iterators = (\<lambda>_. None)\<rparr>"

definition bridge_run ::
  "(('w, 'x, 's) async_session, 'a) fcmd \<Rightarrow> (('w, 'x, 's, 'rd) session, 'a) fcmd" where
  "bridge_run m = (\<lambda>s.
     if ss_bridge_closed s then (Some (Inl session_closed), s)
     else case m (ss_async s) of (r, a) \<Rightarrow> (r, s\<lparr>ss_async := a\<rparr>))"

definition bridge_close :: "('w, 'x, 's, 'rd) session \<Rightarrow> ('w, 'x, 's, 'rd) session" where
  "bridge_close s = s\<lparr>ss_bridge_closed := True\<rparr>"

definition run_sync ::
  "(('w, 'x, 's) async_session, 'a) fcmd \<Rightarrow> (('w, 'x, 's, 'rd) session, 'a) fcmd" where
  "run_sync m = (\<lambda>s. if ss_closed s then (Some (Inl session_closed), s) else bridge_run m s)"

definition bi_close ::
  "('w, 's, 't, 'x) transport_ops \<Rightarrow> nat \<Rightarrow> (('w, 'x, 's, 'rd) session, unit) fcmd" where
  "bi_close tr i = (\<lambda>s.
     if ss_iterators s i = Some False
     then bridge_run (fdo (ars_aclose tr i)) (s\<lparr>ss_iterators := (ss_iterators s)(i \<mapsto> True)\<rparr>)
     else (Some (Inr ()), s))"

definition bi_next ::
  "('w, 's, 't, 'x) transport_ops \<Rightarrow> nat \<Rightarrow> ('w, 'x, 's, 'rd) session \<Rightarrow> batch step \<times> ('w, 'x, 's, 'rd) session" where
  "bi_next tr i s =
     (if ss_iterators s i \<noteq> Some False then (Stop, s)
      else if ss_bridge_closed s then (Raise session_closed, s)
      else (case ars_next tr i (ss_async s) of
          (Stop, a) \<Rightarrow>
            (case bi_close tr i (s\<lparr>ss_async := a\<rparr>) of
               (Some (Inr _), s') \<Rightarrow> (Stop, s')
             | (Some (Inl e), s') \<Rightarrow> (Raise e, s')
             | (None, s') \<Rightarrow> (Diverge, s'))
        | (r, a) \<Rightarrow> (r, s\<lparr>ss_async := a\<rparr>)))"

text \<open>\<open>__del__\<close> swallows every \<open>Exception\<close>.\<close>

definition bi_del ::
  "('w, 's, 't, 'x) transport_ops \<Rightarrow> nat \<Rightarrow> (('w, 'x, 's, 'rd) session, unit) fcmd" where
  "bi_del tr i = (\<lambda>s. case bi_close tr i s of
     (Some (Inl e), s') \<Rightarrow> if isinstance_exc e Exception then (Some (Inr ()), s') else (Some (Inl e), s')
   | r \<Rightarrow> r)"

definition add_reader :: "'rd \<Rightarrow> (('w, 'x, 's, 'rd) session, nat) cmd" where
  "add_reader rd = (\<lambda>s.
     (Inr (ss_reader_fresh s),
      s\<lparr>ss_readers := ss_readers s @ [ss_reader_fresh s],
        ss_reader_store := (ss_reader_store s)(ss_reader_fresh s \<mapsto> rd),
        ss_reader_fresh := Suc (ss_reader_fresh s)\<rparr>))"

definition ss_stream ::
  "('x, 's, 'rd) reader_api \<Rightarrow> ('w, 's, 't, 'x) transport_ops \<Rightarrow> query_arg \<Rightarrow> (('w, 'x, 's, 'rd) session, nat) fcmd" where
  "ss_stream pa tr q =
     fbind (run_sync (on_transport (tr_stream tr q))) (\<lambda>x.
     if pa_has_c_stream pa x
     then fbind (fdo (slift (pa_from_stream pa x))) (\<lambda>rd. fdo (add_reader rd))
     else fbind (fdo (\<lambda>s. case new_result_stream tr False x (ss_async s) of (r, a) \<Rightarrow> (r, s\<lparr>ss_async := a\<rparr>))) (\<lambda>i.
          fbind (fdo (\<lambda>s. (Inr (), s\<lparr>ss_iterators := (ss_iterators s)(i \<mapsto> False)\<rparr>))) (\<lambda>_ s.
          (case as_store (ss_async s) i of
             None \<Rightarrow> (None, s)
           | Some st \<Rightarrow> fbind (fdo (slift (pa_from_batches pa (ars_schema st) i))) (\<lambda>rd. fdo (add_reader rd)) s))))"

definition ss_register_parquet where "ss_register_parquet tr a = run_sync (as_register_parquet tr a)"
definition ss_list_tables where "ss_list_tables tr = run_sync (as_list_tables tr)"
definition ss_table where "ss_table tr r = run_sync (as_table tr r)"
definition ss_deregister_table where "ss_deregister_table tr r = run_sync (as_deregister_table tr r)"
definition ss_collect where "ss_collect tr n q = run_sync (as_collect tr n q)"
definition ss_sql where "ss_sql tr n statement = run_sync (as_sql tr n statement)"
definition ss_to_sql where "ss_to_sql tr q = run_sync (as_to_sql tr q)"
definition ss_explain where "ss_explain tr q verbose = run_sync (as_explain tr q verbose)"
definition ss_analyze where "ss_analyze tr q = run_sync (as_analyze tr q)"

definition ss_datafusion_context ::
  "('w, 's, 't, 'x) transport_ops \<Rightarrow> (('w, 'x, 's, 'rd) session, unit) fcmd" where
  "ss_datafusion_context tr = (\<lambda>s. case as_datafusion_context tr (ss_async s) of (r, a) \<Rightarrow> (r, s\<lparr>ss_async := a\<rparr>))"

definition st_create_index where "st_create_index tr table c = run_sync (ast_create_index tr table c)"
definition st_register_index where "st_register_index tr table index m = run_sync (ast_register_index tr table index m)"
definition st_refresh_index where "st_refresh_index tr table c = run_sync (ast_refresh_index tr table c)"
definition st_index_status where "st_index_status tr table index = run_sync (ast_index_status tr table index)"
definition st_wait_for_index where "st_wait_for_index tr table index timeout = run_sync (ast_wait_for_index tr table index timeout)"
definition st_list_indexes where "st_list_indexes tr table = run_sync (ast_list_indexes tr table)"
definition st_drop_index where "st_drop_index tr table index = run_sync (ast_drop_index tr table index)"

text \<open>
  \<open>Session.close\<close>. The readers are those of the weak set that are still alive, in its iteration order (the
  parameter \<open>alive\<close>). Whatever the body raises, the \<open>finally\<close> marks the session and stops the bridge.
\<close>

fun close_readers ::
  "('x, 's, 'rd) reader_api \<Rightarrow> nat list \<Rightarrow> (('w, 'x, 's, 'rd) session, unit) cmd" where
  "close_readers pa [] = sret ()"
| "close_readers pa (i # is) =
     sbind (\<lambda>s. case ss_reader_store s i of
              None \<Rightarrow> (Inr (), s)
            | Some rd \<Rightarrow> (case pa_close pa rd of (r, rd') \<Rightarrow> (r, s\<lparr>ss_reader_store := (ss_reader_store s)(i \<mapsto> rd')\<rparr>)))
       (\<lambda>_. close_readers pa is)"

definition ss_close ::
  "('x, 's, 'rd) reader_api \<Rightarrow> ('w, 's, 't, 'x) transport_ops \<Rightarrow> (nat list \<Rightarrow> nat list) \<Rightarrow> (nat list \<Rightarrow> nat list)
     \<Rightarrow> (('w, 'x, 's, 'rd) session, unit) fcmd" where
  "ss_close pa tr alive order = (\<lambda>s.
     if ss_closed s then (Some (Inr ()), s)
     else (case fbind (fdo (close_readers pa (alive (ss_readers s)))) (\<lambda>_.
                fbind (fdo (\<lambda>s. (Inr (), s\<lparr>ss_readers := []\<rparr>))) (\<lambda>_.
                bridge_run (as_close tr order))) s of
         (r, s') \<Rightarrow> (r, bridge_close (s'\<lparr>ss_closed := True\<rparr>))))"

section \<open>Connecting\<close>

datatype ('h, 'm) deployment = Remote 'h | Embedded 'm

definition pick :: "('h, 'a) fcmd \<Rightarrow> ('m, 'a) fcmd \<Rightarrow> (('h, 'm) deployment, 'a) fcmd" where
  "pick f g = (\<lambda>w. case w of
     Remote h \<Rightarrow> (case f h of (r, h') \<Rightarrow> (r, Remote h'))
   | Embedded m \<Rightarrow> (case g m of (r, m') \<Rightarrow> (r, Embedded m')))"

definition deployment_ops ::
  "('h, 's, 't, 'x) transport_ops \<Rightarrow> ('m, 's, 't, 'y) transport_ops
     \<Rightarrow> (('h, 'm) deployment, 's, 't, ('x, 'y) deployment) transport_ops" where
  "deployment_ops f g =
     \<lparr>tr_register_parquet = (\<lambda>a. pick (tr_register_parquet f a) (tr_register_parquet g a)),
      tr_list_tables = pick (tr_list_tables f) (tr_list_tables g),
      tr_table = (\<lambda>r. pick (tr_table f r) (tr_table g r)),
      tr_deregister_table = (\<lambda>r. pick (tr_deregister_table f r) (tr_deregister_table g r)),
      tr_stream = (\<lambda>q. pick (fmap Remote (tr_stream f q)) (fmap Embedded (tr_stream g q))),
      tr_explain = (\<lambda>q v a. pick (tr_explain f q v a) (tr_explain g q v a)),
      tr_to_sql = (\<lambda>q. pick (tr_to_sql f q) (tr_to_sql g q)),
      tr_create_index = (\<lambda>c. pick (tr_create_index f c) (tr_create_index g c)),
      tr_register_index = (\<lambda>t i m. pick (tr_register_index f t i m) (tr_register_index g t i m)),
      tr_refresh_index = (\<lambda>c. pick (tr_refresh_index f c) (tr_refresh_index g c)),
      tr_index_status = (\<lambda>t i. pick (tr_index_status f t i) (tr_index_status g t i)),
      tr_wait_for_index = (\<lambda>t i w. pick (tr_wait_for_index f t i w) (tr_wait_for_index g t i w)),
      tr_list_indexes = (\<lambda>t. pick (tr_list_indexes f t) (tr_list_indexes g t)),
      tr_drop_index = (\<lambda>t i. pick (tr_drop_index f t i) (tr_drop_index g t i)),
      tr_datafusion_context = pick (tr_datafusion_context f) (tr_datafusion_context g),
      tr_close = pick (tr_close f) (tr_close g),
      tr_schema = (\<lambda>x. case x of Remote x \<Rightarrow> tr_schema f x | Embedded y \<Rightarrow> tr_schema g y),
      tr_next = (\<lambda>x. case x of
          Remote x \<Rightarrow> (case tr_next f x of (r, x') \<Rightarrow> (r, Remote x'))
        | Embedded y \<Rightarrow> (case tr_next g y of (r, y') \<Rightarrow> (r, Embedded y'))),
      tr_aclose = (\<lambda>x. case x of
          Remote x \<Rightarrow> (case tr_aclose f x of (r, x') \<Rightarrow> (r, Remote x'))
        | Embedded y \<Rightarrow> (case tr_aclose g y of (r, y') \<Rightarrow> (r, Embedded y')))\<rparr>"

definition embedded_host ::
  "((('h, 'n service) deployment, 'x, 's) async_session, 'n embedded) cmd" where
  "embedded_host = (\<lambda>s. case as_transport s of
     Remote _ \<Rightarrow> (Inl (err UnsupportedOperationError ''operation is available only in embedded mode''), s)
   | Embedded m \<Rightarrow> (case svc_host m of (r, m') \<Rightarrow> (r, s\<lparr>as_transport := Embedded m'\<rparr>)))"

definition ss_root ::
  "((('h, 'n service) deployment, 'x, 's, 'rd) session, string list) cmd" where
  "ss_root = (\<lambda>s. case embedded_host (ss_async s) of (r, a) \<Rightarrow> (rbind r (\<lambda>h. Inr (em_root h)), s\<lparr>ss_async := a\<rparr>))"

definition ss_warehouse ::
  "((('h, 'n service) deployment, 'x, 's, 'rd) session, string) cmd" where
  "ss_warehouse = (\<lambda>s. case embedded_host (ss_async s) of (r, a) \<Rightarrow> (rbind r (\<lambda>h. Inr (em_warehouse h)), s\<lparr>ss_async := a\<rparr>))"

record ('c, 'r) connect_args =
  co_root :: "string option"
  co_warehouse :: "string option"
  co_storage_options :: "(json \<times> json) list option"
  co_config :: "'c typed_arg option"
  co_runtime :: "'r typed_arg option"
  co_headers :: "(json \<times> json) list option"
  co_timeout :: "time_arg option"

definition is_http_url :: "string \<Rightarrow> bool" where
  "is_http_url location \<longleftrightarrow>
     startswith (py_lower location) ''http://'' \<or> startswith (py_lower location) ''https://''"

definition reject_remote_embedded_options :: "(string \<times> bool) list \<Rightarrow> unit result" where
  "reject_remote_embedded_options options =
     (case filter snd options of
        [] \<Rightarrow> Inr ()
      | (name, _) # _ \<Rightarrow>
          Inl (err ValueError (name @ '' is configured by the ParqDB server, not the client'')))"

definition connect_async ::
  "path_env \<Rightarrow> (string \<Rightarrow> (json \<times> json) list \<Rightarrow> pyfloat option list \<Rightarrow> 'w) \<Rightarrow> ('c, 'r, 'n) native_open
     \<Rightarrow> ('c, 'r) connect_args \<Rightarrow> (('w http_transport, 'n service) deployment, 'x, 's) async_session result" where
  "connect_async env new_client native_open a =
     (case co_root a of
        Some location \<Rightarrow>
          if is_http_url location
          then rbind (reject_remote_embedded_options
                  [(''warehouse'', co_warehouse a \<noteq> None), (''storage_options'', co_storage_options a \<noteq> None),
                   (''config'', \<not> Option.is_none (co_config a)), (''runtime'', \<not> Option.is_none (co_runtime a))]) (\<lambda>_.
               rbind (http_open (pe_netloc_ok env) new_client (JStr location)
                        (case co_headers a of None \<Rightarrow> [] | Some hs \<Rightarrow> hs) (co_timeout a) None) (\<lambda>h.
               Inr (new_async_session (Remote h))))
          else if co_headers a \<noteq> None \<or> co_timeout a \<noteq> None
          then Inl (err ValueError ''headers and timeout require an http(s) server URL'')
          else rbind (svc_open env native_open
                  \<lparr>oa_root = location, oa_warehouse = co_warehouse a,
                   oa_storage_options = (case co_storage_options a of None \<Rightarrow> [] | Some kvs \<Rightarrow> kvs),
                   oa_catalog_path = None, oa_config = co_config a, oa_runtime = co_runtime a\<rparr>) (\<lambda>service.
               Inr (new_async_session (Embedded service)))
      | None \<Rightarrow>
          if co_headers a \<noteq> None \<or> co_timeout a \<noteq> None
          then Inl (err ValueError ''headers and timeout require an http(s) server URL'')
          else Inl (err TypeError ''connect requires a local root or http(s) server URL''))"

text \<open>\<open>connect\<close>: the session, and whether the bridge thread it started has been stopped again.\<close>

definition connect ::
  "path_env \<Rightarrow> (string \<Rightarrow> (json \<times> json) list \<Rightarrow> pyfloat option list \<Rightarrow> 'w) \<Rightarrow> ('c, 'r, 'n) native_open
     \<Rightarrow> ('c, 'r) connect_args \<Rightarrow> (('w http_transport, 'n service) deployment, 'x, 's, 'rd) session result \<times> bool" where
  "connect env new_client native_open a =
     (case connect_async env new_client native_open a of
        Inl e \<Rightarrow> (Inl e, True)
      | Inr s \<Rightarrow> (Inr (new_session s), False))"

section \<open>The registry of open streams\<close>

definition session_inv :: "('w, 'x, 's) async_session \<Rightarrow> bool" where
  "session_inv s \<longleftrightarrow> distinct (as_streams s) \<and>
     (\<forall>i. i \<in> set (as_streams s) \<longleftrightarrow> (\<exists>st. as_store s i = Some st \<and> ars_on_close st)) \<and>
     (\<forall>i st. as_store s i = Some st \<and> ars_on_close st \<longrightarrow> \<not> ars_closed st) \<and>
     (\<forall>i. as_fresh s \<le> i \<longrightarrow> as_store s i = None)"

definition fair_order :: "(nat list \<Rightarrow> nat list) \<Rightarrow> bool" where
  "fair_order order \<longleftrightarrow> (\<forall>xs. set (order xs) = set xs)"

text \<open>One operation of the session or of a stream it handed out.\<close>

inductive async_step ::
  "('w, 's, 't, 'x) transport_ops \<Rightarrow> (nat list \<Rightarrow> nat list) \<Rightarrow> ('w, 'x, 's) async_session \<Rightarrow> ('w, 'x, 's) async_session \<Rightarrow> bool"
  for tr order where
  step_call: "on_transport (transport_call tr r) s = (x, s') \<Longrightarrow> async_step tr order s s'"
| step_stream: "as_stream tr q s = (x, s') \<Longrightarrow> async_step tr order s s'"
| step_reader: "new_result_stream tr False x s = (r, s') \<Longrightarrow> async_step tr order s s'"
| step_next: "ars_next tr i s = (r, s') \<Longrightarrow> async_step tr order s s'"
| step_aclose: "ars_aclose tr i s = (r, s') \<Longrightarrow> async_step tr order s s'"
| step_close: "as_close tr order s = (r, s') \<Longrightarrow> async_step tr order s s'"

inductive async_reach ::
  "('w, 's, 't, 'x) transport_ops \<Rightarrow> (nat list \<Rightarrow> nat list) \<Rightarrow> 'w \<Rightarrow> ('w, 'x, 's) async_session \<Rightarrow> bool"
  for tr order w where
  async_start: "async_reach tr order w (new_async_session w)"
| async_more: "async_reach tr order w s \<Longrightarrow> async_step tr order s s' \<Longrightarrow> async_reach tr order w s'"

lemma session_inv_transport: "session_inv (s\<lparr>as_transport := w\<rparr>) = session_inv s"
  and session_inv_closed: "session_inv (s\<lparr>as_closed := b\<rparr>) = session_inv s"
  by (simp_all add: session_inv_def)

lemma on_transport_inv: "on_transport m s = (x, s') \<Longrightarrow> session_inv s' = session_inv s"
  by (auto simp: on_transport_def session_inv_transport split: prod.splits)

lemma ars_aclose_inv: "session_inv s \<Longrightarrow> session_inv (snd (ars_aclose tr i s))"
  by (auto simp: ars_aclose_def session_inv_def split: option.splits prod.splits)

lemma ars_aclose_closes:
  "as_store s i = Some st \<Longrightarrow> \<exists>st'. as_store (snd (ars_aclose tr i s)) i = Some st' \<and> ars_closed st'"
  by (auto simp: ars_aclose_def split: prod.splits)

lemma ars_aclose_other:
  "j \<noteq> i \<Longrightarrow> as_store (snd (ars_aclose tr i s)) j = as_store s j"
  "as_transport (snd (ars_aclose tr i s)) = as_transport s" "as_closed (snd (ars_aclose tr i s)) = as_closed s"
  by (auto simp: ars_aclose_def split: option.splits prod.splits)

lemma store_update_inv:
  assumes "session_inv s" "as_store s i = Some st" "ars_on_close st' = ars_on_close st" "ars_closed st' = ars_closed st"
  shows "session_inv (s\<lparr>as_store := (as_store s)(i \<mapsto> st')\<rparr>)"
  using assms by (auto simp: session_inv_def)

lemma ars_next_inv:
  assumes "session_inv s"
  shows "session_inv (snd (ars_next tr i s))"
proof (cases "as_store s i")
  case (Some st)
  show ?thesis
  proof (cases "tr_next tr (ars_stream st)")
    case (Pair r x)
    have "session_inv (s\<lparr>as_store := (as_store s)(i \<mapsto> st\<lparr>ars_stream := x\<rparr>)\<rparr>)" (is "session_inv ?s1")
      using store_update_inv [OF assms Some, of "st\<lparr>ars_stream := x\<rparr>"] by simp
    with ars_aclose_inv [OF this, of tr i] assms Some Pair show ?thesis
      by (auto simp: ars_next_def Let_def split: step.splits prod.splits sum.splits)
  qed
qed (use assms in \<open>simp add: ars_next_def\<close>)

lemma new_stream_inv:
  assumes "session_inv s" "new_result_stream tr b x s = (r, s1)"
  shows "if b then (\<forall>i. r = Inr i \<longrightarrow> session_inv (s1\<lparr>as_streams := as_streams s1 @ [i]\<rparr>)) \<and> (\<forall>e. r = Inl e \<longrightarrow> s1 = s)
         else session_inv s1"
proof (cases "tr_schema tr x")
  case (Inr schema)
  have fresh: "as_fresh s \<notin> set (as_streams s)" "as_store s (as_fresh s) = None"
    using assms(1) by (auto simp: session_inv_def)
  with assms Inr show ?thesis
    by (auto simp: new_result_stream_def session_inv_def split: if_splits)
qed (use assms in \<open>auto simp: new_result_stream_def\<close>)

lemma as_stream_inv:
  assumes "session_inv s"
  shows "session_inv (snd (as_stream tr q s))"
proof -
  obtain r1 s1 where 1: "on_transport (tr_stream tr q) s = (r1, s1)" by (cases "on_transport (tr_stream tr q) s")
  from on_transport_inv [OF 1] assms have inv: "session_inv s1" by simp
  show ?thesis
  proof (cases "\<exists>x. r1 = Some (Inr x)")
    case True
    then obtain x where x: "r1 = Some (Inr x)" ..
    obtain r2 s2 where 2: "new_result_stream tr True x s1 = (r2, s2)" by (cases "new_result_stream tr True x s1")
    from new_stream_inv [OF inv 2] 1 2 x inv show ?thesis
      by (cases r2) (simp_all add: as_stream_def fbind_def fdo_def)
  next
    case False
    with 1 inv show ?thesis by (auto simp: as_stream_def fbind_def split: option.splits sum.splits)
  qed
qed

lemma aclose_all_inv: "session_inv s \<Longrightarrow> session_inv (snd (aclose_all tr is s))"
proof (induction "is" arbitrary: s)
  case (Cons i "is")
  then show ?case using ars_aclose_inv [of s tr i]
    by (auto simp: sbind_apply split: prod.splits sum.splits)
qed simp

lemma keeps_ars_aclose [keeps_rules]: "keeps as_transport (ars_aclose tr i)" "keeps as_closed (ars_aclose tr i)"
  by (rule keepsI, auto simp: ars_aclose_def split: option.splits prod.splits if_splits)+

lemma keeps_aclose_all [keeps_rules]: "keeps as_transport (aclose_all tr is)" "keeps as_closed (aclose_all tr is)"
  by (induction "is") (auto intro!: keeps_rules)

lemma aclose_all_store:
  assumes "aclose_all tr is s = (Inr (), s')" "as_store s i = Some st" "i \<in> set is \<or> ars_closed st"
  shows "\<exists>st'. as_store s' i = Some st' \<and> ars_closed st'"
  using assms
proof (induction "is" arbitrary: s st)
  case (Cons j "is")
  then obtain s1 where 1: "ars_aclose tr j s = (Inr (), s1)" and 2: "aclose_all tr is s1 = (Inr (), s')"
    by (auto simp: sbind_eq_Inr)
  show ?case
  proof (cases "i = j")
    case True
    with ars_aclose_closes [OF Cons.prems(2), of tr] 1 obtain st1 where "as_store s1 i = Some st1" "ars_closed st1" by auto
    with Cons.IH [OF 2] show ?thesis by blast
  next
    case False
    with ars_aclose_other(1) [of i j tr s] 1 Cons.prems(2) have "as_store s1 i = Some st" by simp
    with Cons.IH [OF 2] Cons.prems(3) False show ?thesis by auto
  qed
qed simp

lemma aclose_all_registry:
  assumes "session_inv s" "aclose_all tr is s = (Inr (), s')" "set (as_streams s) \<subseteq> set is"
  shows "as_streams s' = []"
proof -
  have inv: "session_inv s'" using aclose_all_inv [OF assms(1), of tr "is"] assms(2) by simp
  have sub: "set (as_streams (snd (aclose_all tr js t))) \<subseteq> set (as_streams t)" for js t
  proof (induction js arbitrary: t)
    case (Cons j js)
    have "set (as_streams (snd (ars_aclose tr j t))) \<subseteq> set (as_streams t)"
      by (auto simp: ars_aclose_def split: option.splits prod.splits)
    with Cons show ?case by (fastforce simp: sbind_apply split: prod.splits sum.splits)
  qed simp
  have "i \<notin> set (as_streams s')" for i
  proof
    assume i: "i \<in> set (as_streams s')"
    with sub [of "is" s] assms(2) have "i \<in> set (as_streams s)" by auto
    with assms(1,3) obtain st where "as_store s i = Some st" "i \<in> set is" by (auto simp: session_inv_def)
    from aclose_all_store [OF assms(2) this(1)] this(2) obtain st' where "as_store s' i = Some st'" "ars_closed st'" by blast
    with inv i show False by (auto simp: session_inv_def)
  qed
  then show ?thesis by (cases "as_streams s'") auto
qed

lemma as_close_cases:
  assumes "\<not> as_closed s" "as_close tr order s = (r, s')"
  obtains (failed) e where "aclose_all tr (order (as_streams s)) (s\<lparr>as_closed := True\<rparr>) = (Inl e, s')" "r = Some (Inl e)"
  | (closed) s1 where "aclose_all tr (order (as_streams s)) (s\<lparr>as_closed := True\<rparr>) = (Inr (), s1)"
      "on_transport (tr_close tr) (s1\<lparr>as_streams := []\<rparr>) = (r, s')"
proof (cases "aclose_all tr (order (as_streams s)) (s\<lparr>as_closed := True\<rparr>)")
  case (Pair r1 s1)
  with assms show thesis
    by (cases r1) (auto simp: as_close_def fbind_def fdo_def intro: that)
qed

lemma as_close_inv:
  assumes "session_inv s" "fair_order order"
  shows "session_inv (snd (as_close tr order s))"
proof (cases "as_closed s")
  case False
  have s: "session_inv (s\<lparr>as_closed := True\<rparr>)" using assms(1) by (simp add: session_inv_closed)
  obtain r s' where c: "as_close tr order s = (r, s')" by (cases "as_close tr order s")
  from False c show ?thesis
  proof (cases rule: as_close_cases)
    case (failed e)
    with aclose_all_inv [OF s] c show ?thesis by (metis snd_conv)
  next
    case (closed s1)
    have "as_streams s1 = []"
      using aclose_all_registry [OF s closed(1)] assms(2) by (simp add: fair_order_def)
    moreover have "session_inv s1" using aclose_all_inv [OF s] closed(1) by (metis snd_conv)
    ultimately have "session_inv (s1\<lparr>as_streams := []\<rparr>)" by (auto simp: session_inv_def)
    with on_transport_inv [OF closed(2)] c show ?thesis by simp
  qed
qed (use assms in \<open>simp add: as_close_def\<close>)

lemma async_step_inv: "async_step tr order s s' \<Longrightarrow> fair_order order \<Longrightarrow> session_inv s \<Longrightarrow> session_inv s'"
proof (induction rule: async_step.induct)
  case (step_call r s x s')
  then show ?case using on_transport_inv by blast
next
  case (step_stream q s x s')
  then show ?case using as_stream_inv [of s tr q] by simp
next
  case (step_reader x s r s')
  then show ?case using new_stream_inv [of s tr False x r s'] by simp
next
  case (step_next i s r s')
  then show ?case using ars_next_inv [of s tr i] by simp
next
  case (step_aclose i s r s')
  then show ?case using ars_aclose_inv [of s tr i] by simp
next
  case (step_close s r s')
  then show ?case using as_close_inv [of s order tr] by simp
qed

lemma async_reach_inv: "async_reach tr order w s \<Longrightarrow> fair_order order \<Longrightarrow> session_inv s"
  by (induction rule: async_reach.induct)
     (auto simp: session_inv_def new_async_session_def intro: async_step_inv [unfolded session_inv_def] dest: async_step_inv)

section \<open>Closing\<close>

text \<open>The facade over a transport that meets the contract.\<close>

locale facade_transport = session_transport "transport_call tr" "tr_close tr" closed
  for tr :: "('w, 's, 't, 'x) transport_ops" and closed :: "'w \<Rightarrow> bool"
begin

lemma close_complete:
  assumes inv: "session_inv s" and fair: "fair_order order" and "\<not> as_closed s"
    and close: "as_close tr order s = (Some (Inr ()), s')"
  shows "as_closed s'" "as_streams s' = []" "closed (as_transport s')"
    "i \<in> set (as_streams s) \<Longrightarrow> \<exists>st. as_store s' i = Some st \<and> ars_closed st"
proof -
  have s: "session_inv (s\<lparr>as_closed := True\<rparr>)" using inv by (simp add: session_inv_closed)
  from assms(3) close obtain s1 where
    1: "aclose_all tr (order (as_streams s)) (s\<lparr>as_closed := True\<rparr>) = (Inr (), s1)" and
    2: "on_transport (tr_close tr) (s1\<lparr>as_streams := []\<rparr>) = (Some (Inr ()), s')"
    by (cases rule: as_close_cases) auto
  from 2 have s': "s' = s1\<lparr>as_streams := [], as_transport := snd (tr_close tr (as_transport s1))\<rparr>"
    by (auto simp: on_transport_def split: prod.splits)
  have "as_closed s1" using keepsD [OF keeps_aclose_all(2) 1] by simp
  then show "as_closed s'" "as_streams s' = []" "closed (as_transport s')"
    by (simp_all add: s' close_closes)
  show "\<exists>st. as_store s' i = Some st \<and> ars_closed st" if i: "i \<in> set (as_streams s)"
  proof -
    from inv i obtain st where "as_store s i = Some st" by (auto simp: session_inv_def)
    with aclose_all_store [OF 1, of i st] fair i show ?thesis by (simp add: s' fair_order_def)
  qed
qed

lemma closed_facade_call:
  assumes "closed (as_transport s)"
  shows "\<exists>e. on_transport (transport_call tr r) s = (Some (Inl e), s)"
  using closed_call [OF assms, of r] by (auto simp: on_transport_def)

lemma closed_facade_stream:
  assumes "closed (as_transport s)"
  shows "\<exists>e. as_stream tr q s = (Some (Inl e), s)"
proof -
  obtain e where "transport_call tr (OpenStream q) (as_transport s) = (Some (Inl e), as_transport s)"
    using closed_call [OF assms] by blast
  then have "tr_stream tr q (as_transport s) = (Some (Inl e), as_transport s)"
    by (auto simp: fmap_def fbind_def fdo_def split: prod.splits option.splits sum.splits)
  then show ?thesis by (simp add: as_stream_def on_transport_def)
qed

end

text \<open>A session that may be of either deployment, over the two transports of the package.\<close>

definition deployment_closed :: "('h \<Rightarrow> bool) \<Rightarrow> ('m \<Rightarrow> bool) \<Rightarrow> ('h, 'm) deployment \<Rightarrow> bool" where
  "deployment_closed f g w = (case w of Remote h \<Rightarrow> f h | Embedded m \<Rightarrow> g m)"

lemma pick_simps [simp]:
  "pick f g (Remote h) = (case f h of (r, h') \<Rightarrow> (r, Remote h'))"
  "pick f g (Embedded m) = (case g m of (r, m') \<Rightarrow> (r, Embedded m'))"
  by (simp_all add: pick_def)

lemma keeps_pick: "keeps cf m \<Longrightarrow> keeps cg k \<Longrightarrow> keeps (deployment_closed cf cg) (pick m k)"
  by (auto simp: keeps_def deployment_closed_def pick_def case_prod_beta split: deployment.split)

lemma fmap_pick: "fmap k (pick f g) = pick (fmap k f) (fmap k g)"
  by (rule ext) (auto simp: fmap_def fbind_def pick_def fdo_def split: deployment.split prod.split option.split sum.split)

lemma fmap_fmap: "fmap f (fmap g m) = fmap (f \<circ> g) m"
  by (rule ext) (auto simp: fmap_def fbind_def fdo_def split: prod.split option.split sum.split)

fun deploy_response :: "('a \<Rightarrow> 'b) \<Rightarrow> ('s, 'a) response \<Rightarrow> ('s, 'b) response" where
  "deploy_response f (Opened x) = Opened (f x)"
| "deploy_response f Done = Done"
| "deploy_response f (Tables ts) = Tables ts"
| "deploy_response f (Descriptor d) = Descriptor d"
| "deploy_response f (Text t) = Text t"
| "deploy_response f (Status st) = Status st"
| "deploy_response f (Indexes is) = Indexes is"

lemma deployment_call:
  "transport_call (deployment_ops f g) r =
     pick (fmap (deploy_response Remote) (transport_call f r)) (fmap (deploy_response Embedded) (transport_call g r))"
  by (cases r) (simp_all add: deployment_ops_def fmap_pick fmap_fmap comp_def)

lemma deployment_transport:
  assumes "session_transport (transport_call f) (tr_close f) cf" "session_transport (transport_call g) (tr_close g) cg"
  shows "session_transport (transport_call (deployment_ops f g)) (tr_close (deployment_ops f g)) (deployment_closed cf cg)"
proof -
  note f = session_transport.closed_call [OF assms(1)] session_transport.call_keeps [OF assms(1)]
    session_transport.close_closes [OF assms(1)] session_transport.close_again [OF assms(1)]
  note g = session_transport.closed_call [OF assms(2)] session_transport.call_keeps [OF assms(2)]
    session_transport.close_closes [OF assms(2)] session_transport.close_again [OF assms(2)]
  show ?thesis
  proof
    show "\<exists>e. transport_call (deployment_ops f g) r w = (Some (Inl e), w)" if "deployment_closed cf cg w" for r w
    proof (cases w)
      case (Remote h)
      with that f(1) [of h r] fmap_raise show ?thesis by (auto simp: deployment_call deployment_closed_def fmap_raise)
    next
      case (Embedded m)
      with that g(1) [of m r] show ?thesis by (auto simp: deployment_call deployment_closed_def fmap_raise)
    qed
    show "keeps (deployment_closed cf cg) (transport_call (deployment_ops f g) r)" for r
      unfolding deployment_call by (rule keeps_pick [OF keeps_fmap [OF f(2)] keeps_fmap [OF g(2)]])
    show "deployment_closed cf cg (snd (tr_close (deployment_ops f g) w))" for w
      using f(3) g(3) by (auto simp: deployment_ops_def deployment_closed_def pick_def split: deployment.split prod.split)
         (metis snd_conv)+
    show "tr_close (deployment_ops f g) w = (Some (Inr ()), w)" if "deployment_closed cf cg w" for w
      using that f(4) g(4) by (auto simp: deployment_ops_def deployment_closed_def pick_def split: deployment.splits)
  qed
qed

interpretation facade: facade_transport
  "deployment_ops (http_transport_ops env ar dn (Suc n)) (in_process_transport api ar paths)"
  "deployment_closed ht_closed sv_closed" for env ar dn n api paths
  unfolding facade_transport_def
  by (rule deployment_transport [OF http.session_transport_axioms in_process.session_transport_axioms])

section \<open>Collecting a result\<close>

definition closed_stream :: "('x, 's) result_stream \<Rightarrow> 'x \<Rightarrow> ('x, 's) result_stream" where
  "closed_stream st x = st\<lparr>ars_stream := x, ars_closed := True, ars_on_close := False\<rparr>"

lemma ars_aclose_open:
  assumes "as_store s i = Some st" "\<not> ars_closed st" "tr_aclose tr (ars_stream st) = (r, x)"
  shows "ars_aclose tr i s = (r, s\<lparr>as_store := (as_store s)(i \<mapsto> closed_stream st x),
     as_streams := (if ars_on_close st then filter (\<lambda>j. j \<noteq> i) (as_streams s) else as_streams s)\<rparr>)"
  using assms by (simp add: ars_aclose_def closed_stream_def)

lemma ars_next_open:
  assumes "as_store s i = Some st" "\<not> ars_closed st" "tr_next tr (ars_stream st) = (r, x)" "r \<noteq> Stop"
  shows "ars_next tr i s = (r, s\<lparr>as_store := (as_store s)(i \<mapsto> st\<lparr>ars_stream := x\<rparr>)\<rparr>)"
  using assms by (cases r) (simp_all add: ars_next_def)

lemma ars_next_stop:
  assumes "as_store s i = Some st" "\<not> ars_closed st" "tr_next tr (ars_stream st) = (Stop, x)" "tr_aclose tr x = (Inr (), y)"
  shows "ars_next tr i s = (Stop, s\<lparr>as_store := (as_store s)(i \<mapsto> closed_stream st y),
     as_streams := (if ars_on_close st then filter (\<lambda>j. j \<noteq> i) (as_streams s) else as_streams s)\<rparr>)"
  using assms ars_aclose_open [of "s\<lparr>as_store := (as_store s)(i \<mapsto> st\<lparr>ars_stream := x\<rparr>)\<rparr>" i "st\<lparr>ars_stream := x\<rparr>" tr "Inr ()" y]
  by (simp add: ars_next_def closed_stream_def del: fun_upd_apply add: fun_upd_same)

lemma ars_drain_stop:
  assumes "drain n (tr_next tr) (ars_stream st) = (bs, Stop, x)" "tr_aclose tr x = (Inr (), y)"
    and "as_store s i = Some st" "\<not> ars_closed st"
  shows "drain n (ars_next tr i) s = (bs, Stop, s\<lparr>as_store := (as_store s)(i \<mapsto> closed_stream st y),
     as_streams := (if ars_on_close st then filter (\<lambda>j. j \<noteq> i) (as_streams s) else as_streams s)\<rparr>)"
  using assms(1,3,4)
proof (induction n arbitrary: st bs s)
  case (Suc n)
  from Suc.prems(1) show ?case
  proof (cases rule: drain_StopE)
    case 1
    with Suc.prems assms(2) show ?thesis by (simp add: ars_next_stop del: fun_upd_apply)
  next
    case (2 b bs' x1 k)
    then have "drain n (tr_next tr) (ars_stream (st\<lparr>ars_stream := x1\<rparr>)) = (bs', Stop, x)"
      using Suc.prems(1) by (auto split: prod.splits)
    from Suc.IH [OF this, of "s\<lparr>as_store := (as_store s)(i \<mapsto> st\<lparr>ars_stream := x1\<rparr>)\<rparr>"] 2 Suc.prems(2,3)
    show ?thesis by (simp add: ars_next_open closed_stream_def fun_upd_same del: fun_upd_apply)
  qed
qed simp

lemma ars_drain_raise:
  assumes "drain n (tr_next tr) (ars_stream st) = (bs, Raise e, x)"
    and "as_store s i = Some st" "\<not> ars_closed st"
  shows "drain n (ars_next tr i) s = (bs, Raise e, s\<lparr>as_store := (as_store s)(i \<mapsto> st\<lparr>ars_stream := x\<rparr>)\<rparr>)"
  using assms
proof (induction n arbitrary: st bs s)
  case (Suc n)
  obtain r x1 where nx: "tr_next tr (ars_stream st) = (r, x1)" by (cases "tr_next tr (ars_stream st)")
  show ?case
  proof (cases r)
    case (Yield b)
    with Suc.prems(1) nx obtain bs' where bs: "bs = b # bs'"
      and d: "drain n (tr_next tr) (ars_stream (st\<lparr>ars_stream := x1\<rparr>)) = (bs', Raise e, x)"
      by (auto split: prod.splits)
    from Suc.IH [OF d, of "s\<lparr>as_store := (as_store s)(i \<mapsto> st\<lparr>ars_stream := x1\<rparr>)\<rparr>"] Suc.prems(2,3) nx Yield
    show ?thesis by (simp add: ars_next_open bs fun_upd_same del: fun_upd_apply)
  qed (use Suc.prems nx in \<open>auto simp: ars_next_open simp del: fun_upd_apply\<close>)
qed simp

text \<open>A stream opened by the session, in the state right after.\<close>

definition opened :: "('w, 'x, 's) async_session \<Rightarrow> 'w \<Rightarrow> ('x, 's) result_stream \<Rightarrow> nat list \<Rightarrow> ('w, 'x, 's) async_session" where
  "opened s w st streams =
     s\<lparr>as_transport := w, as_streams := streams, as_store := (as_store s)(as_fresh s \<mapsto> st), as_fresh := Suc (as_fresh s)\<rparr>"

lemma as_stream_opened:
  assumes "tr_stream tr q (as_transport s) = (Some (Inr x), w)" "tr_schema tr x = Inr schema"
  shows "as_stream tr q s = (Some (Inr (as_fresh s)),
     opened s w \<lparr>ars_stream = x, ars_schema = schema, ars_on_close = True, ars_closed = False\<rparr> (as_streams s @ [as_fresh s]))"
  using assms by (simp add: as_stream_def on_transport_def new_result_stream_def fdo_def opened_def)

lemma collect_batches_of_stream:
  assumes inv: "session_inv s"
    and stream: "tr_stream tr q (as_transport s) = (Some (Inr x), w)" "tr_schema tr x = Inr schema"
    and drain: "drain n (tr_next tr) x = (bs, Stop, x1)" and close: "tr_aclose tr x1 = (Inr (), x2)"
  shows "as_collect tr n q s = (Some (Inr (bs, schema)), opened s w
     \<lparr>ars_stream = x2, ars_schema = schema, ars_on_close = False, ars_closed = True\<rparr> (as_streams s))"
proof -
  let ?st = "\<lparr>ars_stream = x, ars_schema = schema, ars_on_close = True, ars_closed = False\<rparr>"
  let ?s = "opened s w ?st (as_streams s @ [as_fresh s])"
  have fresh: "as_fresh s \<notin> set (as_streams s)" using inv by (auto simp: session_inv_def)
  then have "filter (\<lambda>j. j \<noteq> as_fresh s) (as_streams s) = as_streams s" by (simp add: filter_id_conv) blast
  then have "drain n (ars_next tr (as_fresh s)) ?s = (bs, Stop, opened s w (closed_stream ?st x2) (as_streams s))"
    using ars_drain_stop [of n tr ?st bs x1 x2 ?s "as_fresh s"] drain close by (simp add: opened_def)
  moreover have "ars_aclose tr (as_fresh s) (opened s w (closed_stream ?st x2) (as_streams s)) =
      (Inr (), opened s w (closed_stream ?st x2) (as_streams s))"
    by (simp add: ars_aclose_def opened_def closed_stream_def)
  ultimately show ?thesis
    using as_stream_opened [OF stream]
    by (simp add: as_collect_def opened_def closed_stream_def)
qed

lemma collect_failed_stream:
  assumes inv: "session_inv s"
    and stream: "tr_stream tr q (as_transport s) = (Some (Inr x), w)" "tr_schema tr x = Inr schema"
    and drain: "drain n (tr_next tr) x = (bs, Raise e, x1)" and close: "tr_aclose tr x1 = (r, x2)"
  shows "as_collect tr n q s = (Some (Inl (case r of Inl e' \<Rightarrow> e' | Inr _ \<Rightarrow> e)), opened s w
     \<lparr>ars_stream = x2, ars_schema = schema, ars_on_close = False, ars_closed = True\<rparr> (as_streams s))"
proof -
  let ?st = "\<lparr>ars_stream = x, ars_schema = schema, ars_on_close = True, ars_closed = False\<rparr>"
  let ?s = "opened s w ?st (as_streams s @ [as_fresh s])"
  let ?s1 = "opened s w (?st\<lparr>ars_stream := x1\<rparr>) (as_streams s @ [as_fresh s])"
  have fresh: "as_fresh s \<notin> set (as_streams s)" using inv by (auto simp: session_inv_def)
  then have "filter (\<lambda>j. j \<noteq> as_fresh s) (as_streams s) = as_streams s" by (simp add: filter_id_conv) blast
  then have "ars_aclose tr (as_fresh s) ?s1 = (r, opened s w (closed_stream ?st x2) (as_streams s))"
    using close by (simp add: ars_aclose_def opened_def closed_stream_def)
  moreover have "drain n (ars_next tr (as_fresh s)) ?s = (bs, Raise e, ?s1)"
    using ars_drain_raise [of n tr ?st bs e x1 ?s "as_fresh s"] drain by (simp add: opened_def)
  ultimately show ?thesis
    using as_stream_opened [OF stream]
    by (cases r) (simp_all add: as_collect_def closed_stream_def)
qed

section \<open>The blocking session after close\<close>

lemma ss_close_final:
  assumes "\<not> ss_closed s" "ss_close pa tr alive order s = (r, s')"
  shows "ss_closed s' \<and> ss_bridge_closed s'"
  using assms by (auto simp: ss_close_def bridge_close_def split: prod.splits)

lemma run_sync_closed: "ss_closed s \<Longrightarrow> run_sync m s = (Some (Inl session_closed), s)"
  by (simp add: run_sync_def)

lemma ss_stream_closed: "ss_closed s \<Longrightarrow> ss_stream pa tr q s = (Some (Inl session_closed), s)"
  by (simp add: ss_stream_def run_sync_closed)

lemma bi_next_stopped:
  assumes "ss_bridge_closed s"
  shows "bi_next tr i s = ((if ss_iterators s i = Some False then Raise session_closed else Stop), s)"
  using assms by (simp add: bi_next_def)

end
