(* ===== verification/Loopback.thy ===== *)
theory Loopback
  imports Http_Client
begin

text \<open>
  The HTTP client against the HTTP application: \<open>loopback\<close> is the client environment whose network is the
  application itself. The lemmas follow one exchange through both sides: the path the client builds is
  routed to the right handler with the right parameters, the handler accepts the body the client encoded,
  and the client decodes what the handler answered. The result is that a remote call has the effect of the
  in-process call on the service, the same value, and the exception that the error tables prescribe.
\<close>

section \<open>The loopback environment\<close>

definition loopback ::
  "('n, 's, 't, 'e) app_env \<Rightarrow> (json \<Rightarrow> nat) \<Rightarrow> string \<Rightarrow> nat \<Rightarrow> ('n server \<times> rat, 'e) client_env" where
  "loopback env sz fid fuel =
     \<lparr>ce_send = (\<lambda>rq (s, t). case application env rq s of (r, s') \<Rightarrow> (r, (s', t))),
      ce_aclose = sret (),
      ce_body = encoded_ops list_ops (ae_encoder env) fuel,
      ce_size = sz,
      ce_now = snd,
      ce_sleep = (\<lambda>q (s, t). (s, t + q)),
      ce_fresh_id = (\<lambda>_. fid)\<rparr>"

definition connected :: "'n server \<Rightarrow> rat \<Rightarrow> ('n server \<times> rat) http_transport" where
  "connected srv t = \<lparr>ht_world = (srv, t), ht_owns_client = True, ht_closed = False\<rparr>"

text \<open>What the caller sees of an exception raised on the server.\<close>

definition remote_exc :: "string \<Rightarrow> exc \<Rightarrow> exc" where
  "remote_exc fid e =
     raise_remote_error (he_status (classify_server_error e fid)) (Some fid)
       (http_error_json (classify_server_error e fid))"

definition remote_outcome :: "string \<Rightarrow> 'a result \<Rightarrow> 'a result" where
  "remote_outcome fid r = (case r of Inl e \<Rightarrow> Inl (remote_exc fid e) | Inr x \<Rightarrow> Inr x)"

section \<open>Paths\<close>

definition route_safe :: "string \<Rightarrow> bool" where
  "route_safe s \<longleftrightarrow> s \<noteq> [] \<and> utf8_valid s \<and> CHR ''%'' \<notin> set s \<and> CHR ''/'' \<notin> set s \<and> CHR 10 \<notin> set s"

definition safe_identifier :: "table_identifier \<Rightarrow> bool" where
  "safe_identifier t \<longleftrightarrow> ti_catalog t \<noteq> [] \<and> list_all route_safe (identifier_segments t) \<and>
     (\<exists>d. choose_delimiter t = Inr d)"

lemma safe_identifier_wf: "safe_identifier t \<Longrightarrow> wf_identifier t"
  by (auto simp: safe_identifier_def wf_identifier_def identifier_segments_def route_safe_def list_all_iff)

lemma unquote_bytes_append_plain: "CHR ''%'' \<notin> set a \<Longrightarrow> unquote_bytes (a @ b) = a @ unquote_bytes b"
  by (induction a) (auto simp: unquote_bytes_plain simp del: unquote_bytes.simps)

lemma unquote_bytes_append_quote: "unquote_bytes (quote [] s @ b) = s @ unquote_bytes b"
proof (induction s)
  case (Cons c cs)
  have "quote [] (c # cs) = quote_char [] c @ quote [] cs" by (simp add: quote_def)
  then show ?case using Cons by (simp add: unquote_bytes_quote_char del: unquote_bytes.simps)
qed (simp add: quote_def)

lemma unquote_bytes_join:
  assumes "d \<noteq> CHR ''%''"
  shows "unquote_bytes (join [d] (map (quote []) segs) @ b) = join [d] segs @ unquote_bytes b"
  by (induction "[d]" segs rule: join.induct)
     (simp_all add: unquote_bytes_append_quote unquote_bytes_plain assms del: unquote_bytes.simps)

lemma ascii_join: "is_ascii d \<Longrightarrow> list_all (list_all is_ascii) xs \<Longrightarrow> list_all is_ascii (join [d] xs)"
  by (induction "[d]" xs rule: join.induct) auto

lemma unquote_path:
  assumes d: "is_ascii d" "d \<noteq> CHR ''%''" and segs: "list_all route_safe segs"
    and pre: "list_all is_ascii pre" "CHR ''%'' \<notin> set pre"
    and rest: "list_all is_ascii rest" "unquote_bytes rest = r" "utf8_valid r"
  shows "unquote (pre @ join [d] (map (quote []) segs) @ rest) = pre @ join [d] segs @ r"
proof -
  have "list_all (list_all is_ascii) (map (quote []) segs)" by (simp add: list_all_iff quote_ascii [unfolded list_all_iff])
  then have "list_all is_ascii (pre @ join [d] (map (quote []) segs) @ rest)"
    using pre rest ascii_join [OF d(1)] by simp
  moreover have "utf8_valid (pre @ join [d] segs @ r)"
    using segs d pre rest
    by (intro utf8_valid_append utf8_valid_join) (auto simp: list_all_iff route_safe_def ascii_utf8_valid ascii_tail)
  ultimately show ?thesis
    by (simp add: unquote_ascii unquote_bytes_append_plain pre unquote_bytes_join d rest(2) utf8_replace_valid)
qed

text \<open>The route the client builds for a safe identifier, and the path the server receives.\<close>

lemma table_path_safe:
  assumes "safe_identifier t"
  obtains d where "table_path t operation =
      Inr (''v1/table/'' @ join [d] (map (quote []) (identifier_segments t)) @ ''/'' @ operation, [d])"
    "d \<in> set ''$~!^|''" "list_all (\<lambda>s. d \<notin> set s) (identifier_segments t)"
proof -
  from assms obtain dl where dl: "choose_delimiter t = Inr dl" by (auto simp: safe_identifier_def)
  then obtain d where d: "dl = [d]" "d \<in> set ''$~!^|''" "list_all (\<lambda>s. d \<notin> set s) (identifier_segments t)"
    using route_delimiter_cases [of "identifier_segments t" dl] by (auto simp: choose_delimiter_def)
  have "encode_identifier_path t (JStr [d]) = Inr (join [d] (map (quote []) (identifier_segments t)), [d])"
    using route_delimiter_char [OF d(2)] d(3)
    by (subst encode_identifier_path_char) (auto simp: list_ex_iff list_all_iff)
  with dl d that show thesis by (simp add: table_path_def)
qed

lemma decode_safe:
  assumes "safe_identifier t" "d \<in> set ''$~!^|''" "list_all (\<lambda>s. d \<notin> set s) (identifier_segments t)"
  shows "decode_identifier_path (join [d] (identifier_segments t)) (JStr [d]) = Inr (identifier_segments t)"
proof -
  have "decode_identifier_path (join [d] (map id (identifier_segments t))) (JStr [d]) = Inr (identifier_segments t)"
    using route_delimiter_char [OF assms(2)] assms(1,3) identifier_segments_wf [OF safe_identifier_wf [OF assms(1)]]
    by (intro decode_joined_path) (auto simp: safe_identifier_def list_all_iff route_safe_def unquote_no_percent)
  then show ?thesis by simp
qed

lemma joined_no_newline:
  assumes "safe_identifier t" "d \<in> set ''$~!^|''"
  shows "CHR 10 \<notin> set (join [d] (identifier_segments t))"
  using set_join [of "[d]" "identifier_segments t"] assms
  by (auto simp: safe_identifier_def list_all_iff route_safe_def)

section \<open>One exchange\<close>

text \<open>The request a client sends for a JSON body.\<close>

definition json_post :: "(json \<Rightarrow> nat) \<Rightarrow> string \<Rightarrow> string \<Rightarrow> (string \<times> string) list \<Rightarrow> string \<Rightarrow> json \<Rightarrow> http_request" where
  "json_post sz fid path params accept body =
     \<lparr>hq_method = ''POST'', hq_path = path, hq_query = params,
      hq_headers = [(''accept'', accept), (''content-type'', ''application/json''),
                    (''content-length'', show_nat (sz body))],
      hq_chunks = [sz body], hq_json = Some body, hq_fresh_id = fid\<rparr>"

lemma parse_show_nat: "parse_int (show_nat n) = Some (int n)" if "n \<le> 1024 * 1024"
proof -
  have "n < 10 ^ 7" using that by simp
  then have "n < 10 ^ int_max_str_digits"
    by (rule less_le_trans) (simp add: int_max_str_digits_def del: power_numeral)
  then show ?thesis by (rule parse_int_show_nat)
qed

lemma json_post_body:
  assumes "sz (JObj kvs) \<le> error_body_limit"
  shows "json_body (json_post sz fid path params accept (JObj kvs)) = Inr kvs"
proof -
  have "check_content_length (Some (show_nat (sz (JObj kvs)))) = Inr ()"
    using parse_show_nat [of "sz (JObj kvs)"] assms
    by (simp add: check_content_length_def error_body_limit_def max_json_body_bytes_def)
  moreover have "before_char (CHR '';'') ''application/json'' = ''application/json''"
    by (simp add: before_char_def)
  ultimately show ?thesis
    using assms by (simp add: json_body_def json_post_def header_def error_body_limit_def max_json_body_bytes_def)
qed

lemma json_post_request_id: "request_id (json_post sz fid path params accept body) = fid"
  by (simp add: request_id_def json_post_def header_def)

definition answer :: "'e http_response \<Rightarrow> jobject result" where
  "answer rs =
     (if is_error_status (hp_status rs)
      then Inl (raise_remote_error (hp_status rs) (hp_request_id rs) (case hp_body rs of BodyJson v \<Rightarrow> v | _ \<Rightarrow> JNull))
      else case hp_body rs of
          BodyJson (JObj kvs) \<Rightarrow> Inr kvs
        | _ \<Rightarrow> Inl (stream_error ''ParqDB server returned invalid JSON''))"

definition answer_fits :: "(json \<Rightarrow> nat) \<Rightarrow> 'e http_response \<Rightarrow> bool" where
  "answer_fits sz rs \<longleftrightarrow> (case hp_body rs of BodyJson v \<Rightarrow> sz v \<le> error_body_limit | _ \<Rightarrow> True)"

lemma request_json_loopback:
  assumes "jfinite body"
    and app: "application env (json_post sz fid (CHR ''/'' # unquote path) params ''application/json'' body) srv = (Inr rs, srv')"
    and fits: "answer_fits sz rs"
  shows "request_json (loopback env sz fid fuel) ''POST'' path params (Some body) (connected srv t) =
     (answer rs, connected srv' t)"
proof -
  have "send_request (loopback env sz fid fuel) ''POST'' path params (Some body) ''application/json'' (connected srv t)
      = (Inr rs, connected srv' t)"
    using assms(1) app
    by (simp add: send_request_def build_request_def json_dumps_def loopback_def connected_def scatch_def
        world_call_def json_post_def)
  moreover have "response_json (loopback env sz fid fuel) rs = Inr (case hp_body rs of BodyJson v \<Rightarrow> v | _ \<Rightarrow> JNull)"
    using fits by (cases "hp_body rs") (simp_all add: response_json_def loopback_def answer_fits_def)
  moreover have "http_ensure_open (connected srv t) = (Inr (), connected srv t)"
    by (simp add: http_ensure_open_def connected_def)
  ultimately show ?thesis
    by (simp add: request_json_def answer_def sbind_apply split: http_body.splits json.splits)
qed

lemma status_range: "400 \<le> he_status (classify_server_error e fid) \<and> he_status (classify_server_error e fid) \<le> 599"
  using classify_status_range [of e fid] by simp

lemma answer_error: "answer (error_response rq e) = Inl (remote_exc (request_id rq) e)"
proof -
  have "he_request_id (classify_server_error e (request_id rq)) = request_id rq"
    by (simp add: classify_server_error_def split: option.splits)
  then show ?thesis using status_range [of e "request_id rq"]
    by (simp add: answer_def error_response_def Let_def is_error_status_def remote_exc_def)
qed

text \<open>A handler that runs one operation of the service and answers with an object.\<close>

definition json_operation ::
  "http_request \<Rightarrow> int \<Rightarrow> ('n service, 'a) cmd \<Rightarrow> ('a \<Rightarrow> jobject) \<Rightarrow> ('n server, 'e http_response) cmd" where
  "json_operation rq status op enc =
     sbind (with_service op) (\<lambda>x. slift (json_response rq status (JObj (enc x))))"

lemma json_operation_result:
  assumes "sr_service srv = Some svc" and "op svc = (r, svc')"
    and "\<And>e. r = Inl e \<Longrightarrow> isinstance_exc e Exception" and "\<And>x. r = Inr x \<Longrightarrow> jfinite (JObj (enc x))"
    and "\<not> is_error_status status"
  shows "\<exists>rs :: 'e http_response. handle rq (json_operation rq status op enc) srv = (Inr rs, srv\<lparr>sr_service := Some svc'\<rparr>) \<and>
     answer rs = remote_outcome (request_id rq) (rbind r (\<lambda>x. Inr (enc x)))"
proof (cases r)
  case (Inl e)
  then have "handle rq (json_operation rq status op enc) srv = (Inr (error_response rq e :: 'e http_response), srv\<lparr>sr_service := Some svc'\<rparr>)"
    using assms(1-3) by (simp add: handle_def json_operation_def scatch_def sbind_apply with_service_def)
  with Inl show ?thesis by (simp add: answer_error remote_outcome_def)
next
  case (Inr x)
  then have "handle rq (json_operation rq status op enc) srv =
      (Inr \<lparr>hp_status = status, hp_content_type = ''application/json'', hp_request_id = Some (request_id rq),
            hp_body = BodyJson (JObj (enc x)) :: 'e http_body\<rparr>, srv\<lparr>sr_service := Some svc'\<rparr>)"
    using assms(1,2,4) by (simp add: handle_def json_operation_def scatch_def sbind_apply with_service_def
        json_response_def json_dumps_def)
  with Inr assms(5) show ?thesis by (simp add: answer_def remote_outcome_def)
qed

text \<open>The request fits the server's limit and the server's answer to it fits the client's.\<close>

definition exchange_fits ::
  "('n, 's, 't, 'e) app_env \<Rightarrow> (json \<Rightarrow> nat) \<Rightarrow> string \<Rightarrow> 'n server \<Rightarrow> string \<Rightarrow> (string \<times> string) list \<Rightarrow> json \<Rightarrow> bool" where
  "exchange_fits env sz fid srv path params body \<longleftrightarrow> sz body \<le> error_body_limit \<and>
     (\<forall>rs srv'. application env (json_post sz fid (CHR ''/'' # unquote path) params ''application/json'' body) srv
        = (Inr rs, srv') \<longrightarrow> answer_fits sz rs)"

text \<open>What a table handler may assume of the request, and what has to follow for the exchange.\<close>

definition serves ::
  "('n server, 'e http_response) cmd \<Rightarrow> 'n server \<Rightarrow> jobject result \<Rightarrow> 'n server \<Rightarrow> bool" where
  "serves m srv r srv' \<longleftrightarrow> (\<exists>rs. m srv = (Inr rs, srv') \<and> answer rs = r)"

definition plain_operation :: "string \<Rightarrow> bool" where
  "plain_operation operation \<longleftrightarrow> list_all is_ascii operation \<and> CHR ''%'' \<notin> set operation"

lemma plain_operations:
  "table_endpoint operation = Some ep \<Longrightarrow> plain_operation operation"
  "index_endpoint operation = Some ep \<Longrightarrow> plain_operation operation"
  by (auto simp: table_endpoint_def index_endpoint_def plain_operation_def is_ascii_def split: if_splits)

lemma table_routed:
  assumes safe: "safe_identifier t" and ep: "table_endpoint operation = Some ep"
    and path: "table_path t operation = Inr p" and fits: "sz (JObj kvs) \<le> error_body_limit"
  obtains tid where
    "application env (json_post sz fid (CHR ''/'' # unquote (fst p)) (route_params p) accept (JObj kvs)) srv =
       run_endpoint env (json_post sz fid (CHR ''/'' # unquote (fst p)) (route_params p) accept (JObj kvs)) ep [tid] srv"
    "json_body (json_post sz fid (CHR ''/'' # unquote (fst p)) (route_params p) accept (JObj kvs)) = Inr kvs"
    "validate_route_identifier (json_post sz fid (CHR ''/'' # unquote (fst p)) (route_params p) accept (JObj kvs)) tid t = Inr ()"
proof -
  obtain d where p: "p = (''v1/table/'' @ join [d] (map (quote []) (identifier_segments t)) @ ''/'' @ operation, [d])"
    and d: "d \<in> set ''$~!^|''" "list_all (\<lambda>s. d \<notin> set s) (identifier_segments t)"
    using table_path_safe [OF safe, of operation] path by auto
  note dc = route_delimiter_char [OF d(1)]
  let ?tid = "join [d] (identifier_segments t)"
  let ?rq = "json_post sz fid (CHR ''/'' # unquote (fst p)) (route_params p) accept (JObj kvs)"
  have plain: "plain_operation operation" using plain_operations(1) [OF ep] .
  have "list_all is_ascii (CHR ''/'' # operation)" "CHR ''%'' \<notin> set (CHR ''/'' # operation)"
    using plain by (simp_all add: plain_operation_def is_ascii_def)
  then have "unquote (''v1/table/'' @ join [d] (map (quote []) (identifier_segments t)) @ CHR ''/'' # operation)
      = ''v1/table/'' @ ?tid @ CHR ''/'' # operation"
    using dc safe by (intro unquote_path ascii_utf8_valid unquote_bytes_no_percent)
       (simp_all add: safe_identifier_def is_ascii_def)
  then have url: "hq_path ?rq = ''/v1/table/'' @ ?tid @ CHR ''/'' # operation"
    by (simp add: json_post_def p)
  have "find_route ''POST'' (hq_path ?rq) = Some (ep, [?tid])"
    unfolding url by (rule find_route_table [OF ep joined_no_newline [OF safe d(1)]])
  then have "application env ?rq srv = run_endpoint env ?rq ep [?tid] srv"
    by (simp add: application_def json_post_def)
  moreover have "query_param ?rq ''delimiter'' default_identifier_delimiter = [d]"
    by (simp add: query_param_def json_post_def route_params_def p)
  then have "validate_route_identifier ?rq ?tid t = Inr ()"
    by (simp add: validate_route_identifier_def decode_safe [OF safe d] identifier_matches_path_def)
  ultimately show thesis using that [of ?tid] json_post_body [where sz = sz and kvs = kvs, OF fits] by simp
qed

lemma table_exchange:
  assumes safe: "safe_identifier t" and ep: "table_endpoint operation = Some ep"
    and path: "table_path t operation = Inr p" and fin: "jfinite (JObj kvs)"
    and fits: "exchange_fits env sz fid srv (fst p) (route_params p) (JObj kvs)"
    and serve: "\<And>rq tid. json_body rq = Inr kvs \<Longrightarrow> validate_route_identifier rq tid t = Inr () \<Longrightarrow>
      request_id rq = fid \<Longrightarrow> serves (run_endpoint env rq ep [tid]) srv r srv'"
  shows "post_json (loopback env sz fid fuel) p (JObj kvs) (connected srv \<tau>) = (r, connected srv' \<tau>)"
proof -
  let ?rq = "json_post sz fid (CHR ''/'' # unquote (fst p)) (route_params p) ''application/json'' (JObj kvs)"
  have "sz (JObj kvs) \<le> error_body_limit" using fits by (simp add: exchange_fits_def)
  from table_routed [where sz = sz and kvs = kvs and env = env and fid = fid and accept = "''application/json''" and srv = srv,
      OF safe ep path this] obtain tid where
    app: "application env ?rq srv = run_endpoint env ?rq ep [tid] srv" "json_body ?rq = Inr kvs"
      "validate_route_identifier ?rq tid t = Inr ()" .
  then obtain rs where "application env ?rq srv = (Inr rs, srv')" "answer rs = r"
    using serve [of ?rq tid] by (auto simp: serves_def json_post_request_id)
  with request_json_loopback [OF fin, of env sz fid "fst p" "route_params p" srv rs srv' fuel \<tau>] fits
  show ?thesis by (simp add: post_json_def exchange_fits_def)
qed

lemma index_exchange:
  assumes safe: "safe_identifier t" "route_safe i" and ep: "index_endpoint operation = Some ep"
    and path: "index_path t (JStr i) operation = Inr p" and fin: "jfinite (JObj kvs)"
    and fits: "exchange_fits env sz fid srv (fst p) (route_params p) (JObj kvs)"
    and serve: "\<And>rq tid. json_body rq = Inr kvs \<Longrightarrow> validate_route_identifier rq tid t = Inr () \<Longrightarrow>
      request_id rq = fid \<Longrightarrow> serves (run_endpoint env rq ep [tid, i]) srv r srv'"
  shows "post_json (loopback env sz fid fuel) p (JObj kvs) (connected srv \<tau>) = (r, connected srv' \<tau>)"
proof -
  have plain: "plain_operation operation" using plain_operations(2) [OF ep] .
  let ?rest = "''index/'' @ quote [] i @ ''/'' @ operation"
  from path have tp: "table_path t ?rest = Inr p" by (auto simp: index_path_def split: if_splits)
  obtain d where p: "p = (''v1/table/'' @ join [d] (map (quote []) (identifier_segments t)) @ ''/'' @ ?rest, [d])"
    and d: "d \<in> set ''$~!^|''" "list_all (\<lambda>s. d \<notin> set s) (identifier_segments t)"
    using table_path_safe [OF safe(1), of ?rest] tp by auto
  note dc = route_delimiter_char [OF d(1)]
  let ?tid = "join [d] (identifier_segments t)"
  let ?rq = "json_post sz fid (CHR ''/'' # unquote (fst p)) (route_params p) ''application/json'' (JObj kvs)"
  have ascii: "list_all is_ascii (CHR ''/'' # operation)" "list_all is_ascii ''/index/''"
    using plain by (simp_all add: plain_operation_def is_ascii_def)
  have "unquote_bytes (''/index/'' @ quote [] i @ CHR ''/'' # operation) = ''/index/'' @ i @ CHR ''/'' # operation"
    using plain by (subst unquote_bytes_append_plain, simp, subst unquote_bytes_append_quote,
        subst unquote_bytes_no_percent) (simp_all add: plain_operation_def)
  moreover have "utf8_valid (''/index/'' @ i @ CHR ''/'' # operation)"
    using safe(2) ascii_utf8_valid [OF ascii(1)] ascii_utf8_valid [OF ascii(2)]
    by (intro utf8_valid_append) (simp_all add: route_safe_def del: utf8_valid.simps)
  moreover have "list_all is_ascii (''/index/'' @ quote [] i @ CHR ''/'' # operation)"
    using ascii quote_ascii [of "[]" i] by simp
  ultimately have "unquote (''v1/table/'' @ join [d] (map (quote []) (identifier_segments t)) @
      ''/index/'' @ quote [] i @ CHR ''/'' # operation) = ''v1/table/'' @ ?tid @ ''/index/'' @ i @ CHR ''/'' # operation"
    using dc safe(1) by (intro unquote_path) (simp_all add: safe_identifier_def is_ascii_def)
  then have url: "hq_path ?rq = ''/v1/table/'' @ ?tid @ ''/index/'' @ i @ CHR ''/'' # operation"
    by (simp add: json_post_def p)
  have "find_route ''POST'' (hq_path ?rq) = Some (ep, [?tid, i])"
    unfolding url using safe(2)
    by (intro find_route_index [OF ep joined_no_newline [OF safe(1) d(1)]]) (simp_all add: route_safe_def)
  then have app: "application env ?rq srv = run_endpoint env ?rq ep [?tid, i] srv"
    by (simp add: application_def json_post_def)
  have "json_body ?rq = Inr kvs" using fits by (intro json_post_body) (simp add: exchange_fits_def)
  moreover have "query_param ?rq ''delimiter'' default_identifier_delimiter = [d]"
    by (simp add: query_param_def json_post_def route_params_def p)
  then have "validate_route_identifier ?rq ?tid t = Inr ()"
    by (simp add: validate_route_identifier_def decode_safe [OF safe(1) d] identifier_matches_path_def)
  ultimately obtain rs where "application env ?rq srv = (Inr rs, srv')" "answer rs = r"
    using serve [of ?rq ?tid] by (auto simp: app serves_def json_post_request_id)
  with request_json_loopback [OF fin, of env sz fid "fst p" "route_params p" srv rs srv' fuel \<tau>] fits
  show ?thesis by (simp add: post_json_def exchange_fits_def)
qed

section \<open>Operations\<close>

lemma identifier_finite: "jfinite (identifier_to_json t)"
  by (simp add: identifier_to_json_def list_all_iff)

lemma serves_operation:
  assumes "m = handle rq (json_operation rq status op enc)"
    and "sr_service srv = Some svc" "op svc = (r, svc')"
    and "\<And>e. r = Inl e \<Longrightarrow> isinstance_exc e Exception" "\<And>x. r = Inr x \<Longrightarrow> jfinite (JObj (enc x))"
    and "\<not> is_error_status status" "request_id rq = fid"
  shows "serves m srv (remote_outcome fid (rbind r (\<lambda>x. Inr (enc x)))) (srv\<lparr>sr_service := Some svc'\<rparr>)"
  using json_operation_result [of srv svc op r svc' enc status rq] assms by (auto simp: serves_def)

lemma scoped_index_ok:
  "route_safe i \<Longrightarrow> jget body ''index'' = JStr i \<Longrightarrow> scoped_index i body = Inr i"
  by (simp add: scoped_index_def required_string_def route_safe_def unquote_no_percent)

lemma only_fields_Inr: "only_fields allowed body = Inr () \<longleftrightarrow> set (jkeys body) \<subseteq> set allowed"
proof -
  have "only_fields allowed body = Inr () \<longleftrightarrow> filter (\<lambda>k. k \<notin> set allowed) (jkeys body) = []"
    by (subst sort_remdups_Nil [symmetric]) (simp add: only_fields_def split: list.splits)
  then show ?thesis by (auto simp: filter_empty_conv)
qed

lemma only_fields_ok [simp]: "set (jkeys body) \<subseteq> set allowed \<Longrightarrow> only_fields allowed body = Inr ()"
  by (simp add: only_fields_Inr)

lemma http_ensure_open_connected [simp]: "http_ensure_open (connected srv t) = (Inr (), connected srv t)"
  by (simp add: http_ensure_open_def connected_def)

text \<open>A post that the service answers: the outcome of the operation, as the error tables translate it.\<close>

lemma table_call:
  assumes "safe_identifier t" "table_endpoint operation = Some ep" "table_path t operation = Inr p"
    and "jfinite (JObj kvs)" "exchange_fits env sz fid srv (fst p) (route_params p) (JObj kvs)"
    and "\<And>rq tid. json_body rq = Inr kvs \<Longrightarrow> validate_route_identifier rq tid t = Inr () \<Longrightarrow>
      run_endpoint env rq ep [tid] = handle rq (json_operation rq status op enc)"
    and "sr_service srv = Some svc" "op svc = (r, svc')"
    and "\<And>e. r = Inl e \<Longrightarrow> isinstance_exc e Exception" "\<And>x. r = Inr x \<Longrightarrow> jfinite (JObj (enc x))"
    and "\<not> is_error_status status"
  shows "post_json (loopback env sz fid fuel) p (JObj kvs) (connected srv \<tau>) =
     (remote_outcome fid (rbind r (\<lambda>x. Inr (enc x))), connected (srv\<lparr>sr_service := Some svc'\<rparr>) \<tau>)"
  by (rule table_exchange [OF assms(1-5)], rule serves_operation [OF assms(6) assms(7-11)])

lemma index_call:
  assumes "safe_identifier t" "route_safe i" "index_endpoint operation = Some ep"
    and "index_path t (JStr i) operation = Inr p"
    and "jfinite (JObj kvs)" "exchange_fits env sz fid srv (fst p) (route_params p) (JObj kvs)"
    and "\<And>rq tid. json_body rq = Inr kvs \<Longrightarrow> validate_route_identifier rq tid t = Inr () \<Longrightarrow>
      run_endpoint env rq ep [tid, i] = handle rq (json_operation rq status op enc)"
    and "sr_service srv = Some svc" "op svc = (r, svc')"
    and "\<And>e. r = Inl e \<Longrightarrow> isinstance_exc e Exception" "\<And>x. r = Inr x \<Longrightarrow> jfinite (JObj (enc x))"
    and "\<not> is_error_status status"
  shows "post_json (loopback env sz fid fuel) p (JObj kvs) (connected srv \<tau>) =
     (remote_outcome fid (rbind r (\<lambda>x. Inr (enc x))), connected (srv\<lparr>sr_service := Some svc'\<rparr>) \<tau>)"
  by (rule index_exchange [OF assms(1-6)], rule serves_operation [OF assms(7) assms(8-12)])

lemmas endpoint_simps = run_endpoint_def table_param_def index_param_def json_operation_def Let_def
  scoped_identifier_def scoped_index_ok safe_identifier_wf identifier_codec.decode_encode

lemma index_body_simps [simp]:
  "jget (index_body t i @ rest) ''source'' = identifier_to_json t" "jget (index_body t i @ rest) ''index'' = JStr i"
  "jget (index_body t i) ''source'' = identifier_to_json t" "jget (index_body t i) ''index'' = JStr i"
  "jkeys (index_body t i) = [''source'', ''index'']"
  "k \<noteq> ''source'' \<Longrightarrow> k \<noteq> ''index'' \<Longrightarrow> jget (index_body t i @ rest) k = jget rest k"
  "jkeys (index_body t i @ rest) = ''source'' # ''index'' # jkeys rest"
  by (simp_all add: index_body_def jget_def jkeys_def)

lemma index_body_finite [simp]: "list_all (\<lambda>kv. jfinite (snd kv)) (index_body t i)"
  by (simp add: index_body_def identifier_finite)

lemma ivf_finite: "jfinite (ivf_to_json c)"
  and writer_options_finite: "jfinite (writer_options_to_json w)"
  by (cases w; simp add: ivf_to_json_def writer_options_to_json_def opt_json_def split: option.splits)+

lemma remote_drop_index:
  assumes safe: "safe_identifier t" "route_safe i" and path: "index_path t (JStr i) ''drop'' = Inr p"
    and svc: "sr_service srv = Some svc" "svc_drop_index (ae_native env) t i svc = (r, svc')"
    and exc: "\<And>e. r = Inl e \<Longrightarrow> isinstance_exc e Exception"
    and fits: "exchange_fits env sz fid srv (fst p) (route_params p) (JObj (index_body t i))"
  shows "http_drop_index (loopback env sz fid fuel) t i (connected srv \<tau>) =
     (remote_outcome fid r, connected (srv\<lparr>sr_service := Some svc'\<rparr>) \<tau>)"
proof -
  have "post_json (loopback env sz fid fuel) p (JObj (index_body t i)) (connected srv \<tau>) =
      (remote_outcome fid (rbind r (\<lambda>_. Inr [(''dropped'', JBool True)])), connected (srv\<lparr>sr_service := Some svc'\<rparr>) \<tau>)"
    by (rule index_call [OF safe _ path _ fits, where ep = EpDropIndex and status = 200 and
          op = "svc_drop_index (ae_native env) t i"])
       (use safe svc exc in
         \<open>auto simp: index_endpoint_def endpoint_simps drop_index_operation_def is_error_status_def\<close>)
  then show ?thesis using path by (cases r) (simp_all add: http_drop_index_def remote_outcome_def)
qed

lemma remote_register_index:
  assumes safe: "safe_identifier t" "route_safe i" and path: "index_path t (JStr i) ''register'' = Inr p"
    and svc: "sr_service srv = Some svc" "svc_register_index (ae_native env) t i (JStr location) svc = (r, svc')"
    and "location \<noteq> []" and exc: "\<And>e. r = Inl e \<Longrightarrow> isinstance_exc e Exception"
    and fits: "exchange_fits env sz fid srv (fst p) (route_params p)
      (JObj (index_body t i @ [(''manifest_location'', JStr location)]))"
  shows "http_register_index (loopback env sz fid fuel) t i (JStr location) (connected srv \<tau>) =
     (remote_outcome fid r, connected (srv\<lparr>sr_service := Some svc'\<rparr>) \<tau>)"
proof -
  have "post_json (loopback env sz fid fuel) p (JObj (index_body t i @ [(''manifest_location'', JStr location)])) (connected srv \<tau>) =
      (remote_outcome fid (rbind r (\<lambda>_. Inr [(''registered'', JBool True)])), connected (srv\<lparr>sr_service := Some svc'\<rparr>) \<tau>)"
    by (rule index_call [OF safe _ path _ fits, where ep = EpRegisterIndex and status = 200 and
          op = "svc_register_index (ae_native env) t i (JStr location)"])
       (use safe svc exc \<open>location \<noteq> []\<close> in
         \<open>auto simp: index_endpoint_def endpoint_simps register_index_operation_def is_error_status_def
            required_string_def\<close>)
  then show ?thesis using path by (cases r) (simp_all add: http_register_index_def remote_outcome_def)
qed

lemma status_finite: "wf_index_status st \<Longrightarrow> \<exists>kvs. index_status_to_json st = JObj kvs \<and> jfinite (JObj kvs)"
  by (auto simp: index_status_to_json_def wf_index_status_def finite_opt_def opt_json_def split: option.splits)

lemma remote_index_status:
  assumes safe: "safe_identifier t" "route_safe i" and path: "index_path t (JStr i) ''stats'' = Inr p"
    and svc: "sr_service srv = Some svc" "svc_index_status (ae_native env) t i svc = (r, svc')"
    and exc: "\<And>e. r = Inl e \<Longrightarrow> isinstance_exc e Exception" and wf: "\<And>st. r = Inr st \<Longrightarrow> wf_index_status st"
    and fits: "exchange_fits env sz fid srv (fst p) (route_params p) (JObj (index_body t i))"
  shows "http_index_status (loopback env sz fid fuel) t i (connected srv \<tau>) =
     (remote_outcome fid r, connected (srv\<lparr>sr_service := Some svc'\<rparr>) \<tau>)"
proof -
  define enc where "enc st = (case index_status_to_json st of JObj kvs \<Rightarrow> kvs | _ \<Rightarrow> [])" for st
  have enc: "index_status_to_json st = JObj (enc st)" for st
    by (simp add: enc_def index_status_to_json_def)
  have "post_json (loopback env sz fid fuel) p (JObj (index_body t i)) (connected srv \<tau>) =
      (remote_outcome fid (rbind r (\<lambda>st. Inr (enc st))), connected (srv\<lparr>sr_service := Some svc'\<rparr>) \<tau>)"
    by (rule index_call [OF safe _ path _ fits, where ep = EpIndexStatus and status = 200 and
          op = "svc_index_status (ae_native env) t i"])
       (use safe svc exc status_finite wf in
         \<open>auto simp: index_endpoint_def endpoint_simps index_status_operation_def is_error_status_def enc\<close>)
  moreover have "index_status_from_json (JObj (enc st)) = Inr st" if "r = Inr st" for st
    using index_status_codec.decode_encode [OF wf [OF that]] by (simp add: enc)
  ultimately show ?thesis using path by (cases r) (simp_all add: http_index_status_def remote_outcome_def)
qed

lemma remote_list_indexes:
  assumes safe: "safe_identifier t" and path: "table_path t ''index/list'' = Inr p"
    and svc: "sr_service srv = Some svc" "svc_list_indexes (ae_native env) t svc = (r, svc')"
    and exc: "\<And>e. r = Inl e \<Longrightarrow> isinstance_exc e Exception" and wf: "\<And>xs. r = Inr xs \<Longrightarrow> list_all wf_index_info xs"
    and fits: "exchange_fits env sz fid srv (fst p) (route_params p) (JObj [(''source'', identifier_to_json t)])"
  shows "http_list_indexes (loopback env sz fid fuel) t (connected srv \<tau>) =
     (remote_outcome fid r, connected (srv\<lparr>sr_service := Some svc'\<rparr>) \<tau>)"
proof -
  have info: "jfinite (index_info_to_json x)" for x
    by (auto simp: index_info_to_json_def list_all_iff)
  have "post_json (loopback env sz fid fuel) p (JObj [(''source'', identifier_to_json t)]) (connected srv \<tau>) =
      (remote_outcome fid (rbind r (\<lambda>xs. Inr [(''indexes'', JArr (map index_info_to_json xs))])),
       connected (srv\<lparr>sr_service := Some svc'\<rparr>) \<tau>)"
    by (rule table_call [OF safe _ path _ fits, where ep = EpListIndexes and status = 200 and
          op = "svc_list_indexes (ae_native env) t"])
       (use safe svc exc info in \<open>auto simp: table_endpoint_def endpoint_simps list_indexes_operation_def
          is_error_status_def identifier_finite list_all_iff\<close>)
  moreover have "traverse index_info_from_json (map index_info_to_json xs) = Inr xs" if "r = Inr xs" for xs
    by (rule index_info_codec.decode_list [OF wf [OF that]])
  ultimately show ?thesis using path
    by (cases r) (simp_all add: http_list_indexes_def remote_outcome_def Let_def)
qed

lemma query_finite: "wf_vector_query q \<Longrightarrow> \<exists>kvs. vector_query_to_json q = JObj kvs \<and> jfinite (JObj kvs)"
  by (auto simp: vector_query_to_json_def wf_vector_query_def identifier_finite list_all_iff opt_json_def
      split: option.splits)

lemma remote_to_sql:
  assumes safe: "safe_identifier (vq_source q)" "wf_vector_query q" and path: "table_path (vq_source q) ''to_sql'' = Inr p"
    and svc: "sr_service srv = Some svc" "svc_to_sql (ae_native env) (QueryVector q) svc = (r, svc')"
    and exc: "\<And>e. r = Inl e \<Longrightarrow> isinstance_exc e Exception"
    and fits: "exchange_fits env sz fid srv (fst p) (route_params p) (vector_query_to_json q)"
  shows "http_to_sql (loopback env sz fid fuel) (QueryVector q) (connected srv \<tau>) =
     (remote_outcome fid r, connected (srv\<lparr>sr_service := Some svc'\<rparr>) \<tau>)"
proof -
  obtain kvs where kvs: "vector_query_to_json q = JObj kvs" "jfinite (JObj kvs)"
    using query_finite [OF safe(2)] by blast
  have dec: "vector_query_from_json (JObj kvs) = Inr q"
    using vector_query_codec.decode_encode [OF safe(2)] by (simp add: kvs)
  have "post_json (loopback env sz fid fuel) p (JObj kvs) (connected srv \<tau>) =
      (remote_outcome fid (rbind r (\<lambda>sql. Inr [(''sql'', JStr sql)])), connected (srv\<lparr>sr_service := Some svc'\<rparr>) \<tau>)"
    by (rule table_call [OF safe(1) _ path kvs(2) fits [unfolded kvs(1)], where ep = EpToSql and status = 200 and
          op = "svc_to_sql (ae_native env) (QueryVector q)"])
       (use svc exc dec in \<open>auto simp: table_endpoint_def endpoint_simps to_sql_operation_def is_error_status_def\<close>)
  then show ?thesis using path
    by (cases r) (simp_all add: http_to_sql_def remote_outcome_def kvs string_field_def)
qed

lemma remote_explain:
  assumes safe: "safe_identifier (vq_source q)" "wf_vector_query q" and path: "table_path (vq_source q) ''explain'' = Inr p"
    and svc: "sr_service srv = Some svc" "svc_explain (ae_native env) (QueryVector q) verbose analyze svc = (r, svc')"
    and exc: "\<And>e. r = Inl e \<Longrightarrow> isinstance_exc e Exception"
    and fits: "exchange_fits env sz fid srv (fst p) (route_params p)
      (JObj [(''query'', vector_query_to_json q), (''verbose'', JBool verbose), (''analyze'', JBool analyze)])"
  shows "http_explain (loopback env sz fid fuel) (QueryVector q) verbose analyze (connected srv \<tau>) =
     (remote_outcome fid r, connected (srv\<lparr>sr_service := Some svc'\<rparr>) \<tau>)"
proof -
  let ?body = "[(''query'', vector_query_to_json q), (''verbose'', JBool verbose), (''analyze'', JBool analyze)]"
  have fin: "jfinite (JObj ?body)" using query_finite [OF safe(2)] by auto
  have "post_json (loopback env sz fid fuel) p (JObj ?body) (connected srv \<tau>) =
      (remote_outcome fid (rbind r (\<lambda>plan. Inr [(''plan'', JStr plan)])), connected (srv\<lparr>sr_service := Some svc'\<rparr>) \<tau>)"
    by (rule table_call [OF safe(1) _ path fin fits, where ep = EpExplain and status = 200 and
          op = "svc_explain (ae_native env) (QueryVector q) verbose analyze"])
       (use svc exc vector_query_codec.decode_encode [OF safe(2)] in
         \<open>auto simp: table_endpoint_def endpoint_simps explain_table_operation_def is_error_status_def app_boolean_def jget_or_def\<close>)
  then show ?thesis using path
    by (cases r) (simp_all add: http_explain_def remote_outcome_def string_field_def)
qed

lemma remote_deregister_table:
  assumes safe: "safe_identifier t" and path: "table_path t ''deregister'' = Inr p"
    and svc: "sr_service srv = Some svc" "svc_deregister_table (ae_native env) (RefIdentifier t) svc = (r, svc')"
    and exc: "\<And>e. r = Inl e \<Longrightarrow> isinstance_exc e Exception"
    and fits: "exchange_fits env sz fid srv (fst p) (route_params p) (JObj [(''identifier'', identifier_to_json t)])"
  shows "http_deregister_table (loopback env sz fid fuel) n (RefIdentifier t) (connected srv \<tau>) =
     (Some (remote_outcome fid r), connected (srv\<lparr>sr_service := Some svc'\<rparr>) \<tau>)"
proof -
  have "post_json (loopback env sz fid fuel) p (JObj [(''identifier'', identifier_to_json t)]) (connected srv \<tau>) =
      (remote_outcome fid (rbind r (\<lambda>_. Inr [(''deregistered'', JBool True)])), connected (srv\<lparr>sr_service := Some svc'\<rparr>) \<tau>)"
    by (rule table_call [OF safe _ path _ fits, where ep = EpDeregister and status = 200 and
          op = "svc_deregister_table (ae_native env) (RefIdentifier t)"])
       (use safe svc exc in \<open>auto simp: table_endpoint_def endpoint_simps deregister_table_operation_def
          is_error_status_def identifier_finite\<close>)
  then show ?thesis using path
    by (cases r) (simp_all add: http_deregister_table_def resolve_identifier_def remote_outcome_def fdo_def)
qed

definition portable_create :: "create_request \<Rightarrow> bool" where
  "portable_create c \<longleftrightarrow> safe_identifier (cr_identifier c) \<and> cr_index c \<noteq> [] \<and> cr_column c \<noteq> [] \<and>
     cr_key c \<noteq> [] \<and> list_all (\<lambda>s. s \<noteq> []) (cr_key c) \<and>
     (\<exists>i. cr_config c = ConfigIvf i \<and> wf_ivf i) \<and>
     (cr_writer_options c = WriterNone \<or> (\<exists>w. cr_writer_options c = WriterOptions w \<and> wf_write_options w)) \<and>
     cr_wait_timeout c = None"

definition create_body :: "create_request \<Rightarrow> ivf \<Rightarrow> write_options option \<Rightarrow> jobject" where
  "create_body c i w =
     [(''source'', identifier_to_json (cr_identifier c)), (''index'', JStr (cr_index c)),
      (''column'', JStr (cr_column c)), (''key'', JArr (map JStr (cr_key c))), (''config'', ivf_to_json i),
      (''writer_options'', writer_options_to_json w)]"

lemma traverse_required: "list_all (\<lambda>s. s \<noteq> []) xs \<Longrightarrow> traverse (required_string nm) (map JStr xs) = Inr xs"
  by (induction xs) (simp_all add: required_string_def)

lemma remote_create_index:
  assumes ok: "portable_create c" and path: "table_path (cr_identifier c) ''create_index'' = Inr p"
    and i: "cr_config c = ConfigIvf i" and w: "cr_writer_options c = writer_arg_of w"
    and svc: "sr_service srv = Some svc" "svc_create_index (ae_native env) c svc = (r, svc')"
    and exc: "\<And>e. r = Inl e \<Longrightarrow> isinstance_exc e Exception"
    and fits: "exchange_fits env sz fid srv (fst p) (route_params p) (JObj (create_body c i w))"
  shows "http_create_index (loopback env sz fid fuel) n c (connected srv \<tau>) =
     (Some (remote_outcome fid r), connected (srv\<lparr>sr_service := Some svc'\<rparr>) \<tau>)"
proof -
  have safe: "safe_identifier (cr_identifier c)" and wf: "wf_ivf i" "wf_writer_options_opt w"
    and strings: "cr_index c \<noteq> []" "cr_column c \<noteq> []" "cr_key c \<noteq> []" "list_all (\<lambda>s. s \<noteq> []) (cr_key c)"
    and wait: "cr_wait_timeout c = None"
    using ok i w by (auto simp: portable_create_def wf_writer_options_opt_def writer_arg_of_def split: option.splits)
  have c: "\<lparr>cr_identifier = cr_identifier c, cr_index = cr_index c, cr_column = cr_column c, cr_key = cr_key c,
      cr_config = ConfigIvf i, cr_writer_options = writer_arg_of w, cr_wait_timeout = None\<rparr> = c"
    using i w wait by simp
  have dec: "ivf_from_json (ivf_to_json i) = Inr i" "writer_options_from_json (writer_options_to_json w) = Inr w"
    using ivf_codec.decode_encode [OF wf(1)] writer_options_codec.decode_encode [OF wf(2)] by simp_all
  have "post_json (loopback env sz fid fuel) p (JObj (create_body c i w)) (connected srv \<tau>) =
      (remote_outcome fid (rbind r (\<lambda>_. Inr [(''accepted'', JBool True)])), connected (srv\<lparr>sr_service := Some svc'\<rparr>) \<tau>)"
    by (rule table_call [OF safe _ path _ fits, where ep = EpCreateIndex and status = 202 and
          op = "svc_create_index (ae_native env) c"])
       (use safe svc exc strings dec in \<open>auto simp: table_endpoint_def endpoint_simps create_index_operation_def
          is_error_status_def identifier_finite create_body_def ivf_finite writer_options_finite
          list_all_iff required_string_def string_array_def traverse_required [unfolded list_all_iff] c\<close>)
  moreover have "writer_arg_to_json (cr_writer_options c) = Inr (writer_options_to_json w)"
    by (cases w) (simp_all add: writer_arg_to_json_def w writer_arg_of_def writer_options_to_json_def)
  ultimately show ?thesis using path i
    by (cases r) (simp_all add: http_create_index_def remote_outcome_def fdo_def wait_if_def wait
        config_to_json_def check_config_def create_body_def fbind_def)
qed

section \<open>Listing tables page by page\<close>

definition page_get :: "string \<Rightarrow> string option \<Rightarrow> http_request" where
  "page_get fid token =
     \<lparr>hq_method = ''GET'', hq_path = ''/v1/table'', hq_query = page_params token,
      hq_headers = [(''accept'', ''application/json'')], hq_chunks = [], hq_json = None, hq_fresh_id = fid\<rparr>"

definition pages_fit :: "(json \<Rightarrow> nat) \<Rightarrow> table_identifier list \<Rightarrow> bool" where
  "pages_fit sz ts \<longleftrightarrow> (\<forall>offset. sz (page_of 1000 offset ts) \<le> error_body_limit)"

lemma parse_1000: "parse_int ''1000'' = Some 1000" and parse_0: "parse_int ''0'' = Some 0"
  by (simp_all add: parse_int_def py_strip_def is_space_def Let_def int_max_str_digits_def nat_of_digits_def is_digit_def)

text \<open>One page: the request, the handler's answer and what the client reads from it.\<close>

definition page_token :: "nat \<Rightarrow> string option" where
  "page_token offset = (if offset = 0 then None else Some (show_nat offset))"

lemma page_request:
  assumes svc: "sr_service srv = Some svc" "svc_list_tables (ae_native env) svc = (Inr ts, svc)"
    and fits: "pages_fit sz ts" and off: "offset < 10 ^ int_max_str_digits"
  shows "request_json (loopback env sz fid fuel) ''GET'' ''v1/table'' (page_params (page_token offset)) None (connected srv \<tau>) =
     (Inr (case page_of 1000 (int offset) ts of JObj kvs \<Rightarrow> kvs | _ \<Rightarrow> []), connected srv \<tau>)"
proof -
  let ?page = "page_of 1000 (int offset) ts"
  let ?rq = "page_get fid (page_token offset)"
  obtain kvs where kvs: "?page = JObj kvs" by (simp add: page_of_def Let_def)
  have fin: "jfinite ?page" by (auto simp: page_of_def Let_def list_all_iff identifier_finite)
  have srv: "srv\<lparr>sr_service := Some svc\<rparr> = srv" using svc(1) by simp
  have limit: "parse_int (query_param ?rq ''limit'' ''100'') = Some 1000"
    by (simp add: query_param_def page_get_def page_params_def page_token_def parse_1000)
  have token: "parse_int (query_param ?rq ''page_token'' ''0'') = Some (int offset)"
    using parse_int_show_nat [OF off]
    by (simp add: query_param_def page_get_def page_params_def page_token_def parse_0)
  have "application env ?rq srv = h_list_tables env ?rq srv"
    by (simp add: application_def page_get_def find_route_fixed run_endpoint_def)
  also have "\<dots> = (Inr \<lparr>hp_status = 200, hp_content_type = ''application/json'', hp_request_id = Some (request_id ?rq),
      hp_body = BodyJson ?page\<rparr>, srv)"
    using svc fin
    by (simp add: h_list_tables_def handle_def scatch_def list_tables_operation_def limit token sbind_apply
        max_list_tables_page_size_def with_service_def json_response_def json_dumps_def srv)
  finally have "send_request (loopback env sz fid fuel) ''GET'' ''v1/table'' (page_params (page_token offset)) None
      ''application/json'' (connected srv \<tau>) =
      (Inr \<lparr>hp_status = 200, hp_content_type = ''application/json'', hp_request_id = Some (request_id ?rq),
         hp_body = BodyJson ?page\<rparr>, connected srv \<tau>)"
    by (simp add: send_request_def build_request_def loopback_def connected_def scatch_def world_call_def
        page_get_def unquote_no_percent)
  moreover have "sz (JObj kvs) \<le> error_body_limit"
    using fits kvs by (metis pages_fit_def)
  moreover have "ce_size (loopback env sz fid fuel) = sz" by (simp add: loopback_def)
  ultimately show ?thesis using kvs
    by (simp add: request_json_def response_json_def is_error_status_def sbind_apply)
qed

lemma wf_page: "list_all wf_identifier ts \<Longrightarrow> list_all wf_identifier (take n (drop m ts))"
  by (metis append_take_drop_id list_all_append)

lemma page_values:
  assumes "page_of 1000 (int offset) ts = JObj kvs"
  shows "jget kvs ''tables'' = JArr (map identifier_to_json (take 1000 (drop offset ts)))"
    and "jget kvs ''next_page_token'' = (if offset + 1000 < length ts then JStr (show_nat (offset + 1000)) else JNull)"
proof -
  have "int offset + int (length (take 1000 (drop offset ts))) < int (length ts) \<longleftrightarrow> offset + 1000 < length ts"
    by auto
  moreover have "offset + 1000 < length ts \<Longrightarrow> length (take 1000 (drop offset ts)) = 1000" by simp
  moreover have "show_int (int offset + 1000) = show_nat (offset + 1000)"
    by (simp add: show_int_def nat_add_distrib)
  ultimately show "jget kvs ''tables'' = JArr (map identifier_to_json (take 1000 (drop offset ts)))"
    and "jget kvs ''next_page_token'' = (if offset + 1000 < length ts then JStr (show_nat (offset + 1000)) else JNull)"
    using assms by (auto simp: page_of_def Let_def)
qed

text \<open>The client asks for every page once and ends with the whole list.\<close>

lemma list_tables_loop_complete:
  assumes svc: "sr_service srv = Some svc" "svc_list_tables (ae_native env) svc = (Inr ts, svc)"
    and wf: "list_all wf_identifier ts" and fits: "pages_fit sz ts" and len: "length ts < 10 ^ int_max_str_digits"
    and "offset \<le> length ts" "\<forall>t\<in>set seen. \<exists>m\<le>offset. t = show_nat m" "length ts < offset + n * 1000 \<or> length ts = offset \<and> 0 < n"
  shows "list_tables_loop (loopback env sz fid fuel) n (take offset ts) (page_token offset) seen (connected srv \<tau>) =
     (Some (Inr ts), connected srv \<tau>)"
  using assms(6-)
proof (induction n arbitrary: offset seen)
  case (Suc n)
  obtain kvs where kvs: "page_of 1000 (int offset) ts = JObj kvs" by (simp add: page_of_def Let_def)
  have "offset < 10 ^ int_max_str_digits" using Suc.prems(1) len by simp
  from page_request [OF svc fits this, of fid fuel \<tau>]
  have rq: "request_json (loopback env sz fid fuel) ''GET'' ''v1/table'' (page_params (page_token offset)) None
      (connected srv \<tau>) = (Inr kvs, connected srv \<tau>)" by (simp add: kvs)
  have dec: "traverse identifier_from_json (map identifier_to_json (take 1000 (drop offset ts))) = Inr (take 1000 (drop offset ts))"
    by (rule identifier_codec.decode_list [OF wf_page [OF wf]])
  have taken: "take offset ts @ take 1000 (drop offset ts) = take (offset + 1000) ts"
    by (simp add: take_add)
  show ?case
  proof (cases "offset + 1000 < length ts")
    case True
    have fresh: "show_nat (offset + 1000) \<notin> set seen"
      using Suc.prems(2) by (auto simp: show_nat_inject)
    have "\<forall>t\<in>set (show_nat (offset + 1000) # seen). \<exists>m\<le>offset + 1000. t = show_nat m"
      using Suc.prems(2) by (metis le_add1 order_trans set_ConsD order_refl)
    moreover have tok: "page_token (offset + 1000) = Some (show_nat (offset + 1000))" by (simp add: page_token_def)
    ultimately have "list_tables_loop (loopback env sz fid fuel) n (take (offset + 1000) ts) (page_token (offset + 1000))
        (show_nat (offset + 1000) # seen) (connected srv \<tau>) = (Some (Inr ts), connected srv \<tau>)"
      using Suc.prems(1,3) True by (intro Suc.IH) auto
    then show ?thesis
      using True by (simp add: fdo_def rq page_values [OF kvs] dec fresh tok taken)
  next
    case False
    then have "traverse identifier_from_json (map identifier_to_json (drop offset ts)) = Inr (drop offset ts)"
      using dec by simp
    with False show ?thesis by (simp add: fdo_def rq page_values [OF kvs])
  qed
qed simp

section \<open>Streaming a query\<close>

interpretation response: closable_stream "response_next ops" "response_aclose ops" rs_closed for ops
proof
  show "rs_closed s \<Longrightarrow> response_next ops s = (Stop, s)" for s by (simp add: response_next_def)
  show "rs_closed s \<Longrightarrow> response_aclose ops s = (Inr (), s)" for s by (simp add: response_aclose_def)
  show closes: "rs_closed (snd (response_aclose ops s))" for s
    by (simp add: response_aclose_def split: prod.splits)
  show "response_next ops s = (Stop, s') \<Longrightarrow> rs_closed s'" for s s'
    using closes [of "s\<lparr>rs_iterator := x\<rparr>" for x]
    by (auto simp: response_next_def split: if_splits prod.splits step.splits sum.splits) (metis snd_conv)
qed

lemma response_drain:
  assumes "drain n (st_next ops) x = (cs, Stop, x')" and "st_close ops x' = (Inr (), x'')"
  shows "drain n (response_next ops) \<lparr>rs_iterator = x, rs_closed = False\<rparr> = (cs, Stop, \<lparr>rs_iterator = x'', rs_closed = True\<rparr>)"
  using assms
proof (induction n arbitrary: x cs)
  case (Suc n)
  from Suc.prems(1) show ?case
  proof (cases rule: drain_StopE)
    case 1
    with Suc.prems(2) show ?thesis by (simp add: response_next_def response_aclose_def)
  next
    case (2 c cs' s1 i)
    with Suc.prems(1) have "drain n (st_next ops) s1 = (cs', Stop, x')" by (auto split: prod.splits)
    from Suc.IH [OF this Suc.prems(2)] 2 show ?thesis by (simp add: response_next_def)
  qed
qed simp

lemma remote_drain:
  assumes "drain n (st_next ops) y = (bs, Stop, y')"
  shows "drain n (remote_next ops) (\<lparr>rm_source = y, rm_request_id = rid\<rparr> :: 'y remote_stream) =
     (bs, Stop, \<lparr>rm_source = y', rm_request_id = rid\<rparr>)"
  using assms
proof (induction n arbitrary: y bs)
  case (Suc n)
  from Suc.prems(1) show ?case
  proof (cases rule: drain_StopE)
    case 1
    then show ?thesis by (simp add: remote_next_def)
  next
    case (2 c cs' s1 i)
    with Suc.prems(1) have "drain n (st_next ops) s1 = (cs', Stop, y')" by (auto split: prod.splits)
    from Suc.IH [OF this] 2 show ?thesis by (simp add: remote_next_def)
  qed
qed simp

text \<open>
  What the native codec has to do on one result: the encoder turns the batches into chunks and the
  decoder turns those chunks into the schema and the batches.
\<close>

definition codec_carries ::
  "('n, 's, 't, 'e) app_env \<Rightarrow> ('s, 'd) decode_env \<Rightarrow> 's native_stream \<Rightarrow> nat \<Rightarrow> bool" where
  "codec_carries env dn st k \<longleftrightarrow>
     (\<exists>enc es cs. ae_new_encoder env (ns_schema st) = Inr enc \<and>
        encode_ipc_stream (ae_encoder env) (ns_batches st, None :: exc option, False) enc = Inr es \<and>
        encode_spec (ae_encoder env) (es_encoder es) (ns_batches st) None = (cs, Stop) \<and>
        decodes (dn_ops dn) (dn_new dn) None False (es_pending es @ cs) (ns_batches st) k (Some (ns_schema st)))"

lemma stream_pipeline:
  assumes es: "encode_ipc_stream eo (bs, None, False) enc = Inr es"
    and spec: "encode_spec eo (es_encoder es) bs None = (cs, Stop)" and fuel: "length bs < fuel"
    and dec: "decodes dec d None False (es_pending es @ cs) bs k (Some m)" "k < n"
    and body: "body = encoded_ops list_ops eo fuel"
  shows "\<exists>st st'. decode_ipc_stream (byte_source id \<lparr>st_next = response_next body, st_close = response_aclose body\<rparr>) dec n
       \<lparr>rs_iterator = es, rs_closed = False\<rparr> d = (Some (Inr ()), st) \<and>
     drain (Suc (length bs)) (decoded_next (byte_source id \<lparr>st_next = response_next body, st_close = response_aclose body\<rparr>) dec n) st
       = (bs, Stop, st') \<and> ds_schema st = Some m"
proof -
  obtain est where "drain (Suc (length (es_pending es @ cs))) (encoded_next list_ops eo fuel) es = (es_pending es @ cs, Stop, est)"
    using encode_ipc_stream_drain [OF es spec fuel] by blast
  moreover from encoded.drain_stop_closed [OF this] have "encoded_aclose list_ops est = (Inr (), est)"
    by (rule encoded.close_closed)
  ultimately have "drain (Suc (length (es_pending es @ cs))) (response_next body) \<lparr>rs_iterator = es, rs_closed = False\<rparr>
      = (es_pending es @ cs, Stop, \<lparr>rs_iterator = est, rs_closed = True\<rparr>)"
    by (intro response_drain) (simp_all add: body encoded_ops_def del: drain.simps)
  from response.decode_ipc_stream_ok [OF this, of dec d id bs k m n 0] dec show ?thesis by auto
qed

lemma remote_stream:
  assumes safe: "safe_identifier (vq_source q)" "wf_vector_query q" and path: "table_path (vq_source q) ''query'' = Inr p"
    and svc: "sr_service srv = Some svc" "svc_stream (ae_native env) (QueryVector q) svc = (Inr st, svc')"
    and fits: "sz (vector_query_to_json q) \<le> error_body_limit"
    and codec: "codec_carries env dn st k" "k < dn_fuel dn" "length (ns_batches st) < fuel" "ns_error st = None"
  shows "\<exists>rm rm'. http_stream (loopback env sz fid fuel) dn (QueryVector q) (connected srv \<tau>) =
       (Some (Inr rm), connected (srv\<lparr>sr_service := Some svc'\<rparr>) \<tau>) \<and>
     drain (Suc (length (ns_batches st)))
       (remote_next (decoded_ops (response_source (loopback env sz fid fuel)) (dn_ops dn) (dn_fuel dn))) rm
       = (ns_batches st, Stop, rm') \<and>
     decoded_schema (rm_source rm) = Inr (ns_schema st) \<and>
     remote_aclose (decoded_ops (response_source (loopback env sz fid fuel)) (dn_ops dn) (dn_fuel dn)) rm' = (Inr (), rm')"
proof -
  obtain kvs where kvs: "vector_query_to_json q = JObj kvs" "jfinite (JObj kvs)"
    using query_finite [OF safe(2)] by blast
  have dec: "vector_query_from_json (JObj kvs) = Inr q"
    using vector_query_codec.decode_encode [OF safe(2)] by (simp add: kvs)
  from codec(1) obtain enc es cs where enc: "ae_new_encoder env (ns_schema st) = Inr enc"
    and es: "encode_ipc_stream (ae_encoder env) (ns_batches st, None :: exc option, False) enc = Inr es"
    and spec: "encode_spec (ae_encoder env) (es_encoder es) (ns_batches st) None = (cs, Stop)"
    and de: "decodes (dn_ops dn) (dn_new dn) None False (es_pending es @ cs) (ns_batches st) k (Some (ns_schema st))"
    by (auto simp: codec_carries_def)
  let ?rq = "json_post sz fid (CHR ''/'' # unquote (fst p)) (route_params p) arrow_stream_media_type (JObj kvs)"
  let ?rs = "\<lparr>hp_status = 200, hp_content_type = arrow_stream_media_type, hp_request_id = Some (request_id ?rq),
     hp_body = BodyStream es\<rparr>"
  let ?srv = "srv\<lparr>sr_service := Some svc'\<rparr>"
  have ep: "table_endpoint ''query'' = Some EpQuery" by (simp add: table_endpoint_def)
  from table_routed [where sz = sz and kvs = kvs and env = env and fid = fid and accept = arrow_stream_media_type and srv = srv,
      OF safe(1) ep path fits [unfolded kvs(1)]] obtain tid where
    "application env ?rq srv = run_endpoint env ?rq EpQuery [tid] srv" "json_body ?rq = Inr kvs"
    "validate_route_identifier ?rq tid (vq_source q) = Inr ()" .
  then have "application env ?rq srv = (Inr ?rs, ?srv)"
    using svc dec enc es codec(4)
    by (simp add: run_endpoint_def Let_def table_param_def handle_def scatch_def query_table_operation_def sbind_apply
        with_service_def stream_response_def)
  then have sent: "send_request (loopback env sz fid fuel) ''POST'' (fst p) (route_params p) (Some (JObj kvs))
      arrow_stream_media_type (connected srv \<tau>) = (Inr ?rs, connected ?srv \<tau>)"
    using kvs(2)
    by (simp add: send_request_def build_request_def json_dumps_def loopback_def connected_def scatch_def
        world_call_def json_post_def)
  have media: "before_char (CHR '';'') arrow_stream_media_type = arrow_stream_media_type"
    by (simp add: before_char_def arrow_stream_media_type_def)
  let ?src = "response_source (loopback env sz fid fuel)"
  obtain ds ds' where d: "decode_ipc_stream ?src (dn_ops dn) (dn_fuel dn) \<lparr>rs_iterator = es, rs_closed = False\<rparr> (dn_new dn)
      = (Some (Inr ()), ds)"
    and dr: "drain (Suc (length (ns_batches st))) (decoded_next ?src (dn_ops dn) (dn_fuel dn)) ds = (ns_batches st, Stop, ds')"
    and sch: "ds_schema ds = Some (ns_schema st)"
    using stream_pipeline [OF es spec codec(3) de codec(2) refl] by (auto simp: response_source_def loopback_def)
  have "http_stream (loopback env sz fid fuel) dn (QueryVector q) (connected srv \<tau>) =
      (Some (Inr \<lparr>rm_source = ds, rm_request_id = Some (request_id ?rq)\<rparr>), connected ?srv \<tau>)"
    using path sent d media
    by (simp add: http_stream_def request_stream_def kvs fdo_def is_error_status_def)
  moreover have "drain (Suc (length (ns_batches st))) (remote_next (decoded_ops ?src (dn_ops dn) (dn_fuel dn)))
      \<lparr>rm_source = ds, rm_request_id = Some (request_id ?rq)\<rparr> =
      (ns_batches st, Stop, \<lparr>rm_source = ds', rm_request_id = Some (request_id ?rq)\<rparr>)"
    using dr by (intro remote_drain) (simp add: decoded_ops_def del: drain.simps)
  moreover have "remote_aclose (decoded_ops ?src (dn_ops dn) (dn_fuel dn))
      \<lparr>rm_source = ds', rm_request_id = Some (request_id ?rq)\<rparr> = (Inr (), \<lparr>rm_source = ds', rm_request_id = Some (request_id ?rq)\<rparr>)"
    using decoded.close_closed [OF decoded.drain_stop_closed [OF dr]] by (simp add: remote_aclose_def decoded_ops_def)
  moreover have "decoded_schema ds = Inr (ns_schema st)" by (simp add: decoded_schema_def sch)
  ultimately show ?thesis
    by (intro exI [of _ "\<lparr>rm_source = ds, rm_request_id = Some (request_id ?rq)\<rparr>"]
        exI [of _ "\<lparr>rm_source = ds', rm_request_id = Some (request_id ?rq)\<rparr>"]) (simp del: drain.simps)
qed

end
