(* ===== verification/Samples.thy ===== *)
theory Samples
  imports Facade Loopback
begin

text \<open>
  A small concrete deployment on which the properties of the root theory are instantiated: a native session that
  knows one table and records the sources registered with it, the name-list Arrow library of \<open>Registration\<close>,
  the letter codec of \<open>Ipc\<close>, and a client connected to the application in the same process.
\<close>

definition sample_metadata :: json where
  "sample_metadata =
     JObj [(''current-snapshot-id'', JInt 1),
       (''snapshots'', JArr [JObj [(''snapshot-id'', JInt 1),
          (''index-provider'', JObj [(''provider'', JStr ''ivf'')]),
          (''index-tables'', JObj [])]])]"

definition sample_definition :: json where
  "sample_definition =
     JObj [(''identifier'', JObj [(''catalog'', JStr ''parqdb''), (''namespace'', JArr [JStr ''default'']), (''name'', JStr ''docs'')]),
       (''provider'', JStr ''parquet''), (''properties'', JObj [(''location'', JStr ''s3://bucket/data'')])]"

definition sample_result :: "string list native_stream" where
  "sample_result = \<lparr>ns_schema = [''id''], ns_batches = [[[], []], [[]]], ns_error = None\<rparr>"

definition sample_build :: build_status where
  "sample_build = \<lparr>bs_state = ''ready'', bs_progress = Some (Fin 1), bs_phase = None, bs_completed = Some 3, bs_total = Some 3,
     bs_current_snapshot_id = Some 1, bs_error = None, bs_error_code = None\<rparr>"

definition sample_index :: index_info where
  "sample_index = \<lparr>ii_name = ''by_vector'', ii_column = ''embedding'', ii_family = ''ivf'', ii_metric = ''cosine'',
     ii_parameters = [(''nlist'', ''4'')], ii_current_snapshot_id = 1\<rparr>"

definition sample_native :: "(string list, string list, unit) native_api" where
  "sample_native =
     \<lparr>na_list_table_definitions = (\<lambda>n. (Inr [(''parqdb'', [''default''], ''docs'')], n)),
      na_register_parquet = (\<lambda>r n. (Inr (), n @ [nr_source r])),
      na_context_table = (\<lambda>_ n. (Inr [''id'', ''embedding''], n)),
      na_context_deregister_table = (\<lambda>_ n. (Inr (), n)),
      na_context_register_view = (\<lambda>_ _ n. (Inr (), n)),
      na_context_sql_collect = (\<lambda>_ n. (Inr [], n)),
      na_persistent_table_definition = (\<lambda>_ n. (Inr (Some sample_definition), n)),
      na_definition_by_identifier = (\<lambda>_ _ _ n. (Inr (Some sample_definition), n)),
      na_drop_table_definition_if_exists = (\<lambda>_ n. (Inr (), n)),
      na_select_index_metadata = (\<lambda>_ _ _ _ n. (Inr sample_metadata, n)),
      na_plan_search = (\<lambda>_ n. (Inr sample_result, n)),
      na_search_sql = (\<lambda>_ n. (Inr ''SELECT 1'', n)),
      na_stream_sql = (\<lambda>_ n. (Inr sample_result, n)),
      na_stream_search = (\<lambda>_ n. (Inr sample_result, n)),
      na_stream_explain_search = (\<lambda>_ _ _ n. (Inr sample_result, n)),
      na_submit_create_index = (\<lambda>a n. (Inr (), n @ [ca_index a])),
      na_submit_refresh_index = (\<lambda>a n. (Inr (), n @ [fa_index a])),
      na_register_index = (\<lambda>_ _ i l n. (Inr (), n @ [i, l])),
      na_index_build_status = (\<lambda>_ _ _ n. (Inr sample_build, n)),
      na_wait_for_index_build = (\<lambda>_ _ _ _ n. (Inr True, n)),
      na_list_source_indexes = (\<lambda>_ _ n. (Inr [sample_index], n)),
      na_drop_source_index = (\<lambda>_ _ i n. (if i = ''by_vector'' then Inr () else Inl (err IndexNotFoundError ''no such index''), n)),
      na_str = (\<lambda>_. [])\<rparr>"

definition sample_app :: "(string list, string list, unit, unit) app_env" where
  "sample_app =
     \<lparr>ae_native = sample_native, ae_arrow = sample_arrow, ae_paths = sample_paths, ae_new_encoder = (\<lambda>_. Inr ()),
      ae_encoder = sample_encoder\<rparr>"

definition sample_service :: "string list service" where
  "sample_service = new_service \<lparr>em_root = [''srv''], em_warehouse = ''file:///srv/warehouse'', em_query_names = 0, em_native = []\<rparr>"

definition sample_server :: "string list server" where
  "sample_server = \<lparr>sr_service = Some sample_service, sr_policy = Some sample_policy\<rparr>"

text \<open>Every document counts as 100 bytes.\<close>

definition sample_size :: "json \<Rightarrow> nat" where
  "sample_size _ = 100"

definition sample_client :: "(string list server \<times> rat, unit) client_env" where
  "sample_client = loopback sample_app sample_size ''r1'' 9"

definition sample_decode :: "(string list, unit) decode_env" where
  "sample_decode = \<lparr>dn_new = (), dn_ops = sample_decoder [''id''], dn_fuel = 9\<rparr>"

lemma sample_identifier_safe: "safe_identifier sample_identifier"
proof -
  have "utf8_valid ''default''" "utf8_valid ''docs''" by (simp_all add: ascii_utf8_valid is_ascii_def del: utf8_valid.simps)
  moreover have "choose_delimiter sample_identifier = Inr ''$''"
    by (simp add: choose_delimiter_def sample_identifier_def identifier_segments_def choose_delimiter_for_segments_def
        route_delimiters_def default_identifier_delimiter_def sublist_char)
  ultimately show ?thesis
    by (simp add: safe_identifier_def sample_identifier_def identifier_segments_def route_safe_def del: utf8_valid.simps)
qed

lemma sample_exchange_fits: "exchange_fits env sample_size fid srv path params body"
  by (simp add: exchange_fits_def sample_size_def error_body_limit_def answer_fits_def split: http_body.split)

end
