(* ===== verification/Disk.thy ===== *)
theory Disk
  imports Prelude "HOL-Library.AList" "HOL-Library.Sublist" "HOL-Library.List_Lexorder" "HOL-Library.Char_ord"
begin

text \<open>
  The file system below the deployment tools: the operations of \<open>pathlib\<close> and \<open>shutil\<close> that \<open>publish.py\<close> and
  \<open>server/config.py\<close> call, on an association list from resolved paths (lists of components) to nodes. Every
  operation that changes the disk consumes one entry of a list of faults, so that a statement over all fault lists
  covers every I/O error and, with an exception that is not an \<open>Exception\<close>, every point at which the process may
  be interrupted. Symbolic links are resolved before paths reach this theory.
\<close>

section \<open>Nodes and faults\<close>

type_synonym path = "string list"

datatype node = Directory | Regular string

text \<open>\<open>Fault e k\<close>: the operation raises; \<open>k = 0\<close> before it had any effect, otherwise after writing \<open>k - 1\<close> bytes.\<close>

datatype fault = Fine | Fault exc nat

text \<open>\<open>dk_pinned\<close>: the paths that \<open>rmtree\<close> cannot remove.\<close>

record disk =
  dk_nodes :: "(path \<times> node) list"
  dk_faults :: "fault list"
  dk_pinned :: "path list"

definition look :: "disk \<Rightarrow> path \<Rightarrow> node option" where
  "look d p = map_of (dk_nodes d) p"

definition put :: "path \<Rightarrow> node \<Rightarrow> disk \<Rightarrow> disk" where
  "put p n d = d\<lparr>dk_nodes := AList.update p n (dk_nodes d)\<rparr>"

definition next_fault :: "disk \<Rightarrow> fault \<times> disk" where
  "next_fault d = (case dk_faults d of [] \<Rightarrow> (Fine, d) | f # fs \<Rightarrow> (f, d\<lparr>dk_faults := fs\<rparr>))"

definition is_file :: "disk \<Rightarrow> path \<Rightarrow> bool" where
  "is_file d p = (case look d p of Some (Regular _) \<Rightarrow> True | _ \<Rightarrow> False)"

definition is_dir :: "disk \<Rightarrow> path \<Rightarrow> bool" where
  "is_dir d p = (look d p = Some Directory)"

definition path_exists :: "disk \<Rightarrow> path \<Rightarrow> bool" where
  "path_exists d p = (look d p \<noteq> None)"

definition file_content :: "disk \<Rightarrow> path \<Rightarrow> string option" where
  "file_content d p = (case look d p of Some (Regular c) \<Rightarrow> Some c | _ \<Rightarrow> None)"

text \<open>The error for a path that does not exist: a file among the ancestors is reported as such.\<close>

definition missing :: "disk \<Rightarrow> path \<Rightarrow> exc" where
  "missing d p =
     (if list_ex (is_file d) (butlast (prefixes p)) then err NotADirectoryError (join ''/'' p) else err FileNotFoundError (join ''/'' p))"

section \<open>Operations\<close>

definition read_bytes :: "disk \<Rightarrow> path \<Rightarrow> string result" where
  "read_bytes d p =
     (case look d p of
        Some (Regular c) \<Rightarrow> Inr c
      | Some Directory \<Rightarrow> Inl (err IsADirectoryError (join ''/'' p))
      | None \<Rightarrow> Inl (missing d p))"

definition st_size :: "disk \<Rightarrow> path \<Rightarrow> int result" where
  "st_size d p = rbind (read_bytes d p) (\<lambda>c. Inr (int (length c)))"

definition iterdir :: "disk \<Rightarrow> path \<Rightarrow> path list" where
  "iterdir d p = remdups (filter (\<lambda>q. q \<noteq> [] \<and> butlast q = p) (map fst (dk_nodes d)))"

text \<open>\<open>sorted(root.rglob(name))\<close>: paths compare component by component.\<close>

definition rglob :: "disk \<Rightarrow> path \<Rightarrow> string \<Rightarrow> path list" where
  "rglob d p n = sort (remdups (filter (\<lambda>q. strict_prefix p q \<and> last q = n) (map fst (dk_nodes d))))"

definition in_directory :: "path \<Rightarrow> (disk, unit) cmd \<Rightarrow> (disk, unit) cmd" where
  "in_directory p act = (\<lambda>d.
     (case look d (butlast p) of
        Some Directory \<Rightarrow> act d
      | Some (Regular _) \<Rightarrow> (Inl (err NotADirectoryError (join ''/'' p)), d)
      | None \<Rightarrow> (Inl (missing d p), d)))"

definition os_mkdir :: "path \<Rightarrow> (disk, unit) cmd" where
  "os_mkdir p = (\<lambda>d. case next_fault d of (f, d) \<Rightarrow>
     if path_exists d p then (Inl (err FileExistsError (join ''/'' p)), d)
     else in_directory p (\<lambda>d.
       (case f of
          Fine \<Rightarrow> (Inr (), put p Directory d)
        | Fault e k \<Rightarrow> (Inl e, if k = 0 then d else put p Directory d))) d)"

text \<open>\<open>Path.mkdir(parents, exist_ok)\<close>.\<close>

function path_mkdir :: "bool \<Rightarrow> bool \<Rightarrow> path \<Rightarrow> disk \<Rightarrow> unit result \<times> disk" where
  "path_mkdir parents exist_ok p d =
     (case os_mkdir p d of
        (Inr u, d1) \<Rightarrow> (Inr u, d1)
      | (Inl e, d1) \<Rightarrow>
          if isinstance_exc e FileNotFoundError
          then if \<not> parents \<or> p = [] then (Inl e, d1)
               else (case path_mkdir True True (butlast p) d1 of
                       (Inl e', d2) \<Rightarrow> (Inl e', d2)
                     | (Inr _, d2) \<Rightarrow> path_mkdir False exist_ok p d2)
          else if isinstance_exc e OSError \<and> exist_ok \<and> is_dir d1 p then (Inr (), d1)
          else (Inl e, d1))"
  by pat_completeness auto
termination
  by (relation "measure (\<lambda>(parents, _, p, _). 2 * length p + (if parents then 1 else 0))") auto

declare path_mkdir.simps [simp del]

text \<open>Opening a file for writing and writing its bytes.\<close>

definition write_bytes :: "path \<Rightarrow> string \<Rightarrow> (disk, unit) cmd" where
  "write_bytes p c = (\<lambda>d. case next_fault d of (f, d) \<Rightarrow>
     if is_dir d p then (Inl (err IsADirectoryError (join ''/'' p)), d)
     else in_directory p (\<lambda>d.
       (case f of
          Fine \<Rightarrow> (Inr (), put p (Regular c) d)
        | Fault e k \<Rightarrow> (Inl e, if k = 0 then d else put p (Regular (take (k - 1) c)) d))) d)"

definition copyfile :: "path \<Rightarrow> path \<Rightarrow> (disk, unit) cmd" where
  "copyfile src dst = (\<lambda>d.
     if src = dst then (Inl (err OSError ''are the same file''), d)
     else sbind (slift (read_bytes d src)) (\<lambda>c. write_bytes dst c) d)"

text \<open>\<open>Path.replace\<close>: an atomic rename within the disk.\<close>

definition path_replace :: "path \<Rightarrow> path \<Rightarrow> (disk, unit) cmd" where
  "path_replace p q = (\<lambda>d. case next_fault d of (f, d) \<Rightarrow>
     if is_dir d q then (Inl (err IsADirectoryError (join ''/'' q)), d)
     else (case look d p of
        Some (Regular c) \<Rightarrow>
          in_directory q (\<lambda>d.
            let moved = put q (Regular c) (if p = q then d else d\<lparr>dk_nodes := filter (\<lambda>(r, _). r \<noteq> p) (dk_nodes d)\<rparr>)
            in case f of Fine \<Rightarrow> (Inr (), moved) | Fault e k \<Rightarrow> (Inl e, if k = 0 then d else moved)) d
      | Some Directory \<Rightarrow> (Inl (err NotADirectoryError (join ''/'' p)), d)
      | None \<Rightarrow> (Inl (missing d p), d)))"

text \<open>\<open>shutil.rmtree(root, ignore_errors=True)\<close>: what cannot be removed stays, with its ancestors.\<close>

definition rmtree :: "path \<Rightarrow> disk \<Rightarrow> disk" where
  "rmtree r d = d\<lparr>dk_nodes := filter (\<lambda>(p, _). \<not> prefix r p \<or> list_ex (prefix p) (dk_pinned d)) (dk_nodes d)\<rparr>"

section \<open>Invariant and frame of the operations\<close>

text \<open>The root is a directory, and so is the parent of every node.\<close>

definition wf_disk :: "disk \<Rightarrow> bool" where
  "wf_disk d \<longleftrightarrow> look d [] = Some Directory \<and>
     (\<forall>p. p \<noteq> [] \<longrightarrow> look d p \<noteq> None \<longrightarrow> look d (butlast p) = Some Directory)"

text \<open>\<open>grows d d'\<close>: no node of \<open>d\<close> is changed or removed.\<close>

definition grows :: "disk \<Rightarrow> disk \<Rightarrow> bool" where
  "grows d d' \<longleftrightarrow> (\<forall>p n. look d p = Some n \<longrightarrow> look d' p = Some n)"

lemma look_put [simp]: "look (put p n d) q = (if q = p then Some n else look d q)"
  by (simp add: look_def put_def update_conv)

lemma map_of_filter_key: "map_of (filter (\<lambda>(k, _). P k) xs) k = (if P k then map_of xs k else None)"
  by (induction xs) auto

lemma look_filter [simp]:
  "look (d\<lparr>dk_nodes := filter (\<lambda>(p, _). P p) (dk_nodes d)\<rparr>) q = (if P q then look d q else None)"
  by (simp add: look_def map_of_filter_key)

lemma look_faults [simp]: "look (d\<lparr>dk_faults := fs\<rparr>) p = look d p"
  by (simp add: look_def)

lemma look_next_fault [simp]: "next_fault d = (f, d1) \<Longrightarrow> look d1 p = look d p"
  by (auto simp: next_fault_def split: list.splits)

lemma look_rmtree: "look (rmtree r d) p = (if prefix r p \<and> \<not> list_ex (prefix p) (dk_pinned d) then None else look d p)"
  by (auto simp: rmtree_def)

lemma grows_refl [simp]: "grows d d"
  by (simp add: grows_def)

lemma grows_trans: "grows d d1 \<Longrightarrow> grows d1 d2 \<Longrightarrow> grows d d2"
  by (simp add: grows_def)

text \<open>\<open>adds p d d'\<close>: the two disks differ only in directories that were created on the way to \<open>p\<close>.\<close>

definition adds :: "path \<Rightarrow> disk \<Rightarrow> disk \<Rightarrow> bool" where
  "adds p d d' \<longleftrightarrow> dk_pinned d' = dk_pinned d \<and>
     (\<forall>q. look d' q = look d q \<or> prefix q p \<and> look d q = None \<and> look d' q = Some Directory)"

lemma pinned_put [simp]: "dk_pinned (put p n d) = dk_pinned d"
  by (simp add: put_def)

lemma pinned_next_fault [simp]: "next_fault d = (f, d1) \<Longrightarrow> dk_pinned d1 = dk_pinned d"
  by (auto simp: next_fault_def split: list.splits)

lemma adds_refl [simp]: "adds p d d"
  by (simp add: adds_def)

lemma adds_trans: "adds p d d1 \<Longrightarrow> adds q d1 d2 \<Longrightarrow> prefix p q \<Longrightarrow> adds q d d2"
  unfolding adds_def by (metis prefix_order.trans option.distinct(1))

lemma adds_widen: "adds p d d' \<Longrightarrow> prefix p q \<Longrightarrow> adds q d d'"
  by (rule adds_trans [OF adds_refl [of "[]"]]) (auto simp: adds_def dest: prefix_order.trans)

lemma adds_grows: "adds p d d' \<Longrightarrow> grows d d'"
  unfolding adds_def grows_def by (metis option.distinct(1))

lemma prefix_butlast [simp]: "prefix (butlast p) p"
  by (metis append_butlast_last_id butlast.simps(1) prefix_def prefix_order.refl)

lemma in_directory_cases:
  assumes "in_directory p act d = (r, d')"
  obtains (ok) "look d (butlast p) = Some Directory" "act d = (r, d')" | (error) e where "r = Inl e" "d' = d"
  using assms by (auto simp: in_directory_def split: option.splits node.splits)

lemma os_mkdir_adds: "os_mkdir p d = (r, d') \<Longrightarrow> adds p d d'"
  by (auto simp: os_mkdir_def adds_def path_exists_def split: prod.splits if_splits fault.splits elim!: in_directory_cases)

lemma os_mkdir_ok: "os_mkdir p d = (Inr u, d') \<Longrightarrow> is_dir d' p"
  by (auto simp: os_mkdir_def is_dir_def split: prod.splits if_splits fault.splits elim!: in_directory_cases)

lemma wf_next_fault [simp]: "next_fault d = (f, d1) \<Longrightarrow> wf_disk d1 = wf_disk d"
  by (simp add: wf_disk_def)

lemma wf_put: "wf_disk d \<Longrightarrow> look d (butlast p) = Some Directory \<Longrightarrow> p \<noteq> [] \<Longrightarrow> \<not> is_dir d p \<Longrightarrow> wf_disk (put p n d)"
  by (auto simp: wf_disk_def is_dir_def)

lemma wf_put_dir: "wf_disk d \<Longrightarrow> look d (butlast p) = Some Directory \<Longrightarrow> wf_disk (put p Directory d)"
  by (auto simp: wf_disk_def)

lemma os_mkdir_wf: "os_mkdir p d = (r, d') \<Longrightarrow> wf_disk d \<Longrightarrow> wf_disk d'"
  by (auto simp: os_mkdir_def wf_put_dir split: prod.splits if_splits fault.splits elim!: in_directory_cases)

text \<open>What every \<open>mkdir\<close> call keeps, the composed operation keeps.\<close>

lemma path_mkdir_rule:
  assumes mkdir: "\<And>p d r d'. os_mkdir p d = (r, d') \<Longrightarrow> Q p d d'"
    and parent: "\<And>p d d1 d2. Q p d d1 \<Longrightarrow> Q (butlast p) d1 d2 \<Longrightarrow> Q p d d2"
    and again: "\<And>p d d1 d2. Q p d d1 \<Longrightarrow> Q p d1 d2 \<Longrightarrow> Q p d d2"
  shows "path_mkdir ps ok p d = (r, d') \<Longrightarrow> Q p d d'"
proof (induction ps ok p d arbitrary: r d' rule: path_mkdir.induct)
  case (1 ps ok p d)
  obtain r1 d1 where mk: "os_mkdir p d = (r1, d1)" by force
  note q1 = mkdir [OF mk]
  note split = "1.prems" [unfolded path_mkdir.simps [of ps ok p d] mk prod.case]
  show ?case
  proof (cases r1)
    case (Inr u)
    with split q1 show ?thesis by simp
  next
    case (Inl e)
    show ?thesis
    proof (cases "isinstance_exc e FileNotFoundError \<and> ps \<and> p \<noteq> []")
      case True
      obtain r2 d2 where up: "path_mkdir True True (butlast p) d1 = (r2, d2)" by force
      have q2: "Q p d d2"
        using "1.IH"(1) [OF mk [symmetric] Inl _ _ up] True parent [OF q1] by simp
      show ?thesis
      proof (cases r2)
        case (Inl e')
        with split \<open>r1 = Inl e\<close> True up q2 show ?thesis by simp
      next
        case (Inr v)
        with split \<open>r1 = Inl e\<close> True up have fin: "path_mkdir False ok p d2 = (r, d')" by simp
        with "1.IH"(2) [OF mk [symmetric] \<open>r1 = Inl e\<close> _ _ up [symmetric] Inr fin] True show ?thesis
          by (auto intro: again [OF q2])
      qed
    next
      case False
      with split Inl q1 show ?thesis by (auto split: if_splits)
    qed
  qed
qed

lemma path_mkdir_adds: "path_mkdir ps ok p d = (r, d') \<Longrightarrow> adds p d d'"
  by (erule path_mkdir_rule [rotated -1]) (auto intro: os_mkdir_adds adds_trans elim: adds_trans adds_trans [OF _ adds_widen])

lemma path_mkdir_wf: "path_mkdir ps ok p d = (r, d') \<Longrightarrow> wf_disk d \<Longrightarrow> wf_disk d'"
  using path_mkdir_rule [where Q = "\<lambda>_ d d'. wf_disk d \<longrightarrow> wf_disk d'"] os_mkdir_wf by blast

lemma path_mkdir_ok: "path_mkdir ps ok p d = (Inr u, d') \<Longrightarrow> is_dir d' p"
proof -
  have single: "path_mkdir False ok p d = (Inr u, d') \<Longrightarrow> is_dir d' p" for ok d u d'
    by (subst (asm) path_mkdir.simps) (auto split: prod.splits sum.splits if_splits dest: os_mkdir_ok)
  show "path_mkdir ps ok p d = (Inr u, d') \<Longrightarrow> is_dir d' p"
    by (subst (asm) path_mkdir.simps) (auto split: prod.splits sum.splits if_splits dest: os_mkdir_ok single)
qed

lemma write_bytes_frame: "write_bytes p c d = (r, d') \<Longrightarrow> q \<noteq> p \<Longrightarrow> look d' q = look d q"
  by (auto simp: write_bytes_def split: prod.splits if_splits fault.splits elim!: in_directory_cases)

lemma write_bytes_pinned: "write_bytes p c d = (r, d') \<Longrightarrow> dk_pinned d' = dk_pinned d"
  by (auto simp: write_bytes_def split: prod.splits if_splits fault.splits elim!: in_directory_cases)

lemma write_bytes_ok: "write_bytes p c d = (Inr u, d') \<Longrightarrow> look d' p = Some (Regular c)"
  by (auto simp: write_bytes_def split: prod.splits if_splits fault.splits elim!: in_directory_cases)

lemma write_bytes_wf:
  assumes "write_bytes p c d = (r, d')" "wf_disk d"
  shows "wf_disk d'"
proof -
  have "p \<noteq> []" if "\<not> is_dir d p" using that assms(2) by (auto simp: wf_disk_def is_dir_def)
  with assms show ?thesis
    by (auto simp: write_bytes_def is_dir_def intro!: wf_put split: prod.splits if_splits fault.splits
        elim!: in_directory_cases)
qed

lemma copyfile_cases:
  assumes "copyfile src dst d = (r, d')"
  obtains (copied) c where "look d src = Some (Regular c)" "write_bytes dst c d = (r, d')" | (error) e where "r = Inl e" "d' = d"
  using assms
  by (auto simp: copyfile_def sbind_def slift_def read_bytes_def split: if_splits option.splits node.splits)

lemma is_file_content: "is_file d p \<longleftrightarrow> (\<exists>c. file_content d p = Some c)"
  by (auto simp: is_file_def file_content_def split: option.split node.split)

lemma read_bytes_Inr: "read_bytes d p = Inr c \<longleftrightarrow> file_content d p = Some c"
  by (auto simp: read_bytes_def file_content_def split: option.split node.split)

lemma file_content_grows: "grows d d' \<Longrightarrow> file_content d p = Some c \<Longrightarrow> file_content d' p = Some c"
  by (auto simp: grows_def file_content_def split: option.splits node.splits)

end
