(* ===== verification/Publication.thy ===== *)
theory Publication
  imports Disk Source_Policy Portable
begin

text \<open>
  The objects of a publication (\<open>publish.py\<close>): the index manifest and its validation, the source descriptor, the
  list of objects to write with the rewritten manifest at its end. Parameters: PyArrow's Parquet reader, SHA-256,
  the text form of JSON and of Python values, and the resolution of paths. Decoding and re-encoding a manifest
  (\<open>json.loads(json.dumps(manifest))\<close>) only copies it.
\<close>

section \<open>Values\<close>

record parquet_field =
  af_int64 :: bool
  af_nullable :: bool

text \<open>A \<open>pq.ParquetFile\<close>; \<open>pf_batches\<close> lists the batches of one column as Python values.\<close>

record parquet =
  pf_field :: "string \<Rightarrow> parquet_field option"
  pf_names :: "string list"
  pf_num_rows :: int
  pf_num_row_groups :: nat
  pf_row_group :: "nat \<Rightarrow> int result"
  pf_batches :: "string \<Rightarrow> json list list"

record http_reply =
  hr_status :: int
  hr_headers :: "(string \<times> string) list"
  hr_content :: string

record publish_env =
  pv_paths :: path_env
  pv_sha256 :: "string \<Rightarrow> string"
  pv_loads :: "string \<Rightarrow> json result"
  pv_json_bytes :: "json \<Rightarrow> string"
  pv_repr :: "json \<Rightarrow> string"
  pv_parquet :: "string \<Rightarrow> parquet result"
  pv_get :: "string \<Rightarrow> (string \<times> string) list \<Rightarrow> http_reply result"

definition json_str :: "publish_env \<Rightarrow> json \<Rightarrow> string" where
  "json_str env v =
     (case v of JStr s \<Rightarrow> s | JNull \<Rightarrow> ''None'' | JBool b \<Rightarrow> if b then ''True'' else ''False'' | JInt i \<Rightarrow> show_int i
      | _ \<Rightarrow> pv_repr env v)"

text \<open>\<open>body[key] = v\<close> and \<open>body[key]\<close>.\<close>

definition jset :: "jobject \<Rightarrow> string \<Rightarrow> json \<Rightarrow> jobject" where
  "jset body k v = AList.update k v body"

definition jitem :: "jobject \<Rightarrow> string \<Rightarrow> json result" where
  "jitem body k = (case map_of body k of Some v \<Rightarrow> Inr v | None \<Rightarrow> Inl (err KeyError (in_quotes k)))"

section \<open>Relative paths\<close>

text \<open>\<open>PurePosixPath\<close>: its parts below the anchor, and its text.\<close>

definition pure_parts :: "string \<Rightarrow> string list" where
  "pure_parts v = filter (\<lambda>c. c \<noteq> [] \<and> c \<noteq> ''.'') (split_on (CHR ''/'') v)"

definition pure_str :: "string \<Rightarrow> string" where
  "pure_str v =
     (if startswith v ''//'' \<and> \<not> startswith v ''///'' then ''//'' @ join ''/'' (pure_parts v)
      else if startswith v ''/'' then ''/'' @ join ''/'' (pure_parts v)
      else if pure_parts v = [] then ''.'' else join ''/'' (pure_parts v))"

definition safe_relative_path :: "string \<Rightarrow> string result" where
  "safe_relative_path v =
     (if v = [] \<or> startswith v ''/'' \<or> ''..'' \<in> set (pure_parts v) \<or> pure_str v \<noteq> v
      then Inl (err ValueError (''unsafe publication path: '' @ in_quotes v)) else Inr v)"

section \<open>Objects\<close>

record pub_object =
  po_path :: string
  po_source :: "path option"
  po_content :: "string option"

definition source_object :: "string \<Rightarrow> path \<Rightarrow> pub_object" where
  "source_object p s = \<lparr>po_path = p, po_source = Some s, po_content = None\<rparr>"

definition object_size :: "disk \<Rightarrow> pub_object \<Rightarrow> int result" where
  "object_size d x =
     (case po_source x of
        Some s \<Rightarrow> st_size d s
      | None \<Rightarrow> Inr (int (length (case po_content x of None \<Rightarrow> [] | Some c \<Rightarrow> c))))"

fun ensure_unique_from :: "string list \<Rightarrow> pub_object list \<Rightarrow> unit result" where
  "ensure_unique_from seen [] = Inr ()"
| "ensure_unique_from seen (x # xs) =
     (if po_path x \<in> set seen then Inl (err ValueError (''duplicate publication path: '' @ po_path x))
      else ensure_unique_from (po_path x # seen) xs)"

definition ensure_unique_paths :: "pub_object list \<Rightarrow> unit result" where
  "ensure_unique_paths xs = ensure_unique_from [] xs"

section \<open>The index manifest\<close>

definition sha256_of :: "publish_env \<Rightarrow> disk \<Rightarrow> path \<Rightarrow> string result" where
  "sha256_of env d p = rbind (read_bytes d p) (\<lambda>c. Inr (pv_sha256 env c))"

definition load_index_manifest :: "publish_env \<Rightarrow> disk \<Rightarrow> path \<Rightarrow> jobject result" where
  "load_index_manifest env d p =
     (if \<not> is_file d p then Inl (err ValueError (''index manifest does not exist: '' @ fspath p))
      else rbind (read_bytes d p) (\<lambda>text.
        (case pv_loads env text of
           Inl e \<Rightarrow> Inl (if isinstance_exc e JSONDecodeError
                       then err ValueError (''invalid index manifest JSON: '' @ exc_msg e) else e)
         | Inr v \<Rightarrow>
             (case v of
                JObj manifest \<Rightarrow>
                  if \<not> py_eq (jget manifest ''format-version'') (JInt 1)
                  then Inl (err ValueError ''index manifest must be an artifact format version 1'')
                  else (case jget manifest ''artifact-uuid'' of
                          JStr _ \<Rightarrow> Inr manifest
                        | _ \<Rightarrow> Inl (err ValueError ''index manifest is missing artifact-uuid''))
              | _ \<Rightarrow> Inl (err ValueError ''index manifest must be an artifact format version 1'')))))"

definition referenced_path :: "json \<Rightarrow> string result" where
  "referenced_path v =
     (case v of
        JObj o' \<Rightarrow> (case jget o' ''path'' of
                     JStr p \<Rightarrow> safe_relative_path p
                   | _ \<Rightarrow> Inl (err ValueError ''index object descriptor is missing a path''))
      | _ \<Rightarrow> Inl (err ValueError ''index object descriptor is missing a path''))"

definition referenced_index_paths :: "jobject \<Rightarrow> string list result" where
  "referenced_index_paths manifest =
     (case (jget manifest ''hierarchy'', jget manifest ''postings'') of
        (JObj hierarchy, JObj postings) \<Rightarrow>
          (case jget postings ''files'' of
             JArr files \<Rightarrow> traverse referenced_path (jget hierarchy ''centroids'' # files)
           | _ \<Rightarrow> Inl (err ValueError ''index manifest postings.files must be an array''))
      | _ \<Rightarrow> Inl (err ValueError ''index manifest is missing hierarchy or postings''))"

definition validate_index_object :: "publish_env \<Rightarrow> disk \<Rightarrow> path \<Rightarrow> json \<Rightarrow> unit result" where
  "validate_index_object env d base v =
     (case v of
        JObj descriptor \<Rightarrow>
          rbind (safe_relative_path (json_str env (jget_or descriptor ''path'' (JStr '''')))) (\<lambda>relative.
          let p = base @ pure_parts relative in
          rbind (raise_if (\<not> is_file d p) (err ValueError (''index object does not exist: '' @ fspath p))) (\<lambda>_.
          rbind (st_size d p) (\<lambda>size.
          rbind (raise_if (\<not> py_eq (jget descriptor ''size'') (JInt size))
            (err ValueError (''index object size does not match manifest: '' @ relative))) (\<lambda>_.
          rbind (sha256_of env d p) (\<lambda>digest.
          raise_if (\<not> py_eq (jget descriptor ''sha256'') (JStr digest))
            (err ValueError (''index object SHA-256 does not match manifest: '' @ relative)))))))
      | _ \<Rightarrow> Inl (err ValueError ''index object descriptor must be an object''))"

definition as_asserted_object :: "json \<Rightarrow> jobject result" where
  "as_asserted_object v = (case v of JObj body \<Rightarrow> Inr body | _ \<Rightarrow> Inl (err AssertionError ''''))"

fun validate_each :: "('a \<Rightarrow> unit result) \<Rightarrow> 'a list \<Rightarrow> unit result" where
  "validate_each f [] = Inr ()"
| "validate_each f (x # xs) = rbind (f x) (\<lambda>_. validate_each f xs)"

definition index_descriptors :: "jobject \<Rightarrow> json list result" where
  "index_descriptors manifest =
     rbind (jitem manifest ''hierarchy'') (\<lambda>h.
     rbind (jitem manifest ''postings'') (\<lambda>p.
     rbind (as_asserted_object h) (\<lambda>hierarchy.
     rbind (as_asserted_object p) (\<lambda>postings.
     rbind (jitem hierarchy ''centroids'') (\<lambda>centroids.
     rbind (jitem postings ''files'') (\<lambda>files.
     (case py_iter files of
        Some xs \<Rightarrow> Inr (centroids # xs)
      | None \<Rightarrow> Inl (err TypeError ''Value after * must be an iterable'')))))))) "

definition validate_index_objects :: "publish_env \<Rightarrow> disk \<Rightarrow> jobject \<Rightarrow> path \<Rightarrow> unit result" where
  "validate_index_objects env d manifest base =
     rbind (index_descriptors manifest) (\<lambda>descriptors. validate_each (validate_index_object env d base) descriptors)"

section \<open>The source table\<close>

fun validate_key_values :: "publish_env \<Rightarrow> int \<Rightarrow> json list \<Rightarrow> int result" where
  "validate_key_values env expected [] = Inr expected"
| "validate_key_values env expected (v # vs) =
     (if \<not> py_eq v (JInt expected)
      then Inl (err ValueError (''source key must be dense and ordered from zero; expected '' @ show_int expected @ '', got '' @ json_str env v))
      else validate_key_values env (expected + 1) vs)"

fun validate_key_batches :: "publish_env \<Rightarrow> int \<Rightarrow> json list list \<Rightarrow> int result" where
  "validate_key_batches env expected [] = Inr expected"
| "validate_key_batches env expected (b # bs) =
     rbind (validate_key_values env expected b) (\<lambda>n. validate_key_batches env n bs)"

definition validate_source_key :: "publish_env \<Rightarrow> parquet \<Rightarrow> string \<Rightarrow> unit result" where
  "validate_source_key env pf key = rbind (validate_key_batches env 0 (pf_batches pf key)) (\<lambda>_. Inr ())"

text \<open>The loop over all row groups but the last.\<close>

definition uniform_row_groups :: "parquet \<Rightarrow> int \<Rightarrow> unit result" where
  "uniform_row_groups pf r =
     validate_each (\<lambda>i. rbind (pf_row_group pf i) (\<lambda>n.
         raise_if (n \<noteq> r) (err ValueError ''all source row groups except the final group must be uniform'')))
       [0..<pf_num_row_groups pf - 1]"

definition key_field_json :: "string \<Rightarrow> json" where
  "key_field_json key = JObj [(''name'', JStr key), (''type'', JStr ''long'')]"

definition path_name :: "path \<Rightarrow> string" where
  "path_name p = (if p = [] then [] else last p)"

definition source_descriptor :: "publish_env \<Rightarrow> disk \<Rightarrow> path \<Rightarrow> string \<Rightarrow> jobject \<Rightarrow> json result" where
  "source_descriptor env d source key manifest =
     (if \<not> is_file d source then Inl (err ValueError (''source Parquet file does not exist: '' @ fspath source))
      else rbind (read_bytes d source) (\<lambda>content.
      rbind (pv_parquet env content) (\<lambda>pf.
      (case pf_field pf key of
         None \<Rightarrow> Inl (err ValueError (''source key column does not exist: '' @ key))
       | Some f \<Rightarrow>
           rbind (raise_if (\<not> af_int64 f) (err ValueError ''source key must be a non-null int64 column'')) (\<lambda>_.
           rbind (raise_if (af_nullable f) (err ValueError ''source key must be non-nullable'')) (\<lambda>_.
           rbind (raise_if (pf_num_rows pf \<le> 0) (err ValueError ''source Parquet file must contain at least one row'')) (\<lambda>_.
           rbind (validate_source_key env pf key) (\<lambda>_.
           (case jget manifest ''index'' of
              JObj descriptor \<Rightarrow>
                rbind (raise_if (\<not> py_eq (jget descriptor ''ntotal'') (JInt (pf_num_rows pf)))
                  (err ValueError ''source rows do not match index ntotal'')) (\<lambda>_.
                rbind (raise_if (\<not> py_eq (jget descriptor ''source-key-fields'') (JArr [key_field_json key]))
                  (err ValueError ''source key does not match the index source-key-fields'')) (\<lambda>_.
                rbind (pf_row_group pf 0) (\<lambda>row_group_rows.
                rbind (uniform_row_groups pf row_group_rows) (\<lambda>_.
                rbind (st_size d source) (\<lambda>size.
                rbind (sha256_of env d source) (\<lambda>digest.
                Inr (JObj
                  [(''rows'', JInt (pf_num_rows pf)), (''row-group-rows'', JInt row_group_rows),
                   (''key'', key_field_json key), (''columns'', JArr (map JStr (pf_names pf))),
                   (''files'', JArr [JObj
                     [(''path'', JStr (path_name source)), (''size'', JInt size), (''sha256'', JStr digest),
                      (''row-begin'', JInt 0), (''row-end'', JInt (pf_num_rows pf))]])])))))))
            | _ \<Rightarrow> Inl (err ValueError ''source rows do not match index ntotal''))))))))))"

section \<open>The list of objects\<close>

definition model_asset :: "publish_env \<Rightarrow> disk \<Rightarrow> string \<times> string \<Rightarrow> (pub_object \<times> json) result" where
  "model_asset env d a =
     rbind (safe_relative_path (fst a)) (\<lambda>relative.
     rbind (pe_resolve (pv_paths env) (snd a)) (\<lambda>asset.
     rbind (raise_if (\<not> is_file d asset) (err ValueError (''model asset does not exist: '' @ fspath asset))) (\<lambda>_.
     rbind (st_size d asset) (\<lambda>size.
     rbind (sha256_of env d asset) (\<lambda>digest.
     Inr (source_object relative asset,
          JObj [(''path'', JStr relative), (''size'', JInt size), (''sha256'', JStr digest)]))))))"

definition add_source :: "path option \<Rightarrow> json option \<Rightarrow> pub_object list \<times> jobject \<Rightarrow> pub_object list \<times> jobject" where
  "add_source source descriptor st =
     (case (source, descriptor) of
        (Some s, Some v) \<Rightarrow> (fst st @ [source_object (path_name s) s], jset (snd st) ''source'' v)
      | _ \<Rightarrow> st)"

definition add_embedding ::
  "publish_env \<Rightarrow> disk \<Rightarrow> jobject option \<Rightarrow> (string \<times> string) list \<Rightarrow> pub_object list \<times> jobject
     \<Rightarrow> (pub_object list \<times> jobject) result" where
  "add_embedding env d embedding assets st =
     (case embedding of
        Some e \<Rightarrow>
          if assets = [] then Inl (err ValueError ''embedding publication requires model assets'')
          else rbind (traverse (model_asset env d) assets) (\<lambda>xs.
            Inr (fst st @ map fst xs, jset (snd st) ''embedding'' (JObj (jset e ''assets'' (JArr (map snd xs))))))
      | None \<Rightarrow>
          if assets = [] then Inr st else Inl (err ValueError ''model assets require an embedding descriptor''))"

definition check_object_exists :: "disk \<Rightarrow> pub_object \<Rightarrow> unit result" where
  "check_object_exists d x =
     (case po_source x of
        Some s \<Rightarrow> raise_if (\<not> is_file d s) (err ValueError (''index object does not exist: '' @ fspath s))
      | None \<Rightarrow> Inr ())"

definition manifest_name :: string where
  "manifest_name = ''manifest.json''"

definition publication_objects ::
  "publish_env \<Rightarrow> disk \<Rightarrow> path \<Rightarrow> jobject \<Rightarrow> path option \<Rightarrow> json option \<Rightarrow> jobject option \<Rightarrow> (string \<times> string) list
     \<Rightarrow> pub_object list result" where
  "publication_objects env d index_manifest manifest source descriptor embedding assets =
     (let base = butlast index_manifest in
      rbind (validate_index_objects env d manifest base) (\<lambda>_.
      rbind (referenced_index_paths manifest) (\<lambda>referenced.
      rbind (add_embedding env d embedding assets
        (add_source source descriptor (map (\<lambda>p. source_object p (base @ pure_parts p)) referenced, manifest))) (\<lambda>(objects, publication).
      let objects = objects @ [\<lparr>po_path = manifest_name, po_source = None,
                                po_content = Some (pv_json_bytes env (JObj publication))\<rparr>]
      in rbind (validate_each (check_object_exists d) objects) (\<lambda>_. Inr objects)))))"

section \<open>Safe paths\<close>

lemma safe_relative_path_Inr:
  "safe_relative_path v = Inr w \<longleftrightarrow>
     w = v \<and> v \<noteq> [] \<and> \<not> startswith v ''/'' \<and> ''..'' \<notin> set (pure_parts v) \<and> pure_str v = v"
  by (auto simp: safe_relative_path_def)

lemma relative_pure_str:
  "\<not> startswith v ''/'' \<Longrightarrow> pure_str v = (if pure_parts v = [] then ''.'' else join ''/'' (pure_parts v))"
  by (cases v) (auto simp: pure_str_def startswith_def)

text \<open>Different safe paths name different files.\<close>

lemma safe_relative_path_inj:
  "safe_relative_path u = Inr u' \<Longrightarrow> safe_relative_path v = Inr v' \<Longrightarrow> pure_parts u = pure_parts v \<Longrightarrow> u = v"
  by (metis relative_pure_str safe_relative_path_Inr)

lemma pure_parts_clean:
  "safe_relative_path v = Inr w \<Longrightarrow> list_all clean_component (pure_parts v)"
  by (auto simp: safe_relative_path_Inr list_all_iff clean_component_def pure_parts_def dest: split_on_no_sep_in)

lemma pure_parts_name: "clean_component n \<Longrightarrow> pure_parts n = [n]"
  by (simp add: pure_parts_def clean_component_def split_on_no_sep)

lemma safe_name: "clean_component n \<Longrightarrow> safe_relative_path n = Inr n"
  using pure_parts_name [of n]
  by (cases n) (auto simp: safe_relative_path_def clean_component_def relative_pure_str startswith_def)

lemma ensure_unique_from_Inr:
  "ensure_unique_from seen xs = Inr u \<longleftrightarrow> distinct (map po_path xs) \<and> set (map po_path xs) \<inter> set seen = {}"
  by (induction xs arbitrary: seen) auto

lemma ensure_unique_paths_Inr: "ensure_unique_paths xs = Inr u \<longleftrightarrow> distinct (map po_path xs)"
  by (simp add: ensure_unique_paths_def ensure_unique_from_Inr)

lemma validate_each_Inr: "validate_each f xs = Inr u \<longleftrightarrow> list_all (\<lambda>x. f x = Inr ()) xs"
  by (induction xs) (auto simp: rbind_def split: sum.splits)

end
