(* ===== verification/Publication_Writer.thy ===== *)
theory Publication_Writer
  imports Publication
begin

text \<open>
  The two writers of \<open>publish.py\<close> behind the class \<open>_Writer\<close>, the upload loop with its cleanup, the check of the
  public copy and \<open>publish\<close> itself. The interface of a writer is the locale \<open>publication_writer\<close>: its laws are
  discharged for \<open>_LocalWriter\<close> on the disk and for \<open>_S3Writer\<close> on any object store that behaves as PyArrow documents
  its file systems; the order of publication and the cleanup are proved once from the laws. Parameter: the object
  store.
\<close>

section \<open>The interface\<close>

record 'w writer_ops =
  wo_ensure_empty :: "string list \<Rightarrow> ('w, unit) cmd"
  wo_write :: "pub_object \<Rightarrow> ('w, unit) cmd"
  wo_cleanup_after_failure :: "('w, unit) cmd"

section \<open>Local destinations\<close>

record local_writer =
  lw_root :: path
  lw_created :: bool
  lw_disk :: disk

definition on_disk :: "(disk, 'a) cmd \<Rightarrow> (local_writer, 'a) cmd" where
  "on_disk act = (\<lambda>w. case act (lw_disk w) of (r, d) \<Rightarrow> (r, w\<lparr>lw_disk := d\<rparr>))"

definition lw_ensure_empty :: "string list \<Rightarrow> (local_writer, unit) cmd" where
  "lw_ensure_empty ps = (\<lambda>w.
     if path_exists (lw_disk w) (lw_root w)
     then (Inl (err FileExistsError (''destination already exists: '' @ fspath (lw_root w))), w)
     else sbind (on_disk (path_mkdir True False (lw_root w))) (\<lambda>_ w. (Inr (), w\<lparr>lw_created := True\<rparr>)) w)"

definition content_of :: "pub_object \<Rightarrow> string" where
  "content_of x = (case po_content x of None \<Rightarrow> [] | Some c \<Rightarrow> c)"

definition lw_write :: "pub_object \<Rightarrow> (local_writer, unit) cmd" where
  "lw_write x = (\<lambda>w.
     let destination = lw_root w @ pure_parts (po_path x) in
     sbind (on_disk (path_mkdir True True (butlast destination))) (\<lambda>_.
     on_disk (case po_source x of
                Some s \<Rightarrow> copyfile s destination
              | None \<Rightarrow> write_bytes destination (content_of x))) w)"

definition lw_cleanup_after_failure :: "(local_writer, unit) cmd" where
  "lw_cleanup_after_failure = (\<lambda>w.
     (Inr (), if lw_created w then w\<lparr>lw_disk := rmtree (lw_root w) (lw_disk w)\<rparr> else w))"

definition local_ops :: "local_writer writer_ops" where
  "local_ops = \<lparr>wo_ensure_empty = lw_ensure_empty, wo_write = lw_write, wo_cleanup_after_failure = lw_cleanup_after_failure\<rparr>"

section \<open>Object stores\<close>

text \<open>\<open>fs.S3FileSystem\<close>: \<open>s3_not_found\<close> is the test of \<open>get_file_info(p).type\<close>, a stream is named by its path.\<close>

record 'f s3_filesystem =
  s3_not_found :: "string \<Rightarrow> ('f, bool) cmd"
  s3_open :: "string \<Rightarrow> ('f, unit) cmd"
  s3_send :: "string \<Rightarrow> string \<Rightarrow> ('f, unit) cmd"
  s3_close :: "string \<Rightarrow> ('f, unit) cmd"
  s3_delete_file :: "string \<Rightarrow> ('f, unit) cmd"

record 'f s3_writer =
  sw_prefix :: string
  sw_written :: "string list"
  sw_disk :: disk
  sw_store :: 'f

definition on_store :: "('f, 'a) cmd \<Rightarrow> ('f s3_writer, 'a) cmd" where
  "on_store act = (\<lambda>w. case act (sw_store w) of (r, f) \<Rightarrow> (r, w\<lparr>sw_store := f\<rparr>))"

definition sw_path :: "string \<Rightarrow> string \<Rightarrow> string" where
  "sw_path pre relative = pre @ ''/'' @ relative"

fun sw_ensure_empty :: "'f s3_filesystem \<Rightarrow> string list \<Rightarrow> ('f s3_writer, unit) cmd" where
  "sw_ensure_empty fs [] = sret ()"
| "sw_ensure_empty fs (p # ps) = (\<lambda>w.
     sbind (on_store (s3_not_found fs (sw_path (sw_prefix w) p))) (\<lambda>absent.
     if \<not> absent then sraise (err FileExistsError (''destination object already exists: '' @ p))
     else sw_ensure_empty fs ps) w)"

text \<open>\<open>_copy_stream\<close>: chunks of 8 MiB until the source is exhausted.\<close>

definition copy_chunk :: nat where
  "copy_chunk = 8 * 1024 * 1024"

function chunks_of :: "nat \<Rightarrow> string \<Rightarrow> string list" where
  "chunks_of n s = (if s = [] \<or> n = 0 then [] else take n s # chunks_of n (drop n s))"
  by pat_completeness auto
termination
  by (relation "measure (\<lambda>(n, s). length s)") auto

declare chunks_of.simps [simp del]

fun send_all :: "'f s3_filesystem \<Rightarrow> string \<Rightarrow> string list \<Rightarrow> ('f, unit) cmd" where
  "send_all fs p [] = sret ()"
| "send_all fs p (c # cs) = sbind (s3_send fs p c) (\<lambda>_. send_all fs p cs)"

definition send_object :: "'f s3_filesystem \<Rightarrow> string \<Rightarrow> pub_object \<Rightarrow> disk \<Rightarrow> ('f, unit) cmd" where
  "send_object fs p x d =
     (case po_source x of
        None \<Rightarrow> s3_send fs p (content_of x)
      | Some s \<Rightarrow> sbind (slift (read_bytes d s)) (\<lambda>c. send_all fs p (chunks_of copy_chunk c)))"

text \<open>\<open>try: delete_file(path) except Exception: pass\<close>.\<close>

definition try_delete :: "'f s3_filesystem \<Rightarrow> string \<Rightarrow> ('f, unit) cmd" where
  "try_delete fs p = scatch (s3_delete_file fs p) (\<lambda>e. if isinstance_exc e Exception then sret () else sraise e)"

text \<open>The \<open>with\<close> block of \<open>write\<close> and its handler.\<close>

definition s3_put :: "'f s3_filesystem \<Rightarrow> string \<Rightarrow> pub_object \<Rightarrow> disk \<Rightarrow> ('f, unit) cmd" where
  "s3_put fs p x d =
     scatch (sbind (s3_open fs p) (\<lambda>_. sfinally (send_object fs p x d) (s3_close fs p)))
       (\<lambda>e. if isinstance_exc e Exception then sbind (try_delete fs p) (\<lambda>_. sraise e) else sraise e)"

definition sw_write :: "'f s3_filesystem \<Rightarrow> pub_object \<Rightarrow> ('f s3_writer, unit) cmd" where
  "sw_write fs x = (\<lambda>w.
     let p = sw_path (sw_prefix w) (po_path x) in
     sbind (on_store (s3_put fs p x (sw_disk w))) (\<lambda>_ w. (Inr (), w\<lparr>sw_written := sw_written w @ [p]\<rparr>)) w)"

fun delete_all :: "'f s3_filesystem \<Rightarrow> string list \<Rightarrow> ('f, unit) cmd" where
  "delete_all fs [] = sret ()"
| "delete_all fs (p # ps) = sbind (try_delete fs p) (\<lambda>_. delete_all fs ps)"

definition sw_cleanup_after_failure :: "'f s3_filesystem \<Rightarrow> ('f s3_writer, unit) cmd" where
  "sw_cleanup_after_failure fs = (\<lambda>w. on_store (delete_all fs (rev (sw_written w))) w)"

definition s3_ops :: "'f s3_filesystem \<Rightarrow> 'f s3_writer writer_ops" where
  "s3_ops fs = \<lparr>wo_ensure_empty = sw_ensure_empty fs, wo_write = sw_write fs,
     wo_cleanup_after_failure = sw_cleanup_after_failure fs\<rparr>"

section \<open>The upload\<close>

fun write_all :: "'w writer_ops \<Rightarrow> pub_object list \<Rightarrow> ('w, unit) cmd" where
  "write_all ops [] = sret ()"
| "write_all ops (x # xs) = sbind (wo_write ops x) (\<lambda>_. write_all ops xs)"

definition upload :: "'w writer_ops \<Rightarrow> pub_object list \<Rightarrow> ('w, unit) cmd" where
  "upload ops xs =
     sbind (wo_ensure_empty ops (map po_path xs)) (\<lambda>_.
     scatch (write_all ops xs)
       (\<lambda>e. if isinstance_exc e Exception then sbind (wo_cleanup_after_failure ops) (\<lambda>_. sraise e) else sraise e))"

text \<open>A field of the writer that none of its methods assigns is the same after the upload.\<close>

lemma keeps_upload:
  assumes "\<And>ps. keeps f (wo_ensure_empty ops ps)" "\<And>x. keeps f (wo_write ops x)" "keeps f (wo_cleanup_after_failure ops)"
  shows "keeps f (upload ops xs)"
proof -
  have "keeps f (write_all ops xs)" by (induction xs) (auto intro!: keeps_rules assms)
  then show ?thesis unfolding upload_def by (intro keeps_rules assms)
qed

lemma keeps_on_disk: "(\<And>w d. f (w\<lparr>lw_disk := d\<rparr>) = f w) \<Longrightarrow> keeps f (on_disk act)"
  by (auto simp: keeps_def on_disk_def split: prod.split)

lemma keeps_on_store: "(\<And>w g. f (w\<lparr>sw_store := g\<rparr>) = f w) \<Longrightarrow> keeps f (on_store act)"
  by (auto simp: keeps_def on_store_def split: prod.split)

lemma keeps_local_root: "keeps lw_root (upload local_ops xs)"
proof (rule keeps_upload)
  fix ps x
  show "keeps lw_root (wo_ensure_empty local_ops ps)"
    by (rule keepsI) (auto simp: local_ops_def lw_ensure_empty_def sbind_apply on_disk_def split: if_splits prod.splits sum.splits)
  show "keeps lw_root (wo_write local_ops x)"
    by (rule keepsI) (auto simp: local_ops_def lw_write_def Let_def sbind_apply on_disk_def split: prod.splits sum.splits)
  show "keeps lw_root (wo_cleanup_after_failure local_ops)"
    by (rule keepsI) (auto simp: local_ops_def lw_cleanup_after_failure_def split: if_splits)
qed

lemma keeps_s3_fields: "keeps (\<lambda>w. (sw_prefix w, sw_disk w)) (upload (s3_ops fs) xs)"
proof (rule keeps_upload)
  fix ps x
  let ?f = "\<lambda>w. (sw_prefix w, sw_disk w)"
  have store: "keeps ?f (on_store act)" for act :: "('a, 'b) cmd" by (rule keeps_on_store) simp
  have "keeps ?f (sw_ensure_empty fs ps)"
  proof (induction ps)
    case (Cons p ps)
    have "keeps ?f (sbind (on_store (s3_not_found fs (sw_path pre p)))
        (\<lambda>absent. if \<not> absent then sraise (err FileExistsError (''destination object already exists: '' @ p)) else sw_ensure_empty fs ps))" for pre
      by (intro keeps_rules store Cons)
    then show ?case by (simp add: keeps_def)
  qed (simp add: keeps_rules)
  then show "keeps ?f (wo_ensure_empty (s3_ops fs) ps)" by (simp add: s3_ops_def)
  show "keeps ?f (wo_write (s3_ops fs) x)"
    by (rule keepsI) (auto simp: s3_ops_def sw_write_def Let_def sbind_apply on_store_def split: prod.splits sum.splits)
  show "keeps ?f (wo_cleanup_after_failure (s3_ops fs))"
    by (rule keepsI) (auto simp: s3_ops_def sw_cleanup_after_failure_def on_store_def split: prod.splits)
qed

section \<open>What a writer promises\<close>

text \<open>
  \<open>view w p\<close> is the content of the published object \<open>p\<close>, \<open>payload w x\<close> the bytes an object stands for and
  \<open>tracked w p\<close> says that a cleanup reaches \<open>p\<close>. The state before \<open>ensure_empty\<close> is \<open>fresh\<close>; \<open>inv\<close> holds from then
  on. \<open>kept\<close> says that nothing which existed before was touched, \<open>removable\<close> that deletions succeed.
\<close>

locale publication_writer =
  fixes ops :: "'w writer_ops"
    and paths :: "string list"
    and fresh inv kept removable :: "'w \<Rightarrow> bool"
    and admissible :: "'w \<Rightarrow> pub_object \<Rightarrow> bool"
    and view :: "'w \<Rightarrow> string \<Rightarrow> string option"
    and payload :: "'w \<Rightarrow> pub_object \<Rightarrow> string option"
    and tracked :: "'w \<Rightarrow> string \<Rightarrow> bool"
  assumes ensure_empty: "fresh w \<Longrightarrow> wo_ensure_empty ops paths w = (Inr (), w') \<Longrightarrow>
      inv w' \<and> (\<forall>p\<in>set paths. view w p = None \<and> view w' p = None) \<and> (removable w \<longrightarrow> removable w') \<and>
      (\<forall>x. admissible w x \<longrightarrow> admissible w' x \<and> payload w' x = payload w x)"
    and ensure_failed: "fresh w \<Longrightarrow> wo_ensure_empty ops paths w = (Inl e, w') \<Longrightarrow> kept w' \<and> (\<forall>p. view w' p = view w p)"
    and inv_kept: "inv w \<Longrightarrow> kept w"
    and write_keeps: "inv w \<Longrightarrow> admissible w x \<Longrightarrow> wo_write ops x w = (r, w') \<Longrightarrow>
      inv w' \<and> (removable w \<longrightarrow> removable w') \<and> (\<forall>p. tracked w p \<longrightarrow> tracked w' p) \<and>
      (\<forall>y. admissible w y \<longrightarrow> admissible w' y \<and> payload w' y = payload w y)"
    and write_frame: "inv w \<Longrightarrow> admissible w x \<Longrightarrow> wo_write ops x w = (r, w') \<Longrightarrow> admissible w y \<Longrightarrow>
      po_path y \<noteq> po_path x \<Longrightarrow> view w' (po_path y) = view w (po_path y)"
    and write_ok: "inv w \<Longrightarrow> admissible w x \<Longrightarrow> wo_write ops x w = (Inr (), w') \<Longrightarrow>
      payload w x \<noteq> None \<and> view w' (po_path x) = payload w x \<and> tracked w' (po_path x)"
    and write_failed: "inv w \<Longrightarrow> removable w \<Longrightarrow> admissible w x \<Longrightarrow> wo_write ops x w = (Inl e, w') \<Longrightarrow>
      isinstance_exc e Exception \<Longrightarrow> view w (po_path x) = None \<Longrightarrow> view w' (po_path x) = None \<or> tracked w' (po_path x)"
    and cleanup: "inv w \<Longrightarrow> removable w \<Longrightarrow> wo_cleanup_after_failure ops w = (r, w') \<Longrightarrow>
      r = Inr () \<and> (\<forall>p. view w' p = None \<or> \<not> tracked w p \<and> view w' p = view w p)"
    and cleanup_inv: "inv w \<Longrightarrow> wo_cleanup_after_failure ops w = (r, w') \<Longrightarrow> inv w'"
begin

definition complete :: "'w \<Rightarrow> 'w \<Rightarrow> pub_object \<Rightarrow> bool" where
  "complete w0 w x \<longleftrightarrow> payload w0 x \<noteq> None \<and> view w (po_path x) = payload w0 x"

text \<open>At every point the objects before some position are complete and those after it are absent.\<close>

lemma write_all_progress:
  assumes "inv w" "list_all (admissible w) xs" "distinct (map po_path xs)" "list_all (\<lambda>x. view w (po_path x) = None) xs"
    and "write_all ops xs w = (r, w')"
  shows "inv w' \<and> (removable w \<longrightarrow> removable w') \<and> (\<forall>p. tracked w p \<longrightarrow> tracked w' p) \<and>
    (\<forall>y. admissible w y \<longrightarrow> admissible w' y \<and> payload w' y = payload w y \<and>
        (po_path y \<notin> po_path ` set xs \<longrightarrow> view w' (po_path y) = view w (po_path y))) \<and>
    (\<exists>ys zs. xs = ys @ zs \<and> list_all (complete w w') ys \<and> list_all (\<lambda>y. tracked w' (po_path y)) ys \<and>
       list_all (\<lambda>z. view w' (po_path z) = None) (tl zs) \<and> (r = Inr () \<longleftrightarrow> zs = []) \<and>
       (\<forall>e. r = Inl e \<longrightarrow> removable w \<longrightarrow> isinstance_exc e Exception \<longrightarrow>
          view w' (po_path (hd zs)) = None \<or> tracked w' (po_path (hd zs))))"
  using assms
proof (induction xs arbitrary: w)
  case Nil
  then show ?case by auto
next
  case (Cons x xs)
  obtain r1 w1 where w1: "wo_write ops x w = (r1, w1)" by force
  have adm: "inv w" "admissible w x" using Cons.prems by auto
  note keeps = write_keeps [OF adm w1]
  note frame = write_frame [OF adm w1]
  have rest: "list_all (\<lambda>z. view w1 (po_path z) = None) xs"
  proof (unfold list_all_iff, intro ballI)
    fix z assume z: "z \<in> set xs"
    then have "admissible w z" "view w (po_path z) = None"
      using Cons.prems(2,4) by (auto simp: list_all_iff)
    moreover have "po_path z \<noteq> po_path x"
      using z Cons.prems(3) by (metis distinct.simps(2) imageI list.set_map list.simps(9))
    ultimately show "view w1 (po_path z) = None" using frame by simp
  qed
  show ?case
  proof (cases r1)
    case (Inl e)
    with w1 Cons.prems have out: "r = Inl e" "w' = w1" by simp_all
    have failed: "view w1 (po_path x) = None \<or> tracked w1 (po_path x)" if "removable w" "isinstance_exc e Exception"
      using write_failed [OF adm(1) that(1) adm(2) w1 [unfolded Inl] that(2)] Cons.prems(4) by simp
    have "\<forall>y. admissible w y \<longrightarrow> po_path y \<notin> po_path ` set (x # xs) \<longrightarrow> view w1 (po_path y) = view w (po_path y)"
      using frame by simp
    then show ?thesis
      using keeps rest failed unfolding out
      by (intro conjI exI [of _ "[]"] exI [of _ "x # xs"] impI allI) simp_all
  next
    case (Inr u)
    with w1 have w1': "wo_write ops x w = (Inr (), w1)" by simp
    note wrote = write_ok [OF adm w1']
    have more: "write_all ops xs w1 = (r, w')" using Cons.prems(5) w1' by simp
    have pre: "inv w1" "list_all (admissible w1) xs" "distinct (map po_path xs)"
      using Cons.prems(2,3) keeps by (auto simp: list_all_iff)
    from Cons.IH [OF pre rest more] obtain ys zs where
      ih: "inv w'" "removable w1 \<longrightarrow> removable w'" "\<forall>p. tracked w1 p \<longrightarrow> tracked w' p"
        "\<And>y. admissible w1 y \<Longrightarrow> admissible w' y \<and> payload w' y = payload w1 y \<and>
           (po_path y \<notin> po_path ` set xs \<longrightarrow> view w' (po_path y) = view w1 (po_path y))"
      and parts: "xs = ys @ zs" "list_all (complete w1 w') ys" "list_all (\<lambda>y. tracked w' (po_path y)) ys"
        "list_all (\<lambda>z. view w' (po_path z) = None) (tl zs)" "r = Inr () \<longleftrightarrow> zs = []"
        "\<And>e. r = Inl e \<Longrightarrow> removable w1 \<Longrightarrow> isinstance_exc e Exception \<Longrightarrow>
           view w' (po_path (hd zs)) = None \<or> tracked w' (po_path (hd zs))"
      by blast
    have same: "payload w1 y = payload w y" "admissible w1 y" if "admissible w y" for y using keeps that by blast+
    have x: "complete w w' x"
      using ih(4) [OF same(2) [OF adm(2)]] wrote Cons.prems(3) by (simp add: complete_def)
    have ys: "list_all (complete w w') ys"
      using parts(1,2) Cons.prems(2) same(1) by (auto simp: list_all_iff complete_def)
    have "inv w' \<and> (removable w \<longrightarrow> removable w') \<and> (\<forall>p. tracked w p \<longrightarrow> tracked w' p) \<and>
      (\<forall>y. admissible w y \<longrightarrow> admissible w' y \<and> payload w' y = payload w y \<and>
        (po_path y \<notin> po_path ` set (x # xs) \<longrightarrow> view w' (po_path y) = view w (po_path y)))"
      using keeps ih frame by auto
    then show ?thesis
      using parts x ys wrote ih(3) keeps by (intro conjI exI [of _ "x # ys"] exI [of _ zs]) auto
  qed
qed

text \<open>The upload, once the destination was found empty; \<open>m\<close> is the last object.\<close>

lemma upload_progress:
  assumes "fresh w" "list_all (admissible w) xs" "map po_path xs = paths" "distinct paths"
    and "wo_ensure_empty ops paths w = (Inr (), w1)" "upload ops xs w = (r, w')"
  obtains ys zs where "xs = ys @ zs" "r = Inr () \<longleftrightarrow> zs = []"
    and "\<And>e. r = Inl e \<Longrightarrow> isinstance_exc e Exception \<Longrightarrow> removable w \<Longrightarrow> list_all (\<lambda>x. view w' (po_path x) = None) xs"
    and "removable w \<or> r = Inr () \<Longrightarrow> (\<And>e. r = Inl e \<Longrightarrow> \<not> isinstance_exc e Exception) \<Longrightarrow>
       list_all (complete w w') ys \<and> list_all (\<lambda>z. view w' (po_path z) = None) (tl zs)"
    and "inv w'"
proof -
  note empty = ensure_empty [OF assms(1,5)]
  obtain r2 w2 where all: "write_all ops xs w1 = (r2, w2)" by force
  have pre: "list_all (admissible w1) xs" "distinct (map po_path xs)" "list_all (\<lambda>x. view w1 (po_path x) = None) xs"
    using empty assms(2-4) by (auto simp: list_all_iff)
  from write_all_progress [OF conjunct1 [OF empty] pre all] obtain ys zs where
    keeps: "inv w2" "removable w1 \<longrightarrow> removable w2" and
    parts: "xs = ys @ zs" "list_all (complete w1 w2) ys" "list_all (\<lambda>y. tracked w2 (po_path y)) ys"
      "list_all (\<lambda>z. view w2 (po_path z) = None) (tl zs)" "r2 = Inr () \<longleftrightarrow> zs = []"
      "\<And>e. r2 = Inl e \<Longrightarrow> removable w1 \<Longrightarrow> isinstance_exc e Exception \<Longrightarrow>
         view w2 (po_path (hd zs)) = None \<or> tracked w2 (po_path (hd zs))"
    by blast
  have complete: "list_all (complete w w2) ys"
    using parts(1,2) empty assms(2) by (auto simp: list_all_iff complete_def)
  have run: "upload ops xs w = scatch (write_all ops xs)
      (\<lambda>e. if isinstance_exc e Exception then sbind (wo_cleanup_after_failure ops) (\<lambda>_. sraise e) else sraise e) w1"
    by (simp add: upload_def assms(3,5))
  show ?thesis
  proof (cases "\<exists>e. r2 = Inl e \<and> isinstance_exc e Exception")
    case False
    then have "r2 = r" "w2 = w'"
      using assms(6) all by (auto simp: run scatch_def split: sum.splits if_splits)
    with parts(1,4,5) complete keeps False show ?thesis by (intro that [of ys zs]) auto
  next
    case True
    then obtain e where e: "r2 = Inl e" "isinstance_exc e Exception" by blast
    obtain r3 w3 where clean: "wo_cleanup_after_failure ops w2 = (r3, w3)" by force
    have out: "w' = w3" "r \<noteq> Inr ()"
      using assms(6) all e clean by (auto simp: run scatch_def sbind_apply split: sum.splits)
    have gone: "r = Inl e \<and> list_all (\<lambda>x. view w' (po_path x) = None) xs" if "removable w"
    proof -
      have rem: "removable w1" "removable w2" using that empty keeps by auto
      note c = cleanup [OF keeps(1) rem(2) clean]
      have "view w' (po_path x) = None" if "x \<in> set xs" for x
      proof -
        have "view w2 (po_path x) = None \<or> tracked w2 (po_path x)"
          using that parts(1,3,4) parts(6) [OF e(1) rem(1) e(2)] by (cases zs) (auto simp: list_all_iff)
        then show ?thesis using c out(1) by metis
      qed
      then show ?thesis
        using assms(6) all e clean c by (auto simp: run scatch_def sbind_apply list_all_iff)
    qed
    show ?thesis
    proof (rule that [of ys zs])
      show "xs = ys @ zs" by (rule parts(1))
      show "r = Inr () \<longleftrightarrow> zs = []" using out(2) parts(5) e(1) by auto
      show "inv w'" using cleanup_inv [OF keeps(1) clean] out(1) by simp
    qed (use gone e(2) out(2) in auto)
  qed
qed

text \<open>
  The sources need to be admissible only when the destination was found empty: an upload that finds it occupied ends
  before it reads them.
\<close>

lemma upload_cases:
  assumes "fresh w" "map po_path xs = paths" "upload ops xs w = (r, w')"
  obtains (occupied) e where "wo_ensure_empty ops paths w = (Inl e, w')" "r = Inl e" "kept w'" "\<And>p. view w' p = view w p"
    | (empty) w1 where "wo_ensure_empty ops paths w = (Inr (), w1)" "\<And>x. x \<in> set xs \<Longrightarrow> view w (po_path x) = None"
proof (cases "wo_ensure_empty ops paths w")
  case (Pair r1 w1)
  show thesis
  proof (cases r1)
    case (Inl e)
    with Pair assms(2,3) have "r = Inl e" "w' = w1" by (simp_all add: upload_def)
    with occupied Pair Inl ensure_failed [OF assms(1)] show thesis by blast
  next
    case (Inr u)
    with Pair have ok: "wo_ensure_empty ops paths w = (Inr (), w1)" by simp
    with empty ensure_empty [OF assms(1) ok] assms(2) show thesis by auto
  qed
qed

lemma upload_kept:
  assumes "fresh w" "map po_path xs = paths" "distinct paths" "upload ops xs w = (r, w')"
    and "\<And>w1. wo_ensure_empty ops paths w = (Inr (), w1) \<Longrightarrow> list_all (admissible w) xs"
  shows "kept w'"
  using assms(1,2,4)
proof (cases rule: upload_cases)
  case (empty w1)
  from upload_progress [OF assms(1) assms(5) [OF empty(1)] assms(2,3) empty(1) assms(4)] have "inv w'" by blast
  then show ?thesis by (rule inv_kept)
qed

lemma upload_ok:
  assumes "fresh w" "map po_path xs = paths" "distinct paths" "upload ops xs w = (Inr (), w')"
    and "\<And>w1. wo_ensure_empty ops paths w = (Inr (), w1) \<Longrightarrow> list_all (admissible w) xs"
  shows "list_all (complete w w') xs"
  using assms(1,2,4)
proof (cases rule: upload_cases)
  case (empty w1)
  obtain ys zs where "xs = ys @ zs" "Inr () = (Inr () :: unit result) \<longleftrightarrow> zs = []" "list_all (complete w w') ys"
    by (rule upload_progress [OF assms(1) assms(5) [OF empty(1)] assms(2,3) empty(1) assms(4)]) auto
  then show ?thesis by simp
qed simp

lemma upload_failed:
  assumes "fresh w" "map po_path xs = paths" "distinct paths" "upload ops xs w = (Inl e, w')" "removable w"
    and "\<And>w1. wo_ensure_empty ops paths w = (Inr (), w1) \<Longrightarrow> list_all (admissible w) xs"
    and "isinstance_exc e Exception" "x \<in> set xs"
  shows "view w' (po_path x) = view w (po_path x)"
  using assms(1,2,4)
proof (cases rule: upload_cases)
  case (empty w1)
  have "list_all (\<lambda>x. view w' (po_path x) = None) xs"
    by (rule upload_progress [OF assms(1) assms(6) [OF empty(1)] assms(2,3) empty(1) assms(4)]) (use assms(5,7) in blast)
  with empty(2) assms(8) show ?thesis by (simp add: list_all_iff)
qed simp

text \<open>The last object appears only when all others are complete.\<close>

lemma upload_commit:
  assumes "fresh w" "map po_path xs = paths" "distinct paths" "upload ops xs w = (r, w')" "removable w"
    and "\<And>w1. wo_ensure_empty ops paths w = (Inr (), w1) \<Longrightarrow> list_all (admissible w) xs"
    and "xs = ys @ [m]" "view w (po_path m) = None" "view w' (po_path m) \<noteq> None"
  shows "list_all (complete w w') ys"
proof (cases "\<exists>e. r = Inl e \<and> isinstance_exc e Exception")
  case True
  then obtain e where e: "r = Inl e" "isinstance_exc e Exception" by blast
  have "m \<in> set xs" using assms(7) by simp
  have "view w' (po_path m) = view w (po_path m)"
    by (rule upload_failed [OF assms(1-3) assms(4) [unfolded e(1)] assms(5) _ e(2) \<open>m \<in> set xs\<close>]) (rule assms(6))
  with assms(8,9) show ?thesis by simp
next
  case False
  from assms(1,2,4) show ?thesis
  proof (cases rule: upload_cases)
    case (occupied e)
    with assms(8,9) show ?thesis by simp
  next
    case (empty w1)
    obtain us zs where zs: "xs = us @ zs" "list_all (complete w w') us" "list_all (\<lambda>z. view w' (po_path z) = None) (tl zs)"
      by (rule upload_progress [OF assms(1) assms(6) [OF empty(1)] assms(2,3) empty(1) assms(4)])
        (use assms(5) False in blast)
    have "tl zs = []"
    proof (rule ccontr)
      assume more: "tl zs \<noteq> []"
      then have "zs \<noteq> []" by auto
      then have "last zs = last xs" using zs(1) by simp
      also have "last xs = m" using assms(7) by simp
      finally have "last (tl zs) = m" using more by (simp add: last_tl)
      with last_in_set [OF more] zs(3) assms(9) show False by (simp add: list_all_iff)
    qed
    then have "length zs \<le> 1" by (cases zs) auto
    moreover have "length ys + 1 = length us + length zs" using arg_cong [OF zs(1), of length] assms(7) by simp
    ultimately have "take (length ys) xs = take (length ys) us" by (simp add: zs(1))
    then have "ys = take (length ys) us" using assms(7) by simp
    then have "set ys \<subseteq> set us" by (metis set_take_subset)
    with zs(2) show ?thesis by (auto simp: list_all_iff)
  qed
qed

text \<open>The four facts together, for clients that choose the writer at run time.\<close>

definition upload_spec :: "'w \<Rightarrow> pub_object list \<Rightarrow> unit result \<Rightarrow> 'w \<Rightarrow> bool" where
  "upload_spec w xs r w' \<longleftrightarrow> kept w' \<and> (r = Inr () \<longrightarrow> list_all (complete w w') xs) \<and>
     (removable w \<longrightarrow>
       (\<forall>e x. r = Inl e \<longrightarrow> isinstance_exc e Exception \<longrightarrow> x \<in> set xs \<longrightarrow> view w' (po_path x) = view w (po_path x)) \<and>
       (\<forall>ys m. xs = ys @ [m] \<longrightarrow> view w (po_path m) = None \<longrightarrow> view w' (po_path m) \<noteq> None \<longrightarrow> list_all (complete w w') ys))"

lemma upload_meets_spec:
  assumes "fresh w" "map po_path xs = paths" "distinct paths" "upload ops xs w = (r, w')"
    and adm: "\<And>w1. wo_ensure_empty ops paths w = (Inr (), w1) \<Longrightarrow> list_all (admissible w) xs"
  shows "upload_spec w xs r w'"
proof -
  have "kept w'" by (rule upload_kept [OF assms(1-4)]) (rule adm)
  moreover have "list_all (complete w w') xs" if "r = Inr ()"
    by (rule upload_ok [OF assms(1-3) assms(4) [unfolded that]]) (rule adm)
  moreover have "view w' (po_path x) = view w (po_path x)"
    if "removable w" "r = Inl e" "isinstance_exc e Exception" "x \<in> set xs" for e x
    by (rule upload_failed [OF assms(1-3) assms(4) [unfolded that(2)] that(1) _ that(3,4)]) (rule adm)
  moreover have "list_all (complete w w') ys"
    if "removable w" "xs = ys @ [m]" "view w (po_path m) = None" "view w' (po_path m) \<noteq> None" for ys m
    by (rule upload_commit [OF assms(1-4) that(1) _ that(2-4)]) (rule adm)
  ultimately show ?thesis by (auto simp: upload_spec_def)
qed

end

section \<open>The local writer keeps the promises\<close>

definition lw_view :: "local_writer \<Rightarrow> string \<Rightarrow> string option" where
  "lw_view w p = file_content (lw_disk w) (lw_root w @ pure_parts p)"

definition disk_payload :: "disk \<Rightarrow> pub_object \<Rightarrow> string option" where
  "disk_payload d x = (case po_source x of Some s \<Rightarrow> file_content d s | None \<Rightarrow> Some (content_of x))"

definition lw_payload :: "local_writer \<Rightarrow> pub_object \<Rightarrow> string option" where
  "lw_payload w = disk_payload (lw_disk w)"

definition safe_object :: "pub_object \<Rightarrow> bool" where
  "safe_object x \<longleftrightarrow> safe_relative_path (po_path x) = Inr (po_path x)"

text \<open>A source below the destination would be overwritten while it is read.\<close>

definition lw_admissible :: "local_writer \<Rightarrow> pub_object \<Rightarrow> bool" where
  "lw_admissible w x \<longleftrightarrow> safe_object x \<and> (\<forall>s. po_source x = Some s \<longrightarrow> \<not> prefix (lw_root w) s)"

definition lw_fresh :: "disk \<Rightarrow> local_writer \<Rightarrow> bool" where
  "lw_fresh d w \<longleftrightarrow> lw_disk w = d \<and> wf_disk d \<and> \<not> lw_created w"

definition lw_inv :: "disk \<Rightarrow> local_writer \<Rightarrow> bool" where
  "lw_inv d w \<longleftrightarrow> lw_created w \<and> wf_disk d \<and> grows d (lw_disk w) \<and> (\<forall>q. prefix (lw_root w) q \<longrightarrow> look d q = None)"

definition lw_kept :: "disk \<Rightarrow> local_writer \<Rightarrow> bool" where
  "lw_kept d w \<longleftrightarrow> grows d (lw_disk w)"

definition lw_removable :: "local_writer \<Rightarrow> bool" where
  "lw_removable w \<longleftrightarrow> dk_pinned (lw_disk w) = []"

lemma wf_disk_below:
  assumes "wf_disk d" "look d r = None"
  shows "look d (r @ q) = None"
proof (induction q rule: rev_induct)
  case Nil
  then show ?case using assms(2) by simp
next
  case (snoc c q)
  have "look d (butlast (r @ q @ [c])) \<noteq> Some Directory" using snoc by (simp add: butlast_append)
  moreover have "r @ q @ [c] \<noteq> []" by simp
  ultimately show ?case using assms(1) unfolding wf_disk_def by blast
qed

lemma file_content_adds: "adds p d d' \<Longrightarrow> file_content d' q = file_content d q"
  unfolding adds_def file_content_def by (elim conjE, drule spec [of _ q], erule disjE) simp_all

lemma on_disk_eq: "on_disk act w = (r, w') \<longleftrightarrow> (\<exists>d. act (lw_disk w) = (r, d) \<and> w' = w\<lparr>lw_disk := d\<rparr>)"
  by (auto simp: on_disk_def split: prod.split)

text \<open>A write: directories towards the destination, then at most one file.\<close>

lemma lw_write_cases:
  assumes "lw_write x w = (r, w')"
  obtains d1 d2 where "w' = w\<lparr>lw_disk := d2\<rparr>" "adds (lw_root w @ pure_parts (po_path x)) (lw_disk w) d1"
    and "\<And>q. q \<noteq> lw_root w @ pure_parts (po_path x) \<Longrightarrow> look d2 q = look d1 q" "dk_pinned d2 = dk_pinned (lw_disk w)"
    and "r = Inr () \<Longrightarrow> disk_payload d1 x \<noteq> None \<and> look d2 (lw_root w @ pure_parts (po_path x)) = map_option Regular (disk_payload d1 x)"
proof -
  let ?dst = "lw_root w @ pure_parts (po_path x)"
  obtain r1 d1 where mk: "path_mkdir True True (butlast ?dst) (lw_disk w) = (r1, d1)" by force
  have adds: "adds ?dst (lw_disk w) d1" by (rule adds_widen [OF path_mkdir_adds [OF mk]]) simp
  then have pinned: "dk_pinned d1 = dk_pinned (lw_disk w)" by (simp add: adds_def)
  show ?thesis
  proof (cases r1)
    case (Inl e)
    with assms mk have "r = Inl e" "w' = w\<lparr>lw_disk := d1\<rparr>" by (auto simp: lw_write_def Let_def on_disk_def)
    with adds pinned show ?thesis by (intro that [of d1 d1]) auto
  next
    case (Inr u)
    let ?act = "case po_source x of Some s \<Rightarrow> copyfile s ?dst | None \<Rightarrow> write_bytes ?dst (content_of x)"
    obtain r2 d2 where act: "?act d1 = (r2, d2)" by force
    with assms mk Inr have out: "r = r2" "w' = w\<lparr>lw_disk := d2\<rparr>" by (auto simp: lw_write_def Let_def on_disk_def)
    consider (failed) e where "r2 = Inl e" "d2 = d1" | (written) c where "write_bytes ?dst c d1 = (r2, d2)" "disk_payload d1 x = Some c"
      using act by (auto simp: disk_payload_def file_content_def split: option.splits elim!: copyfile_cases)
    then show ?thesis
    proof cases
      case failed
      with out adds pinned show ?thesis by (intro that [of d1 d1]) auto
    next
      case written
      show ?thesis
        using out adds pinned write_bytes_frame [OF written(1)] write_bytes_pinned [OF written(1)] write_bytes_ok written
        by (intro that [of d2 d1]) auto
    qed
  qed
qed

lemma file_content_cong: "look d' q = look d q \<Longrightarrow> file_content d' q = file_content d q"
  by (simp add: file_content_def)

lemma disk_payload_cong:
  "(\<And>s. po_source x = Some s \<Longrightarrow> file_content d' s = file_content d s) \<Longrightarrow> disk_payload d' x = disk_payload d x"
  by (auto simp: disk_payload_def split: option.split)

lemma lw_ensure_empty_ok:
  assumes "lw_fresh d w" "lw_ensure_empty ps w = (Inr (), w')"
  obtains d1 where "w' = w\<lparr>lw_disk := d1, lw_created := True\<rparr>" "adds (lw_root w) d d1" "look d (lw_root w) = None"
proof -
  from assms obtain d1 where "path_mkdir True False (lw_root w) d = (Inr (), d1)" "look d (lw_root w) = None"
      "w' = w\<lparr>lw_disk := d1, lw_created := True\<rparr>"
    by (auto simp: lw_ensure_empty_def lw_fresh_def path_exists_def sbind_eq_Inr on_disk_eq split: if_splits)
  with path_mkdir_adds that show thesis by blast
qed

lemma lw_ensure_law:
  assumes "lw_fresh d w" "lw_ensure_empty ps w = (Inr (), w')"
  shows "lw_inv d w' \<and> (\<forall>p\<in>set ps. lw_view w p = None \<and> lw_view w' p = None) \<and> (lw_removable w \<longrightarrow> lw_removable w') \<and>
    (\<forall>x. lw_admissible w x \<longrightarrow> lw_admissible w' x \<and> lw_payload w' x = lw_payload w x)"
proof -
  obtain d1 where d1: "w' = w\<lparr>lw_disk := d1, lw_created := True\<rparr>" "adds (lw_root w) d d1" "look d (lw_root w) = None"
    by (rule lw_ensure_empty_ok [OF assms])
  have wf: "wf_disk d" "lw_disk w = d" using assms(1) by (auto simp: lw_fresh_def)
  note none = wf_disk_below [OF wf(1) d1(3)]
  have "lw_view w p = None" for p
    by (simp add: lw_view_def wf(2) file_content_def none)
  moreover have "lw_view w' p = None" for p
    by (simp add: lw_view_def d1(1) file_content_adds [OF d1(2)]) (simp add: file_content_def none)
  moreover have "lw_inv d w'"
    using d1 wf none adds_grows [OF d1(2)] by (auto simp: lw_inv_def prefix_def)
  moreover have "lw_payload w' x = lw_payload w x" for x
    by (simp add: lw_payload_def d1(1) wf(2)) (rule disk_payload_cong, rule file_content_adds [OF d1(2)])
  ultimately show ?thesis
    using d1(1,2) wf(2) by (auto simp: lw_removable_def lw_admissible_def adds_def)
qed

lemma lw_ensure_failed:
  assumes "lw_fresh d w" "lw_ensure_empty ps w = (Inl e, w')"
  shows "lw_kept d w' \<and> (\<forall>p. lw_view w' p = lw_view w p)"
proof -
  have "\<exists>d1. w' = w\<lparr>lw_disk := d1\<rparr> \<and> adds (lw_root w) d d1"
  proof (cases "path_exists (lw_disk w) (lw_root w)")
    case True
    with assms have "w' = w\<lparr>lw_disk := d\<rparr>" by (simp add: lw_ensure_empty_def lw_fresh_def)
    then show ?thesis using adds_refl by blast
  next
    case False
    with assms obtain r1 d1 where "path_mkdir True False (lw_root w) d = (r1, d1)" "w' = w\<lparr>lw_disk := d1\<rparr>"
      by (auto simp: lw_ensure_empty_def lw_fresh_def sbind_eq_Inl on_disk_eq)
    then show ?thesis using path_mkdir_adds by blast
  qed
  then obtain d1 where d1: "w' = w\<lparr>lw_disk := d1\<rparr>" "adds (lw_root w) d d1" by blast
  then show ?thesis
    using assms(1) adds_grows [OF d1(2)] file_content_adds [OF d1(2)] by (simp add: lw_kept_def lw_view_def lw_fresh_def)
qed

lemma lw_write_keeps:
  assumes "lw_inv d w" "lw_write x w = (r, w')"
  shows "lw_inv d w' \<and> (lw_removable w \<longrightarrow> lw_removable w') \<and>
    (\<forall>y. lw_admissible w y \<longrightarrow> lw_admissible w' y \<and> lw_payload w' y = lw_payload w y)"
proof -
  let ?dst = "lw_root w @ pure_parts (po_path x)"
  from assms(2) obtain d1 d2 where w': "w' = w\<lparr>lw_disk := d2\<rparr>" and adds: "adds ?dst (lw_disk w) d1"
    and frame: "\<And>q. q \<noteq> ?dst \<Longrightarrow> look d2 q = look d1 q" and pinned: "dk_pinned d2 = dk_pinned (lw_disk w)"
    by (rule lw_write_cases) blast
  have other: "q \<noteq> ?dst" if "\<not> prefix (lw_root w) q" for q using that by auto
  have "grows d d2"
  proof (unfold grows_def, intro allI impI)
    fix q n assume q: "look d q = Some n"
    then have "q \<noteq> ?dst" using assms(1) by (auto simp: lw_inv_def)
    then show "look d2 q = Some n"
      using q frame adds_grows [OF adds] assms(1) by (simp add: lw_inv_def grows_def)
  qed
  moreover have "lw_payload w' y = lw_payload w y" if "lw_admissible w y" for y
    unfolding lw_payload_def w' using that
    by (auto intro!: disk_payload_cong simp: lw_admissible_def file_content_cong [OF frame [OF other]] file_content_adds [OF adds])
  ultimately show ?thesis
    using assms(1) by (auto simp: lw_inv_def w' lw_removable_def pinned lw_admissible_def)
qed

lemma lw_write_frame:
  assumes "lw_write x w = (r, w')" "lw_admissible w x" "lw_admissible w y" "po_path y \<noteq> po_path x"
  shows "lw_view w' (po_path y) = lw_view w (po_path y)"
proof -
  have "pure_parts (po_path y) \<noteq> pure_parts (po_path x)"
    using assms(2-4) by (auto simp: lw_admissible_def safe_object_def dest: safe_relative_path_inj)
  then have other: "lw_root w @ pure_parts (po_path y) \<noteq> lw_root w @ pure_parts (po_path x)" by simp
  from assms(1) obtain d1 d2 where w': "w' = w\<lparr>lw_disk := d2\<rparr>" and adds: "adds (lw_root w @ pure_parts (po_path x)) (lw_disk w) d1"
    and same: "look d2 (lw_root w @ pure_parts (po_path y)) = look d1 (lw_root w @ pure_parts (po_path y))"
    by (rule lw_write_cases) (use other in blast)
  show ?thesis by (simp add: lw_view_def w' file_content_cong [OF same] file_content_adds [OF adds])
qed

lemma lw_write_ok:
  assumes "lw_admissible w x" "lw_write x w = (Inr (), w')"
  shows "lw_payload w x \<noteq> None \<and> lw_view w' (po_path x) = lw_payload w x"
proof -
  let ?dst = "lw_root w @ pure_parts (po_path x)"
  from assms(2) obtain d1 d2 where w': "w' = w\<lparr>lw_disk := d2\<rparr>" and adds: "adds ?dst (lw_disk w) d1"
    and ok: "disk_payload d1 x \<noteq> None \<and> look d2 ?dst = map_option Regular (disk_payload d1 x)"
    by (rule lw_write_cases) simp
  have "disk_payload d1 x = lw_payload w x"
    unfolding lw_payload_def by (rule disk_payload_cong) (rule file_content_adds [OF adds])
  with ok show ?thesis by (auto simp: lw_view_def w' file_content_def split: option.splits)
qed

lemma lw_cleanup_law:
  assumes "lw_inv d w" "lw_cleanup_after_failure w = (r, w')"
  shows "lw_inv d w'" and "lw_removable w \<Longrightarrow> r = Inr () \<and> (\<forall>p. lw_view w' p = None)"
  using assms
  by (auto simp: lw_inv_def lw_cleanup_after_failure_def grows_def look_rmtree lw_view_def file_content_def lw_removable_def)

interpretation local_pub: publication_writer local_ops paths "lw_fresh d" "lw_inv d" "lw_kept d" lw_removable lw_admissible
  lw_view lw_payload "\<lambda>_ _. True" for paths d
proof (unfold_locales, unfold local_ops_def writer_ops.simps, goal_cases)
  case 1
  then show ?case by (rule lw_ensure_law)
next
  case 2
  then show ?case by (rule lw_ensure_failed)
next
  case 4
  then show ?case using lw_write_keeps [OF 4(1,3)] by blast
next
  case 5
  then show ?case by (intro lw_write_frame)
next
  case 6
  then show ?case using lw_write_ok [OF 6(2,3)] by simp
next
  case 8
  then show ?case using lw_cleanup_law(2) [OF 8(1) 8(3) 8(2)] by blast
next
  case 9
  then show ?case by (rule lw_cleanup_law(1))
qed (simp_all add: lw_kept_def lw_inv_def)

text \<open>The part of the disk that is neither below the destination nor on the way to it.\<close>

definition outside :: "local_writer \<Rightarrow> path \<times> (path \<Rightarrow> node option)" where
  "outside w = (lw_root w, \<lambda>q. if prefix (lw_root w) q \<or> prefix q (lw_root w) then None else look (lw_disk w) q)"

lemma outside_disk:
  "(\<And>q. \<not> prefix (lw_root w) q \<Longrightarrow> \<not> prefix q (lw_root w) \<Longrightarrow> look d q = look (lw_disk w) q) \<Longrightarrow> outside (w\<lparr>lw_disk := d\<rparr>) = outside w"
  by (auto simp: outside_def fun_eq_iff)

lemma outside_created: "outside (w\<lparr>lw_disk := d, lw_created := b\<rparr>) = outside (w\<lparr>lw_disk := d\<rparr>)"
  by (auto simp: outside_def fun_eq_iff)

lemma prefix_append_cases: "prefix q (r @ s) \<Longrightarrow> prefix q r \<or> prefix r q"
  by (auto simp: prefix_append)

lemma keeps_outside: "keeps outside (upload local_ops xs)"
proof (rule keeps_upload)
  fix ps x
  show "keeps outside (wo_ensure_empty local_ops ps)"
  proof (rule keepsI)
    fix w r w' assume "wo_ensure_empty local_ops ps w = (r, w')"
    moreover obtain r1 d where mk: "path_mkdir True False (lw_root w) (lw_disk w) = (r1, d)" by force
    moreover from path_mkdir_adds [OF mk] have "outside (w\<lparr>lw_disk := d\<rparr>) = outside w"
      by (intro outside_disk) (auto simp: adds_def)
    ultimately show "outside w' = outside w"
      by (cases r1) (auto simp: local_ops_def lw_ensure_empty_def sbind_apply on_disk_def outside_created split: if_splits)
  qed
  show "keeps outside (wo_write local_ops x)"
  proof (rule keepsI)
    fix w r w' assume "wo_write local_ops x w = (r, w')"
    then have "lw_write x w = (r, w')" by (simp add: local_ops_def)
    then obtain d1 d2 where w': "w' = w\<lparr>lw_disk := d2\<rparr>" and adds: "adds (lw_root w @ pure_parts (po_path x)) (lw_disk w) d1"
      and frame: "\<And>q. q \<noteq> lw_root w @ pure_parts (po_path x) \<Longrightarrow> look d2 q = look d1 q"
      by (rule lw_write_cases) blast
    have "look d2 q = look (lw_disk w) q" if "\<not> prefix (lw_root w) q" "\<not> prefix q (lw_root w)" for q
    proof -
      have "q \<noteq> lw_root w @ pure_parts (po_path x)" using that by auto
      then have "look d2 q = look d1 q" by (rule frame)
      moreover have "\<not> prefix q (lw_root w @ pure_parts (po_path x))" using that prefix_append_cases by blast
      then have "look d1 q = look (lw_disk w) q" using adds by (auto simp: adds_def)
      ultimately show ?thesis by simp
    qed
    then show "outside w' = outside w" unfolding w' by (rule outside_disk)
  qed
  show "keeps outside (wo_cleanup_after_failure local_ops)"
    by (rule keepsI)
      (auto simp: local_ops_def lw_cleanup_after_failure_def look_rmtree intro!: outside_disk split: if_splits)
qed

end
