(* ===== verification/Publication_Store.thy ===== *)
theory Publication_Store
  imports Publication_Writer
begin

text \<open>
  \<open>_S3Writer\<close> on an object store. \<open>lawful_s3\<close> states what PyArrow documents of its file systems: an operation on a path
  leaves the other objects alone, a stream that was closed normally has stored the bytes sent to it, a deleted
  object is gone. Nothing is assumed of a path whose operation raised.
\<close>

definition others :: "('f \<Rightarrow> string \<Rightarrow> string option) \<Rightarrow> string \<Rightarrow> 'f \<Rightarrow> string \<Rightarrow> string option" where
  "others objs p f = (objs f)(p := None)"

definition lawful_s3 :: "'f s3_filesystem \<Rightarrow> ('f \<Rightarrow> string \<Rightarrow> string option) \<Rightarrow> ('f \<Rightarrow> string \<Rightarrow> string) \<Rightarrow> bool" where
  "lawful_s3 fs objs sent \<longleftrightarrow> (\<forall>p.
     keeps objs (s3_not_found fs p) \<and> keeps (others objs p) (s3_open fs p) \<and>
     (\<forall>c. keeps (others objs p) (s3_send fs p c)) \<and> keeps (others objs p) (s3_close fs p) \<and>
     keeps (others objs p) (s3_delete_file fs p) \<and>
     (\<forall>f f'. s3_not_found fs p f = (Inr True, f') \<longrightarrow> objs f p = None) \<and>
     (\<forall>f f'. s3_open fs p f = (Inr (), f') \<longrightarrow> sent f' p = []) \<and>
     (\<forall>f f' c. s3_send fs p c f = (Inr (), f') \<longrightarrow> sent f' p = sent f p @ c) \<and>
     (\<forall>f f'. s3_close fs p f = (Inr (), f') \<longrightarrow> objs f' p = Some (sent f p)) \<and>
     (\<forall>f f'. s3_delete_file fs p f = (Inr (), f') \<longrightarrow> objs f' p = None))"

definition deletes_succeed :: "'f s3_filesystem \<Rightarrow> bool" where
  "deletes_succeed fs \<longleftrightarrow> (\<forall>p f. fst (s3_delete_file fs p f) = Inr ())"

lemma lawful_s3_keeps:
  assumes "lawful_s3 fs objs sent"
  shows "keeps objs (s3_not_found fs p)" "keeps (others objs p) (s3_open fs p)" "keeps (others objs p) (s3_send fs p c)"
    "keeps (others objs p) (s3_close fs p)" "keeps (others objs p) (s3_delete_file fs p)"
  using assms by (auto simp: lawful_s3_def)

lemma lawful_s3_effect:
  assumes "lawful_s3 fs objs sent"
  shows "s3_not_found fs p f = (Inr True, f') \<Longrightarrow> objs f p = None"
    "s3_open fs p f = (Inr (), f') \<Longrightarrow> sent f' p = []"
    "s3_send fs p c f = (Inr (), f') \<Longrightarrow> sent f' p = sent f p @ c"
    "s3_close fs p f = (Inr (), f') \<Longrightarrow> objs f' p = Some (sent f p)"
    "s3_delete_file fs p f = (Inr (), f') \<Longrightarrow> objs f' p = None"
  using assms by (auto simp: lawful_s3_def)

lemma othersD: "others objs p f' = others objs p f \<Longrightarrow> q \<noteq> p \<Longrightarrow> objs f' q = objs f q"
  by (metis fun_upd_other others_def)

lemma concat_chunks_of: "0 < n \<Longrightarrow> concat (chunks_of n s) = s"
  by (induction n s rule: chunks_of.induct) (subst chunks_of.simps, simp)

lemma keeps_send_all:
  "lawful_s3 fs objs sent \<Longrightarrow> keeps (others objs p) (send_all fs p cs)"
  by (induction cs) (auto intro!: keeps_rules lawful_s3_keeps)

lemma send_all_ok:
  "lawful_s3 fs objs sent \<Longrightarrow> send_all fs p cs f = (Inr (), f') \<Longrightarrow> sent f' p = sent f p @ concat cs"
  by (induction cs arbitrary: f) (auto simp: sbind_eq_Inr lawful_s3_effect)

lemma keeps_send_object:
  "lawful_s3 fs objs sent \<Longrightarrow> keeps (others objs p) (send_object fs p x d)"
  unfolding send_object_def
  by (cases "po_source x") (auto intro!: keeps_rules keeps_send_all lawful_s3_keeps)

lemma send_object_ok:
  assumes "lawful_s3 fs objs sent" "send_object fs p x d f = (Inr (), f')"
  shows "\<exists>c. disk_payload d x = Some c \<and> sent f' p = sent f p @ c"
proof (cases "po_source x")
  case None
  with assms lawful_s3_effect(3) [OF assms(1)] show ?thesis by (simp add: send_object_def disk_payload_def)
next
  case (Some s)
  with assms(2) obtain c where c: "read_bytes d s = Inr c" "send_all fs p (chunks_of copy_chunk c) f = (Inr (), f')"
    by (auto simp: send_object_def sbind_eq_Inr)
  have "concat (chunks_of copy_chunk c) = c" by (rule concat_chunks_of) (simp add: copy_chunk_def)
  with c send_all_ok [OF assms(1) c(2)] Some show ?thesis by (simp add: disk_payload_def read_bytes_Inr)
qed

lemma try_delete_lawful:
  assumes "lawful_s3 fs objs sent"
  shows "keeps (others objs p) (try_delete fs p)"
    and "deletes_succeed fs \<Longrightarrow> try_delete fs p f = (r, f') \<Longrightarrow> r = Inr () \<and> objs f' p = None"
proof -
  show "keeps (others objs p) (try_delete fs p)"
    unfolding try_delete_def by (intro keeps_rules lawful_s3_keeps [OF assms])
  assume "deletes_succeed fs" "try_delete fs p f = (r, f')"
  moreover obtain r1 f1 where "s3_delete_file fs p f = (r1, f1)" by force
  ultimately show "r = Inr () \<and> objs f' p = None"
    using lawful_s3_effect(5) [OF assms] unfolding deletes_succeed_def try_delete_def scatch_def
    by (metis (no_types, lifting) fst_conv old.prod.case prod.inject sum.simps(6))
qed

lemma keeps_s3_put: "lawful_s3 fs objs sent \<Longrightarrow> keeps (others objs p) (s3_put fs p x d)"
  unfolding s3_put_def
  by (intro keeps_rules keeps_send_object try_delete_lawful(1)) (auto intro: lawful_s3_keeps)

lemma s3_put_ok:
  assumes "lawful_s3 fs objs sent" "s3_put fs p x d f = (Inr (), f')"
  shows "disk_payload d x \<noteq> None \<and> objs f' p = disk_payload d x"
proof -
  from assms(2) obtain f1 f2 where steps: "s3_open fs p f = (Inr (), f1)" "send_object fs p x d f1 = (Inr (), f2)"
      "s3_close fs p f2 = (Inr (), f')"
    by (auto simp: s3_put_def scatch_def sbind_apply sfinally_def split: prod.splits sum.splits if_splits)
  with send_object_ok [OF assms(1) steps(2)] lawful_s3_effect(2,4) [OF assms(1)] show ?thesis by fastforce
qed

lemma s3_put_failed:
  assumes "lawful_s3 fs objs sent" "deletes_succeed fs" "s3_put fs p x d f = (Inl e, f')" "isinstance_exc e Exception"
  shows "objs f' p = None"
proof -
  from assms(3,4) obtain f1 e1 r where "try_delete fs p f1 = (r, f')"
    by (auto simp: s3_put_def scatch_def sbind_apply split: prod.splits sum.splits if_splits)
  with try_delete_lawful(2) [OF assms(1,2)] show ?thesis by blast
qed

lemma delete_all_lawful:
  assumes "lawful_s3 fs objs sent" "delete_all fs ps f = (r, f')"
  shows "q \<notin> set ps \<Longrightarrow> objs f' q = objs f q"
    and "deletes_succeed fs \<Longrightarrow> r = Inr () \<and> (\<forall>p\<in>set ps. objs f' p = None)"
proof -
  show "objs f' q = objs f q" if "q \<notin> set ps"
    using that assms(2)
    by (induction ps arbitrary: f)
      (auto simp: sbind_apply split: prod.splits sum.splits dest: keepsD [OF try_delete_lawful(1) [OF assms(1)]] dest!: othersD)
  have other: "try_delete fs p f = (s, f1) \<Longrightarrow> q \<noteq> p \<Longrightarrow> objs f1 q = objs f q" for p q f s f1
    by (rule othersD [OF keepsD [OF try_delete_lawful(1) [OF assms(1)]]])
  have frame: "delete_all fs ps f = (r, f') \<Longrightarrow> objs f q = None \<Longrightarrow> deletes_succeed fs \<Longrightarrow> objs f' q = None" for ps f r q
  proof (induction ps arbitrary: f)
    case (Cons p ps)
    obtain s f1 where t: "try_delete fs p f = (s, f1)" by force
    with try_delete_lawful(2) [OF assms(1) Cons.prems(3) t] other [OF t] Cons show ?case by (cases "q = p") auto
  qed simp
  show "r = Inr () \<and> (\<forall>p\<in>set ps. objs f' p = None)" if "deletes_succeed fs"
    using assms(2)
  proof (induction ps arbitrary: f)
    case (Cons p ps)
    obtain s f1 where t: "try_delete fs p f = (s, f1)" by force
    with try_delete_lawful(2) [OF assms(1) that t] Cons frame [OF _ _ that] show ?case by auto
  qed simp
qed

section \<open>The promises of the writer\<close>

definition sw_key :: "'f s3_writer \<Rightarrow> string \<Rightarrow> string" where
  "sw_key w p = sw_path (sw_prefix w) p"

definition sw_view :: "('f \<Rightarrow> string \<Rightarrow> string option) \<Rightarrow> 'f s3_writer \<Rightarrow> string \<Rightarrow> string option" where
  "sw_view objs w p = objs (sw_store w) (sw_key w p)"

definition sw_fresh where
  "sw_fresh fs objs sent store w \<longleftrightarrow> lawful_s3 fs objs sent \<and> objs (sw_store w) = store \<and> sw_written w = []"

definition sw_inv where
  "sw_inv fs objs sent store paths w \<longleftrightarrow> lawful_s3 fs objs sent \<and>
     (\<forall>k v. store k = Some v \<longrightarrow> objs (sw_store w) k = Some v) \<and> (\<forall>p\<in>set paths. store (sw_key w p) = None) \<and>
     set (sw_written w) \<subseteq> sw_key w ` set paths"

definition sw_kept where
  "sw_kept objs store w \<longleftrightarrow> (\<forall>k v. store k = Some v \<longrightarrow> objs (sw_store w) k = Some v)"

lemma sw_key_inj [simp]: "sw_key w p = sw_key w q \<longleftrightarrow> p = q"
  by (simp add: sw_key_def sw_path_def)

lemma sw_key_update [simp]: "sw_key (w\<lparr>sw_store := f\<rparr>) = sw_key w" "sw_key (w\<lparr>sw_store := f, sw_written := ws\<rparr>) = sw_key w"
  by (simp_all add: sw_key_def fun_eq_iff)

lemma on_store_eq: "on_store act w = (r, w') \<longleftrightarrow> (\<exists>f. act (sw_store w) = (r, f) \<and> w' = w\<lparr>sw_store := f\<rparr>)"
  by (auto simp: on_store_def split: prod.split)

lemma sw_ensure_empty_ok:
  assumes "lawful_s3 fs objs sent" "sw_ensure_empty fs ps w = (Inr (), w')"
  shows "(\<exists>f. w' = w\<lparr>sw_store := f\<rparr> \<and> objs f = objs (sw_store w)) \<and> (\<forall>p\<in>set ps. objs (sw_store w) (sw_key w p) = None)"
  using assms(2)
proof (induction ps arbitrary: w)
  case Nil
  then show ?case by (auto intro: exI [of _ "sw_store w"])
next
  case (Cons p ps)
  then obtain f where f: "s3_not_found fs (sw_key w p) (sw_store w) = (Inr True, f)" "sw_ensure_empty fs ps (w\<lparr>sw_store := f\<rparr>) = (Inr (), w')"
    by (auto simp: sbind_eq_Inr on_store_eq sw_key_def split: if_splits)
  have "objs f = objs (sw_store w)" by (rule keepsD [OF lawful_s3_keeps(1) [OF assms(1)] f(1)])
  with Cons.IH [OF f(2)] lawful_s3_effect(1) [OF assms(1) f(1)] show ?case by auto
qed

lemma sw_ensure_empty_frame:
  assumes "lawful_s3 fs objs sent" "sw_ensure_empty fs ps w = (r, w')"
  shows "\<exists>f. w' = w\<lparr>sw_store := f\<rparr> \<and> objs f = objs (sw_store w)"
  using assms(2)
proof (induction ps arbitrary: w)
  case Nil
  then show ?case by (auto intro: exI [of _ "sw_store w"])
next
  case (Cons p ps)
  obtain s f where f: "s3_not_found fs (sw_path (sw_prefix w) p) (sw_store w) = (s, f)" by force
  have same: "objs f = objs (sw_store w)" by (rule keepsD [OF lawful_s3_keeps(1) [OF assms(1)] f])
  have "w' = w\<lparr>sw_store := f\<rparr> \<or> sw_ensure_empty fs ps (w\<lparr>sw_store := f\<rparr>) = (r, w')"
    using Cons.prems f by (auto simp: sbind_apply on_store_def split: sum.splits if_splits)
  with same Cons.IH show ?case by fastforce
qed

lemma sw_write_cases:
  assumes "sw_write fs x w = (r, w')"
  obtains f where "s3_put fs (sw_key w (po_path x)) x (sw_disk w) (sw_store w) = (r, f)"
    "w' = w\<lparr>sw_store := f, sw_written := sw_written w @ (if r = Inr () then [sw_key w (po_path x)] else [])\<rparr>"
  using assms
  by (auto simp: sw_write_def Let_def sw_key_def sbind_apply on_store_def split: prod.splits sum.splits)

text \<open>The object store after a write, whatever its outcome.\<close>

lemma sw_write_other:
  assumes "lawful_s3 fs objs sent" "sw_write fs x w = (r, w')" "k \<noteq> sw_key w (po_path x)"
  shows "objs (sw_store w') k = objs (sw_store w) k"
proof -
  from assms(2) obtain f where f: "s3_put fs (sw_key w (po_path x)) x (sw_disk w) (sw_store w) = (r, f)" "sw_store w' = f"
    by (rule sw_write_cases) simp
  from othersD [OF keepsD [OF keeps_s3_put [OF assms(1)] f(1)] assms(3)] show ?thesis using f(2) by simp
qed

lemma sw_write_fields:
  "sw_write fs x w = (r, w') \<Longrightarrow> sw_key w' = sw_key w \<and> sw_disk w' = sw_disk w \<and>
     sw_written w' = sw_written w @ (if r = Inr () then [sw_key w (po_path x)] else [])"
  by (erule sw_write_cases) simp

lemma sw_write_inv:
  assumes "sw_inv fs objs sent store paths w" "po_path x \<in> set paths" "sw_write fs x w = (r, w')"
  shows "sw_inv fs objs sent store paths w'"
proof -
  have law: "lawful_s3 fs objs sent" using assms(1) by (simp add: sw_inv_def)
  note fields = sw_write_fields [OF assms(3)]
  have "objs (sw_store w') k = Some v" if "store k = Some v" for k v
  proof -
    have "k \<noteq> sw_key w (po_path x)" using that assms(1,2) by (auto simp: sw_inv_def)
    with sw_write_other [OF law assms(3)] that assms(1) show ?thesis by (simp add: sw_inv_def)
  qed
  with fields assms(1,2) show ?thesis by (auto simp: sw_inv_def)
qed

lemma sw_write_ok:
  assumes "lawful_s3 fs objs sent" "sw_write fs x w = (Inr (), w')"
  shows "disk_payload (sw_disk w) x \<noteq> None \<and> sw_view objs w' (po_path x) = disk_payload (sw_disk w) x \<and>
    sw_key w' (po_path x) \<in> set (sw_written w')"
  using assms(2) sw_write_fields [OF assms(2)] by (auto elim!: sw_write_cases dest: s3_put_ok [OF assms(1)] simp: sw_view_def)

lemma sw_write_failed:
  assumes "lawful_s3 fs objs sent" "deletes_succeed fs" "sw_write fs x w = (Inl e, w')" "isinstance_exc e Exception"
  shows "sw_view objs w' (po_path x) = None"
  using assms(3) sw_write_fields [OF assms(3)]
  by (auto elim!: sw_write_cases dest: s3_put_failed [OF assms(1,2) _ assms(4)] simp: sw_view_def)

lemma sw_cleanup_eq:
  "sw_cleanup_after_failure fs w = (r, w') \<longleftrightarrow>
     (\<exists>f. delete_all fs (rev (sw_written w)) (sw_store w) = (r, f) \<and> w' = w\<lparr>sw_store := f\<rparr>)"
  by (simp add: sw_cleanup_after_failure_def on_store_eq)

interpretation s3_pub: publication_writer "s3_ops fs" paths "sw_fresh fs objs sent store" "sw_inv fs objs sent store paths"
  "sw_kept objs store" "\<lambda>_. deletes_succeed fs" "\<lambda>_ x. po_path x \<in> set paths" "sw_view objs" "\<lambda>w. disk_payload (sw_disk w)"
  "\<lambda>w p. sw_key w p \<in> set (sw_written w)" for fs paths objs sent store
proof (unfold_locales, unfold s3_ops_def writer_ops.simps, goal_cases)
  case (1 w w')
  then have law: "lawful_s3 fs objs sent" by (simp add: sw_fresh_def)
  from 1 sw_ensure_empty_ok [OF law 1(2)] show ?case by (auto simp: sw_inv_def sw_fresh_def sw_view_def)
next
  case (2 w e w')
  then have law: "lawful_s3 fs objs sent" by (simp add: sw_fresh_def)
  from 2 sw_ensure_empty_frame [OF law 2(2)] show ?case by (auto simp: sw_kept_def sw_fresh_def sw_view_def)
next
  case 4
  with sw_write_fields [OF 4(3)] sw_write_inv [OF 4] show ?case by auto
next
  case 5
  then show ?case
    using sw_write_other [OF _ 5(3)] sw_write_fields [OF 5(3)] by (auto simp: sw_view_def sw_inv_def)
next
  case 6
  then show ?case using sw_write_ok [OF _ 6(3)] by (auto simp: sw_inv_def)
next
  case 7
  then show ?case using sw_write_failed [OF _ 7(2,4,5)] by (auto simp: sw_inv_def)
next
  case (8 w r w')
  then have law: "lawful_s3 fs objs sent" by (simp add: sw_inv_def)
  from 8 obtain f where f: "delete_all fs (rev (sw_written w)) (sw_store w) = (r, f)" "w' = w\<lparr>sw_store := f\<rparr>"
    by (auto simp: sw_cleanup_eq)
  note gone = delete_all_lawful(2) [OF law f(1) 8(2)]
  have "objs f k = None \<or> k \<notin> set (sw_written w) \<and> objs f k = objs (sw_store w) k" for k
    using gone delete_all_lawful(1) [OF law f(1), of k] by (cases "k \<in> set (sw_written w)") auto
  with gone f(2) show ?case by (simp add: sw_view_def)
next
  case (9 w r w')
  then have law: "lawful_s3 fs objs sent" by (simp add: sw_inv_def)
  from 9 obtain f where f: "delete_all fs (rev (sw_written w)) (sw_store w) = (r, f)" "w' = w\<lparr>sw_store := f\<rparr>"
    by (auto simp: sw_cleanup_eq)
  have "k \<notin> set (rev (sw_written w))" if "store k = Some v" for k v using that 9(1) by (auto simp: sw_inv_def)
  with delete_all_lawful(1) [OF law f(1)] f(2) 9(1) show ?case by (simp add: sw_inv_def)
qed (simp add: sw_kept_def sw_inv_def)

end
