(* ===== verification/Publish.thy ===== *)
theory Publish
  imports Publication_Store
begin

text \<open>
  \<open>publish\<close> (\<open>publish.py\<close>): the choice of a writer, the upload and the check of the public copy. The theorems say
  what a destination holds after any run, interrupted or not. Parameters: the object store that PyArrow creates for
  some settings, and the answers of the public host.
\<close>

section \<open>Definitions\<close>

record s3_settings =
  ss_region :: "string option"
  ss_scheme :: "string option"
  ss_endpoint :: "string option"

datatype destination = LocalDestination path | S3Destination s3_settings string

definition strip_slashes :: "string \<Rightarrow> string" where
  "strip_slashes s = rstrip_char (CHR ''/'') (lstrip_char (CHR ''/'') s)"

definition s3_endpoint_settings :: "publish_env \<Rightarrow> string option \<Rightarrow> string option \<Rightarrow> s3_settings result" where
  "s3_endpoint_settings env endpoint region =
     (case endpoint of
        None \<Rightarrow> Inr \<lparr>ss_region = region, ss_scheme = None, ss_endpoint = None\<rparr>
      | Some e \<Rightarrow>
          rbind (urlsplit (pe_netloc_ok (pv_paths env)) e) (\<lambda>u.
          rbind (raise_if (su_scheme u \<notin> {''http'', ''https''} \<or> su_netloc u = [])
            (err ValueError ''--s3-endpoint must be an HTTP(S) URL'')) (\<lambda>_.
          Inr \<lparr>ss_region = region, ss_scheme = Some (su_scheme u), ss_endpoint = Some (su_netloc u)\<rparr>)))"

definition writer_for :: "publish_env \<Rightarrow> string \<Rightarrow> string option \<Rightarrow> string option \<Rightarrow> destination result" where
  "writer_for env dest endpoint region =
     rbind (urlsplit (pe_netloc_ok (pv_paths env)) dest) (\<lambda>parsed.
     if su_scheme parsed = ''s3''
     then rbind (raise_if (su_netloc parsed = [] \<or> strip_slashes (su_path parsed) = [])
            (err ValueError ''S3 destination must include a bucket and immutable prefix'')) (\<lambda>_.
          rbind (s3_endpoint_settings env endpoint region) (\<lambda>settings.
          Inr (S3Destination settings (rstrip_char (CHR ''/'') (su_netloc parsed @ ''/'' @ strip_slashes (su_path parsed))))))
     else if su_scheme parsed = ''file'' then rbind (pe_resolve (pv_paths env) (su_path parsed)) (\<lambda>p. Inr (LocalDestination p))
     else if su_scheme parsed \<noteq> [] then Inl (err ValueError ''destination must be a local path, file URI, or s3:// URI'')
     else rbind (pe_resolve (pv_paths env) dest) (\<lambda>p. Inr (LocalDestination p)))"

record 'f world =
  wd_disk :: disk
  wd_store :: 'f

definition run_writer ::
  "(s3_settings \<Rightarrow> 'f s3_filesystem result) \<Rightarrow> destination \<Rightarrow> pub_object list \<Rightarrow> ('f world, unit) cmd" where
  "run_writer fs dst xs = (\<lambda>w.
     (case dst of
        LocalDestination p \<Rightarrow>
          (case upload local_ops xs \<lparr>lw_root = p, lw_created = False, lw_disk = wd_disk w\<rparr> of
             (r, lw) \<Rightarrow> (r, w\<lparr>wd_disk := lw_disk lw\<rparr>))
      | S3Destination settings pre \<Rightarrow>
          (case fs settings of
             Inl e \<Rightarrow> (Inl e, w)
           | Inr f \<Rightarrow>
               (case upload (s3_ops f) xs \<lparr>sw_prefix = pre, sw_written = [], sw_disk = wd_disk w, sw_store = wd_store w\<rparr> of
                  (r, sw) \<Rightarrow> (r, w\<lparr>wd_store := sw_store sw\<rparr>)))))"

text \<open>\<open>max(candidates, key=size)\<close>: the first of the largest.\<close>

fun largest :: "(pub_object \<times> int) \<Rightarrow> (pub_object \<times> int) list \<Rightarrow> pub_object \<times> int" where
  "largest best [] = best"
| "largest best (x # xs) = largest (if snd best < snd x then x else best) xs"

definition candidate_size :: "disk \<Rightarrow> pub_object \<Rightarrow> (pub_object \<times> int) list result" where
  "candidate_size d x =
     (if endswith (po_path x) ''.parquet''
      then rbind (object_size d x) (\<lambda>n. Inr (if 1 < n then [(x, n)] else [])) else Inr [])"

definition range_candidate :: "disk \<Rightarrow> pub_object list \<Rightarrow> (pub_object \<times> int) result" where
  "range_candidate d xs =
     rbind (traverse (candidate_size d) xs) (\<lambda>found.
     (case concat found of
        [] \<Rightarrow> Inl (err ValueError ''publication has no non-empty Parquet object to range-check'')
      | c # cs \<Rightarrow> Inr (largest c cs)))"

definition raise_for_status :: "http_reply \<Rightarrow> unit result" where
  "raise_for_status r = raise_if (hr_status r < 200 \<or> 300 \<le> hr_status r) (err HTTPError (show_int (hr_status r)))"

definition byte_range_of :: "int \<Rightarrow> string" where
  "byte_range_of n = ''bytes 0-0/'' @ show_int n"

definition verify_publication :: "publish_env \<Rightarrow> disk \<Rightarrow> string \<Rightarrow> pub_object list \<Rightarrow> string \<Rightarrow> unit result" where
  "verify_publication env d public_url xs cors_origin =
     (let base = rstrip_char (CHR ''/'') public_url @ ''/'' in
      rbind (range_candidate d xs) (\<lambda>(candidate, size).
      rbind (pv_get env (base @ manifest_name) []) (\<lambda>response.
      rbind (raise_for_status response) (\<lambda>_.
      rbind (raise_if (Some (hr_content response) \<noteq> Option.bind (find (\<lambda>x. po_path x = manifest_name) (rev xs)) po_content)
        (err RuntimeError ''public index manifest bytes differ from the publication'')) (\<lambda>_.
      rbind (pv_get env (base @ po_path candidate) [(''Range'', ''bytes=0-0''), (''Origin'', cors_origin)]) (\<lambda>ranged.
      rbind (raise_if (hr_status ranged \<noteq> 206)
        (err RuntimeError (''public host returned HTTP '' @ show_int (hr_status ranged) @ '' for a byte range''))) (\<lambda>_.
      rbind (raise_if (map_of (hr_headers ranged) ''content-range'' \<noteq> Some (byte_range_of size) \<or> length (hr_content ranged) \<noteq> 1)
        (err RuntimeError (''invalid Content-Range; expected '' @ byte_range_of size))) (\<lambda>_.
      raise_if (map_of (hr_headers ranged) ''access-control-allow-origin'' \<notin> {Some ''*'', Some cors_origin})
        (err RuntimeError ''public host does not allow browser CORS reads'')))))))))"

record publish_request =
  pr_index_manifest :: string
  pr_destination :: string
  pr_source :: "string option"
  pr_source_key :: "string option"
  pr_embedding :: "jobject option"
  pr_model_assets :: "(string \<times> string) list"
  pr_public_url :: "string option"
  pr_s3_endpoint :: "string option"
  pr_s3_region :: "string option"
  pr_verify_http :: bool
  pr_cors_origin :: string

record publication_result =
  pb_destination :: string
  pb_manifest_url :: "string option"
  pb_files :: nat
  pb_bytes :: int

text \<open>Everything \<open>publish\<close> does before it opens the destination.\<close>

definition planned_source ::
  "publish_env \<Rightarrow> disk \<Rightarrow> jobject \<Rightarrow> publish_request \<Rightarrow> (path option \<times> json option) result" where
  "planned_source env d manifest req =
     (case (pr_source req, pr_source_key req) of
        (Some s, Some key) \<Rightarrow>
          rbind (pe_resolve (pv_paths env) s) (\<lambda>source.
          rbind (source_descriptor env d source key manifest) (\<lambda>v. Inr (Some source, Some v)))
      | (None, None) \<Rightarrow> Inr (None, None)
      | _ \<Rightarrow> Inl (err ValueError ''source and source_key must be provided together''))"

definition publish_plan :: "publish_env \<Rightarrow> disk \<Rightarrow> publish_request \<Rightarrow> pub_object list result" where
  "publish_plan env d req =
     rbind (pe_resolve (pv_paths env) (pr_index_manifest req)) (\<lambda>index_manifest.
     rbind (load_index_manifest env d index_manifest) (\<lambda>manifest.
     rbind (planned_source env d manifest req) (\<lambda>(source, descriptor).
     rbind (publication_objects env d index_manifest manifest source descriptor (pr_embedding req) (pr_model_assets req)) (\<lambda>xs.
     rbind (ensure_unique_paths xs) (\<lambda>_. Inr xs)))))"

definition committed_but_unverified :: "publish_request \<Rightarrow> exc \<Rightarrow> exc" where
  "committed_but_unverified req e =
     err RuntimeError (''publication was committed, but public HTTP verification failed; do not retry the immutable destination (''
       @ pr_destination req @ ''): '' @ exc_msg e)"

definition verify_public_copy :: "publish_env \<Rightarrow> publish_request \<Rightarrow> disk \<Rightarrow> pub_object list \<Rightarrow> string option result" where
  "verify_public_copy env req d xs =
     (case pr_public_url req of
        None \<Rightarrow> Inr None
      | Some url \<Rightarrow>
          let manifest_url = rstrip_char (CHR ''/'') url @ ''/'' @ manifest_name in
          if \<not> pr_verify_http req then Inr (Some manifest_url)
          else (case verify_publication env d url xs (pr_cors_origin req) of
                  Inl e \<Rightarrow> Inl (if isinstance_exc e Exception then committed_but_unverified req e else e)
                | Inr _ \<Rightarrow> Inr (Some manifest_url)))"

definition publish ::
  "publish_env \<Rightarrow> (s3_settings \<Rightarrow> 'f s3_filesystem result) \<Rightarrow> publish_request \<Rightarrow> ('f world, publication_result) cmd" where
  "publish env fs req =
     sbind (\<lambda>w. (publish_plan env (wd_disk w) req, w)) (\<lambda>xs.
     sbind (slift (writer_for env (pr_destination req) (pr_s3_endpoint req) (pr_s3_region req))) (\<lambda>dst.
     sbind (run_writer fs dst xs) (\<lambda>_.
     sbind (\<lambda>w. (verify_public_copy env req (wd_disk w) xs, w)) (\<lambda>manifest_url.
     sbind (\<lambda>w. (traverse (object_size (wd_disk w)) xs, w)) (\<lambda>sizes.
     sret \<lparr>pb_destination = pr_destination req, pb_manifest_url = manifest_url, pb_files = length xs,
           pb_bytes = sum_list sizes\<rparr>)))))"

section \<open>The plan\<close>

text \<open>\<open>Path.resolve\<close> returns absolute paths without dots.\<close>

definition clean_resolution :: "publish_env \<Rightarrow> bool" where
  "clean_resolution env \<longleftrightarrow> (\<forall>s p. pe_resolve (pv_paths env) s = Inr p \<longrightarrow> list_all clean_component p)"

text \<open>An object read from a file that exists.\<close>

definition file_object :: "disk \<Rightarrow> pub_object \<Rightarrow> bool" where
  "file_object d x \<longleftrightarrow> safe_object x \<and> (\<exists>s. po_source x = Some s \<and> is_file d s)"

lemma file_object_payload: "file_object d x \<Longrightarrow> disk_payload d x \<noteq> None"
  by (auto simp: file_object_def disk_payload_def is_file_content)

lemma safe_manifest_name: "safe_relative_path manifest_name = Inr manifest_name"
  by code_simp

lemma safe_source_object:
  "safe_relative_path p = Inr q \<Longrightarrow> safe_object (source_object p s)"
  by (auto simp: safe_object_def source_object_def safe_relative_path_Inr)

lemma referenced_index_paths_safe:
  assumes "referenced_index_paths manifest = Inr ps" "p \<in> set ps"
  shows "safe_relative_path p = Inr p"
proof -
  from assms(1) obtain vs where "traverse referenced_path vs = Inr ps"
    by (auto simp: referenced_index_paths_def simp del: traverse.simps split: json.splits)
  from traverse_set [OF this assms(2)] show ?thesis
    by (auto simp: referenced_path_def json_case_Inr safe_relative_path_Inr)
qed

lemma model_assets_objects:
  assumes "traverse (model_asset env d) assets = Inr as"
  shows "list_all (\<lambda>x. safe_object x \<and> po_source x \<noteq> None) (map fst as)"
proof (unfold list_all_iff, intro ballI)
  fix x assume "x \<in> set (map fst as)"
  then obtain v where "(x, v) \<in> set as" by auto
  from traverse_set [OF assms this] show "safe_object x \<and> po_source x \<noteq> None"
    by (auto simp: model_asset_def safe_object_def source_object_def safe_relative_path_Inr)
qed

lemma add_embedding_objects:
  assumes "add_embedding env d embedding assets st = Inr (xs, publication)"
    and "list_all (\<lambda>x. safe_object x \<and> po_source x \<noteq> None) (fst st)"
  shows "list_all (\<lambda>x. safe_object x \<and> po_source x \<noteq> None) xs"
  using assms by (auto simp: add_embedding_def split: option.splits if_splits dest!: model_assets_objects)

text \<open>The manifest is the last object, and every other object is a file of the disk with a safe path.\<close>

lemma publication_objects_shape:
  assumes "publication_objects env d im manifest source descriptor embedding assets = Inr xs"
    and "\<And>s. source = Some s \<Longrightarrow> clean_component (path_name s)"
  obtains ys m where "xs = ys @ [m]" "po_path m = manifest_name" "po_source m = None" "list_all (file_object d) ys"
proof -
  from assms(1) obtain ps ys publication where
    refs: "referenced_index_paths manifest = Inr ps" and
    emb: "add_embedding env d embedding assets
      (add_source source descriptor (map (\<lambda>p. source_object p (butlast im @ pure_parts p)) ps, manifest)) = Inr (ys, publication)" and
    xs: "xs = ys @ [\<lparr>po_path = manifest_name, po_source = None, po_content = Some (pv_json_bytes env (JObj publication))\<rparr>]" and
    ex: "validate_each (check_object_exists d) xs = Inr ()"
    by (auto simp: publication_objects_def Let_def)
  let ?st = "add_source source descriptor (map (\<lambda>p. source_object p (butlast im @ pure_parts p)) ps, manifest)"
  have "list_all (\<lambda>x. safe_object x \<and> po_source x \<noteq> None) (fst ?st)"
    using assms(2) referenced_index_paths_safe [OF refs]
    by (auto simp: add_source_def list_all_iff source_object_def intro!: safe_source_object [unfolded source_object_def] safe_name
        split: option.split)
  note objects = add_embedding_objects [OF emb this]
  have "file_object d x" if "x \<in> set ys" for x
  proof -
    from objects that obtain s where s: "safe_object x" "po_source x = Some s" by (auto simp: list_all_iff)
    moreover have "check_object_exists d x = Inr ()" using ex that by (simp add: xs validate_each_Inr list_all_iff)
    ultimately show ?thesis by (simp add: check_object_exists_def file_object_def)
  qed
  then have "list_all (file_object d) ys" by (simp add: list_all_iff)
  then show thesis by (intro that [OF xs]) simp_all
qed

lemma publish_plan_shape:
  assumes "clean_resolution env" "wf_disk d" "publish_plan env d req = Inr xs"
  obtains ys m where "xs = ys @ [m]" "po_path m = manifest_name" "po_source m = None" "list_all (file_object d) ys"
    "distinct (map po_path xs)"
proof -
  from assms(3) obtain im manifest source descriptor where
    po: "publication_objects env d im manifest source descriptor (pr_embedding req) (pr_model_assets req) = Inr xs" and
    src: "planned_source env d manifest req = Inr (source, descriptor)" and dist: "distinct (map po_path xs)"
    by (auto simp: publish_plan_def ensure_unique_paths_Inr)
  have "clean_component (path_name s)" if "source = Some s" for s
  proof -
    from src that obtain t where t: "pe_resolve (pv_paths env) t = Inr s" "is_file d s"
      by (auto simp: planned_source_def source_descriptor_def split: option.splits if_splits)
    then have "s \<noteq> []" using assms(2) by (auto simp: wf_disk_def is_file_def)
    with t(1) assms(1) show ?thesis by (auto simp: clean_resolution_def path_name_def list_all_iff)
  qed
  from publication_objects_shape [OF po this] dist that show thesis by blast
qed

section \<open>What a destination holds\<close>

definition published :: "('f \<Rightarrow> string \<Rightarrow> string option) \<Rightarrow> destination \<Rightarrow> 'f world \<Rightarrow> string \<Rightarrow> string option" where
  "published objs dst w p =
     (case dst of
        LocalDestination q \<Rightarrow> file_content (wd_disk w) (q @ pure_parts p)
      | S3Destination _ pre \<Rightarrow> objs (wd_store w) (sw_path pre p))"

definition complete_at where
  "complete_at objs dst w w' x \<longleftrightarrow>
     disk_payload (wd_disk w) x \<noteq> None \<and> published objs dst w' (po_path x) = disk_payload (wd_disk w) x"

text \<open>Deleting works: nothing below a local destination is pinned, an object store deletes what it is asked to.\<close>

definition deletable where
  "deletable fs dst w \<longleftrightarrow>
     (case dst of
        LocalDestination _ \<Rightarrow> dk_pinned (wd_disk w) = []
      | S3Destination settings _ \<Rightarrow> (case fs settings of Inr f \<Rightarrow> deletes_succeed f | Inl _ \<Rightarrow> True))"

text \<open>Every store that the settings give is lawful.\<close>

definition lawful_stores where
  "lawful_stores fs objs sent \<longleftrightarrow> (\<forall>settings f. fs settings = Inr f \<longrightarrow> lawful_s3 f objs sent)"

definition undisturbed where
  "undisturbed objs w w' \<longleftrightarrow> grows (wd_disk w) (wd_disk w') \<and>
     (\<forall>k v. objs (wd_store w) k = Some v \<longrightarrow> objs (wd_store w') k = Some v)"

definition planned_objects :: "disk \<Rightarrow> pub_object list \<Rightarrow> bool" where
  "planned_objects d xs \<longleftrightarrow> distinct (map po_path xs) \<and>
     (\<exists>ys m. xs = ys @ [m] \<and> po_path m = manifest_name \<and> po_source m = None \<and> list_all (file_object d) ys)"

lemma publish_plan_planned:
  "clean_resolution env \<Longrightarrow> wf_disk d \<Longrightarrow> publish_plan env d req = Inr xs \<Longrightarrow> planned_objects d xs"
  unfolding planned_objects_def by (rule publish_plan_shape) blast+

lemma planned_admissible:
  assumes "planned_objects d xs" "lw_fresh d w" "lw_ensure_empty ps w = (Inr (), w1)"
  shows "list_all (lw_admissible w) xs"
proof (unfold list_all_iff, intro ballI)
  fix x assume x: "x \<in> set xs"
  have wf: "wf_disk d" using assms(2) by (simp add: lw_fresh_def)
  have "look d (lw_root w) = None" by (rule lw_ensure_empty_ok [OF assms(2,3)])
  note none = wf_disk_below [OF wf this]
  from assms(1) x have "file_object d x \<or> po_path x = manifest_name \<and> po_source x = None"
    by (auto simp: planned_objects_def list_all_iff)
  then show "lw_admissible w x"
    using none safe_manifest_name by (auto simp: lw_admissible_def file_object_def safe_object_def is_file_def prefix_def)
qed

text \<open>The upload of a plan, for both kinds of destination.\<close>

definition run_spec where
  "run_spec fs objs dst xs w r w' \<longleftrightarrow> undisturbed objs w w' \<and> (r = Inr () \<longrightarrow> list_all (complete_at objs dst w w') xs) \<and>
     (deletable fs dst w \<longrightarrow>
       (\<forall>e x. r = Inl e \<longrightarrow> isinstance_exc e Exception \<longrightarrow> x \<in> set xs \<longrightarrow>
          published objs dst w' (po_path x) = published objs dst w (po_path x)) \<and>
       (\<forall>ys m. xs = ys @ [m] \<longrightarrow> published objs dst w (po_path m) = None \<longrightarrow> published objs dst w' (po_path m) \<noteq> None \<longrightarrow>
          list_all (complete_at objs dst w w') ys))"

lemma run_writer_local:
  assumes "wf_disk (wd_disk w)" "planned_objects (wd_disk w) xs" "run_writer fs (LocalDestination p) xs w = (r, w')"
  shows "run_spec fs objs (LocalDestination p) xs w r w'"
proof -
  let ?w = "\<lparr>lw_root = p, lw_created = False, lw_disk = wd_disk w\<rparr>"
  obtain lw where up: "upload local_ops xs ?w = (r, lw)" and w': "w' = w\<lparr>wd_disk := lw_disk lw\<rparr>"
    using assms(3) by (auto simp: run_writer_def split: prod.splits)
  have fresh: "lw_fresh (wd_disk w) ?w" using assms(1) by (simp add: lw_fresh_def)
  have "lw_root lw = p" using keepsD [OF keeps_local_root up] by simp
  moreover have "local_pub.upload_spec (wd_disk w) ?w xs r lw"
    using assms(2) planned_admissible [OF assms(2) fresh]
    by (intro local_pub.upload_meets_spec [OF fresh refl _ up]) (auto simp: planned_objects_def local_ops_def)
  ultimately show ?thesis
    unfolding run_spec_def local_pub.upload_spec_def local_pub.complete_def complete_at_def undisturbed_def w'
    by (simp add: lw_kept_def published_def lw_view_def lw_payload_def deletable_def lw_removable_def)
qed

lemma run_writer_s3:
  assumes "planned_objects (wd_disk w) xs" "lawful_stores fs objs sent"
    and "run_writer fs (S3Destination settings pre) xs w = (r, w')"
  shows "run_spec fs objs (S3Destination settings pre) xs w r w'"
proof (cases "fs settings")
  case (Inl e)
  with assms(3) have "r = Inl e" "w' = w" by (simp_all add: run_writer_def)
  then show ?thesis by (simp add: run_spec_def undisturbed_def)
next
  case (Inr f)
  let ?w = "\<lparr>sw_prefix = pre, sw_written = [], sw_disk = wd_disk w, sw_store = wd_store w\<rparr>"
  obtain sw where up: "upload (s3_ops f) xs ?w = (r, sw)" and w': "w' = w\<lparr>wd_store := sw_store sw\<rparr>"
    using assms(3) Inr by (auto simp: run_writer_def split: prod.splits)
  have fresh: "sw_fresh f objs sent (objs (wd_store w)) ?w"
    using assms(2) Inr by (auto simp: sw_fresh_def lawful_stores_def)
  have "sw_prefix sw = pre" using keepsD [OF keeps_s3_fields up] by simp
  moreover have "s3_pub.upload_spec objs (objs (wd_store w)) f ?w xs r sw"
    using assms(1) by (intro s3_pub.upload_meets_spec [OF fresh refl _ up]) (auto simp: planned_objects_def list_all_iff)
  ultimately show ?thesis
    unfolding run_spec_def s3_pub.upload_spec_def s3_pub.complete_def complete_at_def undisturbed_def w'
    by (simp add: sw_kept_def published_def sw_view_def sw_key_def deletable_def Inr)
qed

lemma run_writer_meets_spec:
  "wf_disk (wd_disk w) \<Longrightarrow> planned_objects (wd_disk w) xs \<Longrightarrow> lawful_stores fs objs sent \<Longrightarrow> run_writer fs dst xs w = (r, w')
     \<Longrightarrow> run_spec fs objs dst xs w r w'"
  by (cases dst) (auto intro: run_writer_local run_writer_s3)

section \<open>Runs of \<open>publish\<close>\<close>

lemma publish_unplanned:
  assumes "publish_plan env (wd_disk w) req = Inl e \<or> publish_plan env (wd_disk w) req = Inr xs \<and>
      writer_for env (pr_destination req) (pr_s3_endpoint req) (pr_s3_region req) = Inl e"
  shows "publish env fs req w = (Inl e, w)"
  using assms by (auto simp: publish_def)

lemma publish_planned:
  assumes "publish_plan env (wd_disk w) req = Inr xs"
    and "writer_for env (pr_destination req) (pr_s3_endpoint req) (pr_s3_region req) = Inr dst"
    and "run_writer fs dst xs w = (r1, w1)"
  shows "publish env fs req w =
    (rbind r1 (\<lambda>_. rbind (verify_public_copy env req (wd_disk w1) xs) (\<lambda>url.
       rbind (traverse (object_size (wd_disk w1)) xs) (\<lambda>sizes.
       Inr \<lparr>pb_destination = pr_destination req, pb_manifest_url = url, pb_files = length xs, pb_bytes = sum_list sizes\<rparr>))), w1)"
  using assms by (auto simp: publish_def sbind_apply split: sum.split)





text \<open>
  C7. Publishing never changes or removes anything that existed before: whatever the outcome and wherever the run is
  interrupted, every file of the disk and every object of the store that was there keeps its content.
\<close>

theorem publish_undisturbed:
  assumes "clean_resolution env" "wf_disk (wd_disk w)" "lawful_stores fs objs sent"
    and "publish env fs req w = (r, w')"
  shows "undisturbed objs w w'"
proof (cases "publish_plan env (wd_disk w) req")
  case (Inl e)
  with assms(4) show ?thesis by (simp add: publish_unplanned undisturbed_def)
next
  case (Inr xs)
  note planned = publish_plan_planned [OF assms(1,2) Inr]
  show ?thesis
  proof (cases "writer_for env (pr_destination req) (pr_s3_endpoint req) (pr_s3_region req)")
    case (Inl e)
    with Inr assms(4) show ?thesis by (simp add: publish_unplanned undisturbed_def)
  next
    fix dst assume dst: "writer_for env (pr_destination req) (pr_s3_endpoint req) (pr_s3_region req) = Inr dst"
    obtain r1 w1 where run: "run_writer fs dst xs w = (r1, w1)" by force
    with run_writer_meets_spec [OF assms(2) planned assms(3) run] publish_planned [OF Inr dst run] assms(4) show ?thesis
      by (simp add: run_spec_def)
  qed
qed



lemma referenced_descriptors:
  assumes "index_descriptors manifest = Inr vs" "referenced_index_paths manifest = Inr ps"
  shows "traverse referenced_path vs = Inr ps"
proof -
  from assms(1) obtain hierarchy postings centroids files xs where
    items: "map_of manifest ''hierarchy'' = Some (JObj hierarchy)" "map_of manifest ''postings'' = Some (JObj postings)"
      "map_of hierarchy ''centroids'' = Some centroids" "map_of postings ''files'' = Some files"
      "py_iter files = Some xs" "vs = centroids # xs"
    by (auto simp: index_descriptors_def jitem_def as_asserted_object_def json_case_Inr split: option.splits)
  with assms(2) show ?thesis
    by (auto simp: referenced_index_paths_def jget_def py_iter_def json_case_Inr simp del: traverse.simps)
qed

lemma validated_descriptor:
  assumes "validate_index_object env d base v = Inr ()" "referenced_path v = Inr p"
  obtains body c where "v = JObj body" "jget body ''path'' = JStr p" "file_content d (base @ pure_parts p) = Some c"
    "py_eq (jget body ''size'') (JInt (int (length c)))" "py_eq (jget body ''sha256'') (JStr (pv_sha256 env c))"
proof -
  from assms(2) obtain body where body: "v = JObj body" "jget body ''path'' = JStr p" and p: "safe_relative_path p = Inr p"
    by (auto simp: referenced_path_def json_case_Inr safe_relative_path_Inr)
  have "jget_or body ''path'' k = JStr p" for k
    using body(2) by (auto simp: jget_def jget_or_def split: option.splits)
  with assms(1) body p show thesis
    by (auto simp: validate_index_object_def Let_def json_str_def st_size_def sha256_of_def read_bytes_Inr intro!: that)
qed

text \<open>
  C14. What is published is what the index manifest describes: for every object descriptor of the manifest the plan
  has an object under the described path, and the file it is copied from has the described size and SHA-256.
\<close>

theorem plan_matches_index_manifest:
  assumes "publish_plan env d req = Inr xs" "pe_resolve (pv_paths env) (pr_index_manifest req) = Inr im"
    and "load_index_manifest env d im = Inr manifest" "index_descriptors manifest = Inr vs" "v \<in> set vs"
  shows "\<exists>x\<in>set xs. \<exists>body c. v = JObj body \<and> jget body ''path'' = JStr (po_path x) \<and> disk_payload d x = Some c \<and>
    py_eq (jget body ''size'') (JInt (int (length c))) \<and> py_eq (jget body ''sha256'') (JStr (pv_sha256 env c))"
proof -
  let ?base = "butlast im"
  from assms(1-3) obtain source descriptor where
    "publication_objects env d im manifest source descriptor (pr_embedding req) (pr_model_assets req) = Inr xs"
    by (auto simp: publish_plan_def)
  then obtain ps ys zs where
    valid: "validate_index_objects env d manifest ?base = Inr ()" and refs: "referenced_index_paths manifest = Inr ps" and
    xs: "xs = map (\<lambda>p. source_object p (?base @ pure_parts p)) ps @ zs"
    by (auto simp: publication_objects_def Let_def add_embedding_def add_source_def split: option.splits if_splits)
  from referenced_descriptors [OF assms(4) refs] assms(5) obtain p where p: "p \<in> set ps" "referenced_path v = Inr p"
    by (auto simp: traverse_Inr_iff list_all2_conv_all_nth in_set_conv_nth) (metis nth_mem)
  have "validate_index_object env d ?base v = Inr ()"
    using valid assms(4,5) by (simp add: validate_index_objects_def validate_each_Inr list_all_iff)
  from validated_descriptor [OF this p(2)] obtain body c where
    b: "v = JObj body" "jget body ''path'' = JStr p" "file_content d (?base @ pure_parts p) = Some c"
      "py_eq (jget body ''size'') (JInt (int (length c)))" "py_eq (jget body ''sha256'') (JStr (pv_sha256 env c))"
    by blast
  let ?x = "source_object p (?base @ pure_parts p)"
  have "?x \<in> set xs" using p(1) by (auto simp: xs)
  moreover have "po_path ?x = p" "disk_payload d ?x = Some c" using b(3) by (simp_all add: source_object_def disk_payload_def)
  ultimately show ?thesis using b by (intro bexI [of _ ?x]) auto
qed


section \<open>A sample deployment\<close>

text \<open>An index of two objects, digests that are the contents themselves, and a disk whose next faults are a parameter.\<close>

definition sample_index_manifest :: jobject where
  "sample_index_manifest =
     [(''format-version'', JInt 1), (''artifact-uuid'', JStr ''u''),
      (''hierarchy'', JObj [(''centroids'', JObj [(''path'', JStr ''c.parquet''), (''size'', JInt 3), (''sha256'', JStr ''abc'')])]),
      (''postings'', JObj [(''files'', JArr [JObj [(''path'', JStr ''p/0.parquet''), (''size'', JInt 2), (''sha256'', JStr ''xy'')]])])]"

definition sample_publish_env :: publish_env where
  "sample_publish_env =
     \<lparr>pv_paths = \<lparr>pe_netloc_ok = \<lambda>_. True, pe_resolve = \<lambda>s. Inr (filter clean_component (split_on (CHR ''/'') s))\<rparr>,
      pv_sha256 = id, pv_loads = (\<lambda>_. Inr (JObj sample_index_manifest)), pv_json_bytes = (\<lambda>_. ''manifest''), pv_repr = (\<lambda>_. []),
      pv_parquet = (\<lambda>_. Inl (err ArrowException ''not a Parquet file'')),
      pv_get = (\<lambda>url _. Inr (if url = ''https://h/manifest.json'' then \<lparr>hr_status = 200, hr_headers = [], hr_content = ''manifest''\<rparr>
        else \<lparr>hr_status = 206, hr_headers = [(''content-range'', ''bytes 0-0/3''), (''access-control-allow-origin'', ''*'')],
              hr_content = ''a''\<rparr>))\<rparr>"

definition sample_disk :: "fault list \<Rightarrow> disk" where
  "sample_disk fs =
     \<lparr>dk_nodes = [([], Directory), ([''i''], Directory), ([''i'', ''manifest.json''], Regular ''{}''),
        ([''i'', ''c.parquet''], Regular ''abc''), ([''i'', ''p''], Directory), ([''i'', ''p'', ''0.parquet''], Regular ''xy'')],
      dk_faults = fs, dk_pinned = []\<rparr>"

definition sample_request :: "string \<Rightarrow> publish_request" where
  "sample_request dest =
     \<lparr>pr_index_manifest = ''/i/manifest.json'', pr_destination = dest, pr_source = None, pr_source_key = None,
      pr_embedding = None, pr_model_assets = [], pr_public_url = Some ''https://h/'', pr_s3_endpoint = None,
      pr_s3_region = None, pr_verify_http = True, pr_cors_origin = ''https://example.invalid''\<rparr>"

text \<open>An object store in memory.\<close>

type_synonym memory_store = "(string \<Rightarrow> string option) \<times> (string \<Rightarrow> string)"

definition memory_s3 :: "memory_store s3_filesystem" where
  "memory_s3 =
     \<lparr>s3_not_found = (\<lambda>p f. (Inr (fst f p = None), f)),
      s3_open = (\<lambda>p f. (Inr (), (fst f, (snd f)(p := [])))),
      s3_send = (\<lambda>p c f. (Inr (), (fst f, (snd f)(p := snd f p @ c)))),
      s3_close = (\<lambda>p f. (Inr (), ((fst f)(p \<mapsto> snd f p), snd f))),
      s3_delete_file = (\<lambda>p f. (Inr (), ((fst f)(p := None), snd f)))\<rparr>"

definition sample_world :: "fault list \<Rightarrow> memory_store world" where
  "sample_world fs = \<lparr>wd_disk = sample_disk fs, wd_store = (\<lambda>_. None, \<lambda>_. [])\<rparr>"

lemma sample_lawful: "lawful_stores (\<lambda>_. Inr memory_s3) fst snd" "deletes_succeed memory_s3"
  by (auto simp: lawful_stores_def lawful_s3_def memory_s3_def keeps_def others_def deletes_succeed_def)

lemma sample_resolution: "clean_resolution sample_publish_env"
  by (auto simp: clean_resolution_def sample_publish_env_def list_all_iff)

lemma sample_disk_wf: "wf_disk (sample_disk fs)"
  by (auto simp: wf_disk_def sample_disk_def look_def split: if_splits)

definition sample_objects :: "pub_object list" where
  "sample_objects =
     [source_object ''c.parquet'' [''i'', ''c.parquet''], source_object ''p/0.parquet'' [''i'', ''p'', ''0.parquet''],
      \<lparr>po_path = ''manifest.json'', po_source = None, po_content = Some ''manifest''\<rparr>]"

definition crash_faults :: "fault list" where
  "crash_faults = replicate 6 Fine @ [Fault (err KeyboardInterrupt []) 5]"


abbreviation s3_run :: "publication_result result \<times> memory_store world" where
  "s3_run \<equiv> publish sample_publish_env (\<lambda>_. Inr memory_s3) (sample_request ''s3://b/x'') (sample_world [])"



lemma sample_plan:
  "publish_plan sample_publish_env (wd_disk (sample_world [])) (sample_request ''/out'') = Inr sample_objects"
  "publish_plan sample_publish_env (wd_disk (sample_world crash_faults)) (sample_request ''/out'') = Inr sample_objects"
  by code_simp+

lemma sample_world_wf: "wf_disk (wd_disk (sample_world fs))"
  by (simp add: sample_world_def sample_disk_wf)

theorem publish_undisturbed_witness: "undisturbed fst (sample_world []) (snd s3_run)"
  by (rule publish_undisturbed [OF sample_resolution sample_world_wf sample_lawful(1) prod.collapse [symmetric]])



section \<open>The published source table\<close>













theorem plan_matches_index_manifest_witness:
  "\<exists>x\<in>set sample_objects. \<exists>body c. JObj [(''path'', JStr ''c.parquet''), (''size'', JInt 3), (''sha256'', JStr ''abc'')] = JObj body \<and>
     jget body ''path'' = JStr (po_path x) \<and> disk_payload (wd_disk (sample_world [])) x = Some c \<and>
     py_eq (jget body ''size'') (JInt (int (length c))) \<and> py_eq (jget body ''sha256'') (JStr (pv_sha256 sample_publish_env c))"
proof (rule plan_matches_index_manifest [OF sample_plan(1)])
  show "pe_resolve (pv_paths sample_publish_env) (pr_index_manifest (sample_request ''/out'')) = Inr [''i'', ''manifest.json'']" by code_simp
  show "load_index_manifest sample_publish_env (wd_disk (sample_world [])) [''i'', ''manifest.json''] = Inr sample_index_manifest" by code_simp
  show "index_descriptors sample_index_manifest = Inr
     [JObj [(''path'', JStr ''c.parquet''), (''size'', JInt 3), (''sha256'', JStr ''abc'')],
      JObj [(''path'', JStr ''p/0.parquet''), (''size'', JInt 2), (''sha256'', JStr ''xy'')]]" by code_simp
qed simp


text \<open>
  A manifest without the mandatory \<open>hierarchy\<close> object is refused, but not with the \<open>ValueError\<close> that
  \<open>_referenced_index_paths\<close> has for it: \<open>_validate_index_objects\<close> runs first and its subscript raises \<open>KeyError\<close>.
\<close>

theorem missing_hierarchy_is_key_error:
  assumes "map_of manifest ''hierarchy'' = None"
  shows "publication_objects env d im manifest source descriptor embedding assets = Inl (err KeyError (in_quotes ''hierarchy'')) \<and>
    referenced_index_paths manifest = Inl (err ValueError ''index manifest is missing hierarchy or postings'')"
  using assms
  by (simp add: publication_objects_def validate_index_objects_def index_descriptors_def jitem_def Let_def
      referenced_index_paths_def jget_def)


theorem missing_hierarchy_is_key_error_witness:
  "publication_objects sample_publish_env (sample_disk []) [''i'', ''manifest.json''] [(''format-version'', JInt 1)] None None None []
     = Inl (err KeyError (in_quotes ''hierarchy''))"
  using missing_hierarchy_is_key_error [of "[(''format-version'', JInt 1)]" sample_publish_env "sample_disk []"] by simp

end
