(* ===== verification/Publication_Build.thy ===== *)
theory Publication_Build
  imports Publication_Writer
begin

text \<open>
  Building an index for publication (\<open>build_index\<close> and its helpers in \<open>publish.py\<close>): validation of the request, the
  resumable work directory, the download of the pinned model and the search for an existing artifact. Parameters: the
  embedding of text columns (ONNX runtime), the build itself (an embedded session on the native library) and the
  network.
\<close>

section \<open>Replacing a file atomically\<close>

text \<open>The content is written next to the target and then renamed over it.\<close>

definition replace_file :: "path \<Rightarrow> path \<Rightarrow> string \<Rightarrow> (disk, unit) cmd" where
  "replace_file temporary target c = sbind (write_bytes temporary c) (\<lambda>_. path_replace temporary target)"

definition with_part :: "path \<Rightarrow> path" where
  "with_part p = butlast p @ [path_name p @ ''.part'']"

section \<open>The work directory\<close>

definition build_state_file :: "path \<Rightarrow> path" where
  "build_state_file work = work @ [''build-state.json'']"

definition other_build :: "path \<Rightarrow> exc" where
  "other_build work = err ValueError (''work directory belongs to a different build: '' @ fspath work @
     ''; choose another --work path or remove it'')"

definition check_build_state :: "publish_env \<Rightarrow> disk \<Rightarrow> path \<Rightarrow> json \<Rightarrow> unit result" where
  "check_build_state env d work request =
     rbind (read_bytes d (build_state_file work)) (\<lambda>text.
     (case pv_loads env text of
        Inl e \<Rightarrow> Inl (if isinstance_exc e JSONDecodeError
                    then err ValueError (''invalid build state: '' @ fspath (build_state_file work)) else e)
      | Inr existing \<Rightarrow> raise_if (\<not> py_eq existing request) (other_build work)))"

definition prepare_build_work :: "publish_env \<Rightarrow> path \<Rightarrow> json \<Rightarrow> (disk, unit) cmd" where
  "prepare_build_work env work request = (\<lambda>d.
     if is_file d (build_state_file work) then (check_build_state env d work request, d)
     else if path_exists d work \<and> \<not> is_dir d work then (Inl (err NotADirectoryError (fspath work)), d)
     else if path_exists d work \<and> iterdir d work \<noteq> []
     then (Inl (err ValueError (''work directory is not empty and has no build state: '' @ fspath work @
             ''; choose another --work path or remove it'')), d)
     else sbind (path_mkdir True True work) (\<lambda>_.
          replace_file (with_part (build_state_file work)) (build_state_file work) (pv_json_bytes env request)) d)"

section \<open>The model files\<close>

definition minilm_files :: "string list" where
  "minilm_files = [''config.json'', ''special_tokens_map.json'', ''tokenizer.json'', ''tokenizer_config.json'', ''vocab.txt'',
     ''onnx/model_quantized.onnx'']"

definition minilm_repository :: string where
  "minilm_repository = ''Xenova/all-MiniLM-L6-v2''"

definition minilm_revision :: string where
  "minilm_revision = ''751bff37182d3f1213fa05d7196b954e230abad9''"

definition minilm_url :: "string \<Rightarrow> string" where
  "minilm_url relative = ''https://huggingface.co/'' @ minilm_repository @ ''/resolve/'' @ minilm_revision @ ''/'' @ relative"

fun download_files :: "(string \<Rightarrow> string result) \<Rightarrow> path \<Rightarrow> string list \<Rightarrow> (disk, unit) cmd" where
  "download_files fetch model_root [] = sret ()"
| "download_files fetch model_root (relative # rest) = (\<lambda>d.
     let target = model_root @ pure_parts relative in
     if (case file_content d target of Some c \<Rightarrow> c \<noteq> [] | None \<Rightarrow> False) then download_files fetch model_root rest d
     else sbind (path_mkdir True True (butlast target)) (\<lambda>_.
          sbind (slift (fetch (minilm_url relative))) (\<lambda>c.
          sbind (replace_file (with_part target) target c) (\<lambda>_. download_files fetch model_root rest))) d)"

definition download_minilm :: "(string \<Rightarrow> string result) \<Rightarrow> path \<Rightarrow> (disk, unit) cmd" where
  "download_minilm fetch model_root = download_files fetch model_root minilm_files"

section \<open>The artifact\<close>

fun first_artifact :: "publish_env \<Rightarrow> disk \<Rightarrow> path list \<Rightarrow> path option result" where
  "first_artifact env d [] = Inr None"
| "first_artifact env d (p # ps) =
     (case rbind (read_bytes d p) (pv_loads env) of
        Inl e \<Rightarrow> if isinstance_exc e OSError \<or> isinstance_exc e JSONDecodeError then first_artifact env d ps else Inl e
      | Inr (JObj v) \<Rightarrow>
          if py_eq (jget v ''format-version'') (JInt 1) \<and> ''artifact-uuid'' \<in> set (jkeys v) then Inr (Some (butlast p))
          else first_artifact env d ps
      | Inr _ \<Rightarrow> Inl (err AttributeError ''object has no attribute get''))"

definition find_index_artifact :: "publish_env \<Rightarrow> disk \<Rightarrow> path \<Rightarrow> path option result" where
  "find_index_artifact env d base =
     (if \<not> path_exists d base then Inr None else first_artifact env d (rglob d base ''manifest.json''))"

section \<open>The build\<close>

record build_arguments =
  ba_source :: string
  ba_source_key :: string
  ba_work :: string
  ba_nlist :: int
  ba_encoding :: string
  ba_metric :: string
  ba_threads :: int
  ba_vector_column :: "string option"
  ba_text_columns :: "string list"
  ba_embedding_batch_size :: int

record build_ops =
  bo_fetch :: "string \<Rightarrow> string result"
  bo_embed :: "path \<Rightarrow> path \<Rightarrow> build_arguments \<Rightarrow> path \<Rightarrow> (disk, jobject) cmd"
  bo_build :: "path \<Rightarrow> string \<Rightarrow> path \<Rightarrow> build_arguments \<Rightarrow> (disk, unit) cmd"

record built_index =
  bx_manifest :: path
  bx_model_assets :: "(string \<times> path) list"
  bx_embedding :: "jobject option"

text \<open>The checks of \<open>build_index\<close> on its arguments, in their order.\<close>

definition check_build_arguments :: "build_arguments \<Rightarrow> unit result" where
  "check_build_arguments a =
     rbind (raise_if ((ba_vector_column a = None) = (ba_text_columns a = []))
       (err ValueError ''choose exactly one of --vector-column or --text-column'')) (\<lambda>_.
     rbind (raise_if (\<not> (1 \<le> ba_threads a \<and> ba_threads a \<le> 16)) (err ValueError ''threads must be in [1, 16]'')) (\<lambda>_.
     rbind (raise_if (ba_nlist a \<le> 0) (err ValueError ''nlist must be positive'')) (\<lambda>_.
     rbind (raise_if (ba_encoding a \<notin> {''lvq4'', ''lvq8''}) (err ValueError ''encoding must be lvq4 or lvq8'')) (\<lambda>_.
     rbind (raise_if (ba_metric a \<notin> {''cosine'', ''l2_squared''}) (err ValueError ''metric must be cosine or l2_squared'')) (\<lambda>_.
     raise_if (ba_embedding_batch_size a \<le> 0) (err ValueError ''embedding batch size must be positive''))))))"

definition build_state :: "publish_env \<Rightarrow> disk \<Rightarrow> path \<Rightarrow> build_arguments \<Rightarrow> json result" where
  "build_state env d source a =
     rbind (st_size d source) (\<lambda>size.
     rbind (sha256_of env d source) (\<lambda>digest.
     Inr (JObj
       [(''format-version'', JInt 1), (''source'', JObj [(''size'', JInt size), (''sha256'', JStr digest)]),
        (''source-key'', JStr (ba_source_key a)), (''vector-column'', opt_json JStr (ba_vector_column a)),
        (''text-columns'', JArr (map JStr (ba_text_columns a))), (''nlist'', JInt (ba_nlist a)),
        (''encoding'', JStr (ba_encoding a)), (''metric'', JStr (ba_metric a)), (''threads'', JInt (ba_threads a)),
        (''embedding-batch-size'', JInt (ba_embedding_batch_size a)),
        (''embedding-model'',
          if ba_text_columns a \<noteq> []
          then JObj [(''repository'', JStr minilm_repository), (''revision'', JStr minilm_revision)] else JNull)])))"

definition checked_source :: "publish_env \<Rightarrow> disk \<Rightarrow> build_arguments \<Rightarrow> path result" where
  "checked_source env d a =
     rbind (pe_resolve (pv_paths env) (ba_source a)) (\<lambda>source.
     rbind (raise_if (\<not> is_file d source) (err ValueError (''source Parquet file does not exist: '' @ fspath source))) (\<lambda>_.
     rbind (read_bytes d source) (\<lambda>content.
     rbind (pv_parquet env content) (\<lambda>pf.
     rbind (raise_if (pf_num_rows pf < ba_nlist a)
       (err ValueError (''nlist cannot exceed the '' @ show_int (pf_num_rows pf) @ '' source rows''))) (\<lambda>_.
     Inr source)))))"

definition build_parqdb_index ::
  "publish_env \<Rightarrow> build_ops \<Rightarrow> path \<Rightarrow> string \<Rightarrow> path \<Rightarrow> build_arguments \<Rightarrow> (disk, path) cmd" where
  "build_parqdb_index env ops source column warehouse a =
     sbind (\<lambda>d. (find_index_artifact env d warehouse, d)) (\<lambda>existing.
     (case existing of
        Some artifact \<Rightarrow> sret artifact
      | None \<Rightarrow>
          sbind (bo_build ops source column warehouse a) (\<lambda>_.
          sbind (\<lambda>d. (find_index_artifact env d warehouse, d)) (\<lambda>artifact.
          (case artifact of
             Some p \<Rightarrow> sret p
           | None \<Rightarrow> sraise (err RuntimeError ''index build completed without an artifact manifest.json''))))))"

definition build_index :: "publish_env \<Rightarrow> build_ops \<Rightarrow> build_arguments \<Rightarrow> (disk, built_index) cmd" where
  "build_index env ops a =
     sbind (slift (check_build_arguments a)) (\<lambda>_.
     sbind (\<lambda>d. (checked_source env d a, d)) (\<lambda>source.
     sbind (slift (pe_resolve (pv_paths env) (ba_work a))) (\<lambda>work.
     sbind (\<lambda>d. (build_state env d source a, d)) (\<lambda>request.
     sbind (prepare_build_work env work request) (\<lambda>_.
     sbind (if ba_text_columns a \<noteq> []
            then let model_root = work @ [''model'']; index_source = work @ [''embedding-source.parquet''] in
                 sbind (download_minilm (bo_fetch ops) model_root) (\<lambda>_.
                 sbind (bo_embed ops source index_source a model_root) (\<lambda>embedding.
                 sret (index_source, ''embedding'', Some embedding,
                   map (\<lambda>p. (''models/all-MiniLM-L6-v2/'' @ p, model_root @ pure_parts p)) minilm_files)))
            else sret (source, (case ba_vector_column a of Some c \<Rightarrow> c | None \<Rightarrow> []), None, [])) (\<lambda>(index_source, column, embedding, assets).
     sbind (build_parqdb_index env ops index_source column (work @ [''parqdb'']) a) (\<lambda>artifact.
     sret \<lparr>bx_manifest = artifact @ [''manifest.json''], bx_model_assets = assets, bx_embedding = embedding\<rparr>)))))))"

section \<open>No partial file under its final name\<close>

lemma path_replace_effect:
  assumes "path_replace p q d = (r, d')" "p \<noteq> q"
  shows "(\<forall>s. s \<noteq> p \<longrightarrow> s \<noteq> q \<longrightarrow> look d' s = look d s) \<and> (look d' q = look d q \<or> look d' q = look d p \<and> is_file d p)"
  using assms
  by (auto simp: path_replace_def Let_def is_file_def split: prod.splits if_splits option.splits node.splits fault.splits
      elim!: in_directory_cases)

lemma path_replace_ok:
  "path_replace p q d = (Inr u, d') \<Longrightarrow> p \<noteq> q \<Longrightarrow> look d' q = look d p \<and> is_file d p"
  by (auto simp: path_replace_def Let_def is_file_def split: prod.splits if_splits option.splits node.splits fault.splits
      elim!: in_directory_cases)

lemma replace_file_atomic:
  assumes "replace_file p q c d = (r, d')" "p \<noteq> q"
  shows "(\<forall>s. s \<noteq> p \<longrightarrow> s \<noteq> q \<longrightarrow> look d' s = look d s) \<and> (look d' q = look d q \<or> look d' q = Some (Regular c))"
    and "r = Inr () \<Longrightarrow> look d' q = Some (Regular c)"
proof -
  obtain r1 d1 where w: "write_bytes p c d = (r1, d1)" by force
  note frame = write_bytes_frame [OF w]
  show "(\<forall>s. s \<noteq> p \<longrightarrow> s \<noteq> q \<longrightarrow> look d' s = look d s) \<and> (look d' q = look d q \<or> look d' q = Some (Regular c))"
  proof (cases r1)
    case (Inl e)
    with assms w have "d' = d1" by (simp add: replace_file_def)
    with frame assms(2) show ?thesis by simp
  next
    case (Inr u)
    with assms(1) w have mv: "path_replace p q d1 = (r, d')" by (simp add: replace_file_def)
    have "look d1 p = Some (Regular c)" using write_bytes_ok w Inr by blast
    with path_replace_effect [OF mv assms(2)] frame assms(2) show ?thesis by auto
  qed
  show "look d' q = Some (Regular c)" if "r = Inr ()"
  proof -
    from assms(1) w that have "r1 = Inr ()" "path_replace p q d1 = (Inr (), d')"
      by (auto simp: replace_file_def sbind_apply split: sum.splits)
    with path_replace_ok [OF _ assms(2)] write_bytes_ok w show ?thesis by metis
  qed
qed

lemma with_part_neq: "p \<noteq> [] \<Longrightarrow> with_part p \<noteq> p"
  by (cases p rule: rev_cases) (auto simp: with_part_def path_name_def)

lemma build_state_parts: "with_part (build_state_file work) = work @ [''build-state.json.part'']"
  by (simp add: with_part_def build_state_file_def path_name_def)

lemma prepare_build_work_cases:
  assumes "prepare_build_work env work request d = (r, d')"
  obtains (kept) "d' = d" | (created) r1 d1 where "path_mkdir True True work d = (r1, d1)" "d' = d1" "r1 = r"
    | (replaced) d1 where "\<not> is_file d (build_state_file work)" "path_mkdir True True work d = (Inr (), d1)"
        "replace_file (with_part (build_state_file work)) (build_state_file work) (pv_json_bytes env request) d1 = (r, d')"
  using assms
  by (auto simp: prepare_build_work_def sbind_apply split: if_splits prod.splits sum.splits)

text \<open>
  C39. The state file of a build is never seen half written: whatever fails and wherever the process is interrupted,
  after \<open>_prepare_build_work\<close> it has the content it had before or the complete encoding of the request.
\<close>

theorem build_state_is_atomic:
  assumes "prepare_build_work env work request d = (r, d')"
  shows "file_content d' (build_state_file work) \<in> {file_content d (build_state_file work), Some (pv_json_bytes env request)}"
  using assms
proof (cases rule: prepare_build_work_cases)
  case (created r1 d1)
  then show ?thesis using file_content_adds [OF path_mkdir_adds] by simp
next
  case (replaced d1)
  have "with_part (build_state_file work) \<noteq> build_state_file work" by (rule with_part_neq) (simp add: build_state_file_def)
  from replace_file_atomic(1) [OF replaced(3) this] file_content_adds [OF path_mkdir_adds [OF replaced(2)], of "build_state_file work"]
  show ?thesis by (auto simp: file_content_def)
qed simp

text \<open>
  A work directory belongs to one build: once it was prepared for a request, preparing it for another request
  changes nothing and succeeds exactly when the two requests are equal. Decoding is assumed to undo encoding.
\<close>

theorem work_directory_is_tied_to_build:
  assumes "pv_loads env (pv_json_bytes env request) = Inr request" "\<not> is_file d (build_state_file work)"
    and "prepare_build_work env work request d = (Inr (), d')"
  shows "prepare_build_work env work other d' = (if py_eq request other then Inr () else Inl (other_build work), d')"
proof -
  have "work @ [''build-state.json.part''] \<noteq> build_state_file work" by (simp add: build_state_file_def)
  with assms(2,3) have "look d' (build_state_file work) = Some (Regular (pv_json_bytes env request))"
    by (auto simp: prepare_build_work_def sbind_eq_Inr build_state_parts split: if_splits dest!: replace_file_atomic(2))
  then have "is_file d' (build_state_file work)" "read_bytes d' (build_state_file work) = Inr (pv_json_bytes env request)"
    by (simp_all add: is_file_def read_bytes_def)
  with assms(1) show ?thesis by (simp add: prepare_build_work_def check_build_state_def)
qed


section \<open>A sample build\<close>

definition build_env :: publish_env where
  "build_env =
     \<lparr>pv_paths = \<lparr>pe_netloc_ok = \<lambda>_. True, pe_resolve = \<lambda>s. Inr (filter clean_component (split_on (CHR ''/'') s))\<rparr>,
      pv_sha256 = id, pv_loads = (\<lambda>s. Inr (JStr s)), pv_json_bytes = (\<lambda>v. case v of JStr s \<Rightarrow> s | _ \<Rightarrow> []), pv_repr = (\<lambda>_. []),
      pv_parquet = (\<lambda>_. Inl (err ArrowException ''not a Parquet file'')),
      pv_get = (\<lambda>_ _. Inl (err HTTPError ''offline''))\<rparr>"

definition build_disk :: "fault list \<Rightarrow> disk" where
  "build_disk fs = \<lparr>dk_nodes = [([], Directory)], dk_faults = fs, dk_pinned = []\<rparr>"

text \<open>The process is interrupted at the rename.\<close>

definition interrupted_disk :: disk where
  "interrupted_disk = snd (prepare_build_work build_env [''w''] (JStr ''request'') (build_disk [Fine, Fine, Fault (err KeyboardInterrupt []) 0]))"

theorem build_state_is_atomic_witness:
  "file_content interrupted_disk [''w'', ''build-state.json''] \<in> {None, Some ''request''}"
proof -
  have "file_content (build_disk [Fine, Fine, Fault (err KeyboardInterrupt []) 0]) (build_state_file [''w'']) = None" by code_simp
  then show ?thesis
    using build_state_is_atomic [OF prod.collapse [symmetric], of build_env "[''w'']" "JStr ''request''"
        "build_disk [Fine, Fine, Fault (err KeyboardInterrupt []) 0]"]
    by (simp add: interrupted_disk_def build_state_file_def build_env_def)
qed

theorem work_directory_is_tied_to_build_witness:
  "fst (prepare_build_work build_env [''w''] (JStr ''other'') (snd (prepare_build_work build_env [''w''] (JStr ''request'') (build_disk []))))
     = Inl (other_build [''w''])"
proof -
  have loads: "pv_loads build_env (pv_json_bytes build_env (JStr ''request'')) = Inr (JStr ''request'')" by (simp add: build_env_def)
  have absent: "\<not> is_file (build_disk []) (build_state_file [''w''])" by code_simp
  have "fst (prepare_build_work build_env [''w''] (JStr ''request'') (build_disk [])) = Inr ()" by code_simp
  then have run: "prepare_build_work build_env [''w''] (JStr ''request'') (build_disk []) =
      (Inr (), snd (prepare_build_work build_env [''w''] (JStr ''request'') (build_disk [])))" by (metis prod.collapse)
  from work_directory_is_tied_to_build [OF loads absent run, of "JStr ''other''"] show ?thesis by (simp add: json_number_def)
qed


end
