(* ===== verification/Server_Config.thy ===== *)
theory Server_Config
  imports Publication
begin

text \<open>
  The deployment configuration of a server (\<open>server/config.py\<close>): reading one TOML document with strict validation,
  writing the default document, and the file a server reads when it is started. Parameters: the TOML parser, the
  resolution of paths and the home directories.
\<close>

section \<open>Documents\<close>

datatype toml =
    TStr string
  | TInt int
  | TFloat pyfloat
  | TBool bool
  | TTime string
  | TArr "toml list"
  | TTable "(string \<times> toml) list"

type_synonym toml_table = "(string \<times> toml) list"

record config_env =
  cf_paths :: path_env
  cf_home :: "string \<Rightarrow> string result"
  cf_toml :: "string \<Rightarrow> toml result"

record server_config =
  sc_root :: path
  sc_host :: string
  sc_port :: int
  sc_warehouse :: "string option"
  sc_allowed_source_prefixes :: "string list"
  sc_storage_options :: "(string \<times> string) list"
  sc_session_options :: "(string \<times> string) list"

section \<open>Paths\<close>

text \<open>\<open>Path(text).expanduser()\<close>: only a first component that starts with a tilde is replaced.\<close>

definition expanduser :: "config_env \<Rightarrow> string \<Rightarrow> string result" where
  "expanduser env text =
     (let t = pure_str text in
      if startswith t ''~''
      then (case split_on (CHR ''/'') t of
              user # rest \<Rightarrow> rbind (cf_home env user) (\<lambda>home. Inr (join ''/'' (home # rest)))
            | [] \<Rightarrow> Inr t)
      else Inr t)"

text \<open>\<open>(directory / path).resolve()\<close> for a relative path, \<open>path.resolve()\<close> for an absolute one.\<close>

definition resolve_in :: "config_env \<Rightarrow> path \<Rightarrow> string \<Rightarrow> path result" where
  "resolve_in env directory text =
     pe_resolve (cf_paths env) (if startswith text ''/'' then text else fspath directory @ ''/'' @ text)"

definition defaults :: "config_env \<Rightarrow> path \<Rightarrow> server_config result" where
  "defaults env directory =
     rbind (resolve_in env directory ''parqdb'') (\<lambda>base.
     Inr \<lparr>sc_root = base, sc_host = ''127.0.0.1'', sc_port = 8000, sc_warehouse = None,
          sc_allowed_source_prefixes = [], sc_storage_options = [], sc_session_options = []\<rparr>)"

text \<open>\<open>None\<close> where there are no session options.\<close>

definition session_config :: "server_config \<Rightarrow> (string \<times> string) list option" where
  "session_config c = (if sc_session_options c = [] then None else Some (sc_session_options c))"

section \<open>Validation\<close>

definition toml_table :: "string \<Rightarrow> toml \<Rightarrow> toml_table result" where
  "toml_table n v = (case v of TTable t \<Rightarrow> Inr t | _ \<Rightarrow> Inl (err ValueError (n @ '' must be a TOML table'')))"

definition only_keys :: "string \<Rightarrow> string list \<Rightarrow> toml_table \<Rightarrow> unit result" where
  "only_keys n allowed t =
     (case sort (filter (\<lambda>k. k \<notin> set allowed) (map fst t)) of
        [] \<Rightarrow> Inr ()
      | k # _ \<Rightarrow> Inl (err ValueError (n @ '' contains unsupported key: '' @ k)))"

definition toml_string :: "string \<Rightarrow> toml \<Rightarrow> string result" where
  "toml_string n v = (case v of TStr s \<Rightarrow> Inr s | _ \<Rightarrow> Inl (err ValueError (n @ '' must be a string'')))"

definition toml_optional_string :: "string \<Rightarrow> toml option \<Rightarrow> string option result" where
  "toml_optional_string n v = (case v of None \<Rightarrow> Inr None | Some x \<Rightarrow> rbind (toml_string n x) (\<lambda>s. Inr (Some s)))"

definition toml_port :: "toml \<Rightarrow> int result" where
  "toml_port v =
     (case v of
        TInt n \<Rightarrow> if 1 \<le> n \<and> n \<le> 65535 then Inr n
                 else Inl (err ValueError ''server.port must be an integer from 1 through 65535'')
      | _ \<Rightarrow> Inl (err ValueError ''server.port must be an integer from 1 through 65535''))"

definition toml_get :: "toml_table \<Rightarrow> string \<Rightarrow> toml \<Rightarrow> toml" where
  "toml_get t k missing_value = (case map_of t k of Some v \<Rightarrow> v | None \<Rightarrow> missing_value)"

definition config_local_path :: "config_env \<Rightarrow> toml \<Rightarrow> string \<Rightarrow> path \<Rightarrow> path result" where
  "config_local_path env v n directory =
     rbind (toml_string n v) (\<lambda>s.
     rbind (expanduser env s) (\<lambda>text. resolve_in env directory text))"

definition source_prefix :: "config_env \<Rightarrow> path \<Rightarrow> toml \<Rightarrow> string result" where
  "source_prefix env directory v =
     rbind (toml_string ''server.allowed_source_prefixes entry'' v) (\<lambda>source.
     rbind (urlsplit (pe_netloc_ok (cf_paths env)) source) (\<lambda>parsed.
     if su_scheme parsed \<noteq> [] then Inr source
     else rbind (expanduser env source) (\<lambda>text.
          rbind (resolve_in env directory text) (\<lambda>p. Inr (fspath p)))))"

definition source_prefixes :: "config_env \<Rightarrow> toml \<Rightarrow> path \<Rightarrow> string list result" where
  "source_prefixes env v directory =
     (case v of
        TArr xs \<Rightarrow> traverse (source_prefix env directory) xs
      | _ \<Rightarrow> Inl (err ValueError ''server.allowed_source_prefixes must be an array of strings''))"

definition string_table :: "string \<Rightarrow> toml \<Rightarrow> (string \<times> string) list result" where
  "string_table n v =
     rbind (toml_table n v) (\<lambda>t.
     traverse (\<lambda>(k, x). rbind (toml_string (n @ ''.'' @ k) x) (\<lambda>s. Inr (k, s))) t)"

definition document_keys :: "string list" where
  "document_keys = [''server'', ''storage'', ''session'']"

definition server_keys :: "string list" where
  "server_keys = [''root'', ''host'', ''port'', ''warehouse'', ''allowed_source_prefixes'']"

definition from_document :: "config_env \<Rightarrow> toml \<Rightarrow> path \<Rightarrow> server_config result" where
  "from_document env raw directory =
     rbind (toml_table ''configuration'' raw) (\<lambda>document.
     rbind (only_keys ''configuration'' document_keys document) (\<lambda>_.
     rbind (toml_table ''[server]'' (toml_get document ''server'' (TTable []))) (\<lambda>server.
     rbind (only_keys ''[server]'' server_keys server) (\<lambda>_.
     rbind (defaults env directory) (\<lambda>defs.
     rbind (toml_string ''server.host'' (toml_get server ''host'' (TStr (sc_host defs)))) (\<lambda>host.
     rbind (raise_if (host = [] \<or> list_ex is_space host)
       (err ValueError ''server.host must be a non-empty host name or address'')) (\<lambda>_.
     rbind (toml_port (toml_get server ''port'' (TInt (sc_port defs)))) (\<lambda>port.
     rbind (config_local_path env (toml_get server ''root'' (TStr ''./parqdb'')) ''server.root'' directory) (\<lambda>base.
     rbind (toml_optional_string ''server.warehouse'' (map_of server ''warehouse'')) (\<lambda>warehouse.
     rbind (source_prefixes env (toml_get server ''allowed_source_prefixes'' (TArr [])) directory) (\<lambda>allowed.
     rbind (string_table ''[storage]'' (toml_get document ''storage'' (TTable []))) (\<lambda>storage.
     rbind (string_table ''[session]'' (toml_get document ''session'' (TTable []))) (\<lambda>session.
     Inr \<lparr>sc_root = base, sc_host = host, sc_port = port, sc_warehouse = warehouse,
          sc_allowed_source_prefixes = allowed, sc_storage_options = storage, sc_session_options = session\<rparr>)))))))))))))"

section \<open>Files\<close>

definition default_config_filename :: string where
  "default_config_filename = ''parqdb.toml''"

definition read_text :: "disk \<Rightarrow> path \<Rightarrow> string result" where
  "read_text d p =
     rbind (read_bytes d p) (\<lambda>c. if utf8_valid c then Inr c else Inl (err UnicodeDecodeError ''invalid start byte''))"

definition load_server_config :: "config_env \<Rightarrow> disk \<Rightarrow> string \<Rightarrow> server_config result" where
  "load_server_config env d path =
     rbind (expanduser env path) (\<lambda>text.
     rbind (pe_resolve (cf_paths env) text) (\<lambda>config_path.
     rbind (case rbind (read_text d config_path) (cf_toml env) of
              Inl e \<Rightarrow>
                if isinstance_exc e OSError
                then Inl (err ValueError (''cannot read server configuration '' @ fspath config_path @ '': '' @ exc_msg e))
                else if isinstance_exc e TOMLDecodeError
                then Inl (err ValueError (''invalid server configuration '' @ fspath config_path @ '': '' @ exc_msg e))
                else Inl e
            | Inr raw \<Rightarrow> Inr raw) (\<lambda>raw.
     from_document env raw (butlast config_path))))"

definition text_lines :: "string list \<Rightarrow> string" where
  "text_lines ls = concat (map (\<lambda>l. l @ [CHR 0x0A]) ls)"

definition default_config_template :: string where
  "default_config_template = text_lines
     [''# ParqDB server configuration.'',
      ''#'',
      ''# Run `parqdb serve` in this directory, or pass this file with --config.'',
      [],
      ''[server]'',
      ''# Persistent catalog and index state. Relative paths are resolved from this file.'',
      ''root = \"./parqdb\"'',
      ''host = \"127.0.0.1\"'',
      ''port = 8000'',
      [],
      ''# A client may register only sources under one of these server-visible prefixes.'',
      ''# Keep this list empty until the server should expose a source location.'',
      ''allowed_source_prefixes = []'',
      [],
      ''# To store index tables in a separate warehouse, set:'',
      ''# warehouse = \"s3://bucket/parqdb/\"'',
      [],
      ''# Process-wide object storage options. Keep credentials outside this file.'',
      ''[storage]'',
      ''# aws_region = \"us-east-1\"'',
      ''# aws_endpoint = \"https://s3.example.com\"'',
      [],
      ''# ParqDB and DataFusion session options. Values are strings because they map'',
      ''# directly to the engine configuration keys.'',
      ''[session]'',
      ''# \"parqdb.execution.query_dop\" = \"8\"'',
      ''# \"parqdb.execution.query_concurrency\" = \"16\"'']"

definition write_default_server_config :: "config_env \<Rightarrow> string \<Rightarrow> (disk, path) cmd" where
  "write_default_server_config env path =
     sbind (slift (rbind (expanduser env path) (pe_resolve (cf_paths env)))) (\<lambda>p d.
     if path_exists d p then (Inl (err FileExistsError (''configuration already exists: '' @ fspath p)), d)
     else sbind (path_mkdir True True (butlast p)) (\<lambda>_.
          sbind (write_bytes p default_config_template) (\<lambda>_. sret p)) d)"

section \<open>Loaded configurations\<close>






lemma only_keys_Inr: "only_keys n allowed t = Inr u \<longleftrightarrow> fst ` set t \<subseteq> set allowed"
proof -
  have first: "(case xs of [] \<Rightarrow> Inr () | k # _ \<Rightarrow> Inl (f k)) = Inr u \<longleftrightarrow> xs = []" for xs :: "string list" and f :: "string \<Rightarrow> exc"
    by (cases xs) auto
  have "sort xs = [] \<longleftrightarrow> xs = []" for xs :: "string list"
    by (metis length_0_conv length_sort)
  then show ?thesis
    unfolding only_keys_def first by (auto simp: filter_empty_conv)
qed


section \<open>The default configuration\<close>

text \<open>What TOML makes of the template: comments are dropped, a header opens a table.\<close>

definition default_document :: toml where
  "default_document = TTable
     [(''server'', TTable [(''root'', TStr ''./parqdb''), (''host'', TStr ''127.0.0.1''), (''port'', TInt 8000),
        (''allowed_source_prefixes'', TArr [])]),
      (''storage'', TTable []), (''session'', TTable [])]"

lemma default_root: "expanduser env ''./parqdb'' = Inr ''parqdb''"
proof -
  have "pure_str ''./parqdb'' = ''parqdb''" by code_simp
  then show ?thesis by (simp add: expanduser_def startswith_def)
qed

lemma from_default_document: "from_document env default_document directory = defaults env directory"
proof -
  have keys: "only_keys n document_keys [(''server'', a), (''storage'', b), (''session'', c)] = Inr ()" for n a b c
    by (simp add: only_keys_Inr document_keys_def)
  have server: "only_keys n server_keys [(''root'', a), (''host'', b), (''port'', c), (''allowed_source_prefixes'', e)] = Inr ()" for n a b c e
    by (simp add: only_keys_Inr server_keys_def)
  show ?thesis
    by (cases "resolve_in env directory ''parqdb''")
      (simp_all add: from_document_def default_document_def toml_table_def toml_get_def keys server defaults_def toml_string_def is_space_def
        toml_port_def config_local_path_def default_root toml_optional_string_def source_prefixes_def string_table_def)
qed

lemma template_is_utf8: "utf8_valid default_config_template"
  by (rule ascii_utf8_valid) code_simp

text \<open>
  \<open>parqdb config init\<close> followed by \<open>parqdb serve\<close> runs with the built-in defaults: the file that is written loads to
  exactly the configuration that a server without a file uses in that directory.
\<close>

theorem default_config_round_trip:
  assumes "cf_toml env default_config_template = Inr default_document"
    and "write_default_server_config env path d = (Inr p, d')"
  shows "load_server_config env d' path = defaults env (butlast p)"
proof -
  from assms(2) obtain t d1 where t: "expanduser env path = Inr t" "pe_resolve (cf_paths env) t = Inr p"
      "write_bytes p default_config_template d1 = (Inr (), d')"
    by (auto simp: write_default_server_config_def sbind_eq_Inr split: if_splits)
  have "read_text d' p = Inr default_config_template"
    using write_bytes_ok [OF t(3)] template_is_utf8 by (simp add: read_text_def read_bytes_def)
  with t assms(1) show ?thesis
    by (simp add: load_server_config_def from_default_document)
qed

definition sample_config_env :: config_env where
  "sample_config_env =
     \<lparr>cf_paths = \<lparr>pe_netloc_ok = \<lambda>_. True, pe_resolve = \<lambda>s. Inr (filter clean_component (split_on (CHR ''/'') s))\<rparr>,
      cf_home = (\<lambda>_. Inr ''/home/u''), cf_toml = (\<lambda>_. Inr default_document)\<rparr>"

definition empty_disk :: disk where
  "empty_disk = \<lparr>dk_nodes = [([], Directory)], dk_faults = [], dk_pinned = []\<rparr>"

theorem default_config_round_trip_witness:
  "load_server_config sample_config_env (snd (write_default_server_config sample_config_env ''/srv/parqdb.toml'' empty_disk)) ''/srv/parqdb.toml''
     = Inr \<lparr>sc_root = [''srv'', ''parqdb''], sc_host = ''127.0.0.1'', sc_port = 8000, sc_warehouse = None,
          sc_allowed_source_prefixes = [], sc_storage_options = [], sc_session_options = []\<rparr>"
proof -
  have written: "write_default_server_config sample_config_env ''/srv/parqdb.toml'' empty_disk =
      (Inr [''srv'', ''parqdb.toml''], snd (write_default_server_config sample_config_env ''/srv/parqdb.toml'' empty_disk))"
  proof -
    have "fst (write_default_server_config sample_config_env ''/srv/parqdb.toml'' empty_disk) = Inr [''srv'', ''parqdb.toml'']" by code_simp
    then show ?thesis by (metis prod.collapse)
  qed
  have defs: "defaults sample_config_env (butlast [''srv'', ''parqdb.toml'']) =
      Inr \<lparr>sc_root = [''srv'', ''parqdb''], sc_host = ''127.0.0.1'', sc_port = 8000, sc_warehouse = None,
          sc_allowed_source_prefixes = [], sc_storage_options = [], sc_session_options = []\<rparr>" by code_simp
  have "cf_toml sample_config_env default_config_template = Inr default_document" by (simp add: sample_config_env_def)
  from default_config_round_trip [OF this written] show ?thesis unfolding defs .
qed


end
