(* ===== verification/Cli.thy ===== *)
theory Cli
  imports Publish Publication_Build Server_Config App
begin

text \<open>
  The command line (\<open>cli.py\<close>) on parsed arguments, and \<open>server.create_app\<close>: the configuration a server starts with, the
  publish command with its optional build, and the translation of exceptions into an exit. Parameters: the parser's
  result and the ASGI server that runs the application. Output on the terminal is not modelled.
\<close>

section \<open>Serving\<close>

definition configuration_for_serve :: "config_env \<Rightarrow> path \<Rightarrow> disk \<Rightarrow> string option \<Rightarrow> server_config result" where
  "configuration_for_serve env cwd d config_path =
     (case config_path of
        Some p \<Rightarrow> load_server_config env d p
      | None \<Rightarrow>
          if path_exists d (cwd @ [default_config_filename])
          then load_server_config env d (fspath (cwd @ [default_config_filename]))
          else defaults env cwd)"

text \<open>The arguments of \<open>create_app\<close> that wait for the application's start, and those of \<open>uvicorn.run\<close>.\<close>

record 'n server_start =
  sg_app :: "'n server"
  sg_root :: path
  sg_warehouse :: "string option"
  sg_storage_options :: "(string \<times> string) list"
  sg_config :: "(string \<times> string) list option"
  sg_host :: string
  sg_port :: int

definition create_app :: "path_env \<Rightarrow> string list \<Rightarrow> 'n server result" where
  "create_app env allowed_source_prefixes = create_http_app env allowed_source_prefixes"

definition serve ::
  "config_env \<Rightarrow> path \<Rightarrow> ('n server_start \<Rightarrow> unit result) \<Rightarrow> disk \<Rightarrow> string option \<Rightarrow> int result" where
  "serve env cwd run d config_path =
     rbind (configuration_for_serve env cwd d config_path) (\<lambda>c.
     rbind (create_app (cf_paths env) (sc_allowed_source_prefixes c)) (\<lambda>app.
     rbind (run \<lparr>sg_app = app, sg_root = sc_root c, sg_warehouse = sc_warehouse c, sg_storage_options = sc_storage_options c,
                 sg_config = session_config c, sg_host = sc_host c, sg_port = sc_port c\<rparr>) (\<lambda>_. Inr 0)))"

definition config_init :: "config_env \<Rightarrow> string \<Rightarrow> (disk, int) cmd" where
  "config_init env path = sbind (write_default_server_config env path) (\<lambda>_. sret 0)"

section \<open>Publishing\<close>

record publish_arguments =
  pa_source :: string
  pa_key :: string
  pa_destination :: string
  pa_public_url :: "string option"
  pa_index_manifest :: "string option"
  pa_vector_column :: "string option"
  pa_text_column :: "string list"
  pa_nlist :: "int option"
  pa_encoding :: string
  pa_metric :: string
  pa_threads :: int
  pa_embedding_batch_size :: int
  pa_work :: string
  pa_include_source :: bool
  pa_include_model :: bool
  pa_s3_endpoint :: "string option"
  pa_s3_region :: "string option"
  pa_cors_origin :: string
  pa_no_verify_http :: bool

definition on_wd_disk :: "(disk, 'a) cmd \<Rightarrow> ('f world, 'a) cmd" where
  "on_wd_disk act = (\<lambda>w. case act (wd_disk w) of (r, d) \<Rightarrow> (r, w\<lparr>wd_disk := d\<rparr>))"

definition build_arguments_of :: "publish_arguments \<Rightarrow> int \<Rightarrow> build_arguments" where
  "build_arguments_of a nlist =
     \<lparr>ba_source = pa_source a, ba_source_key = pa_key a, ba_work = pa_work a, ba_nlist = nlist, ba_encoding = pa_encoding a,
      ba_metric = pa_metric a, ba_threads = pa_threads a, ba_vector_column = pa_vector_column a,
      ba_text_columns = pa_text_column a, ba_embedding_batch_size = pa_embedding_batch_size a\<rparr>"

text \<open>The manifest to publish, with the embedding and the model files when they are included.\<close>

definition index_to_publish ::
  "publish_env \<Rightarrow> build_ops \<Rightarrow> publish_arguments \<Rightarrow> ('f world, string \<times> jobject option \<times> (string \<times> string) list) cmd" where
  "index_to_publish env ops a =
     (case pa_index_manifest a of
        None \<Rightarrow>
          (case pa_nlist a of
             Some n \<Rightarrow>
               if n \<le> 0 then sraise (err ValueError ''--nlist must be positive when building an index'')
               else sbind (on_wd_disk (build_index env ops (build_arguments_of a n))) (\<lambda>built.
                 sret (fspath (bx_manifest built),
                   if pa_include_model a then bx_embedding built else None,
                   if pa_include_model a then map (\<lambda>(p, q). (p, fspath q)) (bx_model_assets built) else []))
           | None \<Rightarrow> sraise (err ValueError ''--nlist must be positive when building an index''))
      | Some m \<Rightarrow>
          if pa_vector_column a \<noteq> None \<or> pa_text_column a \<noteq> []
          then sraise (err ValueError ''--index-manifest cannot be combined with --vector-column or --text-column'')
          else sret (m, None, []))"

definition publish_command ::
  "publish_env \<Rightarrow> build_ops \<Rightarrow> (s3_settings \<Rightarrow> 'f s3_filesystem result) \<Rightarrow> publish_arguments \<Rightarrow> ('f world, int) cmd" where
  "publish_command env ops fs a =
     sbind (index_to_publish env ops a) (\<lambda>(index_manifest, embedding, model_assets).
     if pa_include_model a \<and> embedding = None
     then sraise (err ValueError ''--include-model requires an index built with --text-column'')
     else sbind (publish env fs
       \<lparr>pr_index_manifest = index_manifest, pr_destination = pa_destination a,
        pr_source = (if pa_include_source a then Some (pa_source a) else None),
        pr_source_key = (if pa_include_source a then Some (pa_key a) else None),
        pr_embedding = embedding, pr_model_assets = model_assets, pr_public_url = pa_public_url a,
        pr_s3_endpoint = pa_s3_endpoint a, pr_s3_region = pa_s3_region a,
        pr_verify_http = (\<not> pa_no_verify_http a), pr_cors_origin = pa_cors_origin a\<rparr>) (\<lambda>_. sret 0))"

section \<open>The entry point\<close>

datatype command = Serve "string option" | ConfigInit string | PublishIndex publish_arguments

record ('f, 'n) cli_env =
  cl_config :: config_env
  cl_publish :: publish_env
  cl_build :: build_ops
  cl_s3 :: "s3_settings \<Rightarrow> 'f s3_filesystem result"
  cl_cwd :: path
  cl_run :: "'n server_start \<Rightarrow> unit result"

definition run_command :: "('f, 'n) cli_env \<Rightarrow> command \<Rightarrow> ('f world, int) cmd" where
  "run_command env c =
     (case c of
        Serve p \<Rightarrow> (\<lambda>w. (serve (cl_config env) (cl_cwd env) (cl_run env) (wd_disk w) p, w))
      | ConfigInit p \<Rightarrow> on_wd_disk (config_init (cl_config env) p)
      | PublishIndex a \<Rightarrow> publish_command (cl_publish env) (cl_build env) (cl_s3 env) a)"

definition reported :: "exc \<Rightarrow> bool" where
  "reported e \<longleftrightarrow> isinstance_exc e OSError \<or> isinstance_exc e HTTPError \<or> isinstance_exc e RuntimeError \<or> isinstance_exc e ValueError"

text \<open>\<open>parser.error\<close> prints the message and exits with status 2.\<close>

definition main :: "('f, 'n) cli_env \<Rightarrow> command \<Rightarrow> ('f world, int) cmd" where
  "main env c = scatch (run_command env c) (\<lambda>e. if reported e then sraise (err SystemExit (exc_msg e)) else sraise e)"

end
