(* ===== verification/Openapi_Agreement.thy ===== *)
theory Openapi_Agreement
  imports Samples
begin

text \<open>
  The OpenAPI document against the application: the operations it lists are the routes of \<open>server/app.py\<close>, and a
  request that the application accepts conforms to the schema that the document gives for its route.
\<close>

section \<open>The documented operations\<close>

text \<open>A route as the document writes it: the parameters by their names.\<close>

fun route_template :: "string list \<Rightarrow> pat list \<Rightarrow> string" where
  "route_template ns [] = []"
| "route_template ns (Lit l # ps) = l @ route_template ns ps"
| "route_template (n # ns) (Param # ps) = CHR ''{'' # n @ CHR ''}'' # route_template ns ps"
| "route_template [] (Param # ps) = ''{}'' @ route_template [] ps"




definition endpoint_template :: "endpoint \<Rightarrow> string" where
  "endpoint_template ep =
     (case find (\<lambda>(m, pats, e). e = ep) routes of
        None \<Rightarrow> [] | Some (m, pats, e) \<Rightarrow> route_template [''id'', ''index_name''] pats)"

definition jfield :: "string \<Rightarrow> json \<Rightarrow> json" where
  "jfield k v = jget (json_members v) k"

definition request_schema :: "endpoint \<Rightarrow> json" where
  "request_schema ep =
     jfield ''schema'' (jfield ''application/json'' (jfield ''content'' (jfield ''requestBody''
       (jfield ''post'' (jget openapi_paths (endpoint_template ep))))))"

lemma request_schemas:
  "request_schema EpRegisterTable = oa_ref ''RegisterParquetRequest''" "request_schema EpDescribe = oa_ref ''DescribeTableRequest''"
  "request_schema EpQuery = oa_ref ''VectorQuery''" "request_schema EpExplain = oa_ref ''ExplainVectorQuery''"
  "request_schema EpToSql = oa_ref ''VectorQuery''" "request_schema EpDeregister = oa_ref ''ScopedTableRequest''"
  "request_schema EpCreateIndex = oa_ref ''CreateIndexRequest''" "request_schema EpListIndexes = oa_ref ''IndexTableRequest''"
  "request_schema EpIndexStatus = oa_ref ''ScopedIndexRequest''" "request_schema EpRegisterIndex = oa_ref ''RegisterIndexRequest''"
  "request_schema EpRefreshIndex = oa_ref ''RefreshIndexRequest''" "request_schema EpDropIndex = oa_ref ''ScopedIndexRequest''"
  "request_schema EpSql = oa_ref ''SqlQuery''" "request_schema EpSqlExplain = oa_ref ''ExplainSqlQuery''"
  by code_simp+


section \<open>Accepted requests are documented\<close>

lemma handle_accepted:
  assumes "handle rq m s = (Inr rs, s')" and "hp_status rs < 400"
  shows "m s = (Inr rs, s')"
  using assms classify_status_range
  by (auto simp: handle_def scatch_def error_response_def Let_def not_less [symmetric] split: prod.splits sum.splits if_splits)

lemma json_body_object: "json_body rq = Inr body \<Longrightarrow> hq_json rq = Some (JObj body)"
  by (auto simp: json_body_def split: option.splits json.splits)

text \<open>
  Where the handlers take more than the document says: the description takes any further member, the creation and the
  refresh of an index take absent \<open>config\<close> and \<open>writer_options\<close> for null, and a registration takes a null
  sort order.
\<close>

definition documented_form :: "endpoint \<Rightarrow> jobject \<Rightarrow> bool" where
  "documented_form ep body \<longleftrightarrow>
     (case ep of
        EpDescribe \<Rightarrow> set (jkeys body) \<subseteq> {''reference''}
      | EpCreateIndex \<Rightarrow> ''writer_options'' \<in> set (jkeys body)
      | EpRefreshIndex \<Rightarrow> {''config'', ''writer_options''} \<subseteq> set (jkeys body)
      | EpRegisterTable \<Rightarrow> jget body ''file_sort_order'' \<noteq> JNull
      | _ \<Rightarrow> True)"

lemma required_string_Inr: "required_string nm v = Inr s \<longleftrightarrow> v = JStr s \<and> s \<noteq> []"
  by (cases v) (auto simp: required_string_def)

lemma app_boolean_Inr: "app_boolean nm v = Inr b \<longleftrightarrow> v = JBool b"
  by (cases v) (auto simp: app_boolean_def)

lemma scoped_identifier_Inr: "scoped_identifier rq i body field = Inr t \<Longrightarrow> identifier_from_json (jget body field) = Inr t"
  by (auto simp: scoped_identifier_def)

lemma scoped_index_Inr: "scoped_index i body = Inr t \<Longrightarrow> jget body ''index'' = JStr t \<and> t \<noteq> []"
  by (auto simp: scoped_index_def required_string_Inr)

lemma string_array_Inr:
  "string_array nm False v = Inr xs \<Longrightarrow> \<exists>ys. v = JArr (map JStr ys) \<and> ys \<noteq> [] \<and> list_all (\<lambda>s. s \<noteq> []) ys"
proof -
  have t: "traverse (required_string m) vs = Inr xs \<Longrightarrow> vs = map JStr xs \<and> list_all (\<lambda>s. s \<noteq> []) xs" for m vs xs
    by (induction vs arbitrary: xs) (auto simp: required_string_Inr)
  assume "string_array nm False v = Inr xs"
  then obtain vs where "v = JArr vs" "vs \<noteq> []" "traverse (required_string (nm @ '' item'')) vs = Inr xs"
    by (auto simp: string_array_def json_case_Inr split: if_splits)
  with t show ?thesis by blast
qed

lemma sql_of_body_Inr: "sql_of_body body = Inr sql \<Longrightarrow> jget body ''sql'' = JStr sql \<and> sql \<noteq> []"
  by (auto simp: sql_of_body_def json_case_Inr py_strip_def split: if_splits)

lemma identifier_present: "identifier_from_json (jget body k) = Inr t \<Longrightarrow> k \<in> set (jkeys body)"
  by (rule jget_some) (auto simp: identifier_from_json_def models_object_def)

lemma string_present: "jget body k = JStr s \<Longrightarrow> k \<in> set (jkeys body)"
  by (rule jget_some) simp

lemma schema_lookups:
  "map_of openapi_schemas ''TableIdentifier'' = Some schema_TableIdentifier" 
  "map_of openapi_schemas ''RegisterParquetRequest'' = Some schema_RegisterParquetRequest"
  "map_of openapi_schemas ''ScopedTableRequest'' = Some schema_ScopedTableRequest"
  "map_of openapi_schemas ''IndexTableRequest'' = Some schema_IndexTableRequest"
  "map_of openapi_schemas ''IvfConfig'' = Some schema_IvfConfig"
  "map_of openapi_schemas ''WriteOptions'' = Some schema_WriteOptions"
  "map_of openapi_schemas ''CreateIndexRequest'' = Some schema_CreateIndexRequest"
  "map_of openapi_schemas ''RegisterIndexRequest'' = Some schema_RegisterIndexRequest"
  "map_of openapi_schemas ''RefreshIndexRequest'' = Some schema_RefreshIndexRequest"
  "map_of openapi_schemas ''ScopedIndexRequest'' = Some schema_ScopedIndexRequest"
  "map_of openapi_schemas ''VectorQuery'' = Some schema_VectorQuery"
  "map_of openapi_schemas ''SqlQuery'' = Some schema_SqlQuery"
  "map_of openapi_schemas ''ExplainVectorQuery'' = Some schema_ExplainVectorQuery"
  "map_of openapi_schemas ''ExplainSqlQuery'' = Some schema_ExplainSqlQuery"
  "map_of openapi_schemas ''DescribeTableRequest'' = Some schema_DescribeTableRequest"
  by (simp_all add: openapi_schemas_def)

lemma scoped_bodies_conform:
  assumes "identifier_from_json (jget body ''identifier'') = Inr t" and "set (jkeys body) \<subseteq> {''identifier''}"
  shows "conforms (Suc (Suc (Suc (Suc (Suc n))))) openapi_schemas schema_ScopedTableRequest (JObj body)"
  unfolding schema_ScopedTableRequest_def
  using assms accepted_identifier [OF assms(1)] identifier_present [OF assms(1)]
  by (intro conforms_record_list [where required = "[''identifier'']"]) (simp_all add: schema_lookups)

lemma scoped_index_conforms:
  assumes "identifier_from_json (jget body ''source'') = Inr t" and "set (jkeys body) \<subseteq> {''source'', ''index''}"
    and "jget body ''index'' = JStr i" "i \<noteq> []"
  shows "conforms (Suc (Suc (Suc (Suc (Suc n))))) openapi_schemas schema_ScopedIndexRequest (JObj body)"
  unfolding schema_ScopedIndexRequest_def
  using assms accepted_identifier [OF assms(1)] identifier_present [OF assms(1)] string_present [OF assms(3)]
  by (intro conforms_record_list [where required = "[''source'', ''index'']"]) (simp_all add: schema_lookups schema_simps)

lemma nullable_schema:
  assumes "map_of defs nm = Some t"
  shows "conforms (Suc (Suc n)) defs (JObj [(''oneOf'', JArr [oa_ref nm, JObj [(''type'', JStr ''null'')]])]) v
     \<longleftrightarrow> (v = JNull) \<noteq> conforms n defs t v"
proof -
  let ?s = "[(''oneOf'', JArr [oa_ref nm, JObj [(''type'', JStr ''null'')]])]"
  have "object_keywords ok ?s v" for ok
    by (cases v) (simp_all add: jget_def extra_member_ok_def list_all_iff)
  moreover have "size_keywords ?s v" by (cases v) simp_all
  ultimately show ?thesis
    using assms by (subst conforms.simps) (auto simp: choice_keywords_def items_keyword_def one_of_keyword_def schema_simps)
qed

lemma null_is_no_object:
  "\<not> conforms n defs schema_WriteOptions JNull" "\<not> conforms n defs schema_IvfConfig JNull"
  by (cases n; simp add: schema_WriteOptions_def schema_IvfConfig_def conforms.simps)+

lemma nullable_writer_options:
  assumes "writer_options_from_json v = Inr w"
  shows "conforms (Suc (Suc (Suc (Suc n)))) openapi_schemas
    (JObj [(''oneOf'', JArr [oa_ref ''WriteOptions'', JObj [(''type'', JStr ''null'')]])]) v"
  using assms accepted_writer_options null_is_no_object(1) by (subst nullable_schema [OF schema_lookups(6)]) blast

lemma nullable_config:
  assumes "v = JNull \<or> ivf_from_json v = Inr c"
  shows "conforms (Suc (Suc (Suc (Suc n)))) openapi_schemas
    (JObj [(''oneOf'', JArr [oa_ref ''IvfConfig'', JObj [(''type'', JStr ''null'')]])]) v"
proof -
  have "ivf_from_json JNull \<noteq> Inr c" by (simp add: ivf_from_json_def models_object_def)
  with assms accepted_ivf null_is_no_object(2) show ?thesis by (subst nullable_schema [OF schema_lookups(5)]) blast
qed

lemma create_index_conforms:
  assumes "identifier_from_json (jget body ''source'') = Inr t" 
    and "set (jkeys body) \<subseteq> {''source'', ''index'', ''column'', ''key'', ''config'', ''writer_options''}" "''writer_options'' \<in> set (jkeys body)"
    and "jget body ''index'' = JStr i" "i \<noteq> []" and "jget body ''column'' = JStr c" "c \<noteq> []"
    and "jget body ''key'' = JArr (map JStr ys)" "ys \<noteq> []" "list_all (\<lambda>s. s \<noteq> []) ys"
    and "ivf_from_json (jget body ''config'') = Inr cfg" and "writer_options_from_json (jget body ''writer_options'') = Inr w"
  shows "conforms (Suc (Suc (Suc (Suc (Suc n))))) openapi_schemas schema_CreateIndexRequest (JObj body)"
proof -
  have "''key'' \<in> set (jkeys body)" "''config'' \<in> set (jkeys body)"
    using assms(8,11) by (auto intro!: jget_some simp: ivf_from_json_def models_object_def)
  then show ?thesis
    unfolding schema_CreateIndexRequest_def
    using assms accepted_identifier [OF assms(1)] identifier_present [OF assms(1)] string_present [OF assms(4)] string_present [OF assms(6)]
      accepted_ivf [OF assms(11)] nullable_writer_options [OF assms(12)]
    by (intro conforms_record_list [where required = "[''source'', ''index'', ''column'', ''key'', ''config'', ''writer_options'']"])
       (simp_all add: schema_lookups schema_simps list_all_iff)
qed

lemma refresh_index_conforms:
  assumes "identifier_from_json (jget body ''source'') = Inr t" and "set (jkeys body) = {''source'', ''index'', ''config'', ''writer_options''}"
    and "jget body ''index'' = JStr i" "i \<noteq> []"
    and "jget body ''config'' = JNull \<or> ivf_from_json (jget body ''config'') = Inr cfg"
    and "writer_options_from_json (jget body ''writer_options'') = Inr w"
  shows "conforms (Suc (Suc (Suc (Suc (Suc n))))) openapi_schemas schema_RefreshIndexRequest (JObj body)"
  unfolding schema_RefreshIndexRequest_def
  using assms accepted_identifier [OF assms(1)] nullable_config [OF assms(5)] nullable_writer_options [OF assms(6)]
  by (intro conforms_record_list [where required = "[''source'', ''index'', ''config'', ''writer_options'']"])
     (simp_all add: schema_lookups schema_simps)

lemma register_index_conforms:
  assumes "identifier_from_json (jget body ''source'') = Inr t" and "set (jkeys body) \<subseteq> {''source'', ''index'', ''manifest_location''}"
    and "jget body ''index'' = JStr i" "i \<noteq> []" and "jget body ''manifest_location'' = JStr l" "l \<noteq> []"
  shows "conforms (Suc (Suc (Suc (Suc (Suc n))))) openapi_schemas schema_RegisterIndexRequest (JObj body)"
  unfolding schema_RegisterIndexRequest_def
  using assms accepted_identifier [OF assms(1)] identifier_present [OF assms(1)] string_present [OF assms(3)] string_present [OF assms(5)]
  by (intro conforms_record_list [where required = "[''source'', ''index'', ''manifest_location'']"])
     (simp_all add: schema_lookups schema_simps)

lemma list_indexes_conforms:
  assumes "identifier_from_json (jget body ''source'') = Inr t" and "set (jkeys body) \<subseteq> {''source''}"
  shows "conforms (Suc (Suc (Suc (Suc (Suc n))))) openapi_schemas schema_IndexTableRequest (JObj body)"
  unfolding schema_IndexTableRequest_def
  using assms accepted_identifier [OF assms(1)] identifier_present [OF assms(1)]
  by (intro conforms_record_list [where required = "[''source'']"]) (simp_all add: schema_lookups)

lemma describe_conforms:
  assumes "jget body ''reference'' = JStr r" "r \<noteq> []" and "set (jkeys body) \<subseteq> {''reference''}"
  shows "conforms (Suc (Suc (Suc (Suc (Suc n))))) openapi_schemas schema_DescribeTableRequest (JObj body)"
  unfolding schema_DescribeTableRequest_def
  using assms string_present [OF assms(1)]
  by (intro conforms_record_list [where required = "[''reference'']"]) (simp_all add: schema_simps)

lemma sql_conforms:
  assumes "jget body ''sql'' = JStr q" "q \<noteq> []" and "set (jkeys body) \<subseteq> {''sql''}"
  shows "conforms (Suc (Suc (Suc (Suc (Suc n))))) openapi_schemas schema_SqlQuery (JObj body)"
  unfolding schema_SqlQuery_def
  using assms string_present [OF assms(1)]
  by (intro conforms_record_list [where required = "[''sql'']"]) (simp_all add: schema_simps)

lemma flag_conforms: "jget_or body k d = JBool v \<Longrightarrow> k \<in> set (jkeys body) \<longrightarrow> (\<exists>b. jget body k = JBool b)"
  by (auto simp: jget_or_present)

lemma explain_conforms:
  assumes "set (jkeys body) \<subseteq> {''query'', ''verbose'', ''analyze''}" and "vector_query_from_json (jget body ''query'') = Inr q"
    and "jget_or body ''verbose'' (JBool False) = JBool v" and "jget_or body ''analyze'' (JBool False) = JBool a"
  shows "conforms (Suc (Suc (Suc (Suc (Suc (Suc (Suc n))))))) openapi_schemas schema_ExplainVectorQuery (JObj body)"
proof -
  have "''query'' \<in> set (jkeys body)"
    using assms(2) by (auto intro!: jget_some simp: vector_query_from_json_def models_object_def)
  then show ?thesis
    unfolding schema_ExplainVectorQuery_def
    using assms(1) accepted_vector_query [OF assms(2)] flag_conforms [OF assms(3)] flag_conforms [OF assms(4)]
    by (intro conforms_record_list [where required = "[''query'']"]) (simp_all add: schema_lookups schema_simps)
qed

lemma explain_sql_conforms:
  assumes "set (jkeys body) \<subseteq> {''sql'', ''verbose'', ''analyze''}" and "jget body ''sql'' = JStr q" "q \<noteq> []"
    and "jget_or body ''verbose'' (JBool False) = JBool v" and "jget_or body ''analyze'' (JBool False) = JBool a"
  shows "conforms (Suc (Suc (Suc (Suc (Suc n))))) openapi_schemas schema_ExplainSqlQuery (JObj body)"
  unfolding schema_ExplainSqlQuery_def
  using assms(1-3) string_present [OF assms(2)] flag_conforms [OF assms(4)] flag_conforms [OF assms(5)]
  by (intro conforms_record_list [where required = "[''sql'']"]) (simp_all add: schema_simps)


lemma sort_order_conforms:
  assumes "portable_sort_order v = Inr so" and "v \<noteq> JNull"
  shows "\<exists>orders. v = JArr orders \<and> (\<forall>x\<in>set orders. \<exists>keys. x = JArr keys \<and> (\<forall>k\<in>set keys. \<exists>t. k = JStr t \<and> t \<noteq> []))"
proof -
  have order: "\<exists>keys. x = JArr keys \<and> (\<forall>k\<in>set keys. \<exists>t. k = JStr t \<and> t \<noteq> [])"
    if "(case x of JArr keys \<Rightarrow> traverse (models_string ''sort field'') keys | _ \<Rightarrow> Inl sort_order_error) = Inr y" for x y
    using that by (auto simp: json_case_Inr traverse_strings_Inr list_all_iff)
  from assms obtain orders where v: "v = JArr orders" and t: "traverse (\<lambda>order. case order of
      JArr keys \<Rightarrow> traverse (models_string ''sort field'') keys | _ \<Rightarrow> Inl sort_order_error) orders = Inr so"
    by (cases v) (simp_all add: portable_sort_order_def)
  have "\<exists>keys. x = JArr keys \<and> (\<forall>k\<in>set keys. \<exists>t. k = JStr t \<and> t \<noteq> [])" if "x \<in> set orders" for x
    using traverse_accepts [OF t that] order by blast
  with v show ?thesis by simp
qed

lemma opt_schema_conforms: "optional_schema api v = Inr x \<Longrightarrow> v = JNull \<or> (\<exists>t. v = JStr t)"
  by (auto simp: optional_schema_def schema_from_base64_def split: if_splits)

lemma byte_schema [schema_simps]:
  "conforms (Suc n) defs (JObj [(''type'', JArr [JStr ''string'', JStr ''null'']), (''format'', f)]) v \<longleftrightarrow> v = JNull \<or> (\<exists>t. v = JStr t)"
  by (cases v) (simp_all add: conforms.simps choice_keywords_def items_keyword_def one_of_keyword_def)

lemma registration_conforms:
  assumes "registration_from_json api (JObj body) = Inr r" and "jget body ''file_sort_order'' \<noteq> JNull"
  shows "conforms (Suc (Suc (Suc (Suc (Suc n))))) openapi_schemas schema_RegisterParquetRequest (JObj body)"
proof -
  from assms(1) obtain ps so nm src pruning ext skip sch
    where keys: "set (jkeys body) = set registration_fields" and so: "portable_sort_order (jget body ''file_sort_order'') = Inr so"
    and schemas: "optional_schema api (jget body ''partition_schema'') = Inr ps" "optional_schema api (jget body ''schema'') = Inr sch"
    and fields: "jget body ''name'' = JStr nm" "nm \<noteq> []" "jget body ''source'' = JStr src" "src \<noteq> []"
      "jget body ''parquet_pruning'' = JBool pruning" "jget body ''file_extension'' = JStr ext" "ext \<noteq> []"
      "jget body ''skip_metadata'' = JBool skip"
    by (auto simp: registration_from_json_def reject_unknown_Inr require_fields_Inr)
  show ?thesis
    unfolding schema_RegisterParquetRequest_def
    using keys fields sort_order_conforms [OF so assms(2)] opt_schema_conforms [OF schemas(1)] opt_schema_conforms [OF schemas(2)]
    by (intro conforms_record_list [where required = registration_fields]) (simp_all add: schema_simps registration_fields_def list_all_iff)
qed

definition body_conforms :: "string \<Rightarrow> endpoint \<Rightarrow> http_request \<Rightarrow> bool" where
  "body_conforms nm ep rq \<longleftrightarrow> (\<exists>body. json_body rq = Inr body \<and> (documented_form ep body \<longrightarrow> conforms_to nm (JObj body)))"

lemma conforms_toI:
  "map_of openapi_schemas nm = Some t \<Longrightarrow> conforms (Suc (Suc (Suc (Suc (Suc (Suc (Suc 0))))))) openapi_schemas t v \<Longrightarrow> conforms_to nm v"
  by (simp add: conforms_to_def eval_nat_numeral)

lemmas conforms_named = schema_lookups(2-4,7-15) [THEN conforms_toI]

lemmas accepted_defs = body_conforms_def documented_form_def sbind_eq_Inr only_fields_Inr required_string_Inr app_boolean_Inr

lemma deregister_accepted: "deregister_table_operation env rq t s = (Inr rs, s') \<Longrightarrow> body_conforms ''ScopedTableRequest'' EpDeregister rq"
  by (auto simp: deregister_table_operation_def accepted_defs dest!: scoped_identifier_Inr intro!: conforms_named scoped_bodies_conform)

lemma query_accepted: "query_table_operation env rq t s = (Inr rs, s') \<Longrightarrow> body_conforms ''VectorQuery'' EpQuery rq"
  by (auto simp: query_table_operation_def accepted_defs intro!: conforms_named accepted_vector_query)

lemma to_sql_accepted: "to_sql_operation env rq t s = (Inr rs, s') \<Longrightarrow> body_conforms ''VectorQuery'' EpToSql rq"
  by (auto simp: to_sql_operation_def accepted_defs intro!: conforms_named accepted_vector_query)

lemma sql_accepted: "query_sql_operation env rq s = (Inr rs, s') \<Longrightarrow> body_conforms ''SqlQuery'' EpSql rq"
  by (auto simp: query_sql_operation_def accepted_defs dest!: sql_of_body_Inr intro!: conforms_named sql_conforms)

lemma explain_sql_accepted: "explain_sql_operation env rq s = (Inr rs, s') \<Longrightarrow> body_conforms ''ExplainSqlQuery'' EpSqlExplain rq"
  by (auto simp: explain_sql_operation_def accepted_defs dest!: sql_of_body_Inr intro!: conforms_named explain_sql_conforms)

lemma explain_accepted: "explain_table_operation env rq t s = (Inr rs, s') \<Longrightarrow> body_conforms ''ExplainVectorQuery'' EpExplain rq"
  by (auto simp: explain_table_operation_def accepted_defs intro!: conforms_named explain_conforms)

lemma describe_accepted: "describe_table_operation env rq t s = (Inr rs, s') \<Longrightarrow> body_conforms ''DescribeTableRequest'' EpDescribe rq"
  by (auto simp: describe_table_operation_def accepted_defs intro!: conforms_named describe_conforms)

lemma register_accepted: "register_table_operation env rq t s = (Inr rs, s') \<Longrightarrow> body_conforms ''RegisterParquetRequest'' EpRegisterTable rq"
  by (auto simp: register_table_operation_def accepted_defs intro!: conforms_named registration_conforms)

lemma list_indexes_accepted: "list_indexes_operation env rq t s = (Inr rs, s') \<Longrightarrow> body_conforms ''IndexTableRequest'' EpListIndexes rq"
  by (auto simp: list_indexes_operation_def accepted_defs dest!: scoped_identifier_Inr intro!: conforms_named list_indexes_conforms)

lemma status_accepted: "index_status_operation env rq t i s = (Inr rs, s') \<Longrightarrow> body_conforms ''ScopedIndexRequest'' EpIndexStatus rq"
  by (auto simp: index_status_operation_def accepted_defs dest!: scoped_identifier_Inr scoped_index_Inr
      intro!: conforms_named scoped_index_conforms)

lemma drop_accepted: "drop_index_operation env rq t i s = (Inr rs, s') \<Longrightarrow> body_conforms ''ScopedIndexRequest'' EpDropIndex rq"
  by (auto simp: drop_index_operation_def accepted_defs dest!: scoped_identifier_Inr scoped_index_Inr
      intro!: conforms_named scoped_index_conforms)

lemma register_index_accepted:
  "register_index_operation env rq t i s = (Inr rs, s') \<Longrightarrow> body_conforms ''RegisterIndexRequest'' EpRegisterIndex rq"
  by (auto simp: register_index_operation_def accepted_defs dest!: scoped_identifier_Inr scoped_index_Inr
      intro!: conforms_named register_index_conforms)

lemma create_accepted: "create_index_operation env rq t s = (Inr rs, s') \<Longrightarrow> body_conforms ''CreateIndexRequest'' EpCreateIndex rq"
  by (auto simp: create_index_operation_def accepted_defs dest!: scoped_identifier_Inr string_array_Inr
      intro!: conforms_named create_index_conforms)

lemma refresh_accepted:
  assumes "refresh_index_operation env rq t i s = (Inr rs, s')"
  shows "body_conforms ''RefreshIndexRequest'' EpRefreshIndex rq"
proof -
  obtain body where "json_body rq = Inr body"
    and keys: "set (jkeys body) \<subseteq> set [''source'', ''index'', ''config'', ''writer_options'']"
    and source: "\<exists>u. scoped_identifier rq t body ''source'' = Inr u" and index: "\<exists>j. scoped_index i body = Inr j"
    and config: "\<exists>c. (if jget body ''config'' = JNull then Inr None
        else rbind (ivf_from_json (jget body ''config'')) (\<lambda>c. Inr (Some (ConfigIvf c)))) = Inr c"
    and writer: "\<exists>w. writer_options_from_json (jget body ''writer_options'') = Inr w"
  proof -
    from assms obtain body ok u j c w where "json_body rq = Inr body"
      "only_fields [''source'', ''index'', ''config'', ''writer_options''] body = Inr ok"
      "scoped_identifier rq t body ''source'' = Inr u" "scoped_index i body = Inr j"
      "(if jget body ''config'' = JNull then Inr None
        else rbind (ivf_from_json (jget body ''config'')) (\<lambda>c. Inr (Some (ConfigIvf c)))) = Inr c"
      "writer_options_from_json (jget body ''writer_options'') = Inr w"
      unfolding refresh_index_operation_def sbind_eq_Inr slift_apply prod.inject by (elim exE conjE) (rule that)
    with that show ?thesis by (simp only: only_fields_Inr unit_eq [of ok]) blast
  qed
  moreover from source obtain u where u: "identifier_from_json (jget body ''source'') = Inr u" using scoped_identifier_Inr by blast
  moreover from index obtain j where j: "jget body ''index'' = JStr j" "j \<noteq> []" using scoped_index_Inr by blast
  moreover from config obtain c where c: "jget body ''config'' = JNull \<or> ivf_from_json (jget body ''config'') = Inr c"
    by (auto split: if_splits)
  moreover from writer obtain w where w: "writer_options_from_json (jget body ''writer_options'') = Inr w" by blast
  moreover have "set (jkeys body) = {''source'', ''index'', ''config'', ''writer_options''}"
    if "documented_form EpRefreshIndex body"
    using keys that identifier_present [OF u] string_present [OF j(1)] by (auto simp: documented_form_def)
  then have "conforms_to ''RefreshIndexRequest'' (JObj body)" if "documented_form EpRefreshIndex body"
    using that by (intro conforms_toI [OF schema_lookups(9)] refresh_index_conforms [OF u _ j c w])
  ultimately show ?thesis unfolding body_conforms_def by blast
qed

text \<open>
  C17. Whatever the application accepts is documented: a request that a route answers with a status below 400 has a body
  that conforms to the schema which the OpenAPI document gives for that route, apart from the four liberties of
  \<open>documented_form\<close>.
\<close>

theorem accepted_requests_are_documented:
  assumes "application env rq s = (Inr rs, s')" and "hp_status rs < 400"
    and "find_route (hq_method rq) (hq_path rq) = Some (ep, ps)" and "ep \<notin> {EpHealth, EpOpenapi, EpListTables}"
  shows "\<exists>body. hq_json rq = Some (JObj body) \<and>
     (documented_form ep body \<longrightarrow> conforms 8 openapi_schemas (request_schema ep) (JObj body))"
proof -
  from assms(1,3) have run: "run_endpoint env rq ep ps s = (Inr rs, s')" by (simp add: application_def)
  have "\<exists>nm. request_schema ep = oa_ref nm \<and> body_conforms nm ep rq"
    using run assms(4) handle_accepted [OF _ assms(2)]
    by (cases ep) (auto simp: run_endpoint_def Let_def request_schemas
        dest!: handle_accepted [OF _ assms(2)]
        intro: deregister_accepted query_accepted to_sql_accepted sql_accepted explain_sql_accepted explain_accepted describe_accepted
          register_accepted list_indexes_accepted status_accepted drop_accepted register_index_accepted create_accepted refresh_accepted)
  then show ?thesis
    unfolding body_conforms_def conforms_to_def using json_body_object by metis
qed

definition sample_sql_request :: http_request where
  "sample_sql_request = \<lparr>hq_method = ''POST'', hq_path = ''/v1/sql'', hq_query = [], hq_headers = [(''content-type'', ''application/json'')],
     hq_chunks = [10], hq_json = Some (JObj [(''sql'', JStr ''SELECT 1'')]), hq_fresh_id = ''r1''\<rparr>"

lemma sample_sql_accepted:
  obtains rs where "application sample_app sample_sql_request sample_server = (Inr rs, sample_server)" "hp_status rs = 200"
proof -
  have body: "json_body sample_sql_request = Inr [(''sql'', JStr ''SELECT 1'')]"
    by (simp add: json_body_def sample_sql_request_def header_def check_content_length_def max_json_body_bytes_def before_char_def)
  have route: "find_route ''POST'' ''/v1/sql'' = Some (EpSql, [])" by code_simp
  have fields: "only_fields [''sql''] [(''sql'', JStr ''SELECT 1'')] = Inr ()" "sql_of_body [(''sql'', JStr ''SELECT 1'')] = Inr ''SELECT 1''"
    by code_simp+
  have "svc_stream sample_native (QuerySql ''SELECT 1'') sample_service = (Inr sample_result, sample_service)" by code_simp
  then have stream: "with_service (svc_stream (ae_native sample_app) (QuerySql ''SELECT 1'')) sample_server = (Inr sample_result, sample_server)"
    by (simp add: with_service_def sample_server_def sample_app_def)
  have "map_sum (\<lambda>_. ()) hp_status (stream_response sample_app sample_sql_request sample_result) = Inr 200" by code_simp
  then obtain rs where rs: "stream_response sample_app sample_sql_request sample_result = Inr rs" "hp_status rs = 200"
    by (cases "stream_response sample_app sample_sql_request sample_result") auto
  have "query_sql_operation sample_app sample_sql_request sample_server = (Inr rs, sample_server)"
    by (simp add: query_sql_operation_def body fields stream rs)
  then have "application sample_app sample_sql_request sample_server = (Inr rs, sample_server)"
    using route by (simp add: application_def run_endpoint_def sample_sql_request_def [THEN arg_cong [where f = hq_method]]
        sample_sql_request_def [THEN arg_cong [where f = hq_path]] handle_def scatch_def)
  with rs(2) that show ?thesis by blast
qed

theorem accepted_requests_are_documented_witness:
  "\<exists>rs body. application sample_app sample_sql_request sample_server = (Inr rs, sample_server) \<and> hp_status rs = 200 \<and>
     hq_json sample_sql_request = Some (JObj body) \<and> conforms 8 openapi_schemas (request_schema EpSql) (JObj body)"
proof -
  obtain rs where rs: "application sample_app sample_sql_request sample_server = (Inr rs, sample_server)" "hp_status rs = 200"
    by (rule sample_sql_accepted)
  have "find_route (hq_method sample_sql_request) (hq_path sample_sql_request) = Some (EpSql, [])" by code_simp
  with accepted_requests_are_documented [OF rs(1), of EpSql "[]"] rs show ?thesis by (auto simp: documented_form_def)
qed

end
