(* ===== verification/Html_Formatter.thy ===== *)
theory Html_Formatter
  imports Json "HOL-Library.AList" "HOL-Library.Sublist"
begin

text \<open>
  The HTML rendering of data frames (\<open>datafusion/dataframe_formatter.py\<close>): the validation of the formatter's
  parameters, the table builder, and the global formatter. Parameters: \<open>str\<close> and \<open>isinstance\<close> on the values of the
  cells, \<open>id\<close>, and the user's formatters and builders. Arguments of the constructor are JSON values, since the code
  checks their types; \<open>bool\<close> is a subclass of \<open>int\<close>, so that \<open>True\<close> passes for the number one.
\<close>

section \<open>Validation\<close>

definition py_num :: "json \<Rightarrow> int" where
  "py_num v = (case v of JInt n \<Rightarrow> n | JBool b \<Rightarrow> if b then 1 else 0 | _ \<Rightarrow> 0)"

definition is_int_value :: "json \<Rightarrow> bool" where
  "is_int_value v = (case v of JInt _ \<Rightarrow> True | JBool _ \<Rightarrow> True | _ \<Rightarrow> False)"

definition num_text :: "json \<Rightarrow> string" where
  "num_text v = (case v of JBool b \<Rightarrow> if b then ''True'' else ''False'' | _ \<Rightarrow> show_int (py_num v))"

definition validate_positive_int :: "json \<Rightarrow> string \<Rightarrow> unit result" where
  "validate_positive_int v nm =
     raise_if (\<not> is_int_value v \<or> py_num v \<le> 0) (err ValueError (nm @ '' must be a positive integer''))"

definition validate_bool :: "json \<Rightarrow> string \<Rightarrow> unit result" where
  "validate_bool v nm = (case v of JBool _ \<Rightarrow> Inr () | _ \<Rightarrow> Inl (err TypeError (nm @ '' must be a boolean'')))"

text \<open>A style provider by the answers of its two methods; an argument that has not both of them.\<close>

record style_provider =
  sp_cell_style :: string
  sp_header_style :: string

datatype style_arg = StyleNone | StyleProvider style_provider | StyleOther

record formatter_args =
  fa_max_cell_length :: json
  fa_max_width :: json
  fa_max_height :: json
  fa_max_memory_bytes :: json
  fa_min_rows :: json
  fa_max_rows :: json
  fa_repr_rows :: json
  fa_enable_cell_expansion :: json
  fa_custom_css :: json
  fa_show_truncation_message :: json
  fa_style_provider :: style_arg
  fa_use_shared_styles :: json

definition default_formatter_args :: formatter_args where
  "default_formatter_args =
     \<lparr>fa_max_cell_length = JInt 25, fa_max_width = JInt 1000, fa_max_height = JInt 300, fa_max_memory_bytes = JInt (2 * 1024 * 1024),
      fa_min_rows = JInt 10, fa_max_rows = JNull, fa_repr_rows = JNull, fa_enable_cell_expansion = JBool True,
      fa_custom_css = JNull, fa_show_truncation_message = JBool True, fa_style_provider = StyleNone,
      fa_use_shared_styles = JBool True\<rparr>"

definition resolve_max_rows :: "json \<Rightarrow> json \<Rightarrow> json result" where
  "resolve_max_rows max_rows repr_rows =
     (if repr_rows \<noteq> JNull
      then rbind (validate_positive_int repr_rows ''repr_rows'') (\<lambda>_.
           rbind (raise_if (max_rows \<noteq> JNull \<and> \<not> py_eq repr_rows max_rows)
                   (err ValueError ''Cannot specify both repr_rows and max_rows; use max_rows only'')) (\<lambda>_.
           Inr repr_rows))
      else if max_rows = JNull then Inr (JInt 10) else Inr max_rows)"

definition validate_formatter_parameters :: "formatter_args \<Rightarrow> json result" where
  "validate_formatter_parameters a =
     rbind (validate_positive_int (fa_max_cell_length a) ''max_cell_length'') (\<lambda>_.
     rbind (validate_positive_int (fa_max_width a) ''max_width'') (\<lambda>_.
     rbind (validate_positive_int (fa_max_height a) ''max_height'') (\<lambda>_.
     rbind (validate_positive_int (fa_max_memory_bytes a) ''max_memory_bytes'') (\<lambda>_.
     rbind (validate_positive_int (fa_min_rows a) ''min_rows'') (\<lambda>_.
     rbind (resolve_max_rows (fa_max_rows a) (fa_repr_rows a)) (\<lambda>max_rows.
     rbind (validate_positive_int max_rows ''max_rows'') (\<lambda>_.
     rbind (raise_if (py_num (fa_min_rows a) > py_num max_rows)
             (err ValueError ''min_rows must be less than or equal to max_rows'')) (\<lambda>_.
     rbind (validate_bool (fa_enable_cell_expansion a) ''enable_cell_expansion'') (\<lambda>_.
     rbind (validate_bool (fa_show_truncation_message a) ''show_truncation_message'') (\<lambda>_.
     rbind (validate_bool (fa_use_shared_styles a) ''use_shared_styles'') (\<lambda>_.
     rbind (case fa_custom_css a of JNull \<Rightarrow> Inr () | JStr _ \<Rightarrow> Inr ()
            | _ \<Rightarrow> Inl (err TypeError ''custom_css must be None or a string'')) (\<lambda>_.
     rbind (raise_if (fa_style_provider a = StyleOther)
             (err TypeError ''style_provider must implement the StyleProvider protocol'')) (\<lambda>_.
     Inr max_rows)))))))))))))"

section \<open>The formatter\<close>

definition default_style_provider :: style_provider where
  "default_style_provider =
     \<lparr>sp_cell_style = ''border: 1px solid black; padding: 8px; text-align: left; white-space: nowrap;'',
      sp_header_style = ''border: 1px solid black; padding: 8px; text-align: left; background-color: #f2f2f2; white-space: nowrap; min-width: fit-content; max-width: fit-content;''\<rparr>"

record ('v, 't, 'f) formatter =
  fm_max_cell_length :: json
  fm_max_width :: json
  fm_max_height :: json
  fm_max_memory_bytes :: json
  fm_min_rows :: json
  fm_max_rows :: json
  fm_enable_cell_expansion :: bool
  fm_custom_css :: "string option"
  fm_show_truncation_message :: bool
  fm_style_provider :: style_provider
  fm_use_shared_styles :: bool
  fm_type_formatters :: "('t \<times> ('v \<Rightarrow> string result)) list"
  fm_custom_cell_builder :: "('v \<Rightarrow> int \<Rightarrow> int \<Rightarrow> string \<Rightarrow> string result) option"
  fm_custom_header_builder :: "('f \<Rightarrow> string result) option"

definition new_formatter :: "formatter_args \<Rightarrow> ('v, 't, 'f) formatter result" where
  "new_formatter a =
     rbind (validate_formatter_parameters a) (\<lambda>max_rows.
     Inr \<lparr>fm_max_cell_length = fa_max_cell_length a, fm_max_width = fa_max_width a, fm_max_height = fa_max_height a,
          fm_max_memory_bytes = fa_max_memory_bytes a, fm_min_rows = fa_min_rows a, fm_max_rows = max_rows,
          fm_enable_cell_expansion = (fa_enable_cell_expansion a = JBool True),
          fm_custom_css = (case fa_custom_css a of JStr s \<Rightarrow> Some s | _ \<Rightarrow> None),
          fm_show_truncation_message = (fa_show_truncation_message a = JBool True),
          fm_style_provider = (case fa_style_provider a of StyleProvider p \<Rightarrow> p | _ \<Rightarrow> default_style_provider),
          fm_use_shared_styles = (fa_use_shared_styles a = JBool True), fm_type_formatters = [],
          fm_custom_cell_builder = None, fm_custom_header_builder = None\<rparr>)"

definition set_max_rows :: "json \<Rightarrow> ('v, 't, 'f) formatter \<Rightarrow> ('v, 't, 'f) formatter" where
  "set_max_rows v f = f\<lparr>fm_max_rows := v\<rparr>"

definition set_repr_rows :: "json \<Rightarrow> ('v, 't, 'f) formatter \<Rightarrow> ('v, 't, 'f) formatter" where
  "set_repr_rows v f = f\<lparr>fm_max_rows := v\<rparr>"

definition register_formatter :: "'t \<Rightarrow> ('v \<Rightarrow> string result) \<Rightarrow> ('v, 't, 'f) formatter \<Rightarrow> ('v, 't, 'f) formatter" where
  "register_formatter t g f = f\<lparr>fm_type_formatters := AList.update t g (fm_type_formatters f)\<rparr>"

definition set_custom_cell_builder ::
  "('v \<Rightarrow> int \<Rightarrow> int \<Rightarrow> string \<Rightarrow> string result) \<Rightarrow> ('v, 't, 'f) formatter \<Rightarrow> ('v, 't, 'f) formatter" where
  "set_custom_cell_builder b f = f\<lparr>fm_custom_cell_builder := Some b\<rparr>"

definition set_custom_header_builder :: "('f \<Rightarrow> string result) \<Rightarrow> ('v, 't, 'f) formatter \<Rightarrow> ('v, 't, 'f) formatter" where
  "set_custom_header_builder b f = f\<lparr>fm_custom_header_builder := Some b\<rparr>"

section \<open>Cells\<close>

text \<open>
  An entry of an Arrow column: a scalar with \<open>as_py\<close>, or a plain value. Reading may raise, and so may \<open>as_py\<close>.
\<close>

datatype 'v entry = Scalar "'v result" | Plain 'v

type_synonym 'v column = "nat \<Rightarrow> 'v entry result"

record 'v html_batch =
  hb_num_rows :: nat
  hb_columns :: "'v column list"

record ('v, 't, 'f) html_env =
  he_none :: 'v
  he_str :: "'v \<Rightarrow> string"
  he_isinstance :: "'v \<Rightarrow> 't \<Rightarrow> bool"
  he_field_name :: "'f \<Rightarrow> string"

definition get_cell_value :: "('v, 't, 'f) html_env \<Rightarrow> 'v column \<Rightarrow> nat \<Rightarrow> 'v result" where
  "get_cell_value env column i =
     (case rbind (column i) (\<lambda>entry. case entry of Scalar r \<Rightarrow> r | Plain v \<Rightarrow> Inr v) of
        Inr v \<Rightarrow> Inr v
      | Inl e \<Rightarrow> if isinstance_exc e AttributeError \<or> isinstance_exc e TypeError then Inr (he_none env) else Inl e)"

definition format_cell_value :: "('v, 't, 'f) html_env \<Rightarrow> ('v, 't, 'f) formatter \<Rightarrow> 'v \<Rightarrow> string result" where
  "format_cell_value env f v =
     (case find (\<lambda>(t, g). he_isinstance env v t) (fm_type_formatters f) of
        Some (t, g) \<Rightarrow> g v
      | None \<Rightarrow> Inr (he_str env v))"

text \<open>\<open>s[:n]\<close> for a positive bound: the first \<open>n\<close> code points.\<close>

fun py_take :: "nat \<Rightarrow> string \<Rightarrow> string" where
  "py_take n [] = []"
| "py_take n (c # cs) =
     (if 128 \<le> code_of c \<and> code_of c < 192 then c # py_take n cs
      else (case n of 0 \<Rightarrow> [] | Suc m \<Rightarrow> c # py_take m cs))"

definition cell_id :: "string \<Rightarrow> string \<Rightarrow> int \<Rightarrow> int \<Rightarrow> string" where
  "cell_id table_uuid kind row_count col_idx =
     table_uuid @ CHR ''-'' # kind @ CHR ''-'' # show_int row_count @ CHR ''-'' # show_int col_idx"

definition build_expandable_cell ::
  "('v, 't, 'f) formatter \<Rightarrow> string \<Rightarrow> int \<Rightarrow> int \<Rightarrow> string \<Rightarrow> string" where
  "build_expandable_cell f formatted_value row_count col_idx table_uuid =
     (let short_value = py_take (nat (py_num (fm_max_cell_length f))) formatted_value
      in ''<td style='' @ in_quotes (sp_cell_style (fm_style_provider f)) @ ''>''
         @ ''<div class='' @ in_quotes ''expandable-container'' @ ''>''
         @ ''<span class='' @ in_quotes ''expandable'' @ '' id='' @ in_quotes (cell_id table_uuid ''min-text'' row_count col_idx) @ ''>''
         @ short_value @ ''</span>''
         @ ''<span class='' @ in_quotes ''full-text'' @ '' id='' @ in_quotes (cell_id table_uuid ''full-text'' row_count col_idx) @ ''>''
         @ formatted_value @ ''</span>''
         @ ''<button class='' @ in_quotes ''expand-btn'' @ '' onclick=\"toggleDataFrameCellText('' @ in_quotes table_uuid
         @ '','' @ show_int row_count @ '','' @ show_int col_idx @ '')\">...</button></div></td>'')"

definition build_regular_cell :: "('v, 't, 'f) formatter \<Rightarrow> string \<Rightarrow> string" where
  "build_regular_cell f formatted_value =
     ''<td style='' @ in_quotes (sp_cell_style (fm_style_provider f)) @ ''>'' @ formatted_value @ ''</td>''"

definition build_cell ::
  "('v, 't, 'f) html_env \<Rightarrow> ('v, 't, 'f) formatter \<Rightarrow> string \<Rightarrow> nat \<Rightarrow> int \<Rightarrow> int \<Rightarrow> 'v column \<Rightarrow> string result" where
  "build_cell env f table_uuid row_idx row_count col_idx column =
     rbind (get_cell_value env column row_idx) (\<lambda>raw_value.
     rbind (format_cell_value env f raw_value) (\<lambda>formatted_value.
     (case fm_custom_cell_builder f of
        Some b \<Rightarrow> b raw_value row_count col_idx table_uuid
      | None \<Rightarrow>
          Inr (if int (py_len (he_str env raw_value)) > py_num (fm_max_cell_length f) \<and> fm_enable_cell_expansion f
               then build_expandable_cell f formatted_value row_count col_idx table_uuid
               else build_regular_cell f formatted_value))))"

section \<open>The table\<close>

definition get_default_css :: string where
  "get_default_css = join [CHR 10]
     [[],
      ''            .expandable-container {'',
      ''                display: inline-block;'',
      ''                max-width: 200px;'',
      ''            }'',
      ''            .expandable {'',
      ''                white-space: nowrap;'',
      ''                overflow: hidden;'',
      ''                text-overflow: ellipsis;'',
      ''                display: block;'',
      ''            }'',
      ''            .full-text {'',
      ''                display: none;'',
      ''                white-space: normal;'',
      ''            }'',
      ''            .expand-btn {'',
      ''                cursor: pointer;'',
      ''                color: blue;'',
      ''                text-decoration: underline;'',
      ''                border: none;'',
      ''                background: none;'',
      ''                font-size: inherit;'',
      ''                display: block;'',
      ''                margin-top: 5px;'',
      ''            }'',
      ''        '']"

definition get_javascript :: string where
  "get_javascript = join [CHR 10]
     [[],
      ''<script>'',
      ''if (!window.__df_formatter_js_loaded__) {'',
      ''  window.__df_formatter_js_loaded__ = true;'',
      ''  window.toggleDataFrameCellText = function (table_uuid, row, col) {'',
      ''    var shortText = document.getElementById('',
      ''      table_uuid + \"-min-text-\" + row + \"-\" + col'',
      ''    );'',
      ''    var fullText = document.getElementById('',
      ''      table_uuid + \"-full-text-\" + row + \"-\" + col'',
      ''    );'',
      ''    var button = event.target;'',
      [],
      ''    if (fullText.style.display === \"none\") {'',
      ''      shortText.style.display = \"none\";'',
      ''      fullText.style.display = \"inline\";'',
      ''      button.textContent = \"(less)\";'',
      ''    } else {'',
      ''      shortText.style.display = \"inline\";'',
      ''      fullText.style.display = \"none\";'',
      ''      button.textContent = \"...\";'',
      ''    }'',
      ''  };'',
      ''}'',
      ''</script>'',
      []]"

definition build_html_header :: "('v, 't, 'f) formatter \<Rightarrow> string list" where
  "build_html_header f =
     (let default_css = (if fm_enable_cell_expansion f then get_default_css else []);
          script = join [CHR 10]
            [[], ''<script>'', ''if (!document.getElementById('' @ in_quotes ''df-styles'' @ '')) {'',
             ''  const style = document.createElement('' @ in_quotes ''style'' @ '');'',
             ''  style.id = '' @ in_quotes ''df-styles'' @ '';'',
             ''  style.textContent = `'' @ default_css @ ''`;'',
             ''  document.head.appendChild(style);'', ''}'', ''</script>'', []]
      in script # (case fm_custom_css f of
                     Some css \<Rightarrow> if css = [] then [] else [''<style>'' @ css @ ''</style>'']
                   | None \<Rightarrow> []))"

definition build_table_container_start :: "('v, 't, 'f) formatter \<Rightarrow> string list" where
  "build_table_container_start f =
     [''<div style=\"width: 100%; max-width: '' @ num_text (fm_max_width f) @ ''px; max-height: ''
        @ num_text (fm_max_height f) @ ''px; overflow: auto; border: 1px solid #ccc;\">'',
      ''<table style=\"border-collapse: collapse\">'']"

definition build_header_cell :: "('v, 't, 'f) html_env \<Rightarrow> ('v, 't, 'f) formatter \<Rightarrow> 'f \<Rightarrow> string result" where
  "build_header_cell env f field =
     (case fm_custom_header_builder f of
        Some b \<Rightarrow> b field
      | None \<Rightarrow> Inr (''<th style='' @ in_quotes (sp_header_style (fm_style_provider f)) @ ''>'' @ he_field_name env field @ ''</th>''))"

definition build_table_header ::
  "('v, 't, 'f) html_env \<Rightarrow> ('v, 't, 'f) formatter \<Rightarrow> 'f list \<Rightarrow> string list result" where
  "build_table_header env f schema =
     rbind (traverse (build_header_cell env f) schema) (\<lambda>cells.
     Inr ([''<thead>'', ''<tr>''] @ cells @ [''</tr>'', ''</thead>'']))"

text \<open>The loops of \<open>_build_table_body\<close>: over the columns of a row, the rows of a batch and the batches, with one row count.\<close>

fun row_cells ::
  "('v, 't, 'f) html_env \<Rightarrow> ('v, 't, 'f) formatter \<Rightarrow> string \<Rightarrow> nat \<Rightarrow> int \<Rightarrow> int \<Rightarrow> 'v column list \<Rightarrow> string list result" where
  "row_cells env f table_uuid row_idx row_count col_idx [] = Inr []"
| "row_cells env f table_uuid row_idx row_count col_idx (column # columns) =
     rbind (build_cell env f table_uuid row_idx row_count col_idx column) (\<lambda>cell.
     rbind (row_cells env f table_uuid row_idx row_count (col_idx + 1) columns) (\<lambda>cells.
     Inr (cell # cells)))"

fun batch_rows ::
  "('v, 't, 'f) html_env \<Rightarrow> ('v, 't, 'f) formatter \<Rightarrow> string \<Rightarrow> 'v column list \<Rightarrow> int \<Rightarrow> nat list \<Rightarrow> (string list \<times> int) result" where
  "batch_rows env f table_uuid columns row_count [] = Inr ([], row_count)"
| "batch_rows env f table_uuid columns row_count (row_idx # rest) =
     rbind (row_cells env f table_uuid row_idx (row_count + 1) 0 columns) (\<lambda>cells.
     rbind (batch_rows env f table_uuid columns (row_count + 1) rest) (\<lambda>(html, n).
     Inr (''<tr>'' # cells @ ''</tr>'' # html, n)))"

fun table_rows ::
  "('v, 't, 'f) html_env \<Rightarrow> ('v, 't, 'f) formatter \<Rightarrow> string \<Rightarrow> int \<Rightarrow> 'v html_batch list \<Rightarrow> string list result" where
  "table_rows env f table_uuid row_count [] = Inr []"
| "table_rows env f table_uuid row_count (batch # batches) =
     rbind (batch_rows env f table_uuid (hb_columns batch) row_count [0..<hb_num_rows batch]) (\<lambda>(html, n).
     rbind (table_rows env f table_uuid n batches) (\<lambda>rest.
     Inr (html @ rest)))"

definition build_table_body ::
  "('v, 't, 'f) html_env \<Rightarrow> ('v, 't, 'f) formatter \<Rightarrow> 'v html_batch list \<Rightarrow> string \<Rightarrow> string list result" where
  "build_table_body env f batches table_uuid =
     rbind (table_rows env f table_uuid 0 batches) (\<lambda>rows. Inr (''<tbody>'' # rows @ [''</tbody>'']))"

definition build_html_footer :: "('v, 't, 'f) formatter \<Rightarrow> bool \<Rightarrow> string list" where
  "build_html_footer f has_more =
     (if fm_enable_cell_expansion f \<and> \<not> fm_use_shared_styles f then [get_javascript] else []) @
     (if has_more \<and> fm_show_truncation_message f then [''<div>Data truncated due to size.</div>''] else [])"

text \<open>The schema argument: \<open>None\<close>, something that cannot be iterated, or fields.\<close>

definition format_html ::
  "('v, 't, 'f) html_env \<Rightarrow> ('v, 't, 'f) formatter \<Rightarrow> 'v html_batch list \<Rightarrow> 'f list option \<Rightarrow> bool \<Rightarrow> string option \<Rightarrow> int \<Rightarrow> string result" where
  "format_html env f batches schema has_more table_uuid batches_id =
     (if batches = [] then Inr ''No data to display''
      else (case schema of
        None \<Rightarrow> Inl (err TypeError ''Schema must be provided'')
      | Some schema_fields \<Rightarrow>
          (let uuid = (case table_uuid of Some u \<Rightarrow> if u = [] then ''df-'' @ show_int batches_id else u
                       | None \<Rightarrow> ''df-'' @ show_int batches_id)
           in rbind (build_table_header env f schema_fields) (\<lambda>header.
              rbind (build_table_body env f batches uuid) (\<lambda>body.
              Inr (join [CHR 10]
                (build_html_header f @ build_table_container_start f @ header @ body @ [''</table>'', ''</div>'']
                 @ (if fm_enable_cell_expansion f then [get_javascript] else [])
                 @ (if has_more \<and> fm_show_truncation_message f then [''<div>Data truncated due to size.</div>''] else []))))))))"

section \<open>The global formatter\<close>

definition set_formatter :: "('v, 't, 'f) formatter \<Rightarrow> (('v, 't, 'f) formatter, unit) cmd" where
  "set_formatter f = (\<lambda>_. (Inr (), f))"

definition get_formatter :: "(('v, 't, 'f) formatter, ('v, 't, 'f) formatter) cmd" where
  "get_formatter = (\<lambda>s. (Inr s, s))"

text \<open>The keyword arguments of \<open>configure_formatter\<close>; the style provider is the only one that is not a JSON value.\<close>

datatype formatter_value = FormatterJson json | FormatterStyle style_arg

definition valid_formatter_params :: "string list" where
  "valid_formatter_params =
     [''max_cell_length'', ''max_width'', ''max_height'', ''max_memory_bytes'', ''min_rows'', ''max_rows'', ''repr_rows'',
      ''enable_cell_expansion'', ''custom_css'', ''show_truncation_message'', ''style_provider'', ''use_shared_styles'']"

definition formatter_json :: "formatter_value \<Rightarrow> json" where
  "formatter_json v = (case v of FormatterJson j \<Rightarrow> j | FormatterStyle StyleNone \<Rightarrow> JNull | FormatterStyle _ \<Rightarrow> JObj [])"

definition formatter_style :: "formatter_value \<Rightarrow> style_arg" where
  "formatter_style v =
     (case v of FormatterStyle p \<Rightarrow> p | FormatterJson j \<Rightarrow> if j = JNull then StyleNone else StyleOther)"

definition formatter_args_of :: "(string \<times> formatter_value) list \<Rightarrow> formatter_args" where
  "formatter_args_of kwargs =
     (let d = default_formatter_args;
          arg = (\<lambda>k dflt. case map_of kwargs k of Some v \<Rightarrow> formatter_json v | None \<Rightarrow> dflt)
      in \<lparr>fa_max_cell_length = arg ''max_cell_length'' (fa_max_cell_length d), fa_max_width = arg ''max_width'' (fa_max_width d),
          fa_max_height = arg ''max_height'' (fa_max_height d),
          fa_max_memory_bytes = arg ''max_memory_bytes'' (fa_max_memory_bytes d),
          fa_min_rows = arg ''min_rows'' (fa_min_rows d), fa_max_rows = arg ''max_rows'' (fa_max_rows d),
          fa_repr_rows = arg ''repr_rows'' (fa_repr_rows d),
          fa_enable_cell_expansion = arg ''enable_cell_expansion'' (fa_enable_cell_expansion d),
          fa_custom_css = arg ''custom_css'' (fa_custom_css d),
          fa_show_truncation_message = arg ''show_truncation_message'' (fa_show_truncation_message d),
          fa_style_provider = (case map_of kwargs ''style_provider'' of Some v \<Rightarrow> formatter_style v | None \<Rightarrow> fa_style_provider d),
          fa_use_shared_styles = arg ''use_shared_styles'' (fa_use_shared_styles d)\<rparr>)"

text \<open>The message lists two sets; \<open>set_order\<close> is the order in which the interpreter iterates over them.\<close>

definition configure_formatter ::
  "(string list \<Rightarrow> string list) \<Rightarrow> (string \<times> formatter_value) list \<Rightarrow> (('v, 't, 'f) formatter, unit) cmd" where
  "configure_formatter set_order kwargs =
     (let invalid_params = filter (\<lambda>k. k \<notin> set valid_formatter_params) (map fst kwargs)
      in if invalid_params \<noteq> []
         then sraise (err ValueError (''Invalid formatter parameters: '' @ join '', '' (set_order invalid_params)
                @ ''. Valid parameters are: '' @ join '', '' (set_order valid_formatter_params)))
         else sbind (slift (new_formatter (formatter_args_of kwargs))) set_formatter)"

definition reset_formatter :: "(('v, 't, 'f) formatter, unit) cmd" where
  "reset_formatter = sbind (slift (new_formatter default_formatter_args)) set_formatter"

section \<open>Well-formed formatters\<close>

definition positive_num :: "json \<Rightarrow> bool" where
  "positive_num v \<longleftrightarrow> is_int_value v \<and> 0 < py_num v"

definition wf_formatter :: "('v, 't, 'f) formatter \<Rightarrow> bool" where
  "wf_formatter f \<longleftrightarrow> positive_num (fm_max_cell_length f) \<and> positive_num (fm_max_width f) \<and> positive_num (fm_max_height f) \<and>
     positive_num (fm_max_memory_bytes f) \<and> positive_num (fm_min_rows f) \<and> positive_num (fm_max_rows f) \<and>
     py_num (fm_min_rows f) \<le> py_num (fm_max_rows f)"

lemma validate_positive_int_Inr [simp]: "validate_positive_int v nm = Inr u \<longleftrightarrow> positive_num v"
  by (auto simp: validate_positive_int_def positive_num_def)

lemma new_formatter_wf: "new_formatter a = Inr f \<Longrightarrow> wf_formatter f"
  by (auto simp: new_formatter_def validate_formatter_parameters_def wf_formatter_def)

lemma default_formatter_exists: "\<exists>f. new_formatter default_formatter_args = Inr f"
  by (simp add: new_formatter_def validate_formatter_parameters_def default_formatter_args_def validate_positive_int_def
      is_int_value_def py_num_def resolve_max_rows_def validate_bool_def)

section \<open>Rows and identifiers\<close>

text \<open>The rows of the table in order: the columns of the batch and the index in it.\<close>

definition source_rows :: "'v html_batch list \<Rightarrow> ('v column list \<times> nat) list" where
  "source_rows batches = concat (map (\<lambda>b. map (Pair (hb_columns b)) [0..<hb_num_rows b]) batches)"

fun numbered :: "int \<Rightarrow> 'a list \<Rightarrow> (int \<times> 'a) list" where
  "numbered k [] = []"
| "numbered k (x # xs) = (k, x) # numbered (k + 1) xs"

lemma numbered_append: "numbered k (xs @ ys) = numbered k xs @ numbered (k + int (length xs)) ys"
  by (induction xs arbitrary: k) (simp_all add: algebra_simps)

definition rendered_row ::
  "('v, 't, 'f) html_env \<Rightarrow> ('v, 't, 'f) formatter \<Rightarrow> string \<Rightarrow> int \<times> 'v column list \<times> nat \<Rightarrow> string list result" where
  "rendered_row env f table_uuid = (\<lambda>(n, columns, i).
     rbind (traverse (\<lambda>(c, column). build_cell env f table_uuid i n c column) (numbered 0 columns)) (\<lambda>cells.
     Inr (''<tr>'' # cells @ [''</tr>''])))"

lemma row_cells_numbered:
  "row_cells env f u i n c columns = traverse (\<lambda>(c, column). build_cell env f u i n c column) (numbered c columns)"
  by (induction columns arbitrary: c) simp_all

lemma batch_rows_numbered:
  "batch_rows env f u columns n rows =
     rbind (traverse (rendered_row env f u) (numbered (n + 1) (map (Pair columns) rows))) (\<lambda>html. Inr (concat html, n + int (length rows)))"
  by (induction rows arbitrary: n) (simp_all add: row_cells_numbered rendered_row_def rbind_assoc algebra_simps)

lemma table_rows_numbered:
  "table_rows env f u n batches = rbind (traverse (rendered_row env f u) (numbered (n + 1) (source_rows batches))) (\<lambda>html. Inr (concat html))"
  by (induction batches arbitrary: n)
     (simp_all add: source_rows_def batch_rows_numbered numbered_append traverse_append rbind_assoc algebra_simps)












section \<open>Properties\<close>


text \<open>
  Whatever arguments it gets, \<open>configure_formatter\<close> either raises and leaves the global formatter as it is, or
  installs one whose sizes are positive and whose \<open>min_rows\<close> is at most its \<open>max_rows\<close>; \<open>reset_formatter\<close> never raises.
\<close>

theorem configured_formatter_is_wellformed:
  assumes "wf_formatter f" and "configure_formatter set_order kwargs f = (r, f')"
  shows "wf_formatter f' \<and> (r = Inr () \<or> f' = f) \<and>
    (\<exists>f0. (reset_formatter f :: unit result \<times> ('v, 't, 'f) formatter) = (Inr (), f0) \<and> wf_formatter f0)"
proof -
  have "wf_formatter f' \<and> (r = Inr () \<or> f' = f)"
    using assms new_formatter_wf
    by (auto simp: configure_formatter_def Let_def sbind_apply set_formatter_def sraise_def split: if_splits sum.splits)
  moreover have "\<exists>f0. (reset_formatter f :: unit result \<times> ('v, 't, 'f) formatter) = (Inr (), f0) \<and> wf_formatter f0"
    using default_formatter_exists [where 'a = 'v and 'b = 't and 'c = 'f] new_formatter_wf
    by (fastforce simp: reset_formatter_def sbind_apply set_formatter_def)
  ultimately show ?thesis by blast
qed

definition sample_formatter :: "(string, unit, string) formatter" where
  "sample_formatter = (case new_formatter default_formatter_args of Inr f \<Rightarrow> f)"

theorem configured_formatter_is_wellformed_witness:
  "\<exists>r f'. configure_formatter id [(''min_rows'', FormatterJson (JInt 20))] sample_formatter = (r, f') \<and> wf_formatter f' \<and> f' = sample_formatter"
proof -
  obtain f :: "(string, unit, string) formatter" where f: "new_formatter default_formatter_args = Inr f" using default_formatter_exists by blast
  then have wf: "wf_formatter sample_formatter" by (simp add: sample_formatter_def new_formatter_wf)
  have args: "fa_min_rows (formatter_args_of [(''min_rows'', FormatterJson (JInt 20))]) = JInt 20"
    "fa_max_rows (formatter_args_of [(''min_rows'', FormatterJson (JInt 20))]) = JNull"
    "fa_repr_rows (formatter_args_of [(''min_rows'', FormatterJson (JInt 20))]) = JNull"
    by (simp_all add: formatter_args_of_def default_formatter_args_def Let_def formatter_json_def)
  obtain r f' where run: "configure_formatter id [(''min_rows'', FormatterJson (JInt 20))] sample_formatter = (r, f')"
    by (cases "configure_formatter id [(''min_rows'', FormatterJson (JInt 20))] sample_formatter")
  have "new_formatter (formatter_args_of [(''min_rows'', FormatterJson (JInt 20))]) \<noteq> Inr (g :: (string, unit, string) formatter)" for g
    by (auto simp: new_formatter_def validate_formatter_parameters_def args resolve_max_rows_def py_num_def)
  then have "r \<noteq> Inr ()"
    using run by (auto simp: configure_formatter_def Let_def valid_formatter_params_def sbind_apply set_formatter_def split: sum.splits)
  with configured_formatter_is_wellformed [OF wf run] run show ?thesis by blast
qed

section \<open>Markup in the data\<close>

lemma sublist_join: "x \<in> set xs \<Longrightarrow> sublist x (join sep xs)"
proof (induction sep xs rule: join.induct)
  case (3 sep x' y zs)
  show ?case
  proof (cases "x = x'")
    case False
    with 3 have "sublist x (join sep (y # zs))" by auto
    then obtain p q where "join sep (y # zs) = p @ x @ q" by (auto simp: sublist_def)
    then have "join sep (x' # y # zs) = (x' @ sep @ p) @ x @ q" by simp
    then show ?thesis unfolding sublist_def by blast
  qed simp
qed simp_all

lemma sublist_within: "sublist x (p @ x @ q)"
  by (rule sublist_appendI)

lemma cell_contains_text:
  assumes "fm_custom_cell_builder f = None" and "fm_type_formatters f = []" and "get_cell_value env column i = Inr v"
    and "build_cell env f u i n c column = Inr cell"
  shows "sublist (he_str env v) cell"
proof -
  have "sublist t (build_regular_cell f t)" for t
    unfolding build_regular_cell_def using sublist_within [of t "''<td style='' @ in_quotes (sp_cell_style (fm_style_provider f)) @ ''>''" "''</td>''"] by simp
  moreover have "\<exists>p q. build_expandable_cell f t n c u = p @ t @ q" for t
  proof -
    have "build_expandable_cell f t n c u =
      (''<td style='' @ in_quotes (sp_cell_style (fm_style_provider f)) @ ''>''
         @ ''<div class='' @ in_quotes ''expandable-container'' @ ''>''
         @ ''<span class='' @ in_quotes ''expandable'' @ '' id='' @ in_quotes (cell_id u ''min-text'' n c) @ ''>''
         @ py_take (nat (py_num (fm_max_cell_length f))) t @ ''</span>''
         @ ''<span class='' @ in_quotes ''full-text'' @ '' id='' @ in_quotes (cell_id u ''full-text'' n c) @ ''>'') @ t @
      (''</span>'' @ ''<button class='' @ in_quotes ''expand-btn'' @ '' onclick=\"toggleDataFrameCellText('' @ in_quotes u
         @ '','' @ show_int n @ '','' @ show_int c @ '')\">...</button></div></td>'')"
      by (simp only: build_expandable_cell_def Let_def append_assoc)
    then show ?thesis by blast
  qed
  then have "sublist t (build_expandable_cell f t n c u)" for t
    using sublist_within by metis
  ultimately show ?thesis
    using assms by (auto simp: build_cell_def format_cell_value_def split: if_splits)
qed

lemma numbered_in: "x \<in> set xs \<Longrightarrow> \<exists>n. (n, x) \<in> set (numbered k xs)"
  by (induction xs arbitrary: k) auto

lemma body_contains_text:
  assumes "fm_custom_cell_builder f = None" and "fm_type_formatters f = []"
    and b: "b \<in> set batches" "i < hb_num_rows b" "column \<in> set (hb_columns b)" and v: "get_cell_value env column i = Inr v"
    and body: "build_table_body env f batches u = Inr body"
  shows "\<exists>cell\<in>set body. sublist (he_str env v) cell"
proof -
  from b have "(hb_columns b, i) \<in> set (source_rows batches)" by (force simp: source_rows_def)
  from numbered_in [OF this, of 1] obtain n where n: "(n, hb_columns b, i) \<in> set (numbered 1 (source_rows batches))" by blast
  from numbered_in [OF b(3), of 0] obtain c where c: "(c, column) \<in> set (numbered 0 (hb_columns b))" by blast
  from body obtain rows where rows: "traverse (rendered_row env f u) (numbered 1 (source_rows batches)) = Inr rows"
    and body_eq: "body = ''<tbody>'' # concat rows @ [''</tbody>'']"
    by (auto simp: build_table_body_def table_rows_numbered)
  from traverse_in [OF rows n] obtain row where row: "row \<in> set rows" "rendered_row env f u (n, hb_columns b, i) = Inr row" by blast
  then obtain cells where cells: "traverse (\<lambda>(c, column). build_cell env f u i n c column) (numbered 0 (hb_columns b)) = Inr cells"
    and row_eq: "row = ''<tr>'' # cells @ [''</tr>'']"
    by (auto simp: rendered_row_def)
  from traverse_in [OF cells c] obtain cell where cell: "cell \<in> set cells" "build_cell env f u i n c column = Inr cell" by auto
  have "cell \<in> set row" using cell(1) by (simp add: row_eq)
  with row(1) have "cell \<in> set body" by (auto simp: body_eq)
  with cell_contains_text [OF assms(1,2) v cell(2)] show ?thesis by blast
qed

text \<open>
  C37. Nothing is escaped: with a formatter that has no custom builders, the text of every cell and every column name
  stands in the page as it is, markup included.
\<close>

theorem cells_are_not_escaped:
  assumes "fm_custom_cell_builder f = None" and "fm_custom_header_builder f = None" and "fm_type_formatters f = []"
    and "format_html env f batches (Some schema) has_more u k = Inr html"
    and "b \<in> set batches" "i < hb_num_rows b" "column \<in> set (hb_columns b)" "get_cell_value env column i = Inr v"
    and "field \<in> set schema"
  shows "sublist (he_str env v) html \<and> sublist (he_field_name env field) html"
proof -
  from assms(5) have "batches \<noteq> []" by auto
  with assms(4) obtain header body where header: "build_table_header env f schema = Inr header"
    and body: "build_table_body env f batches (case u of Some w \<Rightarrow> if w = [] then ''df-'' @ show_int k else w | None \<Rightarrow> ''df-'' @ show_int k) = Inr body"
    and html: "html = join [CHR 10] (build_html_header f @ build_table_container_start f @ header @ body @ [''</table>'', ''</div>'']
      @ (if fm_enable_cell_expansion f then [get_javascript] else [])
      @ (if has_more \<and> fm_show_truncation_message f then [''<div>Data truncated due to size.</div>''] else []))"
    unfolding format_html_def Let_def by (auto simp only: rbind_eq_Inr option.case if_False sum.inject)
  from body_contains_text [OF assms(1,3,5-8) body] obtain cell where cell: "cell \<in> set body" "sublist (he_str env v) cell" by blast
  have "sublist cell html" unfolding html using cell(1) by (intro sublist_join) simp
  with cell(2) have "sublist (he_str env v) html" by (rule sublist_order.order_trans)
  moreover from header obtain cells where cells: "traverse (build_header_cell env f) schema = Inr cells" and hd: "header = [''<thead>'', ''<tr>''] @ cells @ [''</tr>'', ''</thead>'']"
    by (auto simp: build_table_header_def)
  from traverse_in [OF cells assms(9)] obtain th where th: "th \<in> set cells" "build_header_cell env f field = Inr th" by blast
  have "sublist (he_field_name env field) th"
    using th(2) assms(2) sublist_within [of "he_field_name env field" "''<th style='' @ in_quotes (sp_header_style (fm_style_provider f)) @ ''>''" "''</th>''"]
    by (simp add: build_header_cell_def)
  moreover have "sublist th html" unfolding html using th(1) by (intro sublist_join) (simp add: hd)
  ultimately show ?thesis using sublist_order.order_trans by blast
qed

definition sample_html_env :: "(string, unit, string) html_env" where
  "sample_html_env = \<lparr>he_none = ''None'', he_str = id, he_isinstance = (\<lambda>_ _. False), he_field_name = id\<rparr>"

definition sample_html_batch :: "string html_batch" where
  "sample_html_batch = \<lparr>hb_num_rows = 1, hb_columns = [\<lambda>_. Inr (Scalar (Inr ''<script>''))]\<rparr>"

theorem cells_are_not_escaped_witness:
  "\<exists>html. format_html sample_html_env sample_formatter [sample_html_batch] (Some [''<b>'']) False None 7 = Inr html \<and>
     sublist ''<script>'' html \<and> sublist ''<b>'' html"
proof -
  obtain f :: "(string, unit, string) formatter" where f: "new_formatter default_formatter_args = Inr f" using default_formatter_exists by blast
  then have plain: "fm_custom_cell_builder sample_formatter = None" "fm_custom_header_builder sample_formatter = None"
    "fm_type_formatters sample_formatter = []"
    by (auto simp: sample_formatter_def new_formatter_def)
  then obtain html where html: "format_html sample_html_env sample_formatter [sample_html_batch] (Some [''<b>'']) False None 7 = Inr html"
    by (simp add: format_html_def build_table_header_def build_header_cell_def build_table_body_def sample_html_batch_def
        build_cell_def get_cell_value_def format_cell_value_def)
  from cells_are_not_escaped [OF plain html, of sample_html_batch 0 "\<lambda>_. Inr (Scalar (Inr ''<script>''))" "''<script>''" "''<b>''"] html show ?thesis
    by (simp add: sample_html_batch_def sample_html_env_def get_cell_value_def)
qed

end
