(* ===== verification/Datafusion_Expr.thy ===== *)
theory Datafusion_Expr
  imports Json
begin

text \<open>
  The Python layer over native expressions (\<open>datafusion/expr.py\<close>): coercion of arguments, operators, subscripts, sort
  keys, window frames and grouping sets. The native constructors are parameters, a record of functions on raw
  expressions and raw sort keys; \<open>Expr\<close> and \<open>SortExpr\<close> wrap them and add nothing, so that a wrapped value is the raw one.
\<close>

section \<open>Values and native constructors\<close>

text \<open>
  What a caller may pass: an expression, a sort key, text, bytes, numbers, \<open>None\<close>, a type, a slice, an iterable, or
  something else.
\<close>

datatype ('r, 's, 'o) pyval =
    PExpr 'r
  | PSort 's
  | PStr string
  | PBytes string
  | PNone
  | PBool bool
  | PInt int
  | PIter "('r, 's, 'o) pyval list"
  | PSlice "('r, 's, 'o) pyval" "('r, 's, 'o) pyval" "('r, 's, 'o) pyval"
  | POther 'o

datatype text_type = StringView | StringText

datatype binop = OpAdd | OpSub | OpTrueDiv | OpMul | OpMod | OpAnd | OpOr | OpEq | OpNe | OpGe | OpGt | OpLe | OpLt

record ('r, 's, 'o, 't) expr_api =
  xa_column :: "string \<Rightarrow> 'r"
  xa_literal :: "('r, 's, 'o) pyval \<Rightarrow> 'r result"
  xa_text_literal :: "text_type \<Rightarrow> string \<Rightarrow> 'r result"
  xa_binary :: "binop \<Rightarrow> 'r \<Rightarrow> 'r \<Rightarrow> 'r result"
  xa_is_null :: "'r \<Rightarrow> 'r"
  xa_is_not_null :: "'r \<Rightarrow> 'r"
  xa_nanvl :: "'r \<Rightarrow> 'r \<Rightarrow> 'r result"
  xa_nvl :: "'r \<Rightarrow> 'r \<Rightarrow> 'r result"
  xa_array_element :: "'r \<Rightarrow> 'r \<Rightarrow> 'r result"
  xa_array_slice :: "'r \<Rightarrow> 'r \<Rightarrow> 'r \<Rightarrow> ('r, 's, 'o) pyval \<Rightarrow> 'r result"
  xa_getitem :: "'r \<Rightarrow> ('r, 's, 'o) pyval \<Rightarrow> 'r result"
  xa_between :: "'r \<Rightarrow> 'r \<Rightarrow> 'r \<Rightarrow> bool \<Rightarrow> 'r result"
  xa_cast :: "'r \<Rightarrow> 't \<Rightarrow> 'r result"
  xa_try_cast :: "'r \<Rightarrow> 't \<Rightarrow> 'r result"
  xa_sort :: "'r \<Rightarrow> bool \<Rightarrow> bool \<Rightarrow> 's"
  xa_rollup :: "'r list \<Rightarrow> 'r result"
  xa_cube :: "'r list \<Rightarrow> 'r result"
  xa_grouping_sets :: "'r list list \<Rightarrow> 'r result"
  xa_type_name :: "('r, 's, 'o) pyval \<Rightarrow> string"
  xa_arrow_types :: "string \<Rightarrow> 't option"

section \<open>Coercion\<close>

definition expr_type_error :: string where
  "expr_type_error = ''Use col()/column() or lit()/literal() to construct expressions''"

definition ensure_expr :: "('r, 's, 'o) pyval \<Rightarrow> 'r result" where
  "ensure_expr v = (case v of PExpr e \<Rightarrow> Inr e | _ \<Rightarrow> Inl (err TypeError expr_type_error))"

text \<open>\<open>_iter\<close>: expressions, text and bytes are not iterated over; every other iterable is, to any depth.\<close>

fun iter_exprs :: "('r, 's, 'o) pyval list \<Rightarrow> 'r list result" where
  "iter_exprs [] = Inr []"
| "iter_exprs (PIter inner # items) = rbind (iter_exprs inner) (\<lambda>xs. rbind (iter_exprs items) (\<lambda>ys. Inr (xs @ ys)))"
| "iter_exprs (item # items) = rbind (ensure_expr item) (\<lambda>x. rbind (iter_exprs items) (\<lambda>ys. Inr (x # ys)))"

definition ensure_expr_list :: "('r, 's, 'o) pyval list \<Rightarrow> 'r list result" where
  "ensure_expr_list exprs = iter_exprs exprs"

definition expr_literal :: "('r, 's, 'o, 't) expr_api \<Rightarrow> ('r, 's, 'o) pyval \<Rightarrow> 'r result" where
  "expr_literal api v = (case v of PStr s \<Rightarrow> xa_text_literal api StringView s | _ \<Rightarrow> xa_literal api v)"

definition expr_string_literal :: "('r, 's, 'o, 't) expr_api \<Rightarrow> ('r, 's, 'o) pyval \<Rightarrow> 'r result" where
  "expr_string_literal api v = (case v of PStr s \<Rightarrow> xa_text_literal api StringText s | _ \<Rightarrow> expr_literal api v)"

definition expr_column :: "('r, 's, 'o, 't) expr_api \<Rightarrow> string \<Rightarrow> 'r" where
  "expr_column api s = xa_column api s"

definition coerce_to_expr :: "('r, 's, 'o, 't) expr_api \<Rightarrow> ('r, 's, 'o) pyval \<Rightarrow> 'r result" where
  "coerce_to_expr api v = (case v of PExpr e \<Rightarrow> Inr e | _ \<Rightarrow> expr_literal api v)"

definition coerce_to_expr_or_none :: "('r, 's, 'o, 't) expr_api \<Rightarrow> ('r, 's, 'o) pyval \<Rightarrow> 'r option result" where
  "coerce_to_expr_or_none api v = (case v of PNone \<Rightarrow> Inr None | _ \<Rightarrow> rbind (coerce_to_expr api v) (\<lambda>e. Inr (Some e)))"

definition coerce_to_expr_list :: "('r, 's, 'o, 't) expr_api \<Rightarrow> ('r, 's, 'o) pyval list \<Rightarrow> 'r list result" where
  "coerce_to_expr_list api vs = traverse (coerce_to_expr api) vs"

definition to_raw_expr :: "('r, 's, 'o, 't) expr_api \<Rightarrow> ('r, 's, 'o) pyval \<Rightarrow> 'r result" where
  "to_raw_expr api v =
     (case v of
        PStr s \<Rightarrow> Inr (expr_column api s)
      | PExpr e \<Rightarrow> Inr e
      | _ \<Rightarrow> Inl (err TypeError (''Expected Expr or column name, found: '' @ xa_type_name api v @ ''. '' @ expr_type_error @ ''.'')))"

text \<open>Iterating over an argument: bytes are numbers, and what is no iterable raises.\<close>

definition py_items :: "('r, 's, 'o, 't) expr_api \<Rightarrow> ('r, 's, 'o) pyval \<Rightarrow> ('r, 's, 'o) pyval list result" where
  "py_items api v =
     (case v of
        PIter items \<Rightarrow> Inr items
      | PBytes bs \<Rightarrow> Inr (map (\<lambda>c. PInt (int (code_of c))) bs)
      | _ \<Rightarrow> Inl (err TypeError (in_quotes (xa_type_name api v) @ '' object is not iterable'')))"

definition expr_list_to_raw_expr_list :: "('r, 's, 'o, 't) expr_api \<Rightarrow> ('r, 's, 'o) pyval \<Rightarrow> 'r list option result" where
  "expr_list_to_raw_expr_list api v =
     (case v of
        PNone \<Rightarrow> Inr None
      | _ \<Rightarrow> rbind (case v of PExpr _ \<Rightarrow> Inr [v] | PStr _ \<Rightarrow> Inr [v] | _ \<Rightarrow> py_items api v) (\<lambda>items.
             rbind (traverse (to_raw_expr api) items) (\<lambda>es. Inr (Some es))))"

section \<open>Sort keys\<close>

text \<open>\<open>sort_or_default\<close> on an expression or a sort key; anything else has no attribute \<open>expr\<close>.\<close>

definition sort_or_default :: "('r, 's, 'o, 't) expr_api \<Rightarrow> ('r, 's, 'o) pyval \<Rightarrow> 's result" where
  "sort_or_default api v =
     (case v of
        PSort s \<Rightarrow> Inr s
      | PExpr e \<Rightarrow> Inr (xa_sort api e True True)
      | _ \<Rightarrow> Inl (err AttributeError (in_quotes (xa_type_name api v) @ '' object has no attribute '' @ in_quotes ''expr'')))"

definition sort_item :: "('r, 's, 'o, 't) expr_api \<Rightarrow> ('r, 's, 'o) pyval \<Rightarrow> 's result" where
  "sort_item api v =
     (case v of
        PSort _ \<Rightarrow> sort_or_default api v
      | _ \<Rightarrow> rbind (to_raw_expr api v) (\<lambda>raw. sort_or_default api (PExpr raw)))"

definition sort_list_to_raw_sort_list :: "('r, 's, 'o, 't) expr_api \<Rightarrow> ('r, 's, 'o) pyval \<Rightarrow> 's list option result" where
  "sort_list_to_raw_sort_list api v =
     (case v of
        PNone \<Rightarrow> Inr None
      | _ \<Rightarrow> rbind (case v of PExpr _ \<Rightarrow> Inr [v] | PSort _ \<Rightarrow> Inr [v] | PStr _ \<Rightarrow> Inr [v] | _ \<Rightarrow> py_items api v) (\<lambda>items.
             rbind (traverse (sort_item api) items) (\<lambda>ss. Inr (Some ss))))"

section \<open>Operators\<close>

definition expr_binary :: "('r, 's, 'o, 't) expr_api \<Rightarrow> binop \<Rightarrow> 'r \<Rightarrow> ('r, 's, 'o) pyval \<Rightarrow> 'r result" where
  "expr_binary api op self rhs = rbind (coerce_to_expr api rhs) (\<lambda>r. xa_binary api op self r)"

definition expr_add :: "('r, 's, 'o, 't) expr_api \<Rightarrow> 'r \<Rightarrow> ('r, 's, 'o) pyval \<Rightarrow> 'r result" where
  "expr_add api self rhs = expr_binary api OpAdd self rhs"

definition expr_sub :: "('r, 's, 'o, 't) expr_api \<Rightarrow> 'r \<Rightarrow> ('r, 's, 'o) pyval \<Rightarrow> 'r result" where
  "expr_sub api self rhs = expr_binary api OpSub self rhs"

definition expr_truediv :: "('r, 's, 'o, 't) expr_api \<Rightarrow> 'r \<Rightarrow> ('r, 's, 'o) pyval \<Rightarrow> 'r result" where
  "expr_truediv api self rhs = expr_binary api OpTrueDiv self rhs"

definition expr_mul :: "('r, 's, 'o, 't) expr_api \<Rightarrow> 'r \<Rightarrow> ('r, 's, 'o) pyval \<Rightarrow> 'r result" where
  "expr_mul api self rhs = expr_binary api OpMul self rhs"

definition expr_mod :: "('r, 's, 'o, 't) expr_api \<Rightarrow> 'r \<Rightarrow> ('r, 's, 'o) pyval \<Rightarrow> 'r result" where
  "expr_mod api self rhs = expr_binary api OpMod self rhs"

definition expr_and :: "('r, 's, 'o, 't) expr_api \<Rightarrow> 'r \<Rightarrow> ('r, 's, 'o) pyval \<Rightarrow> 'r result" where
  "expr_and api self rhs = expr_binary api OpAnd self rhs"

definition expr_or :: "('r, 's, 'o, 't) expr_api \<Rightarrow> 'r \<Rightarrow> ('r, 's, 'o) pyval \<Rightarrow> 'r result" where
  "expr_or api self rhs = expr_binary api OpOr self rhs"

definition expr_eq :: "('r, 's, 'o, 't) expr_api \<Rightarrow> 'r \<Rightarrow> ('r, 's, 'o) pyval \<Rightarrow> 'r result" where
  "expr_eq api self rhs = (case rhs of PNone \<Rightarrow> Inr (xa_is_null api self) | _ \<Rightarrow> expr_binary api OpEq self rhs)"

definition expr_ne :: "('r, 's, 'o, 't) expr_api \<Rightarrow> 'r \<Rightarrow> ('r, 's, 'o) pyval \<Rightarrow> 'r result" where
  "expr_ne api self rhs = (case rhs of PNone \<Rightarrow> Inr (xa_is_not_null api self) | _ \<Rightarrow> expr_binary api OpNe self rhs)"

definition expr_ge :: "('r, 's, 'o, 't) expr_api \<Rightarrow> 'r \<Rightarrow> ('r, 's, 'o) pyval \<Rightarrow> 'r result" where
  "expr_ge api self rhs = expr_binary api OpGe self rhs"

definition expr_gt :: "('r, 's, 'o, 't) expr_api \<Rightarrow> 'r \<Rightarrow> ('r, 's, 'o) pyval \<Rightarrow> 'r result" where
  "expr_gt api self rhs = expr_binary api OpGt self rhs"

definition expr_le :: "('r, 's, 'o, 't) expr_api \<Rightarrow> 'r \<Rightarrow> ('r, 's, 'o) pyval \<Rightarrow> 'r result" where
  "expr_le api self rhs = expr_binary api OpLe self rhs"

definition expr_lt :: "('r, 's, 'o, 't) expr_api \<Rightarrow> 'r \<Rightarrow> ('r, 's, 'o) pyval \<Rightarrow> 'r result" where
  "expr_lt api self rhs = expr_binary api OpLt self rhs"

text \<open>
  \<open>lhs op rhs\<close> for an expression on the left calls its method. For an \<open>int\<close> on the left, whose own method does not
  know expressions, Python calls the reflected method of the right operand: the class defines those of the arithmetic
  operators as the plain methods (\<open>__rsub__ = __sub__\<close>); those of the comparisons are the mirrored comparisons.
\<close>

definition expr_method :: "('r, 's, 'o, 't) expr_api \<Rightarrow> binop \<Rightarrow> 'r \<Rightarrow> ('r, 's, 'o) pyval \<Rightarrow> 'r result" where
  "expr_method api op =
     (case op of OpAdd \<Rightarrow> expr_add api | OpSub \<Rightarrow> expr_sub api | OpTrueDiv \<Rightarrow> expr_truediv api | OpMul \<Rightarrow> expr_mul api
      | OpMod \<Rightarrow> expr_mod api | OpAnd \<Rightarrow> expr_and api | OpOr \<Rightarrow> expr_or api | OpEq \<Rightarrow> expr_eq api | OpNe \<Rightarrow> expr_ne api
      | OpGe \<Rightarrow> expr_ge api | OpGt \<Rightarrow> expr_gt api | OpLe \<Rightarrow> expr_le api | OpLt \<Rightarrow> expr_lt api)"



section \<open>Subscripts and further methods\<close>

definition py_index :: "('r, 's, 'o) pyval \<Rightarrow> int option" where
  "py_index v = (case v of PInt i \<Rightarrow> Some i | PBool b \<Rightarrow> Some (if b then 1 else 0) | _ \<Rightarrow> None)"

definition expr_attribute :: "('r, 's, 'o, 't) expr_api \<Rightarrow> ('r, 's, 'o) pyval \<Rightarrow> 'r result" where
  "expr_attribute api v =
     (case v of
        PExpr e \<Rightarrow> Inr e
      | _ \<Rightarrow> Inl (err AttributeError (in_quotes (xa_type_name api v) @ '' object has no attribute '' @ in_quotes ''expr'')))"

definition slice_start :: "('r, 's, 'o, 't) expr_api \<Rightarrow> ('r, 's, 'o) pyval \<Rightarrow> 'r result" where
  "slice_start api v =
     (case py_index v of
        Some i \<Rightarrow> expr_literal api (PInt (i + 1))
      | None \<Rightarrow>
          (case v of
             PExpr e \<Rightarrow> rbind (expr_literal api (PInt 1)) (\<lambda>one. expr_add api e (PExpr one))
           | _ \<Rightarrow> expr_literal api (PInt 1)))"

definition slice_stop :: "('r, 's, 'o, 't) expr_api \<Rightarrow> ('r, 's, 'o) pyval \<Rightarrow> 'r result" where
  "slice_stop api v = (case py_index v of Some i \<Rightarrow> expr_literal api v | None \<Rightarrow> expr_attribute api v)"

text \<open>A step that is neither a number nor an expression goes to the native function as it is.\<close>

definition slice_step :: "('r, 's, 'o, 't) expr_api \<Rightarrow> ('r, 's, 'o) pyval \<Rightarrow> ('r, 's, 'o) pyval result" where
  "slice_step api v = (case py_index v of Some i \<Rightarrow> rbind (expr_literal api v) (\<lambda>e. Inr (PExpr e)) | None \<Rightarrow> Inr v)"

definition expr_getitem :: "('r, 's, 'o, 't) expr_api \<Rightarrow> 'r \<Rightarrow> ('r, 's, 'o) pyval \<Rightarrow> 'r result" where
  "expr_getitem api self key =
     (case py_index key of
        Some i \<Rightarrow> rbind (expr_literal api (PInt (i + 1))) (\<lambda>index. xa_array_element api self index)
      | None \<Rightarrow>
          (case key of
             PSlice start stop step \<Rightarrow>
               rbind (slice_start api start) (\<lambda>b.
               rbind (slice_stop api stop) (\<lambda>e.
               rbind (slice_step api step) (\<lambda>s.
               xa_array_slice api self b e s)))
           | _ \<Rightarrow> xa_getitem api self key))"

definition expr_sort :: "('r, 's, 'o, 't) expr_api \<Rightarrow> 'r \<Rightarrow> bool \<Rightarrow> bool \<Rightarrow> 's" where
  "expr_sort api self ascending nulls_first = xa_sort api self ascending nulls_first"

definition expr_fill_nan :: "('r, 's, 'o, 't) expr_api \<Rightarrow> 'r \<Rightarrow> ('r, 's, 'o) pyval \<Rightarrow> 'r result" where
  "expr_fill_nan api self v = rbind (coerce_to_expr api v) (\<lambda>e. xa_nanvl api self e)"

definition expr_fill_null :: "('r, 's, 'o, 't) expr_api \<Rightarrow> 'r \<Rightarrow> ('r, 's, 'o) pyval \<Rightarrow> 'r result" where
  "expr_fill_null api self v = rbind (coerce_to_expr api v) (\<lambda>e. xa_nvl api self e)"

definition expr_between :: "('r, 's, 'o, 't) expr_api \<Rightarrow> 'r \<Rightarrow> ('r, 's, 'o) pyval \<Rightarrow> ('r, 's, 'o) pyval \<Rightarrow> bool \<Rightarrow> 'r result" where
  "expr_between api self low high negated =
     rbind (coerce_to_expr api low) (\<lambda>l. rbind (coerce_to_expr api high) (\<lambda>h. xa_between api self l h negated))"

text \<open>The target of a cast: an Arrow type, or a Python type by its name.\<close>

datatype 't cast_target = ArrowTarget 't | PythonTarget string

definition to_pyarrow_type :: "('r, 's, 'o, 't) expr_api \<Rightarrow> 't cast_target \<Rightarrow> 't result" where
  "to_pyarrow_type api target =
     (case target of
        ArrowTarget t \<Rightarrow> Inr t
      | PythonTarget nm \<Rightarrow>
          (case (if nm \<in> {''float'', ''int'', ''str'', ''bool''} then xa_arrow_types api nm else None) of
             Some t \<Rightarrow> Inr t
           | None \<Rightarrow> Inl (err TypeError ''Expected instance of pyarrow.DataType or builtins.type'')))"

definition expr_cast :: "('r, 's, 'o, 't) expr_api \<Rightarrow> 'r \<Rightarrow> 't cast_target \<Rightarrow> 'r result" where
  "expr_cast api self target = rbind (to_pyarrow_type api target) (\<lambda>t. xa_cast api self t)"

definition expr_try_cast :: "('r, 's, 'o, 't) expr_api \<Rightarrow> 'r \<Rightarrow> 't cast_target \<Rightarrow> 'r result" where
  "expr_try_cast api self target = rbind (to_pyarrow_type api target) (\<lambda>t. xa_try_cast api self t)"

section \<open>Windows and grouping sets\<close>

record ('r, 's, 'o, 'w, 'n) window =
  wi_partition_by :: "('r, 's, 'o) pyval"
  wi_window_frame :: "'w option"
  wi_order_by :: "'s list option"
  wi_null_treatment :: "'n option"

definition new_window ::
  "('r, 's, 'o, 't) expr_api \<Rightarrow> ('r, 's, 'o) pyval \<Rightarrow> 'w option \<Rightarrow> ('r, 's, 'o) pyval \<Rightarrow> 'n option \<Rightarrow> ('r, 's, 'o, 'w, 'n) window result" where
  "new_window api partition_by window_frame order_by null_treatment =
     rbind (sort_list_to_raw_sort_list api order_by) (\<lambda>keys.
     Inr \<lparr>wi_partition_by = partition_by, wi_window_frame = window_frame, wi_order_by = keys, wi_null_treatment = null_treatment\<rparr>)"

definition expr_over ::
  "('r, 's, 'o, 't) expr_api \<Rightarrow> ('r \<Rightarrow> 'r list option \<Rightarrow> 's list option \<Rightarrow> 'w option \<Rightarrow> 'n option \<Rightarrow> 'r result)
     \<Rightarrow> 'r \<Rightarrow> ('r, 's, 'o, 'w, 'n) window \<Rightarrow> 'r result" where
  "expr_over api native_over self w =
     rbind (expr_list_to_raw_expr_list api (wi_partition_by w)) (\<lambda>partition_by.
     native_over self partition_by (wi_order_by w) (wi_window_frame w) (wi_null_treatment w))"

text \<open>A bound of a window frame: \<open>None\<close>, an Arrow scalar, or a value that becomes one, cast to \<open>uint64\<close> for rows and groups.\<close>

datatype ('o, 'c) bound_arg = BoundNone | BoundScalar 'c | BoundValue 'o

definition frame_bound ::
  "('o \<Rightarrow> 'c result) \<Rightarrow> ('c \<Rightarrow> 'c result) \<Rightarrow> string \<Rightarrow> ('o, 'c) bound_arg \<Rightarrow> 'c option result" where
  "frame_bound pa_scalar to_uint64 units b =
     (case b of
        BoundNone \<Rightarrow> Inr None
      | BoundScalar c \<Rightarrow> Inr (Some c)
      | BoundValue v \<Rightarrow>
          rbind (pa_scalar v) (\<lambda>c.
          rbind (if units \<in> {''rows'', ''groups''} then to_uint64 c else Inr c) (\<lambda>d. Inr (Some d))))"

definition new_window_frame ::
  "('o \<Rightarrow> 'c result) \<Rightarrow> ('c \<Rightarrow> 'c result) \<Rightarrow> (string \<Rightarrow> 'c option \<Rightarrow> 'c option \<Rightarrow> 'w result) \<Rightarrow> string
     \<Rightarrow> ('o, 'c) bound_arg \<Rightarrow> ('o, 'c) bound_arg \<Rightarrow> 'w result" where
  "new_window_frame pa_scalar to_uint64 native_frame units start_bound end_bound =
     rbind (frame_bound pa_scalar to_uint64 units start_bound) (\<lambda>b.
     rbind (frame_bound pa_scalar to_uint64 units end_bound) (\<lambda>e.
     native_frame units b e))"

definition grouping_rollup :: "('r, 's, 'o, 't) expr_api \<Rightarrow> ('r, 's, 'o) pyval list \<Rightarrow> 'r result" where
  "grouping_rollup api exprs = rbind (traverse (to_raw_expr api) exprs) (xa_rollup api)"

definition grouping_cube :: "('r, 's, 'o, 't) expr_api \<Rightarrow> ('r, 's, 'o) pyval list \<Rightarrow> 'r result" where
  "grouping_cube api exprs = rbind (traverse (to_raw_expr api) exprs) (xa_cube api)"

definition grouping_sets :: "('r, 's, 'o, 't) expr_api \<Rightarrow> ('r, 's, 'o) pyval list list \<Rightarrow> 'r result" where
  "grouping_sets api expr_lists = rbind (traverse (traverse (to_raw_expr api)) expr_lists) (xa_grouping_sets api)"

section \<open>Properties\<close>






text \<open>The leaves of nested iterables, from left to right.\<close>

fun leaves :: "('r, 's, 'o) pyval list \<Rightarrow> ('r, 's, 'o) pyval list" where
  "leaves [] = []"
| "leaves (PIter inner # items) = leaves inner @ leaves items"
| "leaves (item # items) = item # leaves items"

text \<open>
  C23. \<open>ensure_expr_list\<close> is the flattening of its argument: it returns the raw expressions of the leaves in order when
  every leaf is an expression, and raises the type error otherwise, at any depth of nesting.
\<close>

theorem ensure_expr_list_flattens:
  "ensure_expr_list items = traverse ensure_expr (leaves items) \<and>
     ((\<exists>es. ensure_expr_list items = Inr es \<and> leaves items = map PExpr es) \<or>
      (\<exists>v\<in>set (leaves items). \<forall>e. v \<noteq> PExpr e) \<and> ensure_expr_list items = Inl (err TypeError expr_type_error))"
proof -
  have flat: "iter_exprs items = traverse ensure_expr (leaves items)"
    by (induction items rule: iter_exprs.induct) (simp_all add: traverse_append ensure_expr_def)
  have "(\<exists>es. traverse ensure_expr vs = Inr es \<and> vs = map PExpr es) \<or>
      (\<exists>v\<in>set vs. \<forall>e. v \<noteq> PExpr e) \<and> traverse ensure_expr vs = Inl (err TypeError expr_type_error)" for vs :: "('r, 's, 'o) pyval list"
  proof (induction vs)
    case (Cons v vs)
    then show ?case by (cases v) (auto simp: ensure_expr_def)
  qed simp
  with flat show ?thesis by (simp add: ensure_expr_list_def)
qed

theorem ensure_expr_list_flattens_witness:
  "ensure_expr_list [PExpr (1::nat), PIter [PExpr 2, PIter [PExpr 3]]] = (Inr [1, 2, 3] :: nat list result)"
proof -
  have "leaves [PExpr (1::nat), PIter [PExpr 2, PIter [PExpr 3]]] = map PExpr [1, 2, 3]" by simp
  with ensure_expr_list_flattens [of "[PExpr (1::nat), PIter [PExpr 2, PIter [PExpr 3]]]"] show ?thesis
    by (auto simp: ensure_expr_def)
qed

text \<open>A slice with an open end has no \<open>expr\<close> to read.\<close>

lemma open_slice_raises:
  assumes "slice_start api start = Inr b"
  shows "expr_getitem api e (PSlice start PNone step) =
    Inl (err AttributeError (in_quotes (xa_type_name api PNone) @ '' object has no attribute '' @ in_quotes ''expr''))"
  using assms by (simp add: expr_getitem_def py_index_def slice_stop_def expr_attribute_def)

end
