(* ===== verification/Datafusion_Frame.thy ===== *)
theory Datafusion_Frame
  imports Datafusion_Expr
begin

text \<open>
  The Python layer over native data frames (\<open>datafusion/dataframe.py\<close>): how arguments are resolved before the native
  call - expressions given as SQL text, join keys, compression - and the walk over the metrics of a plan
  (\<open>datafusion/plan.py\<close>). The native data frame is a parameter; a method that writes is modelled by the native call
  it makes.
\<close>

section \<open>Native data frames\<close>

record ('d, 'r, 's) frame_api =
  fr_parse_sql :: "'d \<Rightarrow> string \<Rightarrow> 'r result"
  fr_alias :: "'r \<Rightarrow> string \<Rightarrow> 'r"
  fr_find_columns :: "'d \<Rightarrow> string list \<Rightarrow> 'r list result"
  fr_select :: "'d \<Rightarrow> 'r list \<Rightarrow> 'd result"
  fr_filter :: "'d \<Rightarrow> 'r \<Rightarrow> 'd result"
  fr_with_column :: "'d \<Rightarrow> string \<Rightarrow> 'r \<Rightarrow> 'd result"
  fr_with_columns :: "'d \<Rightarrow> 'r list \<Rightarrow> 'd result"
  fr_aggregate :: "'d \<Rightarrow> 'r list \<Rightarrow> 'r list \<Rightarrow> 'd result"
  fr_sort :: "'d \<Rightarrow> 's list \<Rightarrow> 'd result"
  fr_limit :: "'d \<Rightarrow> int \<Rightarrow> int \<Rightarrow> 'd result"
  fr_count :: "'d \<Rightarrow> int result"
  fr_join_on :: "'d \<Rightarrow> 'd \<Rightarrow> 'r list \<Rightarrow> string \<Rightarrow> 'd result"
  fr_repartition_by_hash :: "'d \<Rightarrow> 'r list \<Rightarrow> int \<Rightarrow> 'd result"
  fr_distinct_on :: "'d \<Rightarrow> 'r list option \<Rightarrow> 'r list option \<Rightarrow> 's list option \<Rightarrow> 'd result"

section \<open>Expressions of a frame\<close>

text \<open>An expression, or SQL text parsed against the frame.\<close>

definition frame_expr :: "('d, 'r, 's) frame_api \<Rightarrow> 'd \<Rightarrow> ('r, 's, 'o) pyval \<Rightarrow> 'r result" where
  "frame_expr fr d v = (case v of PStr sql \<Rightarrow> fr_parse_sql fr d sql | _ \<Rightarrow> ensure_expr v)"

definition df_column :: "('d, 'r, 's) frame_api \<Rightarrow> 'd \<Rightarrow> string \<Rightarrow> 'r result" where
  "df_column fr d nm =
     rbind (fr_find_columns fr d [nm]) (\<lambda>es.
     (case es of e # _ \<Rightarrow> Inr e | [] \<Rightarrow> Inl (err IndexError ''list index out of range'')))"

definition df_select :: "('r, 's, 'o, 't) expr_api \<Rightarrow> ('d, 'r, 's) frame_api \<Rightarrow> 'd \<Rightarrow> ('r, 's, 'o) pyval list \<Rightarrow> 'd result" where
  "df_select api fr d exprs = rbind (traverse (to_raw_expr api) exprs) (fr_select fr d)"



definition df_with_column :: "('d, 'r, 's) frame_api \<Rightarrow> 'd \<Rightarrow> string \<Rightarrow> ('r, 's, 'o) pyval \<Rightarrow> 'd result" where
  "df_with_column fr d nm v = rbind (frame_expr fr d v) (fr_with_column fr d nm)"

fun positional_exprs :: "('d, 'r, 's) frame_api \<Rightarrow> 'd \<Rightarrow> ('r, 's, 'o) pyval list \<Rightarrow> 'r list result" where
  "positional_exprs fr d [] = Inr []"
| "positional_exprs fr d (v # vs) =
     rbind (case v of
              PIter items \<Rightarrow> traverse (frame_expr fr d) items
            | _ \<Rightarrow> rbind (frame_expr fr d v) (\<lambda>e. Inr [e])) (\<lambda>es.
     rbind (positional_exprs fr d vs) (\<lambda>rest. Inr (es @ rest)))"

definition named_expr :: "('d, 'r, 's) frame_api \<Rightarrow> 'd \<Rightarrow> string \<times> ('r, 's, 'o) pyval \<Rightarrow> 'r result" where
  "named_expr fr d = (\<lambda>(alias, v). rbind (frame_expr fr d v) (\<lambda>e. Inr (fr_alias fr e alias)))"

definition df_with_columns ::
  "('d, 'r, 's) frame_api \<Rightarrow> 'd \<Rightarrow> ('r, 's, 'o) pyval list \<Rightarrow> (string \<times> ('r, 's, 'o) pyval) list \<Rightarrow> 'd result" where
  "df_with_columns fr d exprs named_exprs =
     rbind (positional_exprs fr d exprs) (\<lambda>es.
     rbind (traverse (named_expr fr d) named_exprs) (\<lambda>ns.
     fr_with_columns fr d (es @ ns)))"

definition df_cast ::
  "('r, 's, 'o, 't) expr_api \<Rightarrow> ('d, 'r, 's) frame_api \<Rightarrow> 'd \<Rightarrow> (string \<times> 't cast_target) list \<Rightarrow> 'd result" where
  "df_cast api fr d mapping =
     rbind (traverse (\<lambda>(col, target). expr_cast api (expr_column api col) target) mapping) (\<lambda>es.
     df_with_columns fr d [PIter (map PExpr es) :: ('r, 's, 'o) pyval] [])"

text \<open>Lists and tuples are the sequences here; text is one too, and \<open>aggs\<close> does not exclude it.\<close>

definition df_aggregate ::
  "('r, 's, 'o, 't) expr_api \<Rightarrow> ('d, 'r, 's) frame_api \<Rightarrow> 'd \<Rightarrow> ('r, 's, 'o) pyval \<Rightarrow> ('r, 's, 'o) pyval \<Rightarrow> 'd result" where
  "df_aggregate api fr d group_by aggs =
     (let group_by_list = (case group_by of PNone \<Rightarrow> [] | PIter items \<Rightarrow> items
                           | PBytes bs \<Rightarrow> map (\<lambda>c. PInt (int (code_of c))) bs | _ \<Rightarrow> [group_by]);
          aggs_list = (case aggs of PIter items \<Rightarrow> items | PStr s \<Rightarrow> map (\<lambda>c. PStr [c]) s
                       | PBytes bs \<Rightarrow> map (\<lambda>c. PInt (int (code_of c))) bs | _ \<Rightarrow> [aggs])
      in rbind (traverse (to_raw_expr api) group_by_list) (\<lambda>gs.
         rbind (ensure_expr_list aggs_list) (\<lambda>as.
         fr_aggregate fr d gs as)))"

definition df_sort :: "('r, 's, 'o, 't) expr_api \<Rightarrow> ('d, 'r, 's) frame_api \<Rightarrow> 'd \<Rightarrow> ('r, 's, 'o) pyval list \<Rightarrow> 'd result" where
  "df_sort api fr d exprs = rbind (traverse (sort_item api) exprs) (fr_sort fr d)"

definition df_head :: "('d, 'r, 's) frame_api \<Rightarrow> 'd \<Rightarrow> int \<Rightarrow> 'd result" where
  "df_head fr d n = fr_limit fr d n 0"


definition df_join_on :: "('d, 'r, 's) frame_api \<Rightarrow> 'd \<Rightarrow> 'd \<Rightarrow> ('r, 's, 'o) pyval list \<Rightarrow> string \<Rightarrow> 'd result" where
  "df_join_on fr d right on_exprs how = rbind (traverse ensure_expr on_exprs) (\<lambda>es. fr_join_on fr d right es how)"

definition df_repartition_by_hash ::
  "('r, 's, 'o, 't) expr_api \<Rightarrow> ('d, 'r, 's) frame_api \<Rightarrow> 'd \<Rightarrow> ('r, 's, 'o) pyval list \<Rightarrow> int \<Rightarrow> 'd result" where
  "df_repartition_by_hash api fr d exprs num =
     rbind (traverse (\<lambda>v. case v of PStr sql \<Rightarrow> rbind (fr_parse_sql fr d sql) (\<lambda>e. Inr (PExpr e)) | _ \<Rightarrow> Inr v) exprs) (\<lambda>vs.
     rbind (traverse (to_raw_expr api) vs) (\<lambda>es.
     fr_repartition_by_hash fr d es num))"

text \<open>\<open>if sort_expr\<close>: an empty list of sort keys counts as none.\<close>

definition df_distinct_on ::
  "('r, 's, 'o, 't) expr_api \<Rightarrow> ('d, 'r, 's) frame_api \<Rightarrow> 'd \<Rightarrow> ('r, 's, 'o) pyval \<Rightarrow> ('r, 's, 'o) pyval \<Rightarrow> ('r, 's, 'o) pyval list option \<Rightarrow> 'd result" where
  "df_distinct_on api fr d on_expr select_expr sort_expr =
     rbind (expr_list_to_raw_expr_list api on_expr) (\<lambda>on_raw.
     rbind (expr_list_to_raw_expr_list api select_expr) (\<lambda>select_raw.
     rbind (case sort_expr of
              Some (k # ks) \<Rightarrow> sort_list_to_raw_sort_list api (PIter (k # ks))
            | _ \<Rightarrow> Inr None) (\<lambda>sort_raw.
     fr_distinct_on fr d on_raw select_raw sort_raw)))"

section \<open>Join keys\<close>

text \<open>The arguments \<open>on\<close>, \<open>left_on\<close> and \<open>right_on\<close>: a name, a list of names, a tuple of two lists, another tuple of names.\<close>

datatype key_arg = KeyNone | KeyName string | KeyList "string list" | KeyPair "string list" "string list" | KeyTuple "string list"

definition key_list :: "key_arg \<Rightarrow> key_arg" where
  "key_list k = (case k of KeyName s \<Rightarrow> KeyList [s] | _ \<Rightarrow> k)"

definition resolve_join_keys ::
  "key_arg \<Rightarrow> key_arg \<Rightarrow> key_arg \<Rightarrow> (string list \<times> string list) option \<Rightarrow> (key_arg \<times> key_arg) result" where
  "resolve_join_keys on0 left0 right0 join_keys =
     (let left1 = (case join_keys of Some (l, r) \<Rightarrow> KeyList l | None \<Rightarrow> left0);
          right1 = (case join_keys of Some (l, r) \<Rightarrow> KeyList r | None \<Rightarrow> right0);
          left2 = (case on0 of KeyPair l r \<Rightarrow> KeyList l | _ \<Rightarrow> left1);
          right2 = (case on0 of KeyPair l r \<Rightarrow> KeyList r | _ \<Rightarrow> right1);
          on2 = (case on0 of KeyPair l r \<Rightarrow> KeyNone | _ \<Rightarrow> on0)
      in rbind
           (if on2 \<noteq> KeyNone
            then if left2 \<noteq> KeyNone \<or> right2 \<noteq> KeyNone
                 then Inl (err ValueError ''`left_on` or `right_on` should not provided with `on`'')
                 else Inr (on2, on2)
            else if left2 \<noteq> KeyNone \<or> right2 \<noteq> KeyNone
            then if left2 = KeyNone \<or> right2 = KeyNone
                 then Inl (err ValueError ''`left_on` and `right_on` should both be provided.'')
                 else Inr (left2, right2)
            else Inl (err ValueError ''either `on` or `left_on` and `right_on` should be provided.''))
           (\<lambda>(l, r). Inr (key_list l, key_list r)))"

definition df_join ::
  "('d \<Rightarrow> 'd \<Rightarrow> string \<Rightarrow> key_arg \<Rightarrow> key_arg \<Rightarrow> bool \<Rightarrow> 'd result) \<Rightarrow> 'd \<Rightarrow> 'd \<Rightarrow> key_arg \<Rightarrow> string \<Rightarrow> key_arg \<Rightarrow> key_arg
     \<Rightarrow> (string list \<times> string list) option \<Rightarrow> bool \<Rightarrow> 'd result" where
  "df_join native_join d right on0 how left_on right_on join_keys coalesce_duplicate_keys =
     rbind (resolve_join_keys on0 left_on right_on join_keys) (\<lambda>(l, r). native_join d right how l r coalesce_duplicate_keys)"

section \<open>Writing\<close>

datatype compression = Uncompressed | Snappy | Gzip | Brotli | Lz4 | Zstd | Lz4Raw

definition compression_value :: "compression \<Rightarrow> string" where
  "compression_value c =
     (case c of Uncompressed \<Rightarrow> ''uncompressed'' | Snappy \<Rightarrow> ''snappy'' | Gzip \<Rightarrow> ''gzip'' | Brotli \<Rightarrow> ''brotli''
      | Lz4 \<Rightarrow> ''lz4'' | Zstd \<Rightarrow> ''zstd'' | Lz4Raw \<Rightarrow> ''lz4_raw'')"

definition all_compressions :: "compression list" where
  "all_compressions = [Uncompressed, Snappy, Gzip, Brotli, Lz4, Zstd, Lz4Raw]"

definition compression_from_str :: "string \<Rightarrow> compression result" where
  "compression_from_str v =
     (case find (\<lambda>c. compression_value c = py_lower v) all_compressions of
        Some c \<Rightarrow> Inr c
      | None \<Rightarrow>
          Inl (err ValueError (join [CHR 10] [[], ''                '' @ v @ '' is not a valid Compression.'',
            ''                Valid values are: ['' @ join '', '' (map (\<lambda>c. in_quotes (compression_value c)) all_compressions) @ '']'',
            ''                '']))) "

definition get_default_level :: "compression \<Rightarrow> int option" where
  "get_default_level c = (case c of Gzip \<Rightarrow> Some 6 | Brotli \<Rightarrow> Some 1 | Zstd \<Rightarrow> Some 4 | _ \<Rightarrow> None)"

record parquet_column_options =
  co_encoding :: "string option"
  co_dictionary_enabled :: "bool option"
  co_compression :: "string option"
  co_statistics_enabled :: "string option"
  co_bloom_filter_enabled :: "bool option"
  co_bloom_filter_fpp :: "pyfloat option"
  co_bloom_filter_ndv :: "int option"

record df_writer_options =
  po_data_pagesize_limit :: int
  po_write_batch_size :: int
  po_writer_version :: string
  po_skip_arrow_metadata :: bool
  po_compression :: "string option"
  po_dictionary_enabled :: "bool option"
  po_dictionary_page_size_limit :: int
  po_statistics_enabled :: "string option"
  po_max_row_group_size :: int
  po_created_by :: string
  po_column_index_truncate_length :: "int option"
  po_statistics_truncate_length :: "int option"
  po_data_page_row_count_limit :: int
  po_encoding :: "string option"
  po_bloom_filter_on_write :: bool
  po_bloom_filter_fpp :: "pyfloat option"
  po_bloom_filter_ndv :: "int option"
  po_allow_single_file_parallelism :: bool
  po_maximum_parallel_row_group_writers :: int
  po_maximum_buffered_record_batches_per_stream :: int
  po_column_specific_options :: "(string \<times> parquet_column_options) list option"

text \<open>The constructor stores its arguments and joins codec and level; \<open>f"{None}"\<close> is the text \<open>None\<close>.\<close>

definition new_parquet_writer_options :: "df_writer_options \<Rightarrow> int option \<Rightarrow> df_writer_options" where
  "new_parquet_writer_options args compression_level =
     args\<lparr>po_compression :=
       (case compression_level of
          Some n \<Rightarrow> Some ((case po_compression args of Some c \<Rightarrow> c | None \<Rightarrow> ''None'') @ ''('' @ show_int n @ '')'')
        | None \<Rightarrow> po_compression args)\<rparr>"

definition default_parquet_writer_args :: df_writer_options where
  "default_parquet_writer_args =
     \<lparr>po_data_pagesize_limit = 1024 * 1024, po_write_batch_size = 1024, po_writer_version = ''1.0'', po_skip_arrow_metadata = False,
      po_compression = Some ''zstd(3)'', po_dictionary_enabled = Some True, po_dictionary_page_size_limit = 1024 * 1024,
      po_statistics_enabled = Some ''page'', po_max_row_group_size = 1024 * 1024, po_created_by = ''datafusion-python'',
      po_column_index_truncate_length = Some 64, po_statistics_truncate_length = None, po_data_page_row_count_limit = 20000,
      po_encoding = None, po_bloom_filter_on_write = False, po_bloom_filter_fpp = None, po_bloom_filter_ndv = None,
      po_allow_single_file_parallelism = True, po_maximum_parallel_row_group_writers = 1,
      po_maximum_buffered_record_batches_per_stream = 2, po_column_specific_options = None\<rparr>"

text \<open>The positional arguments of the native options.\<close>

definition parquet_options_internal :: "df_writer_options \<Rightarrow> json list" where
  "parquet_options_internal o1 =
     [JInt (po_data_pagesize_limit o1), JInt (po_write_batch_size o1), JStr (po_writer_version o1), JBool (po_skip_arrow_metadata o1),
      opt_json JStr (po_compression o1), opt_json JBool (po_dictionary_enabled o1), JInt (po_dictionary_page_size_limit o1),
      opt_json JStr (po_statistics_enabled o1), JInt (po_max_row_group_size o1), JStr (po_created_by o1),
      opt_json JInt (po_column_index_truncate_length o1), opt_json JInt (po_statistics_truncate_length o1),
      JInt (po_data_page_row_count_limit o1), opt_json JStr (po_encoding o1), JBool (po_bloom_filter_on_write o1),
      opt_json JFloat (po_bloom_filter_fpp o1), opt_json JInt (po_bloom_filter_ndv o1), JBool (po_allow_single_file_parallelism o1),
      JInt (po_maximum_parallel_row_group_writers o1), JInt (po_maximum_buffered_record_batches_per_stream o1)]"

datatype 'w write_call =
    CallParquet string string "int option" "'w option"
  | CallParquetWithOptions string "json list" "(string \<times> parquet_column_options) list" "'w option"

definition write_parquet_with_options :: "string \<Rightarrow> df_writer_options \<Rightarrow> 'w option \<Rightarrow> 'w write_call" where
  "write_parquet_with_options path o1 write_options =
     CallParquetWithOptions path (parquet_options_internal o1)
       (case po_column_specific_options o1 of Some cs \<Rightarrow> cs | None \<Rightarrow> []) write_options"

datatype compression_arg = CompressionName string | CompressionCodec compression | CompressionOptions df_writer_options

definition write_parquet :: "string \<Rightarrow> compression_arg \<Rightarrow> int option \<Rightarrow> 'w option \<Rightarrow> 'w write_call result" where
  "write_parquet path arg compression_level write_options =
     (case arg of
        CompressionOptions o1 \<Rightarrow>
          if compression_level \<noteq> None
          then Inl (err ValueError ''compression_level should be None when using ParquetWriterOptions'')
          else Inr (write_parquet_with_options path o1 None)
      | _ \<Rightarrow>
          rbind (case arg of CompressionName s \<Rightarrow> compression_from_str s | CompressionCodec c \<Rightarrow> Inr c) (\<lambda>c.
          Inr (CallParquet path (compression_value c)
            (if c \<in> {Gzip, Brotli, Zstd} \<and> compression_level = None then get_default_level c else compression_level)
            write_options)))"

record ('s, 'i) raw_write_options =
  rw_insert_operation :: "'i option"
  rw_single_file_output :: bool
  rw_partition_by :: "string list option"
  rw_sort_by :: "'s list option"

datatype partition_arg = PartitionNone | PartitionName string | PartitionNames "string list"

definition new_write_options_raw ::
  "('r, 's, 'o, 't) expr_api \<Rightarrow> 'i option \<Rightarrow> bool \<Rightarrow> partition_arg \<Rightarrow> ('r, 's, 'o) pyval \<Rightarrow> ('s, 'i) raw_write_options result" where
  "new_write_options_raw api insert_operation single_file_output partition_by sort_by =
     rbind (sort_list_to_raw_sort_list api sort_by) (\<lambda>keys.
     Inr \<lparr>rw_insert_operation = insert_operation, rw_single_file_output = single_file_output,
          rw_partition_by = (case partition_by of PartitionNone \<Rightarrow> None | PartitionName s \<Rightarrow> Some [s] | PartitionNames ss \<Rightarrow> Some ss),
          rw_sort_by = keys\<rparr>)"

section \<open>Metrics of a plan\<close>

text \<open>A native execution plan: its text, its metrics if it has run, and its inputs.\<close>

datatype 'm exec_plan = ExecPlan (plan_display: string) (plan_metrics: "'m option") (plan_children: "'m exec_plan list")

fun collect_metrics :: "'m exec_plan \<Rightarrow> (string \<times> 'm) list" where
  "collect_metrics (ExecPlan display metrics children) =
     (case metrics of Some ms \<Rightarrow> [(display, ms)] | None \<Rightarrow> []) @ concat (map collect_metrics children)"

section \<open>Properties\<close>





text \<open>What reaches the native join: two keys, neither of them missing and neither of them a bare name.\<close>

lemma join_keys_resolved:
  assumes "resolve_join_keys on0 left_on right_on join_keys = Inr (l, r)"
  shows "l \<noteq> KeyNone \<and> r \<noteq> KeyNone \<and> (\<forall>s. l \<noteq> KeyName s) \<and> (\<forall>s. r \<noteq> KeyName s)"
  using assms by (auto simp: resolve_join_keys_def key_list_def Let_def split: if_splits key_arg.splits option.splits)

text \<open>With \<open>ParquetWriterOptions\<close> the write options of the caller never reach the native frame.\<close>

lemma parquet_options_drop_write_options:
  "write_parquet path (CompressionOptions o1) level write_options = write_parquet path (CompressionOptions o1) level None"
  by (simp add: write_parquet_def)

text \<open>A level given with the default codec, which already has one, makes a codec with two levels.\<close>

lemma default_codec_with_level:
  "po_compression (new_parquet_writer_options default_parquet_writer_args (Some n)) = Some (''zstd(3)('' @ show_int n @ '')'')"
  by (simp add: new_parquet_writer_options_def default_parquet_writer_args_def)

lemma compression_from_str_value: "compression_from_str (compression_value c) = Inr c"
  by (cases c) (simp_all add: compression_from_str_def all_compressions_def compression_value_def py_lower_def lower_char_def Let_def)

text \<open>The metrics of a plan list every node that has run, a node before its inputs.\<close>

fun plan_nodes :: "'m exec_plan \<Rightarrow> 'm exec_plan list" where
  "plan_nodes (ExecPlan display metrics children) = ExecPlan display metrics children # concat (map plan_nodes children)"

lemma collect_metrics_preorder:
  "collect_metrics p = map (\<lambda>q. (plan_display q, the (plan_metrics q))) (filter (\<lambda>q. plan_metrics q \<noteq> None) (plan_nodes p))"
proof (induction p)
  case (ExecPlan display metrics children)
  have "concat (map collect_metrics children) =
      map (\<lambda>q. (plan_display q, the (plan_metrics q))) (filter (\<lambda>q. plan_metrics q \<noteq> None) (concat (map plan_nodes children)))"
    using ExecPlan.IH by (induction children) simp_all
  then show ?case by (cases metrics) simp_all
qed

end
