(* ===== verification/Datafusion_Options.thy ===== *)
theory Datafusion_Options
  imports Datafusion_Expr
begin

text \<open>
  Smaller parts of the Python layer over DataFusion: the CSV reader options (\<open>options.py\<close>), the thread-local contexts
  (\<open>ipc.py\<close>), the location plugin (\<open>input/location.py\<close>) and the construction of user-defined functions
  (\<open>user_defined.py\<close>). Parameters: PyArrow's types and Parquet metadata, globbing, and the native functions.
\<close>

section \<open>CSV options\<close>

text \<open>\<open>ord(s[0])\<close> of a non-empty text: its first code point, from one to four bytes of UTF-8.\<close>

fun first_code_point :: "string \<Rightarrow> nat" where
  "first_code_point (a # b # c # d # s) =
     (if code_of a < 128 then code_of a
      else if code_of a < 224 then (code_of a - 192) * 64 + (code_of b - 128)
      else if code_of a < 240 then (code_of a - 224) * 4096 + (code_of b - 128) * 64 + (code_of c - 128)
      else (code_of a - 240) * 262144 + (code_of b - 128) * 4096 + (code_of c - 128) * 64 + (code_of d - 128))"
| "first_code_point [a, b, c] =
     (if code_of a < 128 then code_of a
      else if code_of a < 224 then (code_of a - 192) * 64 + (code_of b - 128)
      else (code_of a - 224) * 4096 + (code_of b - 128) * 64 + (code_of c - 128))"
| "first_code_point [a, b] = (if code_of a < 128 then code_of a else (code_of a - 192) * 64 + (code_of b - 128))"
| "first_code_point [a] = code_of a"
| "first_code_point [] = 0"

datatype 't csv_type = CsvTypeText string | CsvType 't

record ('r, 's, 'o, 't, 'c) csv_options =
  cv_has_header :: bool
  cv_delimiter :: string
  cv_quote :: string
  cv_terminator :: "string option"
  cv_escape :: "string option"
  cv_comment :: "string option"
  cv_newlines_in_values :: bool
  cv_schema :: "'c option"
  cv_schema_infer_max_records :: int
  cv_file_extension :: string
  cv_table_partition_cols :: "(string \<times> 't csv_type) list"
  cv_file_compression_type :: "string option"
  cv_file_sort_order :: "('r, 's, 'o) pyval list option"
  cv_null_regex :: "string option"
  cv_truncated_rows :: bool

definition validate_single_character :: "string \<Rightarrow> string option \<Rightarrow> unit result" where
  "validate_single_character nm v =
     (case v of None \<Rightarrow> Inr () | Some s \<Rightarrow> raise_if (py_len s \<noteq> 1) (err ValueError (nm @ '' must be a single character'')))"

text \<open>The constructor checks five fields and stores all; its record argument holds the values that were passed.\<close>

definition new_csv_options :: "('r, 's, 'o, 't, 'c) csv_options \<Rightarrow> ('r, 's, 'o, 't, 'c) csv_options result" where
  "new_csv_options a =
     rbind (validate_single_character ''delimiter'' (Some (cv_delimiter a))) (\<lambda>_.
     rbind (validate_single_character ''quote'' (Some (cv_quote a))) (\<lambda>_.
     rbind (validate_single_character ''terminator'' (cv_terminator a)) (\<lambda>_.
     rbind (validate_single_character ''escape'' (cv_escape a)) (\<lambda>_.
     rbind (validate_single_character ''comment'' (cv_comment a)) (\<lambda>_.
     Inr (a\<lparr>cv_file_sort_order := Some (case cv_file_sort_order a of Some os \<Rightarrow> os | None \<Rightarrow> [])\<rparr>))))))"

definition with_has_header :: "bool \<Rightarrow> ('r, 's, 'o, 't, 'c) csv_options \<Rightarrow> ('r, 's, 'o, 't, 'c) csv_options" where
  "with_has_header v a = a\<lparr>cv_has_header := v\<rparr>"

definition with_delimiter :: "string \<Rightarrow> ('r, 's, 'o, 't, 'c) csv_options \<Rightarrow> ('r, 's, 'o, 't, 'c) csv_options" where
  "with_delimiter v a = a\<lparr>cv_delimiter := v\<rparr>"

definition with_quote :: "string \<Rightarrow> ('r, 's, 'o, 't, 'c) csv_options \<Rightarrow> ('r, 's, 'o, 't, 'c) csv_options" where
  "with_quote v a = a\<lparr>cv_quote := v\<rparr>"

definition with_terminator :: "string option \<Rightarrow> ('r, 's, 'o, 't, 'c) csv_options \<Rightarrow> ('r, 's, 'o, 't, 'c) csv_options" where
  "with_terminator v a = a\<lparr>cv_terminator := v\<rparr>"

definition with_escape :: "string option \<Rightarrow> ('r, 's, 'o, 't, 'c) csv_options \<Rightarrow> ('r, 's, 'o, 't, 'c) csv_options" where
  "with_escape v a = a\<lparr>cv_escape := v\<rparr>"

definition with_comment :: "string option \<Rightarrow> ('r, 's, 'o, 't, 'c) csv_options \<Rightarrow> ('r, 's, 'o, 't, 'c) csv_options" where
  "with_comment v a = a\<lparr>cv_comment := v\<rparr>"

definition with_newlines_in_values :: "bool \<Rightarrow> ('r, 's, 'o, 't, 'c) csv_options \<Rightarrow> ('r, 's, 'o, 't, 'c) csv_options" where
  "with_newlines_in_values v a = a\<lparr>cv_newlines_in_values := v\<rparr>"

definition with_schema :: "'c option \<Rightarrow> ('r, 's, 'o, 't, 'c) csv_options \<Rightarrow> ('r, 's, 'o, 't, 'c) csv_options" where
  "with_schema v a = a\<lparr>cv_schema := v\<rparr>"

definition with_schema_infer_max_records :: "int \<Rightarrow> ('r, 's, 'o, 't, 'c) csv_options \<Rightarrow> ('r, 's, 'o, 't, 'c) csv_options" where
  "with_schema_infer_max_records v a = a\<lparr>cv_schema_infer_max_records := v\<rparr>"

definition with_file_extension :: "string \<Rightarrow> ('r, 's, 'o, 't, 'c) csv_options \<Rightarrow> ('r, 's, 'o, 't, 'c) csv_options" where
  "with_file_extension v a = a\<lparr>cv_file_extension := v\<rparr>"

definition with_table_partition_cols ::
  "(string \<times> 't csv_type) list \<Rightarrow> ('r, 's, 'o, 't, 'c) csv_options \<Rightarrow> ('r, 's, 'o, 't, 'c) csv_options" where
  "with_table_partition_cols v a = a\<lparr>cv_table_partition_cols := v\<rparr>"

definition with_file_compression_type :: "string option \<Rightarrow> ('r, 's, 'o, 't, 'c) csv_options \<Rightarrow> ('r, 's, 'o, 't, 'c) csv_options" where
  "with_file_compression_type v a = a\<lparr>cv_file_compression_type := v\<rparr>"

definition with_file_sort_order ::
  "('r, 's, 'o) pyval list option \<Rightarrow> ('r, 's, 'o, 't, 'c) csv_options \<Rightarrow> ('r, 's, 'o, 't, 'c) csv_options" where
  "with_file_sort_order v a = a\<lparr>cv_file_sort_order := v\<rparr>"

definition with_null_regex :: "string option \<Rightarrow> ('r, 's, 'o, 't, 'c) csv_options \<Rightarrow> ('r, 's, 'o, 't, 'c) csv_options" where
  "with_null_regex v a = a\<lparr>cv_null_regex := v\<rparr>"

definition with_truncated_rows :: "bool \<Rightarrow> ('r, 's, 'o, 't, 'c) csv_options \<Rightarrow> ('r, 's, 'o, 't, 'c) csv_options" where
  "with_truncated_rows v a = a\<lparr>cv_truncated_rows := v\<rparr>"

definition csv_partition_col :: "'t \<Rightarrow> 't \<Rightarrow> string \<times> 't csv_type \<Rightarrow> (string \<times> 't) result" where
  "csv_partition_col pa_string pa_int32 = (\<lambda>(col, data_type).
     (case data_type of
        CsvTypeText s \<Rightarrow>
          if s = ''string'' then Inr (col, pa_string)
          else if s = ''int'' then Inr (col, pa_int32)
          else Inl (err ValueError (''Unsupported literal data type '' @ in_quotes s @
            '' for partition column. Supported types are '' @ in_quotes ''string'' @ '' and '' @ in_quotes ''int''))
      | CsvType t \<Rightarrow> Inr (col, t)))"

record ('s, 't, 'c) csv_inner =
  ci_has_header :: bool
  ci_delimiter :: nat
  ci_quote :: nat
  ci_terminator :: "nat option"
  ci_escape :: "nat option"
  ci_comment :: "nat option"
  ci_newlines_in_values :: bool
  ci_schema :: "'c option"
  ci_schema_infer_max_records :: int
  ci_file_extension :: string
  ci_table_partition_cols :: "(string \<times> 't) list"
  ci_file_compression_type :: string
  ci_file_sort_order :: "'s list option list"
  ci_null_regex :: "string option"
  ci_truncated_rows :: bool

definition optional_code :: "string option \<Rightarrow> nat option" where
  "optional_code v = (case v of Some s \<Rightarrow> if s = [] then None else Some (first_code_point s) | None \<Rightarrow> None)"

definition csv_to_inner ::
  "('r, 's, 'o, 'u) expr_api \<Rightarrow> 't \<Rightarrow> 't \<Rightarrow> ('r, 's, 'o, 't, 'c) csv_options \<Rightarrow> ('s, 't, 'c) csv_inner result" where
  "csv_to_inner api pa_string pa_int32 a =
     rbind (case cv_file_sort_order a of
              None \<Rightarrow> Inr []
            | Some orders \<Rightarrow> traverse (sort_list_to_raw_sort_list api) orders) (\<lambda>orders.
     rbind (traverse (csv_partition_col pa_string pa_int32) (cv_table_partition_cols a)) (\<lambda>cols.
     Inr \<lparr>ci_has_header = cv_has_header a,
          ci_delimiter = (if cv_delimiter a = [] then code_of (CHR '','') else first_code_point (cv_delimiter a)),
          ci_quote = (if cv_quote a = [] then 34 else first_code_point (cv_quote a)),
          ci_terminator = optional_code (cv_terminator a), ci_escape = optional_code (cv_escape a),
          ci_comment = optional_code (cv_comment a), ci_newlines_in_values = cv_newlines_in_values a, ci_schema = cv_schema a,
          ci_schema_infer_max_records = cv_schema_infer_max_records a, ci_file_extension = cv_file_extension a,
          ci_table_partition_cols = cols, ci_file_compression_type = (case cv_file_compression_type a of Some c \<Rightarrow> c | None \<Rightarrow> []),
          ci_file_sort_order = orders, ci_null_regex = cv_null_regex a, ci_truncated_rows = cv_truncated_rows a\<rparr>))"

section \<open>Thread-local contexts\<close>

record 'c local_contexts =
  lc_ctx :: "'c option"
  lc_sender_ctx :: "'c option"

definition set_worker_ctx :: "'c \<Rightarrow> 'c local_contexts \<Rightarrow> 'c local_contexts" where
  "set_worker_ctx c s = s\<lparr>lc_ctx := Some c\<rparr>"

definition clear_worker_ctx :: "'c local_contexts \<Rightarrow> 'c local_contexts" where
  "clear_worker_ctx s = s\<lparr>lc_ctx := None\<rparr>"

definition get_worker_ctx :: "'c local_contexts \<Rightarrow> 'c option" where
  "get_worker_ctx s = lc_ctx s"

definition set_sender_ctx :: "'c \<Rightarrow> 'c local_contexts \<Rightarrow> 'c local_contexts" where
  "set_sender_ctx c s = s\<lparr>lc_sender_ctx := Some c\<rparr>"

definition clear_sender_ctx :: "'c local_contexts \<Rightarrow> 'c local_contexts" where
  "clear_sender_ctx s = s\<lparr>lc_sender_ctx := None\<rparr>"

definition get_sender_ctx :: "'c local_contexts \<Rightarrow> 'c option" where
  "get_sender_ctx s = lc_sender_ctx s"

definition resolve_ctx :: "'c \<Rightarrow> 'c option \<Rightarrow> 'c local_contexts \<Rightarrow> 'c" where
  "resolve_ctx global_ctx explicit_ctx s =
     (case explicit_ctx of Some c \<Rightarrow> c | None \<Rightarrow> (case get_worker_ctx s of Some w \<Rightarrow> w | None \<Rightarrow> global_ctx))"

text \<open>Pickling an expression: the bytes are made with the sender's context and read with the receiver's.\<close>

definition expr_reduce :: "('r \<Rightarrow> 'c option \<Rightarrow> string result) \<Rightarrow> 'r \<Rightarrow> 'c local_contexts \<Rightarrow> string result" where
  "expr_reduce to_bytes e s = to_bytes e (get_sender_ctx s)"

definition expr_reconstruct :: "('c \<Rightarrow> string \<Rightarrow> 'r result) \<Rightarrow> 'c \<Rightarrow> string \<Rightarrow> 'c local_contexts \<Rightarrow> 'r result" where
  "expr_reconstruct from_bytes global_ctx buf s = from_bytes (resolve_ctx global_ctx None s) buf"

section \<open>Input locations\<close>

text \<open>\<open>Path(p).suffix\<close> of the last component: from its last dot, if that is neither its first nor its last character.\<close>

definition path_suffix :: "string \<Rightarrow> string" where
  "path_suffix nm =
     (let tail_rev = takeWhile (\<lambda>c. c \<noteq> CHR ''.'') (rev nm); stem = length nm - length tail_rev
      in if tail_rev \<noteq> [] \<and> 1 < stem then drop (stem - 1) nm else [])"

record ('d, 'y) location_env =
  le_last_component :: "string \<Rightarrow> string"
  le_metadata :: "string \<Rightarrow> (int \<times> (string \<times> 'y) list) result"
  le_glob :: "string \<Rightarrow> string list result"

record 'y sql_table =
  st_name :: string
  st_columns :: "(string \<times> 'y) list"
  st_num_rows :: int
  st_files :: "string list"

text \<open>
  \<open>build_table\<close>. The second test compares the built-in function \<open>format\<close> with a text, not \<open>file_format\<close>: it is
  false, so that its branch is dead, and the message of the last branch names the function.
\<close>

definition location_build_table :: "('d, 'y) location_env \<Rightarrow> string \<Rightarrow> string \<Rightarrow> 'y sql_table result" where
  "location_build_table env input_item table_name =
     (let file_format = py_lower (lstrip_char (CHR ''.'') (path_suffix (le_last_component env input_item)))
      in if file_format = ''parquet''
         then rbind (le_metadata env input_item) (\<lambda>(num_rows, columns).
              rbind (le_glob env input_item) (\<lambda>files.
              Inr \<lparr>st_name = table_name, st_columns = columns, st_num_rows = num_rows, st_files = files\<rparr>))
         else Inl (err RuntimeError (''Input of format: `<built-in function format>` is currently not supported.'' @
                replicate 16 (CHR '' '') @ ''Only Parquet and CSV.'')))"

section \<open>User-defined functions\<close>

datatype 't field_arg = FieldType 't | FieldNamed string 't

definition data_type_or_field_to_field :: "'t field_arg \<Rightarrow> string \<Rightarrow> string \<times> 't" where
  "data_type_or_field_to_field v nm = (case v of FieldNamed n t \<Rightarrow> (n, t) | FieldType t \<Rightarrow> (nm, t))"

datatype 't fields_arg = OneField "'t field_arg" | ManyFields "'t field_arg list"

definition data_types_or_fields_to_field_list :: "'t fields_arg \<Rightarrow> (string \<times> 't) list" where
  "data_types_or_fields_to_field_list inputs =
     (case inputs of
        OneField v \<Rightarrow> [data_type_or_field_to_field v ''value'']
      | ManyFields vs \<Rightarrow>
          map (\<lambda>(idx, v). data_type_or_field_to_field v (''value_'' @ show_int (int idx))) (zip [0..<length vs] vs))"

text \<open>What the code asks of the first argument of \<open>udf\<close>.\<close>

record py_callable =
  pc_exportable :: bool
  pc_callable :: bool
  pc_qualname :: "string option"
  pc_class_name :: string

datatype udf_kind = UdfCapsule | UdfFunction | UdfDecorator

text \<open>\<open>udf(*args, **kwargs)\<close>: the first positional argument is read before the test that there is one.\<close>

definition udf_dispatch :: "py_callable list \<Rightarrow> udf_kind result" where
  "udf_dispatch args =
     (case args of
        [] \<Rightarrow> Inl (err IndexError ''tuple index out of range'')
      | a # _ \<Rightarrow> Inr (if pc_exportable a then UdfCapsule else if pc_callable a then UdfFunction else UdfDecorator))"

definition udf_name :: "py_callable \<Rightarrow> string option \<Rightarrow> string" where
  "udf_name f nm =
     (case nm of
        Some n \<Rightarrow> n
      | None \<Rightarrow> (case pc_qualname f of Some q \<Rightarrow> py_lower q | None \<Rightarrow> py_lower (pc_class_name f)))"

record 't scalar_udf =
  su_name :: string
  su_input_fields :: "(string \<times> 't) list"
  su_return_field :: "string \<times> 't"
  su_volatility :: string

definition scalar_udf_function ::
  "py_callable \<Rightarrow> 't fields_arg \<Rightarrow> 't field_arg \<Rightarrow> string \<Rightarrow> string option \<Rightarrow> 't scalar_udf result" where
  "scalar_udf_function f input_fields return_field volatility nm =
     rbind (raise_if (\<not> pc_callable f) (err TypeError ''`func` argument must be callable'')) (\<lambda>_.
     Inr \<lparr>su_name = udf_name f nm, su_input_fields = data_types_or_fields_to_field_list input_fields,
          su_return_field = data_type_or_field_to_field return_field ''value'', su_volatility = volatility\<rparr>)"

text \<open>\<open>WindowUDF\<close> takes the qualified name only; an instance with \<open>__call__\<close> has none.\<close>

definition window_udf_name :: "py_callable \<Rightarrow> string option \<Rightarrow> string result" where
  "window_udf_name f nm =
     (case (nm, pc_qualname f) of
        (Some (c # cs), _) \<Rightarrow> Inr (c # cs)
      | (_, Some q) \<Rightarrow> Inr (py_lower q)
      | (_, None) \<Rightarrow> Inl (err AttributeError (in_quotes (pc_class_name f) @ '' object has no attribute '' @ in_quotes ''__qualname__'')))"

section \<open>Properties\<close>

lemma single_character: "validate_single_character nm v = Inr u \<longleftrightarrow> (\<forall>s. v = Some s \<longrightarrow> py_len s = 1)"
  by (cases v) (auto simp: validate_single_character_def)

text \<open>The default argument names of a function are distinct, so that no input field hides another.\<close>

lemma default_field_names_distinct:
  "distinct (map fst (data_types_or_fields_to_field_list (ManyFields (map FieldType ts))))"
proof -
  have "map fst (data_types_or_fields_to_field_list (ManyFields (map FieldType ts))) =
      map (\<lambda>i. ''value_'' @ show_int (int i)) [0..<length ts]"
    by (rule nth_equalityI) (auto simp: data_types_or_fields_to_field_list_def data_type_or_field_to_field_def)
  moreover have "inj_on (\<lambda>i. ''value_'' @ show_int (int i)) {0..<length ts}"
    by (rule inj_onI) (simp add: show_int_def show_nat_inject)
  ultimately show ?thesis by (simp add: distinct_map)
qed

text \<open>A CSV location is refused with a message that names the built-in function.\<close>

lemma csv_location_refused:
  "le_last_component env item = ''data.csv'' \<Longrightarrow> location_build_table env item nm =
     Inl (err RuntimeError (''Input of format: `<built-in function format>` is currently not supported.'' @
       replicate 16 (CHR '' '') @ ''Only Parquet and CSV.''))"
  by (simp add: location_build_table_def path_suffix_def lstrip_char_def py_lower_def lower_char_def Let_def)

text \<open>A context that was set is used until it is cleared, and an explicit one always.\<close>

lemma resolve_ctx_rules:
  "resolve_ctx g (Some c) s = c" "resolve_ctx g None (set_worker_ctx c s) = c" "resolve_ctx g None (clear_worker_ctx s) = g"
  "resolve_ctx g None (set_sender_ctx c s) = resolve_ctx g None s"
  by (simp_all add: resolve_ctx_def get_worker_ctx_def set_worker_ctx_def clear_worker_ctx_def set_sender_ctx_def)

end
