(* ===== verification/Datafusion_Context.thy ===== *)
theory Datafusion_Context
  imports Datafusion_Options
begin

text \<open>
  The session context of the bundled DataFusion (\<open>context.py\<close>) and the functions that read with the global context
  (\<open>io.py\<close>): the conversion of the arguments of every registration and read, and the parameters of \<open>sql\<close>. The native
  context is a record of commands on its state; PyArrow's scalars, \<open>str\<close> and \<open>uuid4\<close> are parameters too. A path, or a
  list of paths, is passed on as it is.
\<close>

section \<open>The native context\<close>

type_synonym ('s) sort_orders = "'s list option list option"

record ('n, 'p, 't, 'c, 's, 'd) context_api =
  cx_pa_string :: 't
  cx_pa_int32 :: 't
  cx_str_path :: "'p \<Rightarrow> 'p"
  cx_register_listing_table ::
    "string \<Rightarrow> 'p \<Rightarrow> (string \<times> 't) list \<Rightarrow> string \<Rightarrow> 'c option \<Rightarrow> 's sort_orders \<Rightarrow> ('n, unit) cmd"
  cx_register_parquet ::
    "string \<Rightarrow> 'p \<Rightarrow> (string \<times> 't) list \<Rightarrow> bool \<Rightarrow> string \<Rightarrow> bool \<Rightarrow> 'c option \<Rightarrow> 's sort_orders \<Rightarrow> ('n, unit) cmd"
  cx_register_csv :: "string \<Rightarrow> 'p \<Rightarrow> ('s, 't, 'c) csv_inner \<Rightarrow> ('n, unit) cmd"
  cx_register_json ::
    "string \<Rightarrow> 'p \<Rightarrow> 'c option \<Rightarrow> int \<Rightarrow> string \<Rightarrow> (string \<times> 't) list \<Rightarrow> string option \<Rightarrow> ('n, unit) cmd"
  cx_register_avro :: "string \<Rightarrow> 'p \<Rightarrow> 'c option \<Rightarrow> string \<Rightarrow> (string \<times> 't) list \<Rightarrow> ('n, unit) cmd"
  cx_register_arrow :: "string \<Rightarrow> 'p \<Rightarrow> 'c option \<Rightarrow> string \<Rightarrow> (string \<times> 't) list \<Rightarrow> ('n, unit) cmd"
  cx_read_parquet ::
    "'p \<Rightarrow> (string \<times> 't) list \<Rightarrow> bool \<Rightarrow> string \<Rightarrow> bool \<Rightarrow> 'c option \<Rightarrow> 's sort_orders \<Rightarrow> ('n, 'd) cmd"
  cx_read_csv :: "'p \<Rightarrow> ('s, 't, 'c) csv_inner \<Rightarrow> ('n, 'd) cmd"
  cx_read_json :: "'p \<Rightarrow> 'c option \<Rightarrow> int \<Rightarrow> string \<Rightarrow> (string \<times> 't) list \<Rightarrow> string option \<Rightarrow> ('n, 'd) cmd"
  cx_read_avro :: "'p \<Rightarrow> 'c option \<Rightarrow> (string \<times> 't) list \<Rightarrow> string \<Rightarrow> ('n, 'd) cmd"
  cx_read_arrow :: "'p \<Rightarrow> 'c option \<Rightarrow> string \<Rightarrow> (string \<times> 't) list \<Rightarrow> ('n, 'd) cmd"

section \<open>Conversion of arguments\<close>

text \<open>\<open>table_partition_cols\<close>: \<open>None\<close> is the empty list, and textual types are \<open>string\<close> and \<open>int\<close>.\<close>

definition partition_cols ::
  "('n, 'p, 't, 'c, 's, 'd) context_api \<Rightarrow> (string \<times> 't csv_type) list option \<Rightarrow> (string \<times> 't) list result" where
  "partition_cols cx cols =
     traverse (csv_partition_col (cx_pa_string cx) (cx_pa_int32 cx)) (case cols of None \<Rightarrow> [] | Some cs \<Rightarrow> cs)"

definition convert_file_sort_order ::
  "('r, 's, 'o, 'u) expr_api \<Rightarrow> ('r, 's, 'o) pyval list option \<Rightarrow> 's sort_orders result" where
  "convert_file_sort_order api orders =
     (case orders of
        None \<Rightarrow> Inr None
      | Some os \<Rightarrow> rbind (traverse (sort_list_to_raw_sort_list api) os) (\<lambda>raw. Inr (Some raw)))"

section \<open>Registration\<close>

definition ctx_register_listing_table ::
  "('r, 's, 'o, 'u) expr_api \<Rightarrow> ('n, 'p, 't, 'c, 's, 'd) context_api \<Rightarrow> string \<Rightarrow> 'p \<Rightarrow> (string \<times> 't csv_type) list option
     \<Rightarrow> string \<Rightarrow> 'c option \<Rightarrow> ('r, 's, 'o) pyval list option \<Rightarrow> ('n, unit) cmd" where
  "ctx_register_listing_table api cx nm path table_partition_cols file_extension schema file_sort_order =
     sbind (slift (partition_cols cx table_partition_cols)) (\<lambda>cols.
     sbind (slift (convert_file_sort_order api file_sort_order)) (\<lambda>orders.
     cx_register_listing_table cx nm path cols file_extension schema orders))"

definition ctx_register_parquet ::
  "('r, 's, 'o, 'u) expr_api \<Rightarrow> ('n, 'p, 't, 'c, 's, 'd) context_api \<Rightarrow> string \<Rightarrow> 'p \<Rightarrow> (string \<times> 't csv_type) list option
     \<Rightarrow> bool \<Rightarrow> string \<Rightarrow> bool \<Rightarrow> 'c option \<Rightarrow> ('r, 's, 'o) pyval list option \<Rightarrow> ('n, unit) cmd" where
  "ctx_register_parquet api cx nm path table_partition_cols parquet_pruning file_extension skip_metadata schema file_sort_order =
     sbind (slift (partition_cols cx table_partition_cols)) (\<lambda>cols.
     sbind (slift (convert_file_sort_order api file_sort_order)) (\<lambda>orders.
     cx_register_parquet cx nm path cols parquet_pruning file_extension skip_metadata schema orders))"

definition ctx_register_json ::
  "('n, 'p, 't, 'c, 's, 'd) context_api \<Rightarrow> string \<Rightarrow> 'p \<Rightarrow> 'c option \<Rightarrow> int \<Rightarrow> string \<Rightarrow> (string \<times> 't csv_type) list option
     \<Rightarrow> string option \<Rightarrow> ('n, unit) cmd" where
  "ctx_register_json cx nm path schema schema_infer_max_records file_extension table_partition_cols file_compression_type =
     sbind (slift (partition_cols cx table_partition_cols)) (\<lambda>cols.
     cx_register_json cx nm path schema schema_infer_max_records file_extension cols file_compression_type)"

definition ctx_register_avro ::
  "('n, 'p, 't, 'c, 's, 'd) context_api \<Rightarrow> string \<Rightarrow> 'p \<Rightarrow> 'c option \<Rightarrow> string \<Rightarrow> (string \<times> 't csv_type) list option
     \<Rightarrow> ('n, unit) cmd" where
  "ctx_register_avro cx nm path schema file_extension table_partition_cols =
     sbind (slift (partition_cols cx table_partition_cols)) (\<lambda>cols.
     cx_register_avro cx nm path schema file_extension cols)"

definition ctx_register_arrow ::
  "('n, 'p, 't, 'c, 's, 'd) context_api \<Rightarrow> string \<Rightarrow> 'p \<Rightarrow> 'c option \<Rightarrow> string \<Rightarrow> (string \<times> 't csv_type) list option
     \<Rightarrow> ('n, unit) cmd" where
  "ctx_register_arrow cx nm path schema file_extension table_partition_cols =
     sbind (slift (partition_cols cx table_partition_cols)) (\<lambda>cols.
     cx_register_arrow cx nm path schema file_extension cols)"

section \<open>CSV files\<close>

definition default_max_infer_schema :: int where
  "default_max_infer_schema = 1000"

text \<open>The arguments of \<open>register_csv\<close> and \<open>read_csv\<close> that an options object replaces.\<close>

record ('t, 'c) csv_args =
  ca_schema :: "'c option"
  ca_has_header :: bool
  ca_delimiter :: string
  ca_schema_infer_max_records :: int
  ca_file_extension :: string
  ca_table_partition_cols :: "(string \<times> 't csv_type) list option"
  ca_file_compression_type :: "string option"

definition default_csv_args :: "('t, 'c) csv_args" where
  "default_csv_args = \<lparr>ca_schema = None, ca_has_header = True, ca_delimiter = '','',
     ca_schema_infer_max_records = default_max_infer_schema, ca_file_extension = ''.csv'', ca_table_partition_cols = None,
     ca_file_compression_type = None\<rparr>"

text \<open>Whether the call warns: options and another argument that is not its default.\<close>

definition csv_args_warn :: "('t, 'c) csv_args \<Rightarrow> bool" where
  "csv_args_warn a \<longleftrightarrow> \<not> Option.is_none (ca_schema a) \<or> \<not> ca_has_header a \<or> ca_delimiter a \<noteq> '','' \<or>
     ca_schema_infer_max_records a \<noteq> default_max_infer_schema \<or> ca_file_extension a \<noteq> ''.csv'' \<or>
     \<not> Option.is_none (ca_table_partition_cols a) \<or> \<not> Option.is_none (ca_file_compression_type a)"

definition csv_options_of_args :: "('t, 'c) csv_args \<Rightarrow> ('r, 's, 'o, 't, 'c) csv_options result" where
  "csv_options_of_args a = new_csv_options
     \<lparr>cv_has_header = ca_has_header a, cv_delimiter = ca_delimiter a, cv_quote = [CHR 34], cv_terminator = None,
      cv_escape = None, cv_comment = None, cv_newlines_in_values = False, cv_schema = ca_schema a,
      cv_schema_infer_max_records = ca_schema_infer_max_records a, cv_file_extension = ca_file_extension a,
      cv_table_partition_cols = (case ca_table_partition_cols a of None \<Rightarrow> [] | Some cs \<Rightarrow> cs),
      cv_file_compression_type = ca_file_compression_type a, cv_file_sort_order = None, cv_null_regex = None,
      cv_truncated_rows = False\<rparr>"

definition resolved_csv_options ::
  "('t, 'c) csv_args \<Rightarrow> ('r, 's, 'o, 't, 'c) csv_options option \<Rightarrow> ('r, 's, 'o, 't, 'c) csv_options result" where
  "resolved_csv_options a options = (case options of Some given \<Rightarrow> Inr given | None \<Rightarrow> csv_options_of_args a)"

text \<open>Both return whether they warned. \<open>register_csv\<close> has no argument for partition columns.\<close>

definition ctx_register_csv ::
  "('r, 's, 'o, 'u) expr_api \<Rightarrow> ('n, 'p, 't, 'c, 's, 'd) context_api \<Rightarrow> string \<Rightarrow> 'p \<Rightarrow> ('t, 'c) csv_args
     \<Rightarrow> ('r, 's, 'o, 't, 'c) csv_options option \<Rightarrow> ('n, bool) cmd" where
  "ctx_register_csv api cx nm path args options =
     (let a = args\<lparr>ca_table_partition_cols := None\<rparr>; warned = \<not> Option.is_none options \<and> csv_args_warn a in
      sbind (slift (resolved_csv_options a options)) (\<lambda>resolved.
      sbind (slift (csv_to_inner api (cx_pa_string cx) (cx_pa_int32 cx) resolved)) (\<lambda>inner.
      sbind (cx_register_csv cx nm path inner) (\<lambda>_. sret warned))))"

definition ctx_read_csv ::
  "('r, 's, 'o, 'u) expr_api \<Rightarrow> ('n, 'p, 't, 'c, 's, 'd) context_api \<Rightarrow> 'p \<Rightarrow> ('t, 'c) csv_args
     \<Rightarrow> ('r, 's, 'o, 't, 'c) csv_options option \<Rightarrow> ('n, bool \<times> 'd) cmd" where
  "ctx_read_csv api cx path a options =
     (let warned = \<not> Option.is_none options \<and> csv_args_warn a in
      sbind (slift (resolved_csv_options a options)) (\<lambda>resolved.
      sbind (slift (csv_to_inner api (cx_pa_string cx) (cx_pa_int32 cx) resolved)) (\<lambda>inner.
      sbind (cx_read_csv cx path inner) (\<lambda>d. sret (warned, d)))))"

section \<open>Reading files\<close>

definition ctx_read_parquet ::
  "('r, 's, 'o, 'u) expr_api \<Rightarrow> ('n, 'p, 't, 'c, 's, 'd) context_api \<Rightarrow> 'p \<Rightarrow> (string \<times> 't csv_type) list option
     \<Rightarrow> bool \<Rightarrow> string \<Rightarrow> bool \<Rightarrow> 'c option \<Rightarrow> ('r, 's, 'o) pyval list option \<Rightarrow> ('n, 'd) cmd" where
  "ctx_read_parquet api cx path table_partition_cols parquet_pruning file_extension skip_metadata schema file_sort_order =
     sbind (slift (partition_cols cx table_partition_cols)) (\<lambda>cols.
     sbind (slift (convert_file_sort_order api file_sort_order)) (\<lambda>orders.
     cx_read_parquet cx path cols parquet_pruning file_extension skip_metadata schema orders))"

definition ctx_read_json ::
  "('n, 'p, 't, 'c, 's, 'd) context_api \<Rightarrow> 'p \<Rightarrow> 'c option \<Rightarrow> int \<Rightarrow> string \<Rightarrow> (string \<times> 't csv_type) list option
     \<Rightarrow> string option \<Rightarrow> ('n, 'd) cmd" where
  "ctx_read_json cx path schema schema_infer_max_records file_extension table_partition_cols file_compression_type =
     sbind (slift (partition_cols cx table_partition_cols)) (\<lambda>cols.
     cx_read_json cx path schema schema_infer_max_records file_extension cols file_compression_type)"

definition ctx_read_avro ::
  "('n, 'p, 't, 'c, 's, 'd) context_api \<Rightarrow> 'p \<Rightarrow> 'c option \<Rightarrow> (string \<times> 't csv_type) list option \<Rightarrow> string
     \<Rightarrow> ('n, 'd) cmd" where
  "ctx_read_avro cx path schema file_partition_cols file_extension =
     sbind (slift (partition_cols cx file_partition_cols)) (\<lambda>cols. cx_read_avro cx path schema cols file_extension)"

definition ctx_read_arrow ::
  "('n, 'p, 't, 'c, 's, 'd) context_api \<Rightarrow> 'p \<Rightarrow> 'c option \<Rightarrow> string \<Rightarrow> (string \<times> 't csv_type) list option
     \<Rightarrow> ('n, 'd) cmd" where
  "ctx_read_arrow cx path schema file_extension file_partition_cols =
     sbind (slift (partition_cols cx file_partition_cols)) (\<lambda>cols. cx_read_arrow cx path schema file_extension cols)"

text \<open>\<open>io.py\<close>: the same reads on the global context, of the text of the path, except for CSV.\<close>

definition io_read_parquet ::
  "('r, 's, 'o, 'u) expr_api \<Rightarrow> ('n, 'p, 't, 'c, 's, 'd) context_api \<Rightarrow> 'p \<Rightarrow> (string \<times> 't csv_type) list option
     \<Rightarrow> bool \<Rightarrow> string \<Rightarrow> bool \<Rightarrow> 'c option \<Rightarrow> ('r, 's, 'o) pyval list option \<Rightarrow> ('n, 'd) cmd" where
  "io_read_parquet api cx path table_partition_cols parquet_pruning file_extension skip_metadata schema file_sort_order =
     ctx_read_parquet api cx (cx_str_path cx path) (Some (case table_partition_cols of None \<Rightarrow> [] | Some cs \<Rightarrow> cs))
       parquet_pruning file_extension skip_metadata schema file_sort_order"

definition io_read_json ::
  "('n, 'p, 't, 'c, 's, 'd) context_api \<Rightarrow> 'p \<Rightarrow> 'c option \<Rightarrow> int \<Rightarrow> string \<Rightarrow> (string \<times> 't csv_type) list option
     \<Rightarrow> string option \<Rightarrow> ('n, 'd) cmd" where
  "io_read_json cx path schema schema_infer_max_records file_extension table_partition_cols file_compression_type =
     ctx_read_json cx (cx_str_path cx path) schema schema_infer_max_records file_extension
       (Some (case table_partition_cols of None \<Rightarrow> [] | Some cs \<Rightarrow> cs)) file_compression_type"

definition io_read_csv ::
  "('r, 's, 'o, 'u) expr_api \<Rightarrow> ('n, 'p, 't, 'c, 's, 'd) context_api \<Rightarrow> 'p \<Rightarrow> ('t, 'c) csv_args
     \<Rightarrow> ('r, 's, 'o, 't, 'c) csv_options option \<Rightarrow> ('n, bool \<times> 'd) cmd" where
  "io_read_csv api cx path a options = ctx_read_csv api cx path a options"

definition io_read_avro ::
  "('n, 'p, 't, 'c, 's, 'd) context_api \<Rightarrow> 'p \<Rightarrow> 'c option \<Rightarrow> (string \<times> 't csv_type) list option \<Rightarrow> string
     \<Rightarrow> ('n, 'd) cmd" where
  "io_read_avro cx path schema file_partition_cols file_extension =
     ctx_read_avro cx (cx_str_path cx path) schema (Some (case file_partition_cols of None \<Rightarrow> [] | Some cs \<Rightarrow> cs)) file_extension"

section \<open>SQL with parameters\<close>

text \<open>A value for a named parameter is a data frame or something else, one for \<open>param_values\<close> a scalar of PyArrow or not.\<close>

datatype ('d, 'x) named_arg = FrameArg 'd | OtherArg 'x

datatype ('q, 'x) scalar_arg = ScalarArg 'q | PlainArg 'x

record ('n, 'd, 'x, 'q, 'v, 'w) sql_api =
  sq_uuid4 :: "('n, string) cmd"
  sq_into_view :: "'d \<Rightarrow> ('n, 'v) cmd"
  sq_register_table :: "string \<Rightarrow> 'v \<Rightarrow> ('n, unit) cmd"
  sq_scalar :: "'x \<Rightarrow> 'q result"
  sq_str :: "'x \<Rightarrow> string result"
  sq_sql_with_options :: "string \<Rightarrow> 'w option \<Rightarrow> (string \<times> 'q) list \<Rightarrow> (string \<times> string) list \<Rightarrow> ('n, 'd) cmd"

definition value_to_scalar :: "('n, 'd, 'x, 'q, 'v, 'w) sql_api \<Rightarrow> ('q, 'x) scalar_arg \<Rightarrow> 'q result" where
  "value_to_scalar sq v = (case v of ScalarArg q \<Rightarrow> Inr q | PlainArg x \<Rightarrow> sq_scalar sq x)"

definition view_name_of :: "string \<Rightarrow> string" where
  "view_name_of u = ''view_'' @ map (\<lambda>c. if c = CHR ''-'' then CHR ''_'' else c) u"

definition value_to_string :: "('n, 'd, 'x, 'q, 'v, 'w) sql_api \<Rightarrow> ('d, 'x) named_arg \<Rightarrow> ('n, string) cmd" where
  "value_to_string sq v =
     (case v of
        FrameArg d \<Rightarrow>
          sbind (sq_uuid4 sq) (\<lambda>u.
          sbind (sq_into_view sq d) (\<lambda>view.
          sbind (sq_register_table sq (view_name_of u) view) (\<lambda>_. sret (view_name_of u))))
      | OtherArg x \<Rightarrow> slift (sq_str sq x))"

fun param_strings ::
  "('n, 'd, 'x, 'q, 'v, 'w) sql_api \<Rightarrow> (string \<times> ('d, 'x) named_arg) list \<Rightarrow> ('n, (string \<times> string) list) cmd" where
  "param_strings sq [] = sret []"
| "param_strings sq ((nm, v) # named_params) =
     sbind (value_to_string sq v) (\<lambda>s. sbind (param_strings sq named_params) (\<lambda>rest. sret ((nm, s) # rest)))"

definition ctx_sql ::
  "('n, 'd, 'x, 'q, 'v, 'w) sql_api \<Rightarrow> string \<Rightarrow> 'w option \<Rightarrow> (string \<times> ('q, 'x) scalar_arg) list option
     \<Rightarrow> (string \<times> ('d, 'x) named_arg) list \<Rightarrow> ('n, 'd) cmd" where
  "ctx_sql sq query options param_values named_params =
     sbind (slift (traverse (\<lambda>(nm, v). rbind (value_to_scalar sq v) (\<lambda>q. Inr (nm, q)))
        (case param_values of None \<Rightarrow> [] | Some ps \<Rightarrow> ps))) (\<lambda>scalars.
     sbind (param_strings sq named_params) (\<lambda>strings.
     sq_sql_with_options sq query options scalars strings))"

section \<open>Properties\<close>

text \<open>A call with an options object warns exactly when another argument differs from its default.\<close>

lemma csv_args_warn_iff: "csv_args_warn a \<longleftrightarrow> a \<noteq> default_csv_args"
  by (cases a) (auto simp: csv_args_warn_def default_csv_args_def Option.is_none_def)

lemma csv_options_of_args_ok:
  "(\<exists>opts. (csv_options_of_args a :: ('r, 's, 'o, 't, 'c) csv_options result) = Inr opts) \<longleftrightarrow> py_len (ca_delimiter a) = 1"
  by (simp add: csv_options_of_args_def new_csv_options_def validate_single_character_def raise_if_def rbind_def py_len_def)

lemma partition_cols_error: "partition_cols cx cols = Inl e \<Longrightarrow> exc_cls e = ValueError"
  by (auto simp: partition_cols_def csv_partition_col_def split: csv_type.splits if_splits dest!: traverse_Inl)

text \<open>An unsupported type of a partition column stops every registration and every read before the native call.\<close>

lemma bad_partition_cols_reach_nothing:
  assumes "partition_cols cx cols = Inl e"
  shows "ctx_register_listing_table api cx nm p cols x1 x2 x3 st = (Inl e, st)"
    and "ctx_register_parquet api cx nm p cols y1 y2 y3 y4 y5 st = (Inl e, st)"
    and "ctx_register_json cx nm p z1 z2 z3 cols z4 st = (Inl e, st)"
    and "ctx_register_avro cx nm p u1 u2 cols st = (Inl e, st)"
    and "ctx_register_arrow cx nm p v1 v2 cols st = (Inl e, st)"
    and "ctx_read_parquet api cx p cols y1 y2 y3 y4 y5 st = (Inl e, st)"
    and "ctx_read_json cx p z1 z2 z3 cols z4 st = (Inl e, st)"
    and "ctx_read_avro cx p u1 cols u2 st = (Inl e, st)"
    and "ctx_read_arrow cx p v1 v2 cols st = (Inl e, st)"
  by (simp_all add: assms ctx_register_listing_table_def ctx_register_parquet_def ctx_register_json_def ctx_register_avro_def
      ctx_register_arrow_def ctx_read_parquet_def ctx_read_json_def ctx_read_avro_def ctx_read_arrow_def sbind_apply)

text \<open>The functions of \<open>io.py\<close> read what the methods of the context read at the text of the path.\<close>

lemma io_reads_with_context:
  "io_read_parquet api cx p cols y1 y2 y3 y4 y5 = ctx_read_parquet api cx (cx_str_path cx p) cols y1 y2 y3 y4 y5"
  "io_read_json cx p z1 z2 z3 cols z4 = ctx_read_json cx (cx_str_path cx p) z1 z2 z3 cols z4"
  "io_read_avro cx p u1 cols u2 = ctx_read_avro cx (cx_str_path cx p) u1 cols u2"
  by (simp_all add: io_read_parquet_def io_read_json_def io_read_avro_def ctx_read_parquet_def ctx_read_json_def
      ctx_read_avro_def partition_cols_def)

text \<open>What \<open>sql\<close> relies on: fresh names, views of their frames, and a registry of tables.\<close>

definition lawful_views ::
  "('n, 'd, 'x, 'q, 'v, 'w) sql_api \<Rightarrow> ('n \<Rightarrow> string \<rightharpoonup> 'v) \<Rightarrow> ('v \<Rightarrow> 'd) \<Rightarrow> bool" where
  "lawful_views sq tables frame_of \<longleftrightarrow>
     (\<forall>st u st'. sq_uuid4 sq st = (Inr u, st') \<longrightarrow> tables st' = tables st \<and> tables st (view_name_of u) = None) \<and>
     (\<forall>d st v st'. sq_into_view sq d st = (Inr v, st') \<longrightarrow> tables st' = tables st \<and> frame_of v = d) \<and>
     (\<forall>nm v st st'. sq_register_table sq nm v st = (Inr (), st') \<longrightarrow> tables st' = (tables st)(nm \<mapsto> v))"

text \<open>What the text of a parameter stands for, between the tables before and after the conversion.\<close>

definition stands_for ::
  "('n, 'd, 'x, 'q, 'v, 'w) sql_api \<Rightarrow> ('v \<Rightarrow> 'd) \<Rightarrow> (string \<rightharpoonup> 'v) \<Rightarrow> (string \<rightharpoonup> 'v) \<Rightarrow> ('d, 'x) named_arg \<Rightarrow> string \<Rightarrow> bool" where
  "stands_for sq frame_of before after v s =
     (case v of
        FrameArg d \<Rightarrow> before s = None \<and> (\<exists>view. after s = Some view \<and> frame_of view = d)
      | OtherArg x \<Rightarrow> sq_str sq x = Inr s)"

lemma stands_for_mono:
  assumes "stands_for sq frame_of b a v s" "b' \<subseteq>\<^sub>m b" "a \<subseteq>\<^sub>m a'"
  shows "stands_for sq frame_of b' a' v s"
proof (cases v)
  case (FrameArg d)
  with assms(1) obtain view where "b s = None" "a s = Some view" "frame_of view = d" by (auto simp: stands_for_def)
  moreover then have "b' s = None" using assms(2) by (cases "b' s") (auto simp: map_le_def dom_def)
  moreover have "a' s = Some view" using assms(3) \<open>a s = Some view\<close> by (auto simp: map_le_def dom_def)
  ultimately show ?thesis using FrameArg by (simp add: stands_for_def)
qed (use assms(1) in \<open>simp add: stands_for_def\<close>)

lemma value_to_string_stands:
  assumes "lawful_views sq tables frame_of" and "value_to_string sq v st = (Inr s, st')"
  shows "tables st \<subseteq>\<^sub>m tables st' \<and> stands_for sq frame_of (tables st) (tables st') v s"
proof (cases v)
  case (FrameArg d)
  with assms(2) obtain u s1 view s2 where run: "sq_uuid4 sq st = (Inr u, s1)" "sq_into_view sq d s1 = (Inr view, s2)"
      "sq_register_table sq (view_name_of u) view s2 = (Inr (), st')" "s = view_name_of u"
    by (auto simp: value_to_string_def sbind_eq_Inr)
  with assms(1) have "tables s1 = tables st" "tables st s = None" "tables s2 = tables s1" "frame_of view = d"
      "tables st' = (tables s2)(s \<mapsto> view)"
    unfolding lawful_views_def run(4) by metis+
  then show ?thesis by (simp add: FrameArg stands_for_def map_le_def dom_def)
qed (use assms(2) in \<open>auto simp: value_to_string_def stands_for_def\<close>)

lemma param_strings_stand:
  assumes "lawful_views sq tables frame_of" and "param_strings sq ps st = (Inr strs, st')"
  shows "tables st \<subseteq>\<^sub>m tables st' \<and>
    list_all2 (\<lambda>(nm, v) (nm', s). nm' = nm \<and> stands_for sq frame_of (tables st) (tables st') v s) ps strs"
  using assms(2)
proof (induction ps arbitrary: st strs)
  case (Cons p ps)
  obtain nm v where p: "p = (nm, v)" by (cases p)
  with Cons.prems obtain s s1 rest where run: "value_to_string sq v st = (Inr s, s1)" "param_strings sq ps s1 = (Inr rest, st')"
      "strs = (nm, s) # rest"
    by (auto simp: sbind_eq_Inr)
  note first = value_to_string_stands [OF assms(1) run(1)]
  note later = Cons.IH [OF run(2)]
  have "stands_for sq frame_of (tables st) (tables st') v s"
    using first later by (blast intro: stands_for_mono map_le_refl)
  moreover have "list_all2 (\<lambda>(nm, v) (nm', s). nm' = nm \<and> stands_for sq frame_of (tables st) (tables st') v s) ps rest"
    using conjunct2 [OF later] by (rule list_all2_mono) (use first in \<open>auto intro: stands_for_mono map_le_refl\<close>)
  moreover have "tables st \<subseteq>\<^sub>m tables st'" using first later by (blast intro: map_le_trans)
  ultimately show ?case by (simp add: p run(3))
qed simp

text \<open>
  C24. The texts that \<open>sql\<close> puts into a query stand for the arguments: a data frame became the name of a view of that very
  frame, registered under a name that no table had, any other value its text. The tables that the context had are all
  still there. The hypothesis says that \<open>uuid4\<close> returns new names, \<open>into_view\<close> views of its frame, and that registering
  a table adds it to the tables and changes no other.
\<close>

theorem sql_parameters_stand_for_arguments:
  assumes "lawful_views sq tables frame_of" and "ctx_sql sq query options param_values named_params st = (Inr d, st')"
  shows "\<exists>scalars strs st1. sq_sql_with_options sq query options scalars strs st1 = (Inr d, st') \<and>
    tables st \<subseteq>\<^sub>m tables st1 \<and>
    list_all2 (\<lambda>(nm, v) (nm', s). nm' = nm \<and> stands_for sq frame_of (tables st) (tables st1) v s) named_params strs"
proof -
  from assms(2) obtain scalars strs st1 where "param_strings sq named_params st = (Inr strs, st1)"
      and "sq_sql_with_options sq query options scalars strs st1 = (Inr d, st')"
    by (auto simp: ctx_sql_def sbind_eq_Inr)
  with param_strings_stand [OF assms(1)] show ?thesis by blast
qed

text \<open>A context whose state is the list of its views, named by their positions.\<close>

definition sample_tables :: "nat list \<Rightarrow> string \<rightharpoonup> nat" where
  "sample_tables vs = map_of (zip (map (\<lambda>i. view_name_of (show_nat i)) [0..<length vs]) vs)"

definition sample_sql_api :: "(nat list, nat, bool, bool, nat, unit) sql_api" where
  "sample_sql_api =
     \<lparr>sq_uuid4 = (\<lambda>vs. (Inr (show_nat (length vs)), vs)), sq_into_view = (\<lambda>d. sret d),
      sq_register_table = (\<lambda>nm v vs. if nm = view_name_of (show_nat (length vs)) then (Inr (), vs @ [v])
        else (Inl (err ValueError ''name''), vs)),
      sq_scalar = Inr, sq_str = (\<lambda>b. Inr (if b then ''True'' else ''False'')),
      sq_sql_with_options = (\<lambda>query options scalars strs vs. (Inr (length strs), vs))\<rparr>"

lemma view_name_of_show_nat: "view_name_of (show_nat n) = ''view_'' @ show_nat n"
proof -
  have "map (\<lambda>c. if c = CHR ''-'' then CHR ''_'' else c) (show_nat n) = show_nat n"
    by (rule map_idI) (use show_nat_digits [of n] in \<open>auto simp: list_all_iff dest: is_digit_not_special\<close>)
  then show ?thesis by (simp add: view_name_of_def)
qed

lemma sample_views_lawful: "lawful_views sample_sql_api sample_tables id"
proof -
  have fresh: "sample_tables vs (view_name_of (show_nat (length vs))) = None" for vs
    by (auto simp: sample_tables_def map_of_eq_None_iff view_name_of_show_nat show_nat_inject dest!: set_zip_leftD)
  have "sample_tables (vs @ [v]) = [view_name_of (show_nat (length vs)) \<mapsto> v] ++ sample_tables vs" for vs v
    by (simp add: sample_tables_def)
  then have "sample_tables (vs @ [v]) = (sample_tables vs)(view_name_of (show_nat (length vs)) \<mapsto> v)" for vs v
    using fresh [of vs] by (auto simp: map_add_def fun_eq_iff split: option.splits)
  with fresh show ?thesis
    by (simp add: lawful_views_def sample_sql_api_def sret_def)
qed

theorem sql_parameters_stand_for_arguments_witness:
  "\<exists>strs. list_all2 (\<lambda>(nm, v) (nm', s). nm' = nm \<and> stands_for sample_sql_api id (sample_tables [5])
     (sample_tables [5, 7]) v s) [(''t'', FrameArg 7), (''flag'', OtherArg True)] strs"
proof -
  have run: "ctx_sql sample_sql_api ''SELECT'' None None [(''t'', FrameArg 7), (''flag'', OtherArg True)] [5] = (Inr 2, [5, 7])"
    by (simp add: ctx_sql_def value_to_string_def sample_sql_api_def sbind_apply sret_def)
  from sql_parameters_stand_for_arguments [OF sample_views_lawful run] obtain scalars strs st1 where
      "sq_sql_with_options sample_sql_api ''SELECT'' None scalars strs st1 = (Inr 2, [5, 7])"
      and stand: "list_all2 (\<lambda>(nm, v) (nm', s). nm' = nm \<and> stands_for sample_sql_api id (sample_tables [5]) (sample_tables st1) v s)
        [(''t'', FrameArg 7), (''flag'', OtherArg True)] strs"
    by blast
  then have "st1 = [5, 7]" by (simp add: sample_sql_api_def)
  with stand show ?thesis by blast
qed

end
