(* ===== verification/Datafusion_Functions.thy ===== *)
theory Datafusion_Functions
  imports Datafusion_Context
begin

text \<open>
  The functions on expressions that do more than call their native counterpart (\<open>functions/__init__.py\<close>,
  \<open>functions/spark.py\<close>): coercion of arguments, optional arguments, lambdas, maps, metadata, aggregates and window
  functions. The native functions are one parameter, a function from a name, positional and keyword arguments to an
  expression. A deprecation warning for an expression in place of a literal is part of the result, as in
  \<open>Datafusion_Context\<close>.
\<close>

section \<open>Native calls\<close>

datatype null_treatment = RespectNulls | IgnoreNulls

text \<open>An argument of a native function. A native null treatment is not the member of the Python enumeration around it.\<close>

datatype ('r, 's, 'q) native_arg =
    NExpr 'r
  | NNone
  | NExprs "'r list"
  | NSort 's
  | NSorts "'s list"
  | NBool bool
  | NInt int
  | NText string
  | NValue 'q
  | NTreatment null_treatment
  | NTreatmentMember null_treatment

record ('r, 's, 'x, 'q) fn_api =
  fa_call :: "string \<Rightarrow> ('r, 's, 'q) native_arg list \<Rightarrow> (string \<times> ('r, 's, 'q) native_arg) list \<Rightarrow> 'r result"
  fa_scalar :: "'x option \<Rightarrow> 'q result"
  fa_int32_literal :: "int \<Rightarrow> 'r result"
  fa_zero_float :: "'r result"
  fa_lambda_var :: "string \<Rightarrow> 'r"
  fa_lambda :: "string list \<Rightarrow> 'r \<Rightarrow> 'r result"

definition opt_arg :: "'r option \<Rightarrow> ('r, 's, 'q) native_arg" where
  "opt_arg v = (case v of Some r \<Rightarrow> NExpr r | None \<Rightarrow> NNone)"

definition exprs_arg :: "'r list option \<Rightarrow> ('r, 's, 'q) native_arg" where
  "exprs_arg v = (case v of Some rs \<Rightarrow> NExprs rs | None \<Rightarrow> NNone)"

definition sorts_arg :: "'s list option \<Rightarrow> ('r, 's, 'q) native_arg" where
  "sorts_arg v = (case v of Some ss \<Rightarrow> NSorts ss | None \<Rightarrow> NNone)"

text \<open>\<open>_warn_if_expr_for_literal_arg\<close>: whether it warns.\<close>

definition warn_if_expr_for_literal_arg :: "('r, 's, 'o) pyval \<Rightarrow> bool" where
  "warn_if_expr_for_literal_arg v = (case v of PExpr _ \<Rightarrow> True | _ \<Rightarrow> False)"

text \<open>The common shape: some expressions, arguments that are coerced, and optional ones that are coerced or \<open>None\<close>.\<close>

definition call_coerced ::
  "('r, 's, 'o, 'u) expr_api \<Rightarrow> ('r, 's, 'x, 'q) fn_api \<Rightarrow> string \<Rightarrow> 'r list \<Rightarrow> ('r, 's, 'o) pyval list \<Rightarrow> ('r, 's, 'o) pyval list
     \<Rightarrow> 'r result" where
  "call_coerced api fa nm es vs opts =
     rbind (coerce_to_expr_list api vs) (\<lambda>rs.
     rbind (traverse (coerce_to_expr_or_none api) opts) (\<lambda>os.
     fa_call fa nm (map NExpr es @ map NExpr rs @ map opt_arg os) []))"

section \<open>Text and time\<close>

definition fn_encode :: "('r, 's, 'o, 'u) expr_api \<Rightarrow> ('r, 's, 'x, 'q) fn_api \<Rightarrow> 'r \<Rightarrow> ('r, 's, 'o) pyval \<Rightarrow> (bool \<times> 'r) result" where
  "fn_encode api fa e encoding =
     rbind (call_coerced api fa ''encode'' [e] [encoding] []) (\<lambda>r. Inr (warn_if_expr_for_literal_arg encoding, r))"

definition fn_decode :: "('r, 's, 'o, 'u) expr_api \<Rightarrow> ('r, 's, 'x, 'q) fn_api \<Rightarrow> 'r \<Rightarrow> ('r, 's, 'o) pyval \<Rightarrow> (bool \<times> 'r) result" where
  "fn_decode api fa e encoding =
     rbind (call_coerced api fa ''decode'' [e] [encoding] []) (\<lambda>r. Inr (warn_if_expr_for_literal_arg encoding, r))"

definition fn_digest :: "('r, 's, 'o, 'u) expr_api \<Rightarrow> ('r, 's, 'x, 'q) fn_api \<Rightarrow> 'r \<Rightarrow> ('r, 's, 'o) pyval \<Rightarrow> (bool \<times> 'r) result" where
  "fn_digest api fa e meth =
     rbind (call_coerced api fa ''digest'' [e] [meth] []) (\<lambda>r. Inr (warn_if_expr_for_literal_arg meth, r))"

definition pad_characters :: "('r, 's, 'o) pyval \<Rightarrow> ('r, 's, 'o) pyval" where
  "pad_characters v = (case v of PNone \<Rightarrow> PStr '' '' | _ \<Rightarrow> v)"

definition fn_lpad ::
  "('r, 's, 'o, 'u) expr_api \<Rightarrow> ('r, 's, 'x, 'q) fn_api \<Rightarrow> 'r \<Rightarrow> ('r, 's, 'o) pyval \<Rightarrow> ('r, 's, 'o) pyval \<Rightarrow> 'r result" where
  "fn_lpad api fa string count characters = call_coerced api fa ''lpad'' [string] [count, pad_characters characters] []"

definition fn_rpad ::
  "('r, 's, 'o, 'u) expr_api \<Rightarrow> ('r, 's, 'x, 'q) fn_api \<Rightarrow> 'r \<Rightarrow> ('r, 's, 'o) pyval \<Rightarrow> ('r, 's, 'o) pyval \<Rightarrow> 'r result" where
  "fn_rpad api fa string count characters = call_coerced api fa ''rpad'' [string] [count, pad_characters characters] []"

definition fn_overlay ::
  "('r, 's, 'o, 'u) expr_api \<Rightarrow> ('r, 's, 'x, 'q) fn_api \<Rightarrow> 'r \<Rightarrow> ('r, 's, 'o) pyval \<Rightarrow> ('r, 's, 'o) pyval \<Rightarrow> ('r, 's, 'o) pyval
     \<Rightarrow> 'r result" where
  "fn_overlay api fa string substring start len =
     (case len of
        PNone \<Rightarrow> call_coerced api fa ''overlay'' [string] [substring, start] []
      | _ \<Rightarrow> call_coerced api fa ''overlay'' [string] [substring, start, len] [])"

definition fn_replace ::
  "('r, 's, 'o, 'u) expr_api \<Rightarrow> ('r, 's, 'x, 'q) fn_api \<Rightarrow> 'r \<Rightarrow> ('r, 's, 'o) pyval \<Rightarrow> ('r, 's, 'o) pyval \<Rightarrow> 'r result" where
  "fn_replace api fa string from_val to_val = call_coerced api fa ''replace'' [string] [from_val, to_val] []"

definition fn_translate ::
  "('r, 's, 'o, 'u) expr_api \<Rightarrow> ('r, 's, 'x, 'q) fn_api \<Rightarrow> 'r \<Rightarrow> ('r, 's, 'o) pyval \<Rightarrow> ('r, 's, 'o) pyval \<Rightarrow> 'r result" where
  "fn_translate api fa string from_val to_val = call_coerced api fa ''translate'' [string] [from_val, to_val] []"

definition fn_split_part ::
  "('r, 's, 'o, 'u) expr_api \<Rightarrow> ('r, 's, 'x, 'q) fn_api \<Rightarrow> 'r \<Rightarrow> ('r, 's, 'o) pyval \<Rightarrow> ('r, 's, 'o) pyval \<Rightarrow> 'r result" where
  "fn_split_part api fa string delimiter index = call_coerced api fa ''split_part'' [string] [delimiter, index] []"

definition fn_substr_index ::
  "('r, 's, 'o, 'u) expr_api \<Rightarrow> ('r, 's, 'x, 'q) fn_api \<Rightarrow> 'r \<Rightarrow> ('r, 's, 'o) pyval \<Rightarrow> ('r, 's, 'o) pyval \<Rightarrow> 'r result" where
  "fn_substr_index api fa string delimiter count = call_coerced api fa ''substr_index'' [string] [delimiter, count] []"

definition fn_substring ::
  "('r, 's, 'o, 'u) expr_api \<Rightarrow> ('r, 's, 'x, 'q) fn_api \<Rightarrow> 'r \<Rightarrow> ('r, 's, 'o) pyval \<Rightarrow> ('r, 's, 'o) pyval \<Rightarrow> 'r result" where
  "fn_substring api fa string position len = call_coerced api fa ''substring'' [string] [position, len] []"

definition fn_regexp_like ::
  "('r, 's, 'o, 'u) expr_api \<Rightarrow> ('r, 's, 'x, 'q) fn_api \<Rightarrow> 'r \<Rightarrow> ('r, 's, 'o) pyval \<Rightarrow> ('r, 's, 'o) pyval \<Rightarrow> 'r result" where
  "fn_regexp_like api fa string regex flags = call_coerced api fa ''regexp_like'' [string] [regex] [flags]"

definition fn_regexp_match ::
  "('r, 's, 'o, 'u) expr_api \<Rightarrow> ('r, 's, 'x, 'q) fn_api \<Rightarrow> 'r \<Rightarrow> ('r, 's, 'o) pyval \<Rightarrow> ('r, 's, 'o) pyval \<Rightarrow> 'r result" where
  "fn_regexp_match api fa string regex flags = call_coerced api fa ''regexp_match'' [string] [regex] [flags]"

definition fn_regexp_replace ::
  "('r, 's, 'o, 'u) expr_api \<Rightarrow> ('r, 's, 'x, 'q) fn_api \<Rightarrow> 'r \<Rightarrow> ('r, 's, 'o) pyval \<Rightarrow> ('r, 's, 'o) pyval \<Rightarrow> ('r, 's, 'o) pyval
     \<Rightarrow> 'r result" where
  "fn_regexp_replace api fa string pattern replacement flags =
     call_coerced api fa ''regexp_replace'' [string] [pattern, replacement] [flags]"

definition fn_regexp_count ::
  "('r, 's, 'o, 'u) expr_api \<Rightarrow> ('r, 's, 'x, 'q) fn_api \<Rightarrow> 'r \<Rightarrow> ('r, 's, 'o) pyval \<Rightarrow> ('r, 's, 'o) pyval \<Rightarrow> ('r, 's, 'o) pyval
     \<Rightarrow> 'r result" where
  "fn_regexp_count api fa string pattern start flags =
     call_coerced api fa ''regexp_count'' [string] [pattern] [start, flags]"

definition fn_regexp_instr ::
  "('r, 's, 'o, 'u) expr_api \<Rightarrow> ('r, 's, 'x, 'q) fn_api \<Rightarrow> 'r \<Rightarrow> ('r, 's, 'o) pyval \<Rightarrow> ('r, 's, 'o) pyval \<Rightarrow> ('r, 's, 'o) pyval
     \<Rightarrow> ('r, 's, 'o) pyval \<Rightarrow> ('r, 's, 'o) pyval \<Rightarrow> 'r result" where
  "fn_regexp_instr api fa vals regex start n flags sub_expr =
     call_coerced api fa ''regexp_instr'' [vals] [regex] [start, n, flags, sub_expr]"

definition fn_to_timestamp ::
  "('r, 's, 'o, 'u) expr_api \<Rightarrow> ('r, 's, 'x, 'q) fn_api \<Rightarrow> 'r \<Rightarrow> ('r, 's, 'o) pyval list \<Rightarrow> 'r result" where
  "fn_to_timestamp api fa arg formatters = call_coerced api fa ''to_timestamp'' [arg] formatters []"

definition fn_to_timestamp_millis ::
  "('r, 's, 'o, 'u) expr_api \<Rightarrow> ('r, 's, 'x, 'q) fn_api \<Rightarrow> 'r \<Rightarrow> ('r, 's, 'o) pyval list \<Rightarrow> 'r result" where
  "fn_to_timestamp_millis api fa arg formatters = call_coerced api fa ''to_timestamp_millis'' [arg] formatters []"

definition fn_to_timestamp_micros ::
  "('r, 's, 'o, 'u) expr_api \<Rightarrow> ('r, 's, 'x, 'q) fn_api \<Rightarrow> 'r \<Rightarrow> ('r, 's, 'o) pyval list \<Rightarrow> 'r result" where
  "fn_to_timestamp_micros api fa arg formatters = call_coerced api fa ''to_timestamp_micros'' [arg] formatters []"

definition fn_to_timestamp_nanos ::
  "('r, 's, 'o, 'u) expr_api \<Rightarrow> ('r, 's, 'x, 'q) fn_api \<Rightarrow> 'r \<Rightarrow> ('r, 's, 'o) pyval list \<Rightarrow> 'r result" where
  "fn_to_timestamp_nanos api fa arg formatters = call_coerced api fa ''to_timestamp_nanos'' [arg] formatters []"

definition fn_to_timestamp_seconds ::
  "('r, 's, 'o, 'u) expr_api \<Rightarrow> ('r, 's, 'x, 'q) fn_api \<Rightarrow> 'r \<Rightarrow> ('r, 's, 'o) pyval list \<Rightarrow> 'r result" where
  "fn_to_timestamp_seconds api fa arg formatters = call_coerced api fa ''to_timestamp_seconds'' [arg] formatters []"

definition fn_to_unixtime ::
  "('r, 's, 'o, 'u) expr_api \<Rightarrow> ('r, 's, 'x, 'q) fn_api \<Rightarrow> 'r \<Rightarrow> ('r, 's, 'o) pyval list \<Rightarrow> 'r result" where
  "fn_to_unixtime api fa arg formatters = call_coerced api fa ''to_unixtime'' [arg] formatters []"

definition fn_date_part ::
  "('r, 's, 'o, 'u) expr_api \<Rightarrow> ('r, 's, 'x, 'q) fn_api \<Rightarrow> ('r, 's, 'o) pyval \<Rightarrow> 'r \<Rightarrow> (bool \<times> 'r) result" where
  "fn_date_part api fa part date =
     rbind (coerce_to_expr api part) (\<lambda>p.
     rbind (fa_call fa ''date_part'' [NExpr p, NExpr date] []) (\<lambda>r. Inr (warn_if_expr_for_literal_arg part, r)))"

definition fn_date_trunc ::
  "('r, 's, 'o, 'u) expr_api \<Rightarrow> ('r, 's, 'x, 'q) fn_api \<Rightarrow> ('r, 's, 'o) pyval \<Rightarrow> 'r \<Rightarrow> (bool \<times> 'r) result" where
  "fn_date_trunc api fa part date =
     rbind (coerce_to_expr api part) (\<lambda>p.
     rbind (fa_call fa ''date_trunc'' [NExpr p, NExpr date] []) (\<lambda>r. Inr (warn_if_expr_for_literal_arg part, r)))"

definition fn_make_date ::
  "('r, 's, 'o, 'u) expr_api \<Rightarrow> ('r, 's, 'x, 'q) fn_api \<Rightarrow> ('r, 's, 'o) pyval \<Rightarrow> ('r, 's, 'o) pyval \<Rightarrow> ('r, 's, 'o) pyval
     \<Rightarrow> 'r result" where
  "fn_make_date api fa year month day = call_coerced api fa ''make_date'' [] [year, month, day] []"

definition fn_make_time ::
  "('r, 's, 'o, 'u) expr_api \<Rightarrow> ('r, 's, 'x, 'q) fn_api \<Rightarrow> ('r, 's, 'o) pyval \<Rightarrow> ('r, 's, 'o) pyval \<Rightarrow> ('r, 's, 'o) pyval
     \<Rightarrow> 'r result" where
  "fn_make_time api fa hour minute second = call_coerced api fa ''make_time'' [] [hour, minute, second] []"

definition fn_trunc ::
  "('r, 's, 'o, 'u) expr_api \<Rightarrow> ('r, 's, 'x, 'q) fn_api \<Rightarrow> 'r \<Rightarrow> ('r, 's, 'o) pyval \<Rightarrow> 'r result" where
  "fn_trunc api fa num precision =
     (case precision of
        PNone \<Rightarrow> fa_call fa ''trunc'' [NExpr num] []
      | _ \<Rightarrow> call_coerced api fa ''trunc'' [num] [precision] [])"

section \<open>Names, casts and metadata\<close>

text \<open>\<open>Expr.string_literal(v) if isinstance(v, str) else v\<close>, then its attribute \<open>expr\<close>.\<close>

definition text_or_self :: "('r, 's, 'o, 'u) expr_api \<Rightarrow> ('r, 's, 'o) pyval \<Rightarrow> ('r, 's, 'o) pyval result" where
  "text_or_self api v = (case v of PStr _ \<Rightarrow> rbind (expr_string_literal api v) (\<lambda>r. Inr (PExpr r)) | _ \<Rightarrow> Inr v)"

definition text_exprs :: "('r, 's, 'o, 'u) expr_api \<Rightarrow> ('r, 's, 'o) pyval list \<Rightarrow> 'r list result" where
  "text_exprs api vs = rbind (traverse (text_or_self api) vs) (\<lambda>resolved. traverse (expr_attribute api) resolved)"

definition fn_date_bin ::
  "('r, 's, 'o, 'u) expr_api \<Rightarrow> ('r, 's, 'x, 'q) fn_api \<Rightarrow> ('r, 's, 'o) pyval \<Rightarrow> ('r, 's, 'o) pyval \<Rightarrow> ('r, 's, 'o) pyval
     \<Rightarrow> 'r result" where
  "fn_date_bin api fa stride source origin =
     rbind (text_exprs api [stride, source, origin]) (\<lambda>rs. fa_call fa ''date_bin'' (map NExpr rs) [])"

definition fn_union_extract ::
  "('r, 's, 'o, 'u) expr_api \<Rightarrow> ('r, 's, 'x, 'q) fn_api \<Rightarrow> 'r \<Rightarrow> ('r, 's, 'o) pyval \<Rightarrow> 'r result" where
  "fn_union_extract api fa union_expr field_name =
     rbind (text_exprs api [field_name]) (\<lambda>rs. fa_call fa ''union_extract'' (map NExpr (union_expr # rs)) [])"

definition fn_get_field ::
  "('r, 's, 'o, 'u) expr_api \<Rightarrow> ('r, 's, 'x, 'q) fn_api \<Rightarrow> 'r \<Rightarrow> ('r, 's, 'o) pyval list \<Rightarrow> 'r result" where
  "fn_get_field api fa e names =
     (if names = [] then Inl (err ValueError ''get_field requires at least one field name'')
      else rbind (text_exprs api names) (\<lambda>rs. fa_call fa ''get_field'' [NExpr e, NExprs rs] []))"

definition fn_arrow_metadata ::
  "('r, 's, 'o, 'u) expr_api \<Rightarrow> ('r, 's, 'x, 'q) fn_api \<Rightarrow> 'r \<Rightarrow> ('r, 's, 'o) pyval \<Rightarrow> (bool \<times> 'r) result" where
  "fn_arrow_metadata api fa e key =
     (case key of
        PNone \<Rightarrow> rbind (fa_call fa ''arrow_metadata'' [NExpr e] []) (\<lambda>r. Inr (False, r))
      | _ \<Rightarrow> rbind (text_exprs api [key]) (\<lambda>rs.
             rbind (fa_call fa ''arrow_metadata'' (map NExpr (e # rs)) []) (\<lambda>r. Inr (warn_if_expr_for_literal_arg key, r))))"

text \<open>The type of a cast: one of PyArrow, or a value.\<close>

datatype ('u, 'v) cast_arg = CastType 'u | CastValue 'v

definition fn_arrow_cast ::
  "('r, 's, 'o, 'u) expr_api \<Rightarrow> ('r, 's, 'x, 'q) fn_api \<Rightarrow> 'r \<Rightarrow> ('u, ('r, 's, 'o) pyval) cast_arg \<Rightarrow> (bool \<times> 'r) result" where
  "fn_arrow_cast api fa e data_type =
     (case data_type of
        CastType t \<Rightarrow> rbind (expr_cast api e (ArrowTarget t)) (\<lambda>r. Inr (False, r))
      | CastValue v \<Rightarrow> rbind (text_exprs api [v]) (\<lambda>rs.
          rbind (fa_call fa ''arrow_cast'' (map NExpr (e # rs)) []) (\<lambda>r. Inr (warn_if_expr_for_literal_arg v, r))))"

definition fn_arrow_try_cast ::
  "('r, 's, 'o, 'u) expr_api \<Rightarrow> ('r, 's, 'x, 'q) fn_api \<Rightarrow> 'r \<Rightarrow> ('u, ('r, 's, 'o) pyval) cast_arg \<Rightarrow> (bool \<times> 'r) result" where
  "fn_arrow_try_cast api fa e data_type =
     (case data_type of
        CastType t \<Rightarrow> rbind (expr_try_cast api e (ArrowTarget t)) (\<lambda>r. Inr (False, r))
      | CastValue v \<Rightarrow> rbind (text_exprs api [v]) (\<lambda>rs.
          rbind (fa_call fa ''arrow_try_cast'' (map NExpr (e # rs)) []) (\<lambda>r. Inr (warn_if_expr_for_literal_arg v, r))))"

fun metadata_args :: "('r, 's, 'o, 'u) expr_api \<Rightarrow> (string \<times> string) list \<Rightarrow> 'r list result" where
  "metadata_args api [] = Inr []"
| "metadata_args api ((k, v) # items) =
     rbind (raise_if (k = []) (err ValueError ''with_metadata keys must be non-empty strings'')) (\<lambda>_.
     rbind (expr_string_literal api (PStr k)) (\<lambda>kr.
     rbind (expr_string_literal api (PStr v)) (\<lambda>vr.
     rbind (metadata_args api items) (\<lambda>rest. Inr (kr # vr # rest)))))"

definition fn_with_metadata ::
  "('r, 's, 'o, 'u) expr_api \<Rightarrow> ('r, 's, 'x, 'q) fn_api \<Rightarrow> 'r \<Rightarrow> (string \<times> string) list \<Rightarrow> 'r result" where
  "fn_with_metadata api fa e metadata =
     (if metadata = [] then Inr e
      else rbind (metadata_args api metadata) (\<lambda>rs. fa_call fa ''with_metadata'' (map NExpr (e # rs)) []))"

definition fn_named_struct ::
  "('r, 's, 'o, 'u) expr_api \<Rightarrow> ('r, 's, 'x, 'q) fn_api \<Rightarrow> (string \<times> 'r) list \<Rightarrow> 'r result" where
  "fn_named_struct api fa name_pairs =
     rbind (traverse (\<lambda>(nm, e). rbind (expr_string_literal api (PStr nm)) (\<lambda>r. Inr [r, e])) name_pairs) (\<lambda>pairs.
     fa_call fa ''named_struct'' (map NExpr (concat pairs)) [])"

section \<open>Arrays, maps and lambdas\<close>

definition fn_array_sort :: "('r, 's, 'o, 'u) expr_api \<Rightarrow> ('r, 's, 'x, 'q) fn_api \<Rightarrow> 'r \<Rightarrow> bool \<Rightarrow> bool \<Rightarrow> 'r result" where
  "fn_array_sort api fa array descending null_first =
     rbind (expr_string_literal api (PStr (if descending then ''DESC'' else ''ASC''))) (\<lambda>desc.
     rbind (expr_string_literal api (PStr (if null_first then ''NULLS FIRST'' else ''NULLS LAST''))) (\<lambda>nulls_first.
     fa_call fa ''array_sort'' [NExpr array, NExpr desc, NExpr nulls_first] []))"

definition fn_array_slice ::
  "('r, 's, 'o, 'u) expr_api \<Rightarrow> ('r, 's, 'x, 'q) fn_api \<Rightarrow> 'r \<Rightarrow> ('r, 's, 'o) pyval \<Rightarrow> ('r, 's, 'o) pyval \<Rightarrow> ('r, 's, 'o) pyval
     \<Rightarrow> 'r result" where
  "fn_array_slice api fa array begin_at end_at stride = call_coerced api fa ''array_slice'' [array] [begin_at, end_at] [stride]"

definition fn_string_to_array ::
  "('r, 's, 'o, 'u) expr_api \<Rightarrow> ('r, 's, 'x, 'q) fn_api \<Rightarrow> 'r \<Rightarrow> ('r, 's, 'o) pyval \<Rightarrow> ('r, 's, 'o) pyval \<Rightarrow> 'r result" where
  "fn_string_to_array api fa string delimiter null_string =
     call_coerced api fa ''string_to_array'' [string] [delimiter] [null_string]"

text \<open>An argument of \<open>make_map\<close>: a dictionary (its items, and itself as a value), a list, or another value.\<close>

datatype ('r, 's, 'o) map_arg =
    MapDict "(('r, 's, 'o) pyval \<times> ('r, 's, 'o) pyval) list" "('r, 's, 'o) pyval"
  | MapList "('r, 's, 'o) pyval list"
  | MapValue "('r, 's, 'o) pyval"

fun map_arg_value :: "('r, 's, 'o) map_arg \<Rightarrow> ('r, 's, 'o) pyval" where
  "map_arg_value (MapDict _ v) = v"
| "map_arg_value (MapList vs) = PIter vs"
| "map_arg_value (MapValue v) = v"

text \<open>The slice \<open>xs[0::2]\<close>; \<open>xs[1::2]\<close> is that of \<open>xs[1:]\<close>.\<close>

fun every_other :: "'a list \<Rightarrow> 'a list" where
  "every_other [] = []"
| "every_other [x] = [x]"
| "every_other (x # y # xs) = x # every_other xs"

definition map_keys_values ::
  "('r, 's, 'o) map_arg list \<Rightarrow> (('r, 's, 'o) pyval list \<times> ('r, 's, 'o) pyval list) result" where
  "map_keys_values args =
     (case args of
        [MapDict items _] \<Rightarrow> Inr (map fst items, map snd items)
      | [MapList ks, MapList vs] \<Rightarrow>
          if length ks \<noteq> length vs then Inl (err ValueError ''make_map requires key and value lists to be the same length'')
          else Inr (ks, vs)
      | _ \<Rightarrow>
          if 2 \<le> length args \<and> length args mod 2 = 0
          then Inr (map map_arg_value (every_other args), map map_arg_value (every_other (tl args)))
          else Inl (err ValueError ''make_map expects a dict, two lists, or an even number of key-value arguments''))"

definition fn_make_map ::
  "('r, 's, 'o, 'u) expr_api \<Rightarrow> ('r, 's, 'x, 'q) fn_api \<Rightarrow> ('r, 's, 'o) map_arg list \<Rightarrow> 'r result" where
  "fn_make_map api fa args =
     rbind (map_keys_values args) (\<lambda>(key_list, value_list).
     rbind (traverse (coerce_to_expr api) key_list) (\<lambda>key_exprs.
     rbind (traverse (coerce_to_expr api) value_list) (\<lambda>val_exprs.
     fa_call fa ''make_map'' [NExprs key_exprs, NExprs val_exprs] [])))"

text \<open>A lambda: an expression, a function with its parameter names, or something that cannot be called.\<close>

datatype ('r, 's, 'o) lambda_arg =
    LambdaExpr 'r
  | LambdaFun "string list" "'r list \<Rightarrow> ('r, 's, 'o) pyval result"
  | LambdaOther string

definition to_lambda :: "('r, 's, 'o, 'u) expr_api \<Rightarrow> ('r, 's, 'x, 'q) fn_api \<Rightarrow> ('r, 's, 'o) lambda_arg \<Rightarrow> 'r result" where
  "to_lambda api fa f =
     (case f of
        LambdaExpr r \<Rightarrow> Inr r
      | LambdaOther type_name \<Rightarrow> Inl (err TypeError (''expected an Expr or callable, got '' @ type_name))
      | LambdaFun params fn \<Rightarrow>
          if params = [] then Inl (err ValueError ''lambda callable must accept at least one parameter'')
          else rbind (fn (map (fa_lambda_var fa) params)) (\<lambda>v. rbind (coerce_to_expr api v) (fa_lambda fa params)))"

definition fn_array_transform ::
  "('r, 's, 'o, 'u) expr_api \<Rightarrow> ('r, 's, 'x, 'q) fn_api \<Rightarrow> 'r \<Rightarrow> ('r, 's, 'o) lambda_arg \<Rightarrow> 'r result" where
  "fn_array_transform api fa array f = rbind (to_lambda api fa f) (\<lambda>l. fa_call fa ''array_transform'' [NExpr array, NExpr l] [])"

definition fn_array_any_match ::
  "('r, 's, 'o, 'u) expr_api \<Rightarrow> ('r, 's, 'x, 'q) fn_api \<Rightarrow> 'r \<Rightarrow> ('r, 's, 'o) lambda_arg \<Rightarrow> 'r result" where
  "fn_array_any_match api fa array f = rbind (to_lambda api fa f) (\<lambda>l. fa_call fa ''array_any_match'' [NExpr array, NExpr l] [])"

definition fn_array_filter ::
  "('r, 's, 'o, 'u) expr_api \<Rightarrow> ('r, 's, 'x, 'q) fn_api \<Rightarrow> 'r \<Rightarrow> ('r, 's, 'o) lambda_arg \<Rightarrow> 'r result" where
  "fn_array_filter api fa array f = rbind (to_lambda api fa f) (\<lambda>l. fa_call fa ''array_filter'' [NExpr array, NExpr l] [])"

section \<open>Aggregates\<close>

text \<open>\<open>filter.expr if filter is not None else None\<close>, as a keyword argument.\<close>

definition filter_kw ::
  "'r option \<Rightarrow> string \<times> ('r, 's, 'q) native_arg" where
  "filter_kw filt =
     (''filter'', opt_arg filt)"

text \<open>The aggregates with the keyword \<open>distinct\<close>. Its argument is passed on as it is; \<open>mean\<close> relies on that.\<close>

definition distinct_aggregate ::
  "('r, 's, 'x, 'q) fn_api \<Rightarrow> string \<Rightarrow> 'r \<Rightarrow> ('r, 's, 'q) native_arg \<Rightarrow> 'r option \<Rightarrow> 'r result" where
  "distinct_aggregate fa nm e distinct_rows filt = fa_call fa nm [NExpr e] [(''distinct'', distinct_rows), filter_kw filt]"

definition fn_grouping ::
  "('r, 's, 'x, 'q) fn_api \<Rightarrow> 'r \<Rightarrow> ('r, 's, 'q) native_arg \<Rightarrow> 'r option \<Rightarrow> 'r result" where
  "fn_grouping fa e distinct_rows filt = distinct_aggregate fa ''grouping'' e distinct_rows filt"

definition fn_avg ::
  "('r, 's, 'x, 'q) fn_api \<Rightarrow> 'r \<Rightarrow> ('r, 's, 'q) native_arg \<Rightarrow> 'r option \<Rightarrow> 'r result" where
  "fn_avg fa e distinct_rows filt = distinct_aggregate fa ''avg'' e distinct_rows filt"

definition fn_median ::
  "('r, 's, 'x, 'q) fn_api \<Rightarrow> 'r \<Rightarrow> ('r, 's, 'q) native_arg \<Rightarrow> 'r option \<Rightarrow> 'r result" where
  "fn_median fa e distinct_rows filt = distinct_aggregate fa ''median'' e distinct_rows filt"

definition fn_sum ::
  "('r, 's, 'x, 'q) fn_api \<Rightarrow> 'r \<Rightarrow> ('r, 's, 'q) native_arg \<Rightarrow> 'r option \<Rightarrow> 'r result" where
  "fn_sum fa e distinct_rows filt = distinct_aggregate fa ''sum'' e distinct_rows filt"

definition fn_bit_xor ::
  "('r, 's, 'x, 'q) fn_api \<Rightarrow> 'r \<Rightarrow> ('r, 's, 'q) native_arg \<Rightarrow> 'r option \<Rightarrow> 'r result" where
  "fn_bit_xor fa e distinct_rows filt = distinct_aggregate fa ''bit_xor'' e distinct_rows filt"

text \<open>\<open>mean\<close> calls \<open>avg(expression, filter)\<close>, whose second parameter is \<open>distinct\<close>.\<close>

definition fn_mean ::
  "('r, 's, 'x, 'q) fn_api \<Rightarrow> 'r \<Rightarrow> 'r option \<Rightarrow> 'r result" where
  "fn_mean fa e filt = fn_avg fa e (opt_arg filt) None"

text \<open>The aggregates of one and of two expressions with a filter only.\<close>

definition fn_approx_distinct ::
  "('r, 's, 'x, 'q) fn_api \<Rightarrow> 'r \<Rightarrow> 'r option \<Rightarrow> 'r result" where
  "fn_approx_distinct fa e filt = fa_call fa ''approx_distinct'' [NExpr e] [filter_kw filt]"

definition fn_approx_median ::
  "('r, 's, 'x, 'q) fn_api \<Rightarrow> 'r \<Rightarrow> 'r option \<Rightarrow> 'r result" where
  "fn_approx_median fa e filt = fa_call fa ''approx_median'' [NExpr e] [filter_kw filt]"

definition fn_max ::
  "('r, 's, 'x, 'q) fn_api \<Rightarrow> 'r \<Rightarrow> 'r option \<Rightarrow> 'r result" where
  "fn_max fa e filt = fa_call fa ''max'' [NExpr e] [filter_kw filt]"

definition fn_min ::
  "('r, 's, 'x, 'q) fn_api \<Rightarrow> 'r \<Rightarrow> 'r option \<Rightarrow> 'r result" where
  "fn_min fa e filt = fa_call fa ''min'' [NExpr e] [filter_kw filt]"

definition fn_stddev ::
  "('r, 's, 'x, 'q) fn_api \<Rightarrow> 'r \<Rightarrow> 'r option \<Rightarrow> 'r result" where
  "fn_stddev fa e filt = fa_call fa ''stddev'' [NExpr e] [filter_kw filt]"

definition fn_stddev_pop ::
  "('r, 's, 'x, 'q) fn_api \<Rightarrow> 'r \<Rightarrow> 'r option \<Rightarrow> 'r result" where
  "fn_stddev_pop fa e filt = fa_call fa ''stddev_pop'' [NExpr e] [filter_kw filt]"

definition fn_var_pop ::
  "('r, 's, 'x, 'q) fn_api \<Rightarrow> 'r \<Rightarrow> 'r option \<Rightarrow> 'r result" where
  "fn_var_pop fa e filt = fa_call fa ''var_pop'' [NExpr e] [filter_kw filt]"

definition fn_var_samp ::
  "('r, 's, 'x, 'q) fn_api \<Rightarrow> 'r \<Rightarrow> 'r option \<Rightarrow> 'r result" where
  "fn_var_samp fa e filt = fa_call fa ''var_sample'' [NExpr e] [filter_kw filt]"

definition fn_bit_and ::
  "('r, 's, 'x, 'q) fn_api \<Rightarrow> 'r \<Rightarrow> 'r option \<Rightarrow> 'r result" where
  "fn_bit_and fa e filt = fa_call fa ''bit_and'' [NExpr e] [filter_kw filt]"

definition fn_bit_or ::
  "('r, 's, 'x, 'q) fn_api \<Rightarrow> 'r \<Rightarrow> 'r option \<Rightarrow> 'r result" where
  "fn_bit_or fa e filt = fa_call fa ''bit_or'' [NExpr e] [filter_kw filt]"

definition fn_bool_and ::
  "('r, 's, 'x, 'q) fn_api \<Rightarrow> 'r \<Rightarrow> 'r option \<Rightarrow> 'r result" where
  "fn_bool_and fa e filt = fa_call fa ''bool_and'' [NExpr e] [filter_kw filt]"

definition fn_bool_or ::
  "('r, 's, 'x, 'q) fn_api \<Rightarrow> 'r \<Rightarrow> 'r option \<Rightarrow> 'r result" where
  "fn_bool_or fa e filt = fa_call fa ''bool_or'' [NExpr e] [filter_kw filt]"

definition fn_corr ::
  "('r, 's, 'x, 'q) fn_api \<Rightarrow> 'r \<Rightarrow> 'r \<Rightarrow> 'r option \<Rightarrow> 'r result" where
  "fn_corr fa y x filt = fa_call fa ''corr'' [NExpr y, NExpr x] [filter_kw filt]"

definition fn_covar_pop ::
  "('r, 's, 'x, 'q) fn_api \<Rightarrow> 'r \<Rightarrow> 'r \<Rightarrow> 'r option \<Rightarrow> 'r result" where
  "fn_covar_pop fa y x filt = fa_call fa ''covar_pop'' [NExpr y, NExpr x] [filter_kw filt]"

definition fn_covar_samp ::
  "('r, 's, 'x, 'q) fn_api \<Rightarrow> 'r \<Rightarrow> 'r \<Rightarrow> 'r option \<Rightarrow> 'r result" where
  "fn_covar_samp fa y x filt = fa_call fa ''covar_samp'' [NExpr y, NExpr x] [filter_kw filt]"

definition fn_regr_avgx ::
  "('r, 's, 'x, 'q) fn_api \<Rightarrow> 'r \<Rightarrow> 'r \<Rightarrow> 'r option \<Rightarrow> 'r result" where
  "fn_regr_avgx fa y x filt = fa_call fa ''regr_avgx'' [NExpr y, NExpr x] [filter_kw filt]"

definition fn_regr_avgy ::
  "('r, 's, 'x, 'q) fn_api \<Rightarrow> 'r \<Rightarrow> 'r \<Rightarrow> 'r option \<Rightarrow> 'r result" where
  "fn_regr_avgy fa y x filt = fa_call fa ''regr_avgy'' [NExpr y, NExpr x] [filter_kw filt]"

definition fn_regr_count ::
  "('r, 's, 'x, 'q) fn_api \<Rightarrow> 'r \<Rightarrow> 'r \<Rightarrow> 'r option \<Rightarrow> 'r result" where
  "fn_regr_count fa y x filt = fa_call fa ''regr_count'' [NExpr y, NExpr x] [filter_kw filt]"

definition fn_regr_intercept ::
  "('r, 's, 'x, 'q) fn_api \<Rightarrow> 'r \<Rightarrow> 'r \<Rightarrow> 'r option \<Rightarrow> 'r result" where
  "fn_regr_intercept fa y x filt = fa_call fa ''regr_intercept'' [NExpr y, NExpr x] [filter_kw filt]"

definition fn_regr_r2 ::
  "('r, 's, 'x, 'q) fn_api \<Rightarrow> 'r \<Rightarrow> 'r \<Rightarrow> 'r option \<Rightarrow> 'r result" where
  "fn_regr_r2 fa y x filt = fa_call fa ''regr_r2'' [NExpr y, NExpr x] [filter_kw filt]"

definition fn_regr_slope ::
  "('r, 's, 'x, 'q) fn_api \<Rightarrow> 'r \<Rightarrow> 'r \<Rightarrow> 'r option \<Rightarrow> 'r result" where
  "fn_regr_slope fa y x filt = fa_call fa ''regr_slope'' [NExpr y, NExpr x] [filter_kw filt]"

definition fn_regr_sxx ::
  "('r, 's, 'x, 'q) fn_api \<Rightarrow> 'r \<Rightarrow> 'r \<Rightarrow> 'r option \<Rightarrow> 'r result" where
  "fn_regr_sxx fa y x filt = fa_call fa ''regr_sxx'' [NExpr y, NExpr x] [filter_kw filt]"

definition fn_regr_sxy ::
  "('r, 's, 'x, 'q) fn_api \<Rightarrow> 'r \<Rightarrow> 'r \<Rightarrow> 'r option \<Rightarrow> 'r result" where
  "fn_regr_sxy fa y x filt = fa_call fa ''regr_sxy'' [NExpr y, NExpr x] [filter_kw filt]"

definition fn_regr_syy ::
  "('r, 's, 'x, 'q) fn_api \<Rightarrow> 'r \<Rightarrow> 'r \<Rightarrow> 'r option \<Rightarrow> 'r result" where
  "fn_regr_syy fa y x filt = fa_call fa ''regr_syy'' [NExpr y, NExpr x] [filter_kw filt]"

definition fn_percentile_cont ::
  "('r, 's, 'o, 'u) expr_api \<Rightarrow> ('r, 's, 'x, 'q) fn_api \<Rightarrow> ('r, 's, 'o) pyval \<Rightarrow> 'q \<Rightarrow> 'r option \<Rightarrow> 'r result" where
  "fn_percentile_cont api fa sort_expression percentile filt =
     rbind (sort_or_default api sort_expression) (\<lambda>sort.
     fa_call fa ''percentile_cont'' [NSort sort, NValue percentile] [filter_kw filt])"

definition fn_approx_percentile_cont ::
  "('r, 's, 'o, 'u) expr_api \<Rightarrow> ('r, 's, 'x, 'q) fn_api \<Rightarrow> ('r, 's, 'o) pyval \<Rightarrow> 'q \<Rightarrow> int option \<Rightarrow> 'r option \<Rightarrow> 'r result" where
  "fn_approx_percentile_cont api fa sort_expression percentile num_centroids filt =
     rbind (sort_or_default api sort_expression) (\<lambda>sort.
     fa_call fa ''approx_percentile_cont'' [NSort sort, NValue percentile]
       [(''num_centroids'', case num_centroids of Some n \<Rightarrow> NInt n | None \<Rightarrow> NNone), filter_kw filt])"

definition fn_approx_percentile_cont_with_weight ::
  "('r, 's, 'o, 'u) expr_api \<Rightarrow> ('r, 's, 'x, 'q) fn_api \<Rightarrow> ('r, 's, 'o) pyval \<Rightarrow> 'r \<Rightarrow> 'q
      \<Rightarrow> int option \<Rightarrow> 'r option \<Rightarrow> 'r result" where
  "fn_approx_percentile_cont_with_weight api fa sort_expression weight percentile num_centroids filt =
     rbind (sort_or_default api sort_expression) (\<lambda>sort.
     fa_call fa ''approx_percentile_cont_with_weight'' [NSort sort, NExpr weight, NValue percentile]
       [(''num_centroids'', case num_centroids of Some n \<Rightarrow> NInt n | None \<Rightarrow> NNone), filter_kw filt])"

text \<open>What is counted: nothing in particular (the literal 1), a list of expressions, or one.\<close>

datatype 'r count_arg = CountAll | CountList "'r list" | CountOne 'r

definition fn_count ::
  "('r, 's, 'o, 'u) expr_api \<Rightarrow> ('r, 's, 'x, 'q) fn_api \<Rightarrow> 'r count_arg \<Rightarrow> bool \<Rightarrow> 'r option \<Rightarrow> 'r result" where
  "fn_count api fa expressions distinct_rows filt =
     rbind (case expressions of
              CountAll \<Rightarrow> rbind (expr_literal api (PInt 1)) (\<lambda>one. Inr [one])
            | CountList es \<Rightarrow> Inr es
            | CountOne e \<Rightarrow> Inr [e]) (\<lambda>args.
     fa_call fa ''count'' (map NExpr args) [(''distinct'', NBool distinct_rows), filter_kw filt])"

definition fn_count_star ::
  "('r, 's, 'o, 'u) expr_api \<Rightarrow> ('r, 's, 'x, 'q) fn_api \<Rightarrow> 'r option \<Rightarrow> 'r result" where
  "fn_count_star api fa filt =
     rbind (expr_literal api (PInt 1)) (\<lambda>one. fn_count api fa (CountOne one) False filt)"

definition fn_array_agg ::
  "('r, 's, 'o, 'u) expr_api \<Rightarrow> ('r, 's, 'x, 'q) fn_api \<Rightarrow> 'r \<Rightarrow> bool \<Rightarrow> 'r option \<Rightarrow> ('r, 's, 'o) pyval \<Rightarrow> 'r result" where
  "fn_array_agg api fa e distinct_rows filt order_by =
     rbind (sort_list_to_raw_sort_list api order_by) (\<lambda>sorts.
     fa_call fa ''array_agg'' [NExpr e] [(''distinct'', NBool distinct_rows), filter_kw filt, (''order_by'', sorts_arg sorts)])"

definition fn_string_agg ::
  "('r, 's, 'o, 'u) expr_api \<Rightarrow> ('r, 's, 'x, 'q) fn_api \<Rightarrow> 'r \<Rightarrow> string \<Rightarrow> 'r option \<Rightarrow> ('r, 's, 'o) pyval \<Rightarrow> 'r result" where
  "fn_string_agg api fa e delimiter filt order_by =
     rbind (sort_list_to_raw_sort_list api order_by) (\<lambda>sorts.
     fa_call fa ''string_agg'' [NExpr e, NText delimiter] [filter_kw filt, (''order_by'', sorts_arg sorts)])"

text \<open>\<open>first_value\<close>, \<open>last_value\<close> and \<open>nth_value\<close> pass the native value of the null treatment.\<close>

definition fn_value_at ::
  "('r, 's, 'o, 'u) expr_api \<Rightarrow> ('r, 's, 'x, 'q) fn_api \<Rightarrow> string \<Rightarrow> ('r, 's, 'q) native_arg list \<Rightarrow> 'r option
      \<Rightarrow> ('r, 's, 'o) pyval \<Rightarrow> null_treatment \<Rightarrow> 'r result" where
  "fn_value_at api fa nm args filt order_by treatment =
     rbind (sort_list_to_raw_sort_list api order_by) (\<lambda>sorts.
     fa_call fa nm args [filter_kw filt, (''order_by'', sorts_arg sorts), (''null_treatment'', NTreatment treatment)])"

definition fn_first_value ::
  "('r, 's, 'o, 'u) expr_api \<Rightarrow> ('r, 's, 'x, 'q) fn_api \<Rightarrow> 'r \<Rightarrow> 'r option \<Rightarrow> ('r, 's, 'o) pyval \<Rightarrow> null_treatment \<Rightarrow> 'r result" where
  "fn_first_value api fa e filt order_by treatment =
     fn_value_at api fa ''first_value'' [NExpr e] filt order_by treatment"

definition fn_last_value ::
  "('r, 's, 'o, 'u) expr_api \<Rightarrow> ('r, 's, 'x, 'q) fn_api \<Rightarrow> 'r \<Rightarrow> 'r option \<Rightarrow> ('r, 's, 'o) pyval \<Rightarrow> null_treatment \<Rightarrow> 'r result" where
  "fn_last_value api fa e filt order_by treatment =
     fn_value_at api fa ''last_value'' [NExpr e] filt order_by treatment"

definition fn_nth_value ::
  "('r, 's, 'o, 'u) expr_api \<Rightarrow> ('r, 's, 'x, 'q) fn_api \<Rightarrow> 'r \<Rightarrow> int \<Rightarrow> 'r option \<Rightarrow> ('r, 's, 'o) pyval \<Rightarrow> null_treatment
      \<Rightarrow> 'r result" where
  "fn_nth_value api fa e n filt order_by treatment =
     fn_value_at api fa ''nth_value'' [NExpr e, NInt n] filt order_by treatment"

section \<open>Window functions\<close>

definition window_kw ::
  "('r, 's, 'o, 'u) expr_api \<Rightarrow> ('r, 's, 'o) pyval \<Rightarrow> ('r, 's, 'o) pyval
      \<Rightarrow> (string \<times> ('r, 's, 'q) native_arg) list result" where
  "window_kw api partition_by order_by =
     rbind (expr_list_to_raw_expr_list api partition_by) (\<lambda>parts.
     rbind (sort_list_to_raw_sort_list api order_by) (\<lambda>sorts.
     Inr [(''partition_by'', exprs_arg parts), (''order_by'', sorts_arg sorts)]))"

definition fn_row_number ::
  "('r, 's, 'o, 'u) expr_api \<Rightarrow> ('r, 's, 'x, 'q) fn_api \<Rightarrow> ('r, 's, 'o) pyval \<Rightarrow> ('r, 's, 'o) pyval \<Rightarrow> 'r result" where
  "fn_row_number api fa partition_by order_by = rbind (window_kw api partition_by order_by) (fa_call fa ''row_number'' [])"

definition fn_rank ::
  "('r, 's, 'o, 'u) expr_api \<Rightarrow> ('r, 's, 'x, 'q) fn_api \<Rightarrow> ('r, 's, 'o) pyval \<Rightarrow> ('r, 's, 'o) pyval \<Rightarrow> 'r result" where
  "fn_rank api fa partition_by order_by = rbind (window_kw api partition_by order_by) (fa_call fa ''rank'' [])"

definition fn_dense_rank ::
  "('r, 's, 'o, 'u) expr_api \<Rightarrow> ('r, 's, 'x, 'q) fn_api \<Rightarrow> ('r, 's, 'o) pyval \<Rightarrow> ('r, 's, 'o) pyval \<Rightarrow> 'r result" where
  "fn_dense_rank api fa partition_by order_by = rbind (window_kw api partition_by order_by) (fa_call fa ''dense_rank'' [])"

definition fn_percent_rank ::
  "('r, 's, 'o, 'u) expr_api \<Rightarrow> ('r, 's, 'x, 'q) fn_api \<Rightarrow> ('r, 's, 'o) pyval \<Rightarrow> ('r, 's, 'o) pyval \<Rightarrow> 'r result" where
  "fn_percent_rank api fa partition_by order_by = rbind (window_kw api partition_by order_by) (fa_call fa ''percent_rank'' [])"

definition fn_cume_dist ::
  "('r, 's, 'o, 'u) expr_api \<Rightarrow> ('r, 's, 'x, 'q) fn_api \<Rightarrow> ('r, 's, 'o) pyval \<Rightarrow> ('r, 's, 'o) pyval \<Rightarrow> 'r result" where
  "fn_cume_dist api fa partition_by order_by = rbind (window_kw api partition_by order_by) (fa_call fa ''cume_dist'' [])"

definition fn_ntile ::
  "('r, 's, 'o, 'u) expr_api \<Rightarrow> ('r, 's, 'x, 'q) fn_api \<Rightarrow> int \<Rightarrow> ('r, 's, 'o) pyval \<Rightarrow> ('r, 's, 'o) pyval \<Rightarrow> 'r result" where
  "fn_ntile api fa groups partition_by order_by =
     rbind (window_kw api partition_by order_by) (\<lambda>kw.
     rbind (expr_literal api (PInt groups)) (\<lambda>g. fa_call fa ''ntile'' [NExpr g] kw))"

text \<open>The default of \<open>lead\<close> stays \<open>None\<close>, that of \<open>lag\<close> becomes a null scalar.\<close>

definition lead_default ::
  "('r, 's, 'x, 'q) fn_api \<Rightarrow> ('q, 'x) scalar_arg option \<Rightarrow> ('r, 's, 'q) native_arg result" where
  "lead_default fa v =
     (case v of
        None \<Rightarrow> Inr NNone
      | Some (ScalarArg q) \<Rightarrow> Inr (NValue q)
      | Some (PlainArg x) \<Rightarrow> rbind (fa_scalar fa (Some x)) (\<lambda>q. Inr (NValue q)))"

definition lag_default ::
  "('r, 's, 'x, 'q) fn_api \<Rightarrow> ('q, 'x) scalar_arg option \<Rightarrow> ('r, 's, 'q) native_arg result" where
  "lag_default fa v =
     (case v of
        Some (ScalarArg q) \<Rightarrow> Inr (NValue q)
      | Some (PlainArg x) \<Rightarrow> rbind (fa_scalar fa (Some x)) (\<lambda>q. Inr (NValue q))
      | None \<Rightarrow> rbind (fa_scalar fa None) (\<lambda>q. Inr (NValue q)))"

definition fn_lead ::
  "('r, 's, 'o, 'u) expr_api \<Rightarrow> ('r, 's, 'x, 'q) fn_api \<Rightarrow> 'r \<Rightarrow> int \<Rightarrow> ('q, 'x) scalar_arg option \<Rightarrow> ('r, 's, 'o) pyval
      \<Rightarrow> ('r, 's, 'o) pyval \<Rightarrow> 'r result" where
  "fn_lead api fa arg shift_offset default_value partition_by order_by =
     rbind (lead_default fa default_value) (\<lambda>dv.
     rbind (window_kw api partition_by order_by) (fa_call fa ''lead'' [NExpr arg, NInt shift_offset, dv]))"

definition fn_lag ::
  "('r, 's, 'o, 'u) expr_api \<Rightarrow> ('r, 's, 'x, 'q) fn_api \<Rightarrow> 'r \<Rightarrow> int \<Rightarrow> ('q, 'x) scalar_arg option \<Rightarrow> ('r, 's, 'o) pyval
      \<Rightarrow> ('r, 's, 'o) pyval \<Rightarrow> 'r result" where
  "fn_lag api fa arg shift_offset default_value partition_by order_by =
     rbind (lag_default fa default_value) (\<lambda>dv.
     rbind (window_kw api partition_by order_by) (fa_call fa ''lag'' [NExpr arg, NInt shift_offset, dv]))"

section \<open>Functions of Spark\<close>

text \<open>A whole number becomes a 32-bit literal; \<open>None\<close> is the literal zero.\<close>

definition coerce_i32 ::
  "('r, 's, 'x, 'q) fn_api \<Rightarrow> ('r, int) scalar_arg option \<Rightarrow> 'r result" where
  "coerce_i32 fa v =
     (case v of
        None \<Rightarrow> fa_int32_literal fa 0
      | Some (ScalarArg e) \<Rightarrow> Inr e
      | Some (PlainArg n) \<Rightarrow> fa_int32_literal fa n)"

definition coerce_seconds ::
  "('r, 's, 'o, 'u) expr_api \<Rightarrow> ('r, 's, 'x, 'q) fn_api \<Rightarrow> ('r, 's, 'o) pyval \<Rightarrow> 'r result" where
  "coerce_seconds api fa secs =
     (case secs of PNone \<Rightarrow> fa_zero_float fa | _ \<Rightarrow> coerce_to_expr api secs)"

text \<open>\<open>make_interval\<close> takes six numbers and the seconds, \<open>make_dt_interval\<close> three.\<close>

definition spark_interval ::
  "('r, 's, 'o, 'u) expr_api \<Rightarrow> ('r, 's, 'x, 'q) fn_api \<Rightarrow> string \<Rightarrow> ('r, int) scalar_arg option list \<Rightarrow> ('r, 's, 'o) pyval \<Rightarrow> 'r result" where
  "spark_interval api fa nm parts secs =
     rbind (traverse (coerce_i32 fa) parts) (\<lambda>ps.
     rbind (coerce_seconds api fa secs) (\<lambda>sec. fa_call fa nm (map NExpr (ps @ [sec])) []))"

definition spark_make_dt_interval ::
  "('r, 's, 'o, 'u) expr_api \<Rightarrow> ('r, 's, 'x, 'q) fn_api \<Rightarrow> ('r, int) scalar_arg option \<Rightarrow> ('r, int) scalar_arg option
      \<Rightarrow> ('r, int) scalar_arg option \<Rightarrow> ('r, 's, 'o) pyval \<Rightarrow> 'r result" where
  "spark_make_dt_interval api fa days hours mins secs =
     spark_interval api fa ''make_dt_interval'' [days, hours, mins] secs"

definition spark_make_interval ::
  "('r, 's, 'o, 'u) expr_api \<Rightarrow> ('r, 's, 'x, 'q) fn_api \<Rightarrow> ('r, int) scalar_arg option \<Rightarrow> ('r, int) scalar_arg option
      \<Rightarrow> ('r, int) scalar_arg option \<Rightarrow> ('r, int) scalar_arg option \<Rightarrow> ('r, int) scalar_arg option \<Rightarrow> ('r, int) scalar_arg option
      \<Rightarrow> ('r, 's, 'o) pyval \<Rightarrow> 'r result" where
  "spark_make_interval api fa years months weeks days hours mins secs =
     spark_interval api fa ''make_interval'' [years, months, weeks, days, hours, mins] secs"

text \<open>\<open>avg\<close>, \<open>try_sum\<close>, \<open>collect_list\<close> and \<open>collect_set\<close> pass the member of the Python enumeration on.\<close>

definition spark_aggregate ::
  "('r, 's, 'o, 'u) expr_api \<Rightarrow> ('r, 's, 'x, 'q) fn_api \<Rightarrow> string \<Rightarrow> 'r \<Rightarrow> bool option \<Rightarrow> 'r option \<Rightarrow> ('r, 's, 'o) pyval
      \<Rightarrow> null_treatment option \<Rightarrow> 'r result" where
  "spark_aggregate api fa nm col distinct_rows filt order_by treatment =
     rbind (sort_list_to_raw_sort_list api order_by) (\<lambda>sorts.
     fa_call fa nm [NExpr col]
       [(''distinct'', case distinct_rows of Some b \<Rightarrow> NBool b | None \<Rightarrow> NNone), filter_kw filt, (''order_by'', sorts_arg sorts),
        (''null_treatment'', case treatment of Some t \<Rightarrow> NTreatmentMember t | None \<Rightarrow> NNone)])"

definition spark_avg ::
  "('r, 's, 'o, 'u) expr_api \<Rightarrow> ('r, 's, 'x, 'q) fn_api \<Rightarrow> 'r \<Rightarrow> bool option \<Rightarrow> 'r option \<Rightarrow> ('r, 's, 'o) pyval
      \<Rightarrow> null_treatment option \<Rightarrow> 'r result" where
  "spark_avg api fa col distinct_rows filt order_by treatment = spark_aggregate api fa ''avg'' col distinct_rows filt order_by treatment"

definition spark_try_sum ::
  "('r, 's, 'o, 'u) expr_api \<Rightarrow> ('r, 's, 'x, 'q) fn_api \<Rightarrow> 'r \<Rightarrow> bool option \<Rightarrow> 'r option \<Rightarrow> ('r, 's, 'o) pyval
      \<Rightarrow> null_treatment option \<Rightarrow> 'r result" where
  "spark_try_sum api fa col distinct_rows filt order_by treatment = spark_aggregate api fa ''try_sum'' col distinct_rows filt order_by treatment"

definition spark_collect_list ::
  "('r, 's, 'o, 'u) expr_api \<Rightarrow> ('r, 's, 'x, 'q) fn_api \<Rightarrow> 'r \<Rightarrow> bool option \<Rightarrow> 'r option \<Rightarrow> ('r, 's, 'o) pyval
      \<Rightarrow> null_treatment option \<Rightarrow> 'r result" where
  "spark_collect_list api fa col distinct_rows filt order_by treatment = spark_aggregate api fa ''collect_list'' col distinct_rows filt order_by treatment"

definition spark_collect_set ::
  "('r, 's, 'o, 'u) expr_api \<Rightarrow> ('r, 's, 'x, 'q) fn_api \<Rightarrow> 'r \<Rightarrow> bool option \<Rightarrow> 'r option \<Rightarrow> ('r, 's, 'o) pyval
      \<Rightarrow> null_treatment option \<Rightarrow> 'r result" where
  "spark_collect_set api fa col distinct_rows filt order_by treatment = spark_aggregate api fa ''collect_set'' col distinct_rows filt order_by treatment"

definition spark_shuffle ::
  "('r, 's, 'x, 'q) fn_api \<Rightarrow> 'r \<Rightarrow> int option \<Rightarrow> 'r result" where
  "spark_shuffle fa col seed =
     (case seed of
        Some _ \<Rightarrow> Inl (err NotImplementedError ''shuffle(seed=...) is not yet supported by the Spark UDF binding'')
      | None \<Rightarrow> fa_call fa ''shuffle'' [NExpr col] [])"

text \<open>\<open>like\<close> and \<open>ilike\<close>: a bare text is a column.\<close>

definition like_call ::
  "('r, 's, 'o, 'u) expr_api \<Rightarrow> ('r, 's, 'x, 'q) fn_api \<Rightarrow> string \<Rightarrow> 'r \<Rightarrow> ('r, 's, 'o) pyval \<Rightarrow> string option \<Rightarrow> 'r result" where
  "like_call api fa nm str pattern escape_char =
     (case escape_char of
        Some _ \<Rightarrow> Inl (err NotImplementedError (nm @ ''(escapeChar=...) is not yet supported by the Spark UDF binding''))
      | None \<Rightarrow> rbind (to_raw_expr api pattern) (\<lambda>p. fa_call fa nm [NExpr str, NExpr p] []))"

definition spark_like ::
  "('r, 's, 'o, 'u) expr_api \<Rightarrow> ('r, 's, 'x, 'q) fn_api \<Rightarrow> 'r \<Rightarrow> ('r, 's, 'o) pyval \<Rightarrow> string option \<Rightarrow> 'r result" where
  "spark_like api fa str pattern escape_char = like_call api fa ''like'' str pattern escape_char"

definition spark_ilike ::
  "('r, 's, 'o, 'u) expr_api \<Rightarrow> ('r, 's, 'x, 'q) fn_api \<Rightarrow> 'r \<Rightarrow> ('r, 's, 'o) pyval \<Rightarrow> string option \<Rightarrow> 'r result" where
  "spark_ilike api fa str pattern escape_char = like_call api fa ''ilike'' str pattern escape_char"

text \<open>\<open>parse_url\<close> and \<open>try_parse_url\<close>.\<close>

definition parse_url_call ::
  "('r, 's, 'o, 'u) expr_api \<Rightarrow> ('r, 's, 'x, 'q) fn_api \<Rightarrow> string \<Rightarrow> 'r \<Rightarrow> ('r, 's, 'o) pyval \<Rightarrow> ('r, 's, 'o) pyval \<Rightarrow> 'r result" where
  "parse_url_call api fa nm url part key =
     rbind (traverse (to_raw_expr api) (case key of PNone \<Rightarrow> [part] | _ \<Rightarrow> [part, key])) (\<lambda>rs.
     fa_call fa nm (map NExpr (url # rs)) [])"

definition spark_parse_url ::
  "('r, 's, 'o, 'u) expr_api \<Rightarrow> ('r, 's, 'x, 'q) fn_api \<Rightarrow> 'r \<Rightarrow> ('r, 's, 'o) pyval \<Rightarrow> ('r, 's, 'o) pyval \<Rightarrow> 'r result" where
  "spark_parse_url api fa url part key = parse_url_call api fa ''parse_url'' url part key"

definition spark_try_parse_url ::
  "('r, 's, 'o, 'u) expr_api \<Rightarrow> ('r, 's, 'x, 'q) fn_api \<Rightarrow> 'r \<Rightarrow> ('r, 's, 'o) pyval \<Rightarrow> ('r, 's, 'o) pyval \<Rightarrow> 'r result" where
  "spark_try_parse_url api fa url part key = parse_url_call api fa ''try_parse_url'' url part key"

definition raw_or_literal ::
  "('r, 's, 'o, 'u) expr_api \<Rightarrow> string \<Rightarrow> ('r, 's, 'o) pyval \<Rightarrow> 'r result" where
  "raw_or_literal api lit v =
     (case v of PNone \<Rightarrow> expr_literal api (PStr lit) | _ \<Rightarrow> to_raw_expr api v)"

definition spark_str_to_map ::
  "('r, 's, 'o, 'u) expr_api \<Rightarrow> ('r, 's, 'x, 'q) fn_api \<Rightarrow> 'r \<Rightarrow> ('r, 's, 'o) pyval \<Rightarrow> ('r, 's, 'o) pyval \<Rightarrow> 'r result" where
  "spark_str_to_map api fa txt pair_delim key_value_delim =
     rbind (raw_or_literal api '','' pair_delim) (\<lambda>pd.
     rbind (raw_or_literal api '':'' key_value_delim) (\<lambda>kvd. fa_call fa ''str_to_map'' [NExpr txt, NExpr pd, NExpr kvd] []))"

definition spark_slice ::
  "('r, 's, 'o, 'u) expr_api \<Rightarrow> ('r, 's, 'x, 'q) fn_api \<Rightarrow> 'r \<Rightarrow> ('r, 's, 'o) pyval \<Rightarrow> ('r, 's, 'o) pyval \<Rightarrow> 'r result" where
  "spark_slice api fa x start len = call_coerced api fa ''slice'' [x] [start, len] []"

definition spark_substring ::
  "('r, 's, 'o, 'u) expr_api \<Rightarrow> ('r, 's, 'x, 'q) fn_api \<Rightarrow> 'r \<Rightarrow> ('r, 's, 'o) pyval \<Rightarrow> ('r, 's, 'o) pyval \<Rightarrow> 'r result" where
  "spark_substring api fa str pos len = call_coerced api fa ''substring'' [str] [pos, len] []"

definition spark_if ::
  "('r, 's, 'o, 'u) expr_api \<Rightarrow> ('r, 's, 'x, 'q) fn_api \<Rightarrow> 'r \<Rightarrow> ('r, 's, 'o) pyval \<Rightarrow> ('r, 's, 'o) pyval \<Rightarrow> 'r result" where
  "spark_if api fa condition if_true if_false = call_coerced api fa ''if_'' [condition] [if_true, if_false] []"

definition spark_width_bucket ::
  "('r, 's, 'o, 'u) expr_api \<Rightarrow> ('r, 's, 'x, 'q) fn_api \<Rightarrow> 'r \<Rightarrow> 'r \<Rightarrow> 'r \<Rightarrow> ('r, 's, 'o) pyval \<Rightarrow> 'r result" where
  "spark_width_bucket api fa v low high num_bucket = call_coerced api fa ''width_bucket'' [v, low, high] [num_bucket] []"

definition spark_round ::
  "('r, 's, 'o, 'u) expr_api \<Rightarrow> ('r, 's, 'x, 'q) fn_api \<Rightarrow> 'r \<Rightarrow> ('r, 's, 'o) pyval \<Rightarrow> 'r result" where
  "spark_round api fa col scale =
     rbind (case scale of PNone \<Rightarrow> fa_int32_literal fa 0 | _ \<Rightarrow> coerce_to_expr api scale) (\<lambda>s. fa_call fa ''round'' [NExpr col, NExpr s] [])"

definition spark_format_string ::
  "('r, 's, 'o, 'u) expr_api \<Rightarrow> ('r, 's, 'x, 'q) fn_api \<Rightarrow> ('r, 's, 'o) pyval \<Rightarrow> 'r list \<Rightarrow> 'r result" where
  "spark_format_string api fa fmt cols =
     rbind (coerce_to_expr api fmt) (\<lambda>f. fa_call fa ''format_string'' (map NExpr (f # cols)) [])"

section \<open>Properties\<close>

text \<open>The pairs that a call of \<open>make_map\<close> lists, in the three forms; \<open>None\<close> for a call in no form.\<close>

fun alternating_pairs :: "'a list \<Rightarrow> ('a \<times> 'a) list option" where
  "alternating_pairs [] = Some []"
| "alternating_pairs [x] = None"
| "alternating_pairs (x # y # xs) = map_option (\<lambda>ps. (x, y) # ps) (alternating_pairs xs)"

definition listed_pairs :: "('r, 's, 'o) map_arg list \<Rightarrow> (('r, 's, 'o) pyval \<times> ('r, 's, 'o) pyval) list option" where
  "listed_pairs args =
     (case args of
        [] \<Rightarrow> None
      | [MapDict items _] \<Rightarrow> Some items
      | [MapList ks, MapList vs] \<Rightarrow> if length ks = length vs then Some (zip ks vs) else None
      | _ \<Rightarrow> alternating_pairs (map map_arg_value args))"

lemma alternating_every_other:
  "alternating_pairs xs = (if even (length xs) then Some (zip (every_other xs) (every_other (tl xs))) else None)"
proof (induction xs rule: alternating_pairs.induct)
  case (3 x y xs)
  then show ?case by (cases xs) auto
qed simp_all

lemma every_other_length: "even (length xs) \<Longrightarrow> length (every_other (tl xs)) = length (every_other xs)"
proof (induction xs rule: every_other.induct)
  case (3 x y xs)
  then show ?case by (cases xs) auto
qed simp_all

lemma every_other_map: "every_other (map f xs) = map f (every_other xs)"
  by (induction xs rule: every_other.induct) simp_all

definition map_error :: "('r, 's, 'o) map_arg list \<Rightarrow> exc" where
  "map_error args = err ValueError
     (case args of
        [MapList _, MapList _] \<Rightarrow> ''make_map requires key and value lists to be the same length''
      | _ \<Rightarrow> ''make_map expects a dict, two lists, or an even number of key-value arguments'')"

lemma alternating_values:
  "alternating_pairs (map map_arg_value xs) =
     (if even (length xs) then Some (zip (map map_arg_value (every_other xs)) (map map_arg_value (every_other (tl xs)))) else None)"
  by (simp add: alternating_every_other every_other_map flip: map_tl)

lemmas map_form_rules = map_keys_values_def listed_pairs_def map_error_def alternating_values every_other_length

lemma map_keys_values_many:
  fixes args :: "('r, 's, 'o) map_arg list"
  assumes args: "args = a # b # c # rest"
  shows "map_keys_values args = (case listed_pairs args of Some ps \<Rightarrow> Inr (map fst ps, map snd ps) | None \<Rightarrow> Inl (map_error args))"
proof -
  have "listed_pairs args = alternating_pairs (map map_arg_value args)"
    unfolding args by (cases a; cases b) (simp_all only: listed_pairs_def list.case map_arg.case)
  moreover have "map_keys_values args =
      (if 2 \<le> length args \<and> length args mod 2 = 0
       then Inr (map map_arg_value (every_other args), map map_arg_value (every_other (tl args))) else Inl (map_error args))"
    unfolding args by (cases a; cases b) (simp_all only: map_keys_values_def map_error_def list.case map_arg.case)
  moreover have "2 \<le> length args" by (simp add: args)
  ultimately show ?thesis
    using every_other_length [of args] by (simp add: alternating_values even_iff_mod_2_eq_zero)
qed

lemma map_keys_values_forms:
  "map_keys_values args = (case listed_pairs args of Some ps \<Rightarrow> Inr (map fst ps, map snd ps) | None \<Rightarrow> Inl (map_error args))"
proof -
  consider "args = []" | a where "args = [a]" | a b where "args = [a, b]" | a b c rest where "args = a # b # c # rest"
    by (metis neq_Nil_conv)
  then show ?thesis
  proof cases
    case (2 a)
    then show ?thesis by (cases a) (simp_all add: map_form_rules)
  next
    case (3 a b)
    then show ?thesis by (cases a; cases b) (simp_all add: map_form_rules)
  next
    case 4
    then show ?thesis by (rule map_keys_values_many)
  qed (simp add: map_form_rules)
qed

text \<open>
  \<open>make_map\<close> builds the map of the listed pairs: a dictionary, two lists of one length, or keys and values that alternate
  give the keys and the values of the same pairs in the same order, each coerced to an expression; every other call
  raises a value error.
\<close>

theorem make_map_pairs:
  "fn_make_map api fa args =
     (case listed_pairs args of
        Some ps \<Rightarrow>
          rbind (traverse (coerce_to_expr api) (map fst ps)) (\<lambda>ks.
          rbind (traverse (coerce_to_expr api) (map snd ps)) (\<lambda>vs.
          fa_call fa ''make_map'' [NExprs ks, NExprs vs] []))
      | None \<Rightarrow> Inl (map_error args))"
  by (cases "listed_pairs args") (simp_all add: fn_make_map_def map_keys_values_forms)

text \<open>Metadata with an empty key is never attached, and the arguments alternate between keys and values.\<close>

lemma metadata_args_Inr:
  "metadata_args api items = Inr rs \<Longrightarrow> (\<forall>(k, v)\<in>set items. k \<noteq> []) \<and> length rs = 2 * length items"
proof (induction items arbitrary: rs)
  case (Cons item items)
  then show ?case by (cases item) (auto simp: rbind_eq_Inr raise_if_eq_Inr)
qed simp

text \<open>
  With a native function that takes the native null treatment only, the aggregates of Spark raise whenever a null
  treatment is given.
\<close>

lemma spark_null_treatment_refused:
  assumes "\<And>nm args kws k t. (k, NTreatmentMember t) \<in> set kws \<Longrightarrow> \<exists>m. fa_call fa nm args kws = Inl (err TypeError m)"
    and "sort_list_to_raw_sort_list api order_by = Inr sorts"
  shows "\<exists>m. spark_aggregate api fa nm col distinct_rows filt order_by (Some t) = Inl (err TypeError m)"
  by (simp add: spark_aggregate_def assms(2)) (rule assms(1) [of "''null_treatment''" t], simp)

text \<open>
  With a native function that takes a boolean or nothing for \<open>distinct\<close>, \<open>mean\<close> raises whenever a filter is given, where
  \<open>avg\<close> would filter.
\<close>

lemma mean_refuses_filter:
  assumes "\<And>nm args kws e. (''distinct'', NExpr e) \<in> set kws \<Longrightarrow> \<exists>m. fa_call fa nm args kws = Inl (err TypeError m)"
  shows "\<exists>m. fn_mean fa e (Some condition) = Inl (err TypeError m)"
  unfolding fn_mean_def fn_avg_def distinct_aggregate_def opt_arg_def option.case by (rule assms [of condition], simp)

text \<open>The text of \<open>like\<close>'s pattern names a column, and that of \<open>replace\<close>'s arguments is a literal.\<close>

lemma spark_like_column: "like_call api fa nm e (PStr c) None = fa_call fa nm [NExpr e, NExpr (xa_column api c)] []"
  by (simp add: like_call_def to_raw_expr_def expr_column_def)

end
