(* ===== verification/Maintenance.thy ===== *)
theory Maintenance
  imports Json
begin

text \<open>
  Removal of orphaned objects (\<open>maintenance.py\<close>): the checks of the arguments and the threshold in milliseconds that
  the native session gets. A moment is a number of microseconds since the epoch; \<open>fl\<close> is the rounding of a real number
  to a double, which the two floating-point operations of the conversion apply. Parameters: the clock, the native
  session and \<open>datetime.fromtimestamp\<close>.
\<close>








section \<open>The threshold\<close>









end
