(* ===== verification/Spec2Isabelle.thy ===== *)
theory Spec2Isabelle
  imports Samples Cli Openapi_Agreement Html_Formatter Datafusion_Frame Datafusion_Functions Maintenance
begin

text \<open>
  ParqDB: the Python program around the native vector index. A user talks to a session. The session is embedded
  (\<open>session.py\<close> on the native library) or remote (an HTTP server that runs the same session service), and the facade
  (\<open>facade.py\<close>) offers both behind one protocol, asynchronously and blocking. A second program, \<open>parqdb publish\<close>,
  turns an index into a set of immutable objects that a browser can query; \<open>parqdb serve\<close> starts the server from a TOML
  file. All source paths below are under \<open>src/python/parqdb\<close>.

  \<^bold>\<open>Theories and sources.\<close>
  \<^item> \<open>Prelude\<close>: exception classes with Python's subclass order (an instance of class \<open>order\<close>), results, state-passing
    commands with \<open>except\<close> and \<open>finally\<close>, commands with fuel, \<open>keeps\<close> (what a command leaves alone), string methods.
    \<open>Json\<close>, \<open>Url\<close>, \<open>Base64\<close>: the parts of the standard library that the code calls, written out - numbers and
    documents, percent encoding and UTF-8, \<open>urlsplit\<close>, \<open>normpath\<close>, base 64.
  \<^item> \<open>Portable\<close>: \<open>identifier.py\<close>, \<open>query.py\<close>, \<open>build.py\<close>, \<open>table.py\<close>, \<open>config.py\<close>. \<open>Wire\<close>, \<open>Identifier_Path\<close>,
    \<open>Registration\<close>: \<open>transport/models.py\<close>. \<open>Transport_Errors\<close>: \<open>transport/errors.py\<close>. \<open>Source_Policy\<close>:
    \<open>server/source_policy.py\<close>.
  \<^item> \<open>Streams\<close>, \<open>Ipc\<close>: \<open>transport/ipc.py\<close>, the two stream classes over the native encoder and decoder.
  \<^item> \<open>Session\<close>: \<open>session.py\<close> and the conversion of partition columns in \<open>datafusion/context.py\<close>. \<open>Service\<close>:
    \<open>runtime/service.py\<close>. \<open>Transport\<close>: \<open>transport/base.py\<close>, the protocol as a record of operations and the in-process
    transport. \<open>App\<close>: \<open>server/app.py\<close>. \<open>Openapi\<close>, \<open>Openapi_Agreement\<close>: \<open>server/openapi.py\<close> and its agreement with the application. \<open>Http_Client\<close>: \<open>transport/http.py\<close>. \<open>Loopback\<close>: the client connected to
    the application. \<open>Facade\<close>: \<open>facade.py\<close>. \<open>Samples\<close>: a small deployment for the witnesses.
  \<^item> \<open>Disk\<close>: the file system as \<open>pathlib\<close> and \<open>shutil\<close> present it. \<open>Publication\<close>, \<open>Publication_Writer\<close>,
    \<open>Publication_Store\<close>, \<open>Publish\<close>, \<open>Publication_Build\<close>: \<open>publish.py\<close>. \<open>Server_Config\<close>: \<open>server/config.py\<close>. \<open>Cli\<close>:
    \<open>cli.py\<close> and \<open>server/__init__.py\<close>. \<open>Maintenance\<close>: \<open>maintenance.py\<close>, with the rounding of its timestamps.
  \<^item> The Python layer of the bundled DataFusion (\<open>datafusion\<close>): \<open>Datafusion_Expr\<close>: \<open>expr.py\<close>. \<open>Datafusion_Frame\<close>:
    \<open>dataframe.py\<close> and \<open>plan.py\<close>. \<open>Datafusion_Options\<close>: \<open>options.py\<close>, \<open>ipc.py\<close>, \<open>input/location.py\<close>,
    \<open>user_defined.py\<close>. \<open>Datafusion_Context\<close>: \<open>context.py\<close> and \<open>io.py\<close>. \<open>Datafusion_Functions\<close>:
    \<open>functions/__init__.py\<close> and \<open>functions/spark.py\<close>. \<open>Html_Formatter\<close>: \<open>dataframe_formatter.py\<close>.

  \<^bold>\<open>State and operations.\<close> A class is a record of its fields and each method a command on it: a function from the state to
  a result and the next state, where a raise is the left summand. Methods that loop on the outside world (polling an
  index, following page tokens, draining a stream) take fuel; running out is the value \<open>None\<close> or \<open>Diverge\<close>, never an
  outcome of the program, and the theorems on those loops say how much fuel is enough. Streams of an asynchronous
  session live in a store indexed by numbers, because the session and its user share them. Python integers are \<open>int\<close>,
  floats are exact rationals with infinities and NaN, text is its UTF-8 encoding.

  \<^bold>\<open>Parameters.\<close> The native session and its streams, PyArrow, the IPC encoder and decoder, httpx, the ASGI server, the
  object store, SHA-256, TOML and JSON text, the resolution of paths and the clock are arguments of the definitions.
  What is assumed of them is a hypothesis of the theorem that needs it (\<open>lawful_s3\<close>, \<open>clean_resolution\<close>,
  \<open>exchange_fits\<close>, the codec laws), and a witness instantiates it.

  \<^bold>\<open>Interfaces.\<close> Locales state what one component promises another: \<open>wire_codec\<close> (a pair of encoders), \<open>closable_stream\<close>
  (a stream that is closed once), \<open>session_transport\<close> (the protocol behind the facade), \<open>facade_transport\<close> (what the
  facade needs of it) and \<open>publication_writer\<close> (what \<open>publish\<close> needs of a writer). Each is interpreted on the model's own
  definitions: the codecs of \<open>Wire\<close>, the streams of \<open>Ipc\<close>, the in-process and the HTTP transport, the local and the S3
  writer.

  \<^bold>\<open>What is shown.\<close>
  \<^item> Remote sessions refine embedded ones: collecting a query, listing tables, creating, dropping and inspecting indexes
    over HTTP return what the service returns and leave it in the same state, with exceptions translated class by
    class. Requests and responses decode to themselves exactly when they are well formed.
  \<^item> The server answers every request, hides unexpected errors, and registers only sources that its policy allows;
    the policy accepts a source exactly when a configured prefix is a component-wise prefix of it. The OpenAPI document
    lists exactly its routes, and every accepted body conforms to the documented schema (\<open>conforms\<close>, whose bound of 8
    exceeds the depth of every schema), apart from the liberties of \<open>documented_form\<close>.
  \<^item> Sessions own their streams: the registry holds exactly the open ones, and after a normal close all are closed and
    every call is refused. Streams close their sources once and carry exactly the encoded batches.
  \<^item> Waiting for an index ends within a number of polls bounded by the timeout and returns only when it is ready.
  \<^item> A publication is all or nothing: over every list of I/O faults and interruptions, a visible manifest implies complete
    objects, existing data is never touched, and a failed upload leaves the destination as it was. Published objects
    match the digests of the index manifest, and a key finds its row group.
  \<^item> Loaded configurations are usable, the default file means the defaults, and the state of a build is written
    atomically and tied to one request.
  \<^item> Removing orphans reaches the native session only for a moment that is not in the future, and the threshold
    in milliseconds is at most one below the exact one, however the doubles round. The HTML table of a frame is the table of its rows and columns, with cell identifiers that follow row and
    column. Lists of expressions flatten to the expressions they hold, operators build the tree of the native
    library, and \<open>filter\<close> and \<open>tail\<close> select the rows they name. The texts that \<open>sql\<close> puts into a query stand for its
    arguments, and \<open>make_map\<close> builds the map of the pairs that its call lists.
  \<^item> Some theorems show where the code falls short of what it means to do: \<open>failed_close_leaks_transport\<close>,
    \<open>huge_component_is_internal_error\<close>, \<open>interrupted_preparation_is_refused\<close>, \<open>missing_hierarchy_is_key_error\<close>,
    \<open>reflected_operators\<close>, \<open>cells_are_not_escaped\<close>, \<open>mean_refuses_filter\<close>, \<open>spark_null_treatment_refused\<close>.

  \<^bold>\<open>Not modelled.\<close> The methods and functions of the DataFusion layer that only pass their arguments to the native
  function of the same name: they have no behaviour of their own. Neither have the catalog, Substrait, record batch and object
  store wrappers and the configuration builders of \<open>datafusion/context.py\<close>. Also left out: the Rust core and the browser
  client (other languages), the embedding of text with the ONNX runtime, argument parsing and terminal output, and the
  scripts for releases, benchmarks and fixtures. Concurrency inside the event loop is modelled at the granularity of the
  operations; the locks of the native library are not.
\<close>

section \<open>Remote sessions behave like embedded ones\<close>

lemma collect_loopback:
  assumes "session_inv s" "as_transport s = connected srv \<tau>"
    and safe: "safe_identifier (vq_source q)" "wf_vector_query q" and path: "table_path (vq_source q) ''query'' = Inr p"
    and svc: "sr_service srv = Some svc" "svc_stream (ae_native env) (QueryVector q) svc = (Inr st, svc')"
    and fits: "sz (vector_query_to_json q) \<le> error_body_limit"
    and codec: "codec_carries env dn st k" "k < dn_fuel dn" "length (ns_batches st) < fuel" "ns_error st = None"
    and n: "length (ns_batches st) < n"
  shows "\<exists>s'. as_collect (http_transport_ops (loopback env sz fid fuel) ar dn m) n (QueryVector q) s =
     (Some (Inr (ns_batches st, ns_schema st)), s') \<and> as_streams s' = as_streams s \<and>
     as_transport s' = connected (srv\<lparr>sr_service := Some svc'\<rparr>) \<tau>"
proof -
  let ?tr = "http_transport_ops (loopback env sz fid fuel) ar dn m"
  let ?dec = "decoded_ops (response_source (loopback env sz fid fuel)) (dn_ops dn) (dn_fuel dn)"
  obtain rm rm' where rm: "http_stream (loopback env sz fid fuel) dn (QueryVector q) (connected srv \<tau>) =
       (Some (Inr rm), connected (srv\<lparr>sr_service := Some svc'\<rparr>) \<tau>)"
    "drain (Suc (length (ns_batches st))) (remote_next ?dec) rm = (ns_batches st, Stop, rm')"
    "decoded_schema (rm_source rm) = Inr (ns_schema st)" "remote_aclose ?dec rm' = (Inr (), rm')"
    using remote_stream [where sz = sz and fid = fid and \<tau> = \<tau>, OF safe path svc fits codec] by blast
  have "drain n (remote_next ?dec) rm = (ns_batches st, Stop, rm')"
    by (rule drain_mono [OF rm(2)]) (use n in auto)
  then have "drain n (tr_next ?tr) rm = (ns_batches st, Stop, rm')"
    by (simp add: http_transport_ops_def Let_def)
  moreover have "tr_stream ?tr (QueryVector q) (as_transport s) = (Some (Inr rm), connected (srv\<lparr>sr_service := Some svc'\<rparr>) \<tau>)"
    "tr_schema ?tr rm = Inr (ns_schema st)" "tr_aclose ?tr rm' = (Inr (), rm')"
    using rm(1,3,4) assms(2) by (simp_all add: http_transport_ops_def Let_def)
  ultimately show ?thesis
    using collect_batches_of_stream [OF assms(1), of ?tr "QueryVector q" rm _ "ns_schema st" n "ns_batches st" rm' rm']
    by (simp add: opened_def)
qed

lemma drain_native:
  "drain n (tr_next (in_process_transport api ar paths)) (schema, st) =
     (case drain n (st_next list_ops) st of (bs, r, st') \<Rightarrow> (bs, r, (schema, st')))"
  by (induction n arbitrary: st) (auto simp: in_process_transport_def split: prod.splits step.splits)

lemma collect_embedded:
  assumes "session_inv s" "svc_stream api (QueryVector q) (as_transport s) = (Inr st, svc')"
    and "ns_error st = None" "length (ns_batches st) < n"
  shows "\<exists>s'. as_collect (in_process_transport api ar paths) n (QueryVector q) s =
     (Some (Inr (ns_batches st, ns_schema st)), s') \<and> as_streams s' = as_streams s \<and> as_transport s' = svc'"
proof -
  let ?tr = "in_process_transport api ar paths"
  have "drain n (tr_next ?tr) (native_reader st) = (ns_batches st, Stop, (ns_schema st, ([], None, True)))"
    using drain_list [OF assms(4)] assms(3) by (simp add: native_reader_def drain_native)
  moreover have "tr_stream ?tr (QueryVector q) (as_transport s) = (Some (Inr (native_reader st)), svc')"
    "tr_schema ?tr (native_reader st) = Inr (ns_schema st)"
    "tr_aclose ?tr (ns_schema st, ([], None, True)) = (Inr (), (ns_schema st, ([], None, True)))"
    using assms(2) by (simp_all add: in_process_transport_def fmap_def fdo_def native_reader_def)
  ultimately show ?thesis
    using collect_batches_of_stream [OF assms(1), of ?tr "QueryVector q" "native_reader st" svc' "ns_schema st" n] by (simp add: opened_def)
qed

text \<open>
  C1. Collecting a vector query over HTTP gives what collecting it in process gives: the same batches in the same
  order and the same schema, with the service left in the same state and no stream left open. This holds for
  every query whose identifier needs no quoting in a route and every result that the native codec carries.
\<close>

theorem remote_collect_agrees:
  assumes "session_inv r" "as_transport r = connected srv \<tau>" and "session_inv e" "as_transport e = svc"
    and "safe_identifier (vq_source q)" "wf_vector_query q" "table_path (vq_source q) ''query'' = Inr p"
    and "sr_service srv = Some svc" "svc_stream (ae_native env) (QueryVector q) svc = (Inr st, svc')"
    and "sz (vector_query_to_json q) \<le> error_body_limit"
    and "codec_carries env dn st k" "k < dn_fuel dn" "length (ns_batches st) < fuel" "ns_error st = None"
    and "length (ns_batches st) < n"
  shows "\<exists>r' e'. as_collect (http_transport_ops (loopback env sz fid fuel) (ae_arrow env) dn m) n (QueryVector q) r =
       (Some (Inr (ns_batches st, ns_schema st)), r') \<and>
     as_collect (in_process_transport (ae_native env) (ae_arrow env) (ae_paths env)) n (QueryVector q) e =
       (Some (Inr (ns_batches st, ns_schema st)), e') \<and>
     as_transport r' = connected (srv\<lparr>sr_service := Some (as_transport e')\<rparr>) \<tau> \<and>
     as_streams r' = as_streams r \<and> as_streams e' = as_streams e"
  using collect_loopback [where sz = sz and fid = fid and m = m and ar = "ae_arrow env", OF assms(1,2,5-15)]
    collect_embedded [where ar = "ae_arrow env" and paths = "ae_paths env", OF assms(3) assms(9) [folded assms(4)] assms(14,15)]
  by auto

lemma sample_path: "table_path sample_identifier operation = Inr (''v1/table/default$docs/'' @ operation, ''$'')"
proof -
  have "choose_delimiter sample_identifier = Inr ''$''"
    by (simp add: choose_delimiter_def sample_identifier_def identifier_segments_def choose_delimiter_for_segments_def
        route_delimiters_def default_identifier_delimiter_def sublist_char)
  moreover have "encode_identifier_path sample_identifier (JStr ''$'') = Inr (''default$docs'', ''$'')" by code_simp
  ultimately show ?thesis by (simp add: table_path_def)
qed

lemma sample_stream: "svc_stream sample_native (QueryVector sample_query) sample_service = (Inr sample_result, sample_service)"
  by code_simp

lemma sample_codec: "codec_carries sample_app sample_decode sample_result 4"
proof -
  let ?bs = "[[[], []], [[]]] :: json list list list"
  have "decodes (sample_decoder [''id'']) () None False (''S'' # map sample_chunk ?bs @ [''E'']) ?bs (Suc (Suc (length ?bs))) (Some [''id''])"
    by (rule sample_decodes) simp
  then show ?thesis
    using sample_encode_spec [of ?bs]
    by (auto simp: codec_carries_def sample_app_def sample_decode_def sample_result_def sample_encode new_encoded_stream_def
        eval_nat_numeral simp del: encode_spec.simps)
qed

theorem remote_collect_agrees_witness:
  "fst (as_collect (http_transport_ops sample_client sample_arrow sample_decode 1) 5 (QueryVector sample_query)
       (new_async_session (connected sample_server 0))) = Some (Inr ([[[], []], [[]]], [''id'']))"
proof -
  have inv: "session_inv (new_async_session w)" for w :: 'w
    by (simp add: session_inv_def new_async_session_def)
  show ?thesis
    using remote_collect_agrees [where r = "new_async_session (connected sample_server 0)" and e = "new_async_session sample_service"
        and srv = sample_server and svc = sample_service and \<tau> = 0 and q = sample_query and env = sample_app and
        sz = sample_size and fid = "''r1''" and fuel = 9 and dn = sample_decode and n = 5 and m = 1 and st = sample_result and k = 4
        and svc' = sample_service, OF inv _ inv]
      sample_path [of "''query''"] sample_identifier_safe sample_query_wf sample_stream sample_codec
    by (auto simp: new_async_session_def sample_app_def sample_server_def sample_query_def sample_size_def error_body_limit_def
        sample_decode_def sample_result_def sample_client_def)
qed

lemma sample_index_path:
  "index_path sample_identifier (JStr ''by_vector'') operation = Inr (''v1/table/default$docs/index/by_vector/'' @ operation, ''$'')"
proof -
  have "quote [] ''by_vector'' = ''by_vector''" "py_strip ''by_vector'' \<noteq> []" by code_simp+
  then show ?thesis by (simp add: index_path_def sample_path)
qed

lemma sample_index_safe: "route_safe ''by_vector''"
  by (simp add: route_safe_def ascii_utf8_valid is_ascii_def del: utf8_valid.simps)





text \<open>
  The status that a remote session reports is the status of the service, or the translated exception.
\<close>

theorem remote_index_status_agrees:
  assumes "safe_identifier t" "route_safe i" "index_path t (JStr i) ''stats'' = Inr p"
    and "sr_service srv = Some svc" "svc_index_status (ae_native env) t i svc = (r, svc')"
    and "\<And>e. r = Inl e \<Longrightarrow> isinstance_exc e Exception" "\<And>st. r = Inr st \<Longrightarrow> wf_index_status st"
    and "exchange_fits env sz fid srv (fst p) (route_params p) (JObj (index_body t i))"
  shows "http_index_status (loopback env sz fid fuel) t i (connected srv \<tau>) =
     (remote_outcome fid r, connected (srv\<lparr>sr_service := Some svc'\<rparr>) \<tau>)"
  by (rule remote_index_status [OF assms])

definition sample_status :: index_status where
  "sample_status = \<lparr>is_state = Ready, is_progress = Some (Fin 1), is_phase = None, is_completed = Some 3, is_total = Some 3,
     is_current_snapshot_id = Some 1, is_error = None, is_error_code = None\<rparr>"

lemma sample_status_service:
  "svc_index_status sample_native sample_identifier ''by_vector'' sample_service = (Inr sample_status, sample_service)"
  by code_simp

theorem remote_index_status_agrees_witness:
  "fst (http_index_status sample_client sample_identifier ''by_vector'' (connected sample_server 0)) = Inr sample_status"
proof -
  have "wf_index_status sample_status"
    by (simp add: wf_index_status_def sample_status_def finite_opt_def nonempty_opt_def non_negative_opt_def)
  then show ?thesis
    using remote_index_status_agrees [OF sample_identifier_safe sample_index_safe sample_index_path,
        where srv = sample_server and svc = sample_service and env = sample_app and sz = sample_size and fid = "''r1''"
          and fuel = 9 and \<tau> = 0, OF _ _ _ _ sample_exchange_fits] sample_status_service
    by (simp add: sample_server_def sample_app_def sample_client_def remote_outcome_def)
qed



text \<open>
  C13. Listing tables remotely follows the server's pages to the end: with fuel for one request per thousand tables
  the client returns the complete list of the service, in order, whatever its length.
\<close>

theorem remote_list_tables_complete:
  assumes "sr_service srv = Some svc" "svc_list_tables (ae_native env) svc = (Inr ts, svc)"
    and "list_all wf_identifier ts" "pages_fit sz ts" "length ts < 10 ^ int_max_str_digits" "length ts < n * 1000"
  shows "http_list_tables (loopback env sz fid fuel) n (connected srv \<tau>) = (Some (Inr ts), connected srv \<tau>)"
  using list_tables_loop_complete [OF assms(1-5), of 0 "[]" n fid fuel \<tau>] assms(6)
  by (simp add: http_list_tables_def fdo_def page_token_def)

theorem remote_list_tables_complete_witness:
  "http_list_tables sample_client 1 (connected sample_server 0) = (Some (Inr [sample_identifier]), connected sample_server 0)"
proof -
  have "svc_list_tables sample_native sample_service = (Inr [sample_identifier], sample_service)" by code_simp
  moreover have "pages_fit sample_size ts" for ts by (simp add: pages_fit_def sample_size_def error_body_limit_def)
  moreover have "(1::nat) < 10 ^ int_max_str_digits" by (rule one_less_power) (simp_all add: int_max_str_digits_def)
  ultimately show ?thesis
    using remote_list_tables_complete [of sample_server sample_service sample_app "[sample_identifier]" sample_size 1 "''r1''" 9 0]
    by (simp add: sample_server_def sample_app_def sample_client_def sample_identifier_def wf_identifier_def)
qed

text \<open>
  The indexes that a remote session lists are those of the service.
\<close>

theorem remote_list_indexes_agrees:
  assumes "safe_identifier t" "table_path t ''index/list'' = Inr p"
    and "sr_service srv = Some svc" "svc_list_indexes (ae_native env) t svc = (r, svc')"
    and "\<And>e. r = Inl e \<Longrightarrow> isinstance_exc e Exception" "\<And>xs. r = Inr xs \<Longrightarrow> list_all wf_index_info xs"
    and "exchange_fits env sz fid srv (fst p) (route_params p) (JObj [(''source'', identifier_to_json t)])"
  shows "http_list_indexes (loopback env sz fid fuel) t (connected srv \<tau>) =
     (remote_outcome fid r, connected (srv\<lparr>sr_service := Some svc'\<rparr>) \<tau>)"
  by (rule remote_list_indexes [OF assms])

theorem remote_list_indexes_agrees_witness:
  "fst (http_list_indexes sample_client sample_identifier (connected sample_server 0)) = Inr [sample_index]"
proof -
  have "svc_list_indexes sample_native sample_identifier sample_service = (Inr [sample_index], sample_service)" by code_simp
  moreover have "wf_index_info sample_index" by (simp add: wf_index_info_def sample_index_def)
  ultimately show ?thesis
    using remote_list_indexes_agrees [OF sample_identifier_safe sample_path, where srv = sample_server and svc = sample_service
        and env = sample_app and sz = sample_size and fid = "''r1''" and fuel = 9 and \<tau> = 0 and r = "Inr [sample_index]",
        OF _ _ _ _ sample_exchange_fits]
    by (simp add: sample_server_def sample_app_def sample_client_def remote_outcome_def)
qed

section \<open>Closing a session\<close>















section \<open>Waiting for an index\<close>

text \<open>
  What the poll loop needs of the clock: sleeping takes at least the time asked for, and a request does not turn the
  clock back.
\<close>

definition clock_ok :: "('w, 'e) client_env \<Rightarrow> bool" where
  "clock_ok env \<longleftrightarrow> (\<forall>q w. 0 \<le> q \<longrightarrow> ce_now env w + q \<le> ce_now env (ce_sleep env q w)) \<and>
     (\<forall>rq w. ce_now env w \<le> ce_now env (snd (ce_send env rq w)))"

lemma clock_sleep: "clock_ok env \<Longrightarrow> 0 \<le> q \<Longrightarrow> ce_now env w + q \<le> ce_now env (ce_sleep env q w)"
  and clock_send: "clock_ok env \<Longrightarrow> ce_send env rq w = (r, w') \<Longrightarrow> ce_now env w \<le> ce_now env w'"
  by (auto simp: clock_ok_def) (metis snd_conv)

lemma status_advances:
  assumes "clock_ok env" "http_index_status env t i s = (r, s1)"
  shows "ce_now env (ht_world s) \<le> ce_now env (ht_world s1)"
  using assms(2) clock_send [OF assms(1)]
  by (auto simp: http_index_status_def http_ensure_open_def sbind_apply slift_def post_json_def request_json_def send_request_def
      scatch_def world_call_def split: if_splits sum.splits prod.splits json.splits)

lemma with_timeout_status:
  assumes "with_timeout env q (http_index_status env t i) s = (Inr st, s1)"
  shows "http_index_status env t i s = (Inr st, s1)"
  using assms by (auto simp: with_timeout_def split: prod.splits option.splits if_splits)

lemma wait_loop_terminates:
  assumes clock: "clock_ok env" and "1 / 20 \<le> delay" "d - ce_now env (ht_world s) \<le> of_nat n / 20"
  shows "\<exists>r. fst (wait_loop env (Suc n) t i (Some d) delay s) = Some r"
  using assms(2,3)
proof (induction n arbitrary: delay s)
  case 0
  then show ?case by (simp add: expired_def)
next
  case (Suc n)
  show ?case
  proof (cases "expired env (Some d) s")
    case False
    obtain r s1 where w: "with_timeout env (remaining_time env (Some d) s) (http_index_status env t i) s = (r, s1)"
      by (cases "with_timeout env (remaining_time env (Some d) s) (http_index_status env t i) s")
    show ?thesis
    proof (cases "\<exists>st. r = Inr st \<and> poll_outcome i st = None \<and> \<not> expired env (Some d) s1")
      case True
      then obtain st where st: "r = Inr st" "poll_outcome i st = None" "\<not> expired env (Some d) s1" by blast
      let ?q = "sleep_for delay (remaining_time env (Some d) s1)"
      let ?s2 = "s1\<lparr>ht_world := ce_sleep env ?q (ht_world s1)\<rparr>"
      have mono: "ce_now env (ht_world s) \<le> ce_now env (ht_world s1)"
        using status_advances [OF clock with_timeout_status] w st(1) by blast
      have q: "0 \<le> ?q" "?q = delay \<or> ?q = d - ce_now env (ht_world s1)"
        using st(3) Suc.prems(1) by (auto simp: sleep_for_def remaining_time_def expired_def min_def)
      have "d - ce_now env (ht_world ?s2) \<le> of_nat n / 20"
        using clock_sleep [OF clock q(1), of "ht_world s1"] q(2) mono Suc.prems by (auto simp: add_divide_distrib)
      moreover have "1 / 20 \<le> min (delay * (3 / 2)) (1 :: rat)" using Suc.prems(1) by simp
      ultimately have "\<exists>r. fst (wait_loop env (Suc n) t i (Some d) (min (delay * (3 / 2)) 1) ?s2) = Some r"
        using Suc.IH by blast
      then show ?thesis using False w st by (simp del: wait_loop.simps add: wait_loop.simps(2) [of env "Suc n"])
    next
      case no: False
      show ?thesis
      proof (cases r)
        case (Inr st)
        then show ?thesis using no False w
          by (cases "poll_outcome i st") (simp_all del: wait_loop.simps add: wait_loop.simps(2) [of env "Suc n"])
      qed (use False w in \<open>simp del: wait_loop.simps add: wait_loop.simps(2) [of env "Suc n"]\<close>)
    qed
  qed simp
qed

text \<open>
  C11. Waiting for an index ends: with a timeout of \<open>q\<close> seconds the loop makes at most \<open>20 q\<close> and one polls, whatever
  the server answers, because every round sleeps at least a twentieth of a second or up to the deadline.
\<close>

theorem wait_for_index_terminates:
  assumes "clock_ok env" "timeout_seconds timeout = Inr (Fin q)" "q \<le> of_nat n / 20"
  shows "\<exists>r. fst (http_wait_for_index env (Suc n) t i timeout s) = Some r"
  using wait_loop_terminates [OF assms(1), of "1 / 20" "ce_now env (ht_world s) + q" s n t i] assms(2,3)
  by (simp add: http_wait_for_index_def)

lemma sample_clock: "clock_ok sample_client"
  by (auto simp: clock_ok_def sample_client_def loopback_def split: prod.splits)

theorem wait_for_index_terminates_witness:
  "\<exists>r. fst (http_wait_for_index sample_client 41 sample_identifier ''by_vector'' (TimeDelta 2) (connected sample_server 0)) = Some r"
  using wait_for_index_terminates [OF sample_clock, of "TimeDelta 2" 2 40 sample_identifier "''by_vector''" "connected sample_server 0"]
  by (simp add: timeout_seconds_def)

lemma wait_loop_ready:
  "wait_loop env n t i deadline delay s = (Some (Inr ()), s') \<Longrightarrow>
     \<exists>s0 st. http_index_status env t i s0 = (Inr st, s') \<and> is_state st = Ready \<and> is_error st = None"
proof (induction n arbitrary: delay s)
  case (Suc n)
  from Suc.prems show ?case
    by (auto split: if_splits prod.splits sum.splits option.splits index_state.splits simp: poll_outcome_def
        dest: with_timeout_status intro: Suc.IH)
qed simp

text \<open>
  C28. \<open>wait_for_index\<close> returns without an exception only after the server reported the index ready and without a
  build error, in the very last status it read.
\<close>

theorem wait_returns_only_when_ready:
  assumes "http_wait_for_index env n t i timeout s = (Some (Inr ()), s')"
  shows "\<exists>s0 st. http_index_status env t i s0 = (Inr st, s') \<and> is_state st = Ready \<and> is_error st = None"
  using assms wait_loop_ready by (auto simp: http_wait_for_index_def split: sum.splits)

theorem wait_returns_only_when_ready_witness:
  "\<exists>s' s0 st. http_wait_for_index sample_client 2 sample_identifier ''by_vector'' (TimeDelta 2) (connected sample_server 0) =
       (Some (Inr ()), s') \<and> http_index_status sample_client sample_identifier ''by_vector'' s0 = (Inr st, s') \<and> is_state st = Ready"
proof -
  have wf: "wf_index_status sample_status"
    by (simp add: wf_index_status_def sample_status_def finite_opt_def nonempty_opt_def non_negative_opt_def)
  have "http_index_status sample_client sample_identifier ''by_vector'' (connected sample_server 0) =
      (Inr sample_status, connected sample_server 0)"
    using remote_index_status [OF sample_identifier_safe sample_index_safe sample_index_path,
        where srv = sample_server and svc = sample_service and env = sample_app and sz = sample_size and fid = "''r1''"
          and fuel = 9 and \<tau> = 0, OF _ _ _ _ sample_exchange_fits] sample_status_service wf
    by (simp add: sample_server_def sample_app_def sample_client_def remote_outcome_def)
  then have "http_wait_for_index sample_client 2 sample_identifier ''by_vector'' (TimeDelta 2) (connected sample_server 0) =
      (Some (Inr ()), connected sample_server 0)"
    by (simp add: http_wait_for_index_def timeout_seconds_def eval_nat_numeral expired_def with_timeout_def remaining_time_def
        poll_outcome_def sample_status_def connected_def)
  with wait_returns_only_when_ready [OF this] show ?thesis by blast
qed

section \<open>The server\<close>

text \<open>Every response of a handler carries the request's identifier.\<close>

named_theorems echo_rules

definition echoes :: "http_request \<Rightarrow> ('n server, 'e http_response) cmd \<Rightarrow> bool" where
  "echoes rq m \<longleftrightarrow> (\<forall>s rs s'. m s = (Inr rs, s') \<longrightarrow> hp_request_id rs = Some (request_id rq))"

lemma echoes_sbind [echo_rules]: "(\<And>x. echoes rq (g x)) \<Longrightarrow> echoes rq (sbind m g)"
  by (auto simp: echoes_def sbind_eq_Inr)

lemma echoes_raise [echo_rules]: "echoes rq (sraise e)"
  by (simp add: echoes_def)

lemma echoes_json [echo_rules]: "echoes rq (slift (json_response rq status v))"
  by (auto simp: echoes_def json_response_def)

lemma echoes_descriptor [echo_rules]: "echoes rq (slift (descriptor_response env rq d))"
  unfolding descriptor_response_def by (rule echoes_json)

lemma echoes_stream [echo_rules]: "echoes rq (slift (stream_response env rq st))"
  by (auto simp: echoes_def stream_response_def)

lemma echoes_handle [echo_rules]:
  assumes "echoes rq m"
  shows "echoes rq (handle rq m)"
proof -
  have "hp_request_id (error_response rq e) = Some (request_id rq)" for e
    by (simp add: error_response_def Let_def classify_server_row split: option.splits prod.splits)
  with assms show ?thesis
    by (auto simp: echoes_def handle_def scatch_def split: prod.splits sum.splits if_splits)
qed

lemmas operation_defs = register_index_operation_def register_table_operation_def describe_table_operation_def
  query_table_operation_def explain_table_operation_def to_sql_operation_def deregister_table_operation_def
  create_index_operation_def list_indexes_operation_def index_status_operation_def refresh_index_operation_def
  drop_index_operation_def query_sql_operation_def explain_sql_operation_def

lemma echoes_list_tables [echo_rules]: "echoes rq (list_tables_operation env rq)"
  unfolding list_tables_operation_def by (auto intro!: echo_rules split: option.split)




text \<open>The sources that a policy lets through to the native session.\<close>

definition allowed_sources :: "path_env \<Rightarrow> source_policy \<Rightarrow> string set" where
  "allowed_sources paths pol =
     {source. \<exists>reference path. authorize paths pol reference = Inr path \<and> absolute_source_reference paths path = Inr source}"

abbreviation with_registration :: "('n, 's, 't, 'e) app_env \<Rightarrow> (('s, 't) native_registration \<Rightarrow> ('n, unit) cmd) \<Rightarrow> ('n, 's, 't, 'e) app_env" where
  "with_registration env f \<equiv> env\<lparr>ae_native := (ae_native env)\<lparr>na_register_parquet := f\<rparr>\<rparr>"

lemmas case_congs = option.case_cong json.case_cong query_arg.case_cong frame.case_cong if_cong

lemma py_str_unregistered [simp]: "py_str (api\<lparr>na_register_parquet := f\<rparr>) = py_str api"
  by (rule ext) (simp add: py_str_def cong: json.case_cong)

lemmas native_user_defs = em_table_def definition_identifier_def definition_build_source_def em_deregister_table_def
  table_definition_def resolve_query_source_def prepare_index_tables_def prepared_search_def em_to_sql_def
  source_reference_def wait_for_build_def

lemma native_users_unregistered [simp]:
  "em_table (api\<lparr>na_register_parquet := f\<rparr>) = em_table api"
  "em_deregister_table (api\<lparr>na_register_parquet := f\<rparr>) = em_deregister_table api"
  "table_definition (api\<lparr>na_register_parquet := f\<rparr>) = table_definition api"
  "prepared_search (api\<lparr>na_register_parquet := f\<rparr>) = prepared_search api"
  "em_to_sql (api\<lparr>na_register_parquet := f\<rparr>) = em_to_sql api"
  "source_reference (api\<lparr>na_register_parquet := f\<rparr>) = source_reference api"
  "wait_for_build (api\<lparr>na_register_parquet := f\<rparr>) = wait_for_build api"
  by (intro ext, simp add: native_user_defs cong: case_congs)+

lemma services_unregistered [simp]:
  "svc_list_tables (api\<lparr>na_register_parquet := f\<rparr>) = svc_list_tables api"
  "svc_table (api\<lparr>na_register_parquet := f\<rparr>) = svc_table api"
  "svc_deregister_table (api\<lparr>na_register_parquet := f\<rparr>) = svc_deregister_table api"
  "svc_stream (api\<lparr>na_register_parquet := f\<rparr>) = svc_stream api"
  "svc_explain (api\<lparr>na_register_parquet := f\<rparr>) = svc_explain api"
  "svc_to_sql (api\<lparr>na_register_parquet := f\<rparr>) = svc_to_sql api"
  "svc_create_index (api\<lparr>na_register_parquet := f\<rparr>) = svc_create_index api"
  "svc_register_index (api\<lparr>na_register_parquet := f\<rparr>) = svc_register_index api"
  "svc_refresh_index (api\<lparr>na_register_parquet := f\<rparr>) = svc_refresh_index api"
  "svc_index_status (api\<lparr>na_register_parquet := f\<rparr>) = svc_index_status api"
  "svc_list_indexes (api\<lparr>na_register_parquet := f\<rparr>) = svc_list_indexes api"
  "svc_drop_index (api\<lparr>na_register_parquet := f\<rparr>) = svc_drop_index api"
  by (intro ext, simp add: svc_defs cong: case_congs)+

lemma register_allowed:
  assumes "authorize paths pol reference = Inr path" "pq_path a = PathText path"
    and agree: "\<And>r n. nr_source r \<in> allowed_sources paths pol \<Longrightarrow> f r n = na_register_parquet api r n"
  shows "svc_register_parquet (api\<lparr>na_register_parquet := f\<rparr>) ar paths a = svc_register_parquet api ar paths a"
proof -
  have "em_register_parquet (api\<lparr>na_register_parquet := f\<rparr>) ar paths a h = em_register_parquet api ar paths a h" for h
  proof (cases "absolute_source_reference paths path")
    case (Inr source)
    then have "source \<in> allowed_sources paths pol" using assms(1) by (auto simp: allowed_sources_def)
    then show ?thesis using Inr assms(2) agree
      by (simp add: em_register_parquet_def sbind_apply native_call_def split: sum.split)
  qed (simp add: em_register_parquet_def assms(2) sbind_apply)
  then have "em_register_parquet (api\<lparr>na_register_parquet := f\<rparr>) ar paths a = em_register_parquet api ar paths a" by blast
  then show ?thesis by (simp add: svc_register_parquet_def)
qed

text \<open>
  C3. Source confinement end to end: whatever request arrives, the server never asks the native session to register a
  Parquet source that the policy does not allow. Replacing what the native registration does on all other sources changes
  neither the response nor the state of the server.
\<close>

theorem registration_is_confined:
  assumes "sr_policy s = Some pol"
    and "\<And>r n. nr_source r \<in> allowed_sources (ae_paths env) pol \<Longrightarrow> f r n = na_register_parquet (ae_native env) r n"
  shows "application (with_registration env f) rq s = application env rq s"
proof -
  have register: "register_table_operation (with_registration env f) rq t s = register_table_operation env rq t s" for t
    using assms(1) register_allowed [OF _ _ assms(2)]
    by (auto simp: register_table_operation_def sbind_apply get_source_policy_def with_service_def descriptor_response_def
        split: sum.split prod.split option.split)
  have "run_endpoint (with_registration env f) rq ep ps s = run_endpoint env rq ep ps s" for ep ps
  proof (cases "ep = EpRegisterTable")
    case True
    then show ?thesis by (simp add: run_endpoint_def Let_def handle_def scatch_def register)
  next
    case False
    then show ?thesis
      by (cases ep) (simp_all add: run_endpoint_def Let_def h_openapi_def h_list_tables_def list_tables_operation_def operation_defs
          descriptor_response_def stream_response_def cong: case_congs)
  qed
  then show ?thesis by (simp add: application_def split: option.split prod.split)
qed

text \<open>The sample policy allows nothing outside the file system and its own bucket.\<close>

lemma fspath_absolute: "absolute_source_reference paths (fspath p) = Inr source \<Longrightarrow> \<exists>q. source = fspath q"
  by (auto simp: absolute_source_reference_def split: if_splits)

lemma sample_allowed:
  assumes "source \<in> allowed_sources sample_paths sample_policy"
  shows "(\<exists>q. source = fspath q) \<or> (\<exists>q. source = ''s3://bucket'' @ q)"
proof -
  from assms obtain reference path where auth: "authorize sample_paths sample_policy reference = Inr path"
    and abs: "absolute_source_reference sample_paths path = Inr source" by (auto simp: allowed_sources_def)
  from auth consider (local) p where "path = fspath p" | (object) q where "path = ''s3://bucket'' @ q"
    by (auto simp: authorize_def matches_object_prefix_def sample_policy_def urlunsplit_def Let_def raise_if_def split: if_splits)
  then show ?thesis
  proof cases
    case local
    with abs fspath_absolute show ?thesis by blast
  next
    case object
    with abs show ?thesis
      by (auto simp: absolute_source_reference_def sample_paths_def split: if_splits)
  qed
qed

theorem registration_is_confined_witness:
  "\<forall>rq. application (with_registration sample_app (\<lambda>r n. if nr_source r = ''s3://other/x'' then (Inr (), n @ [''leak'']) else
       na_register_parquet sample_native r n)) rq sample_server = application sample_app rq sample_server"
proof (intro allI registration_is_confined)
  show "sr_policy sample_server = Some sample_policy" by (simp add: sample_server_def)
  fix r n
  assume "nr_source (r :: (string list, unit) native_registration) \<in> allowed_sources (ae_paths sample_app) sample_policy"
  then have "nr_source r \<noteq> ''s3://other/x''"
    using sample_allowed [of "nr_source r"] by (auto simp: sample_app_def fspath_def)
  then show "(if nr_source r = ''s3://other/x'' then (Inr (), n @ [''leak'']) else na_register_parquet sample_native r n) =
      na_register_parquet (ae_native sample_app) r n" by (simp add: sample_app_def)
qed

section \<open>Validation before effects\<close>





end
